(* ===== verification/Prelude.thy ===== *)
theory Prelude
  imports Main "HOL-Library.Word"
begin

text \<open>
  The shared vocabulary of the development.

  An operation of the daemon is an \<^emph>\<open>action\<close>: it takes the state, returns the Rust
  \<open>Result\<close> (a sum, \<open>Inl\<close> the error) and the state afterwards.  The state is
  returned on the error branch too, because the Rust code does not undo what it did before
  an early return.  \<open>and_then\<close> is the \<open>?\<close> operator, \<open>attempt\<close> hands a result to a
  \<open>match\<close>, \<open>foreach\<close> is a \<open>for\<close> loop whose body may return early.

  \<open>keeps P m\<close> says that \<open>m\<close> preserves the state predicate \<open>P\<close> on every branch; its
  rules are collected in \<open>keeps_rules\<close>, so that an invariant of a composed operation
  follows from the invariants of its parts by \<open>(intro keeps_rules)\<close>.
\<close>

named_theorems run_simps "equations that run an action on a state"
named_theorems keeps_rules "introduction rules for invariant preservation"
named_theorems path_simps "equations on remote paths"
named_theorems table_simps "equations on table rows and statements"

type_synonym ('s, 'e, 'a) action = "'s \<Rightarrow> ('e + 'a) \<times> 's"

section \<open>Actions\<close>

definition ret :: "'a \<Rightarrow> ('s, 'e, 'a) action" where
  "ret x = (\<lambda>s. (Inr x, s))"

definition throw :: "'e \<Rightarrow> ('s, 'e, 'a) action" where
  "throw e = (\<lambda>s. (Inl e, s))"

definition and_then :: "('s, 'e, 'a) action \<Rightarrow> ('a \<Rightarrow> ('s, 'e, 'b) action) \<Rightarrow> ('s, 'e, 'b) action" where
  "and_then m f = (\<lambda>s. case m s of (Inl e, t) \<Rightarrow> (Inl e, t) | (Inr x, t) \<Rightarrow> f x t)"

definition attempt :: "('s, 'e, 'a) action \<Rightarrow> ('s, 'e, 'e + 'a) action" where
  "attempt m = (\<lambda>s. case m s of (r, t) \<Rightarrow> (Inr r, t))"

definition gets :: "('s \<Rightarrow> 'a) \<Rightarrow> ('s, 'e, 'a) action" where
  "gets f = (\<lambda>s. (Inr (f s), s))"

definition modify :: "('s \<Rightarrow> 's) \<Rightarrow> ('s, 'e, unit) action" where
  "modify f = (\<lambda>s. (Inr (), f s))"

definition of_result :: "'e + 'a \<Rightarrow> ('s, 'e, 'a) action" where
  "of_result r = (\<lambda>s. (r, s))"

definition ok_or :: "'e \<Rightarrow> 'a option \<Rightarrow> ('s, 'e, 'a) action" where
  "ok_or e x = (case x of None \<Rightarrow> throw e | Some y \<Rightarrow> ret y)"

fun foreach :: "'x list \<Rightarrow> ('x \<Rightarrow> ('s, 'e, unit) action) \<Rightarrow> ('s, 'e, unit) action" where
  "foreach [] f = ret ()"
| "foreach (x # xs) f = and_then (f x) (\<lambda>_. foreach xs f)"

text \<open>Running an action on one component of a larger state.\<close>

definition on_part :: "('s \<Rightarrow> 'p) \<Rightarrow> ('p \<Rightarrow> 's \<Rightarrow> 's) \<Rightarrow> ('p, 'e, 'a) action \<Rightarrow> ('s, 'e, 'a) action" where
  "on_part sel upd m = (\<lambda>s. case m (sel s) of (r, p) \<Rightarrow> (r, upd p s))"

text \<open>Evaluation of an action starts with its state: a continuation is not unfolded before.\<close>

lemma action_code [code]:
  "ret x s = (Inr x, s)"
  "throw e s = (Inl e, s)"
  "and_then m f s = (case m s of (Inl e', t) \<Rightarrow> (Inl e', t) | (Inr y, t) \<Rightarrow> f y t)"
  "attempt m s = (case m s of (r, t) \<Rightarrow> (Inr r, t))"
  "gets g s = (Inr (g s), s)"
  "modify h s = (Inr (), h s)"
  "of_result q s = (q, s)"
  "on_part sel upd n z = (case n (sel z) of (r, p) \<Rightarrow> (r, upd p z))"
  by (simp_all add: ret_def throw_def and_then_def attempt_def gets_def modify_def of_result_def on_part_def)

text \<open>An updated function is evaluated where it is applied, so its parts are evaluated once.\<close>

lemma fun_upd_code [code]: "(f(a := b)) x = (if x = a then b else f x)"
  by simp

lemma run_ret [run_simps]: "ret x s = (Inr x, s)"
  by (simp add: ret_def)

lemma run_throw [run_simps]: "throw e s = (Inl e, s)"
  by (simp add: throw_def)

lemma run_gets [run_simps]: "gets f s = (Inr (f s), s)"
  by (simp add: gets_def)

lemma run_modify [run_simps]: "modify f s = (Inr (), f s)"
  by (simp add: modify_def)

lemma run_of_result [run_simps]: "of_result r s = (r, s)"
  by (simp add: of_result_def)

lemma run_ok_or [run_simps]:
  "ok_or e None s = (Inl e, s)" "ok_or e (Some x) s = (Inr x, s)"
  by (simp_all add: ok_or_def run_simps)

lemma run_attempt [run_simps]: "attempt m s = (Inr (fst (m s)), snd (m s))"
  by (simp add: attempt_def split_beta)

lemma run_and_then [run_simps]:
  "and_then m f s = (case fst (m s) of Inl e \<Rightarrow> (Inl e, snd (m s)) | Inr x \<Rightarrow> f x (snd (m s)))"
  by (simp add: and_then_def split: prod.split sum.split)

lemma run_on_part [run_simps]:
  "on_part sel upd m s = (fst (m (sel s)), upd (snd (m (sel s))) s)"
  by (simp add: on_part_def split_beta)

lemma and_then_ret [simp]: "and_then (ret x) f = f x"
  by (simp add: fun_eq_iff run_simps)

lemma and_then_throw [simp]: "and_then (throw e) f = throw e"
  by (simp add: fun_eq_iff run_simps)

lemma and_then_assoc: "and_then (and_then m f) g = and_then m (\<lambda>x. and_then (f x) g)"
  by (simp add: fun_eq_iff run_simps split: sum.split)

lemma and_then_Inr:
  "and_then m f s = (Inr y, u) \<longleftrightarrow> (\<exists>x t. m s = (Inr x, t) \<and> f x t = (Inr y, u))"
  by (cases "m s") (auto simp: and_then_def split: sum.splits)

lemma and_then_ok: "m s = (Inr x, t) \<Longrightarrow> and_then m f s = f x t"
  by (simp add: run_simps)

lemma and_then_err: "m s = (Inl e, t) \<Longrightarrow> and_then m f s = (Inl e, t)"
  by (simp add: run_simps)

lemma foreach_append:
  "foreach (xs @ ys) f = and_then (foreach xs f) (\<lambda>_. foreach ys f)"
  by (induction xs) (simp_all add: and_then_assoc)

section \<open>Invariant preservation\<close>

definition keeps :: "('s \<Rightarrow> bool) \<Rightarrow> ('s, 'e, 'a) action \<Rightarrow> bool" where
  "keeps P m \<longleftrightarrow> (\<forall>s. P s \<longrightarrow> P (snd (m s)))"

lemma keepsI: "(\<And>s. P s \<Longrightarrow> P (snd (m s))) \<Longrightarrow> keeps P m"
  by (simp add: keeps_def)

lemma keepsD: "keeps P m \<Longrightarrow> P s \<Longrightarrow> P (snd (m s))"
  by (simp add: keeps_def)

lemma keeps_result: "keeps P m \<Longrightarrow> P s \<Longrightarrow> m s = (r, t) \<Longrightarrow> P t"
  by (metis keepsD snd_conv)

lemma keeps_ret [keeps_rules]: "keeps P (ret x)"
  by (simp add: keeps_def run_simps)

lemma keeps_throw [keeps_rules]: "keeps P (throw e)"
  by (simp add: keeps_def run_simps)

lemma keeps_gets [keeps_rules]: "keeps P (gets f)"
  by (simp add: keeps_def run_simps)

lemma keeps_of_result [keeps_rules]: "keeps P (of_result r)"
  by (simp add: keeps_def run_simps)

lemma keeps_ok_or [keeps_rules]: "keeps P (ok_or e x)"
  by (cases x) (simp_all add: keeps_def run_simps)

lemma keeps_modify [keeps_rules]: "(\<And>s. P s \<Longrightarrow> P (f s)) \<Longrightarrow> keeps P (modify f)"
  by (simp add: keeps_def run_simps)

lemma keeps_and_then [keeps_rules]:
  "keeps P m \<Longrightarrow> (\<And>x. keeps P (f x)) \<Longrightarrow> keeps P (and_then m f)"
  by (simp add: keeps_def run_simps split: sum.split)

lemma keeps_attempt [keeps_rules]: "keeps P m \<Longrightarrow> keeps P (attempt m)"
  by (simp add: keeps_def run_simps)

lemma keeps_if [keeps_rules]:
  "(b \<Longrightarrow> keeps P m) \<Longrightarrow> (\<not> b \<Longrightarrow> keeps P n) \<Longrightarrow> keeps P (if b then m else n)"
  by simp

lemma keeps_option [keeps_rules]:
  "(x = None \<Longrightarrow> keeps P m) \<Longrightarrow> (\<And>y. x = Some y \<Longrightarrow> keeps P (f y)) \<Longrightarrow>
   keeps P (case x of None \<Rightarrow> m | Some y \<Rightarrow> f y)"
  by (cases x) simp_all

lemma keeps_sum [keeps_rules]:
  "(\<And>a. x = Inl a \<Longrightarrow> keeps P (f a)) \<Longrightarrow> (\<And>b. x = Inr b \<Longrightarrow> keeps P (g b)) \<Longrightarrow>
   keeps P (case x of Inl a \<Rightarrow> f a | Inr b \<Rightarrow> g b)"
  by (cases x) simp_all

lemma keeps_prod [keeps_rules]:
  "(\<And>a b. x = (a, b) \<Longrightarrow> keeps P (f a b)) \<Longrightarrow> keeps P (case x of (a, b) \<Rightarrow> f a b)"
  by (cases x) simp_all

lemma keeps_Let [keeps_rules]: "keeps P (f x) \<Longrightarrow> keeps P (let y = x in f y)"
  by simp

lemma keeps_foreach [keeps_rules]: "(\<And>x. x \<in> set xs \<Longrightarrow> keeps P (f x)) \<Longrightarrow> keeps P (foreach xs f)"
  by (induction xs) (auto intro: keeps_rules)

lemma keeps_conj: "keeps P m \<Longrightarrow> keeps Q m \<Longrightarrow> keeps (\<lambda>s. P s \<and> Q s) m"
  by (simp add: keeps_def)

lemma keeps_on_part:
  "keeps Q m \<Longrightarrow> (\<And>s. P s \<Longrightarrow> Q (sel s)) \<Longrightarrow> (\<And>s p. P s \<Longrightarrow> Q p \<Longrightarrow> P (upd p s)) \<Longrightarrow>
   keeps P (on_part sel upd m)"
  by (simp add: keeps_def run_simps)

text \<open>
  \<open>yields P m Q\<close>: from a state with \<open>P\<close>, an \<open>Ok(x)\<close> of \<open>m\<close> leaves a state \<open>t\<close> with
  \<open>Q x t\<close>.  It carries what an operation learns (the row it found, the id it drew) to the
  next one.
\<close>

definition yields :: "('s \<Rightarrow> bool) \<Rightarrow> ('s, 'e, 'a) action \<Rightarrow> ('a \<Rightarrow> 's \<Rightarrow> bool) \<Rightarrow> bool" where
  "yields P m Q \<longleftrightarrow> (\<forall>s x t. P s \<longrightarrow> m s = (Inr x, t) \<longrightarrow> Q x t)"

lemma yieldsI: "(\<And>s x t. P s \<Longrightarrow> m s = (Inr x, t) \<Longrightarrow> Q x t) \<Longrightarrow> yields P m Q"
  by (simp add: yields_def)

lemma yieldsD: "yields P m Q \<Longrightarrow> P s \<Longrightarrow> m s = (Inr x, t) \<Longrightarrow> Q x t"
  by (simp add: yields_def)

lemma yields_and_then:
  "yields P m R \<Longrightarrow> (\<And>x. yields (R x) (f x) Q) \<Longrightarrow> yields P (and_then m f) Q"
  unfolding yields_def and_then_Inr by blast

text \<open>
  \<open>ends P Q m\<close>: from a state with \<open>P\<close> the action ends, on any branch, in one with
  \<open>Q\<close>.  It follows an action whose first steps keep a stronger condition than its last.
\<close>

definition ends :: "('s \<Rightarrow> bool) \<Rightarrow> ('s \<Rightarrow> bool) \<Rightarrow> ('s, 'e, 'a) action \<Rightarrow> bool" where
  "ends P Q m \<longleftrightarrow> (\<forall>s. P s \<longrightarrow> Q (snd (m s)))"

lemma endsI: "(\<And>s. P s \<Longrightarrow> Q (snd (m s))) \<Longrightarrow> ends P Q m"
  by (simp add: ends_def)

lemma endsD: "ends P Q m \<Longrightarrow> P s \<Longrightarrow> Q (snd (m s))"
  by (simp add: ends_def)

lemma ends_keeps: "keeps Q m \<Longrightarrow> (\<And>s. P s \<Longrightarrow> Q s) \<Longrightarrow> ends P Q m"
  by (simp add: ends_def keeps_def)

lemma ends_and_then:
  "keeps P m \<Longrightarrow> (\<And>s. P s \<Longrightarrow> Q s) \<Longrightarrow> (\<And>x. ends P Q (f x)) \<Longrightarrow> ends P Q (and_then m f)"
  by (simp add: ends_def keeps_def run_simps split: sum.split)

lemma ends_and_then_from:
  assumes "keeps P m" and "\<And>s. P s \<Longrightarrow> Q s"
    and "\<And>s x t. P s \<Longrightarrow> m s = (Inr x, t) \<Longrightarrow> Q (snd (f x t))"
  shows "ends P Q (and_then m f)"
proof (rule endsI)
  fix s assume s: "P s"
  obtain r t where m: "m s = (r, t)" by force
  then have "P t" using assms(1) s keeps_result by metis
  show "Q (snd (and_then m f s))"
  proof (cases r)
    case (Inl e)
    with m \<open>P t\<close> assms(2) show ?thesis by (simp add: and_then_err)
  next
    case (Inr x)
    with m s assms(3) show ?thesis by (simp add: and_then_ok)
  qed
qed

section \<open>Lists and maps the components share\<close>

text \<open>A statement \<open>UPDATE ... SET f WHERE P\<close> and \<open>DELETE ... WHERE P\<close> on a list of rows.\<close>

definition update_where :: "('r \<Rightarrow> bool) \<Rightarrow> ('r \<Rightarrow> 'r) \<Rightarrow> 'r list \<Rightarrow> 'r list" where
  "update_where P f rows = map (\<lambda>r. if P r then f r else r) rows"

definition delete_where :: "('r \<Rightarrow> bool) \<Rightarrow> 'r list \<Rightarrow> 'r list" where
  "delete_where P rows = filter (\<lambda>r. \<not> P r) rows"

lemma map_update_where [table_simps]:
  "(\<And>r. g (f r) = g r) \<Longrightarrow> map g (update_where P f rows) = map g rows"
  by (simp add: update_where_def)

lemma set_update_where: "set (update_where P f rows) = (\<lambda>r. if P r then f r else r) ` set rows"
  by (simp add: update_where_def)

lemma in_update_where:
  "r \<in> set (update_where P f rows) \<longleftrightarrow>
   (\<exists>q \<in> set rows. r = (if P q then f q else q))"
  by (auto simp: update_where_def)

lemma update_where_hit:
  "r \<in> set (update_where P f rows) \<Longrightarrow> P r \<Longrightarrow> (\<And>x. P x \<Longrightarrow> P (f x)) \<Longrightarrow> \<exists>q \<in> set rows. P q \<and> r = f q"
  by (auto simp: in_update_where)

lemma set_delete_where [table_simps]: "set (delete_where P rows) = {r \<in> set rows. \<not> P r}"
  by (simp add: delete_where_def)

lemma distinct_delete_where [table_simps]:
  "distinct (map g rows) \<Longrightarrow> distinct (map g (delete_where P rows))"
  by (simp add: delete_where_def distinct_map_filter)

lemma update_where_none: "(\<And>r. r \<in> set rows \<Longrightarrow> \<not> P r) \<Longrightarrow> update_where P f rows = rows"
  by (simp add: update_where_def map_idI)

lemma delete_where_none: "(\<And>r. r \<in> set rows \<Longrightarrow> \<not> P r) \<Longrightarrow> delete_where P rows = rows"
  by (simp add: delete_where_def)

lemma find_None: "find P xs = None \<longleftrightarrow> (\<forall>x \<in> set xs. \<not> P x)"
  by (auto simp: find_None_iff)

lemma find_SomeD: "find P xs = Some x \<Longrightarrow> x \<in> set xs \<and> P x"
  by (auto simp: find_Some_iff)

lemma find_map_same:
  "(\<And>x. x \<in> set xs \<Longrightarrow> P (f x) = P x) \<Longrightarrow> find P (map f xs) = map_option f (find P xs)"
  by (induction xs) auto

lemma find_unique_key:
  "distinct (map key xs) \<Longrightarrow> x \<in> set xs \<Longrightarrow> find (\<lambda>y. key y = key x) xs = Some x"
  by (induction xs) (auto simp: rev_image_eqI)

lemma distinct_key_eq:
  "distinct (map key xs) \<Longrightarrow> x \<in> set xs \<Longrightarrow> y \<in> set xs \<Longrightarrow> key x = key y \<Longrightarrow> x = y"
  by (auto simp: distinct_map dest: inj_onD)

lemma distinct_snoc_key:
  "distinct (map key xs) \<Longrightarrow> key x \<notin> key ` set xs \<Longrightarrow> distinct (map key (xs @ [x]))"
  by simp

end
