(* ===== verification/Enums.thy ===== *)
theory Enums
  imports Prelude
begin

text \<open>
  The error types of the daemon (\<open>AuthError\<close> of src/src/auth.rs, \<open>YandexError\<close> of
  src/src/yadisk.rs, \<open>SyncError\<close> of src/src/sync.rs) and the integer enums of the
  database with the conversion that the macro \<open>impl_int_enum\<close> generates.

  \<open>int_enum\<close> is the contract of that macro: a type whose variants are all listed and
  carry different discriminants.  Its lemmas give the round trip between the enum and the
  database column; it is interpreted on the five enums of the schema.
\<close>

section \<open>Errors\<close>

text \<open>
  \<open>io_error\<close> is the kind of a \<open>std::io::Error\<close>; \<open>db_error\<close> the failures of
  SQLite that the statements of the program can cause.
\<close>

datatype io_error = IoNotFound | IoAlreadyExists | IoOther string

datatype auth_error =
    LoginAlreadyPending
  | NoPendingLogin
  | AuthenticationRequired
  | Random string
  | Url string
  | AuthHttp string
  | TokenEndpoint nat string
  | InvalidTokenResponse string
  | SecretStorage string

datatype yandex_error =
    NotFound
  | Unauthorized
  | Forbidden
  | Conflict string
  | Auth auth_error
  | Io io_error
  | InvalidResponse string
  | Http string
  | Status nat string

datatype sync_error =
    NotFound
  | AlreadyExists
  | NotDir
  | IsDir
  | DirectoryNotEmpty
  | Conflict string
  | InvalidEnum string int
  | Db db_error
  | Io io_error
  | Remote yandex_error
  | Panic string
and db_error =
    UniqueViolation string
  | ForeignKeyViolation
  | FromSqlConversionFailure sync_error

text \<open>
  \<open>Panic\<close> is not a value of the Rust enum: it stands for the one arithmetic overflow
  that the modelled code can reach (the index of a conflict name), which unwinds the
  calling thread.
\<close>

section \<open>Integer enums\<close>

datatype resource_kind = Directory | File

datatype node_kind = File | Directory

datatype sync_state =
    Synced
  | QueuedUpload
  | Uploading
  | Downloading
  | Conflict
  | QueuedDelete
  | Error
  | Placeholder

datatype content_state = Placeholder | Hydrated

datatype queue_op_type =
    Upload
  | Delete
  | Mkdir
  | Move
  | Rename
  | RefreshTree
  | RefreshDir
  | Download
  | ReconcileRemoteDelete

datatype queue_op_status =
    Pending
  | Leased
  | Done
  | RetryableError
  | PermanentError
  | Conflict

text \<open>The discriminants that \<open>as i32\<close> yields.\<close>

fun node_kind_i32 :: "node_kind \<Rightarrow> int" where
  "node_kind_i32 File = 0"
| "node_kind_i32 Directory = 1"

fun sync_state_i32 :: "sync_state \<Rightarrow> int" where
  "sync_state_i32 Synced = 0"
| "sync_state_i32 QueuedUpload = 1"
| "sync_state_i32 Uploading = 2"
| "sync_state_i32 Downloading = 3"
| "sync_state_i32 sync_state.Conflict = 4"
| "sync_state_i32 QueuedDelete = 5"
| "sync_state_i32 Error = 6"
| "sync_state_i32 sync_state.Placeholder = 7"

fun content_state_i32 :: "content_state \<Rightarrow> int" where
  "content_state_i32 content_state.Placeholder = 0"
| "content_state_i32 Hydrated = 1"

fun queue_op_type_i32 :: "queue_op_type \<Rightarrow> int" where
  "queue_op_type_i32 Upload = 0"
| "queue_op_type_i32 Delete = 1"
| "queue_op_type_i32 Mkdir = 2"
| "queue_op_type_i32 Move = 3"
| "queue_op_type_i32 Rename = 4"
| "queue_op_type_i32 RefreshTree = 5"
| "queue_op_type_i32 RefreshDir = 6"
| "queue_op_type_i32 Download = 7"
| "queue_op_type_i32 ReconcileRemoteDelete = 8"

fun queue_op_status_i32 :: "queue_op_status \<Rightarrow> int" where
  "queue_op_status_i32 Pending = 0"
| "queue_op_status_i32 Leased = 1"
| "queue_op_status_i32 Done = 2"
| "queue_op_status_i32 RetryableError = 3"
| "queue_op_status_i32 PermanentError = 4"
| "queue_op_status_i32 queue_op_status.Conflict = 5"

text \<open>
  The macro expands to a \<open>match\<close> with one guarded arm per listed variant, in the order
  of the list, and the error for any other integer.
\<close>

definition impl_int_enum :: "string \<Rightarrow> ('v \<Rightarrow> int) \<Rightarrow> 'v list \<Rightarrow> int \<Rightarrow> sync_error + 'v" where
  "impl_int_enum name disc variants value =
     (case find (\<lambda>v. value = disc v) variants of
        Some v \<Rightarrow> Inr v
      | None \<Rightarrow> Inl (InvalidEnum name value))"

definition node_kind_try_from :: "int \<Rightarrow> sync_error + node_kind" where
  "node_kind_try_from = impl_int_enum ''NodeKind'' node_kind_i32 [File, Directory]"

definition sync_state_try_from :: "int \<Rightarrow> sync_error + sync_state" where
  "sync_state_try_from = impl_int_enum ''SyncState'' sync_state_i32
     [Synced, QueuedUpload, Uploading, Downloading, sync_state.Conflict, QueuedDelete, Error,
      sync_state.Placeholder]"

definition content_state_try_from :: "int \<Rightarrow> sync_error + content_state" where
  "content_state_try_from = impl_int_enum ''ContentState'' content_state_i32
     [content_state.Placeholder, Hydrated]"

definition queue_op_type_try_from :: "int \<Rightarrow> sync_error + queue_op_type" where
  "queue_op_type_try_from = impl_int_enum ''QueueOpType'' queue_op_type_i32
     [Upload, Delete, Mkdir, Move, Rename, RefreshTree, RefreshDir, Download,
      ReconcileRemoteDelete]"

definition queue_op_status_try_from :: "int \<Rightarrow> sync_error + queue_op_status" where
  "queue_op_status_try_from = impl_int_enum ''QueueOpStatus'' queue_op_status_i32
     [Pending, Leased, Done, RetryableError, PermanentError, queue_op_status.Conflict]"

section \<open>The contract of the macro\<close>

locale int_enum =
  fixes name :: string
    and disc :: "'v \<Rightarrow> int"
    and variants :: "'v list"
  assumes complete: "v \<in> set variants"
    and discriminants: "distinct (map disc variants)"
begin

lemma disc_inj: "disc v = disc w \<longleftrightarrow> v = w"
  using complete discriminants by (auto simp: distinct_map dest: inj_onD)

lemma decode_encode: "impl_int_enum name disc variants (disc v) = Inr v"
proof -
  have "find (\<lambda>w. disc v = disc w) variants = Some v"
    using find_unique_key [OF discriminants complete [of v]] by (simp add: eq_commute)
  then show ?thesis by (simp add: impl_int_enum_def)
qed

lemma encode_decode: "impl_int_enum name disc variants i = Inr v \<longleftrightarrow> i = disc v"
proof
  assume "impl_int_enum name disc variants i = Inr v"
  then show "i = disc v"
    by (auto simp: impl_int_enum_def split: option.splits dest: find_SomeD)
qed (simp add: decode_encode)

lemma decode_error:
  "impl_int_enum name disc variants i = Inl e \<longleftrightarrow> i \<notin> range disc \<and> e = InvalidEnum name i"
proof (cases "find (\<lambda>v. i = disc v) variants")
  case None
  then have "i \<notin> range disc" using complete by (auto simp: find_None)
  with None show ?thesis by (auto simp: impl_int_enum_def)
next
  case (Some w)
  then have "i = disc w" by (auto dest: find_SomeD)
  with Some show ?thesis by (auto simp: impl_int_enum_def)
qed

end

interpretation node_kind: int_enum "''NodeKind''" node_kind_i32 "[File, Directory]"
proof
  show "v \<in> set [File, Directory]" for v by (cases v) auto
qed simp

interpretation sync_state: int_enum "''SyncState''" sync_state_i32
  "[Synced, QueuedUpload, Uploading, Downloading, sync_state.Conflict, QueuedDelete, Error,
    sync_state.Placeholder]"
proof
  show "v \<in> set [Synced, QueuedUpload, Uploading, Downloading, sync_state.Conflict, QueuedDelete,
    Error, sync_state.Placeholder]" for v by (cases v) auto
qed simp

interpretation content_state: int_enum "''ContentState''" content_state_i32
  "[content_state.Placeholder, Hydrated]"
proof
  show "v \<in> set [content_state.Placeholder, Hydrated]" for v by (cases v) auto
qed simp

interpretation queue_op_type: int_enum "''QueueOpType''" queue_op_type_i32
  "[Upload, Delete, Mkdir, Move, Rename, RefreshTree, RefreshDir, Download,
    ReconcileRemoteDelete]"
proof
  show "v \<in> set [Upload, Delete, Mkdir, Move, Rename, RefreshTree, RefreshDir, Download,
    ReconcileRemoteDelete]" for v by (cases v) auto
qed simp

interpretation queue_op_status: int_enum "''QueueOpStatus''" queue_op_status_i32
  "[Pending, Leased, Done, RetryableError, PermanentError, queue_op_status.Conflict]"
proof
  show "v \<in> set [Pending, Leased, Done, RetryableError, PermanentError,
    queue_op_status.Conflict]" for v by (cases v) auto
qed simp

lemmas enum_decode_encode =
  node_kind.decode_encode [folded node_kind_try_from_def]
  sync_state.decode_encode [folded sync_state_try_from_def]
  content_state.decode_encode [folded content_state_try_from_def]
  queue_op_type.decode_encode [folded queue_op_type_try_from_def]
  queue_op_status.decode_encode [folded queue_op_status_try_from_def]

end
