(* ===== verification/Paths.thy ===== *)
theory Paths
  imports Enums "HOL-Library.Sublist"
begin

text \<open>
  Remote paths and names: the string functions at the end of src/src/sync.rs
  (\<open>join_remote_path\<close>, \<open>parent_path_of\<close>, \<open>name_of\<close>, \<open>next_conflict_name\<close> and
  its helpers) and the \<open>LIKE\<close> operator of the SQL in \<open>rename_subtree\<close>.

  A Rust \<open>str\<close> is a list of characters; offsets that the code takes in bytes are offsets
  into that list, which agree on every string the modelled functions cut (they cut at ASCII
  delimiters only).
\<close>

section \<open>The str methods used\<close>

definition rsplit_once :: "char \<Rightarrow> string \<Rightarrow> (string \<times> string) option" where
  "rsplit_once c s =
     (if c \<in> set s
      then Some (rev (tl (dropWhile (\<lambda>x. x \<noteq> c) (rev s))), rev (takeWhile (\<lambda>x. x \<noteq> c) (rev s)))
      else None)"

definition last_segment :: "char \<Rightarrow> string \<Rightarrow> string" where
  "last_segment c s = rev (takeWhile (\<lambda>x. x \<noteq> c) (rev s))"

definition str_strip_prefix :: "string \<Rightarrow> string \<Rightarrow> string option" where
  "str_strip_prefix p s = (if take (length p) s = p then Some (drop (length p) s) else None)"

definition str_strip_suffix :: "string \<Rightarrow> string \<Rightarrow> string option" where
  "str_strip_suffix p s =
     (if length p \<le> length s \<and> drop (length s - length p) s = p
      then Some (take (length s - length p) s) else None)"

definition str_rfind :: "string \<Rightarrow> string \<Rightarrow> nat option" where
  "str_rfind p s = find (\<lambda>i. take (length p) (drop i s) = p) (rev [0..<Suc (length s)])"

definition str_get :: "nat \<Rightarrow> nat \<Rightarrow> string \<Rightarrow> string option" where
  "str_get i j s = (if i \<le> j \<and> j \<le> length s then Some (take (j - i) (drop i s)) else None)"

definition digit :: "nat \<Rightarrow> char" where
  "digit n = char_of (48 + n)"

definition is_ascii_digit :: "char \<Rightarrow> bool" where
  "is_ascii_digit c \<longleftrightarrow> 48 \<le> (of_char c :: nat) \<and> (of_char c :: nat) \<le> 57"

definition digit_value :: "char \<Rightarrow> nat" where
  "digit_value c = of_char c - 48"

text \<open>\<open>format!("{n}")\<close> of an unsigned integer, and \<open>parse::<u32>()\<close> of a digit string.\<close>

fun show_nat :: "nat \<Rightarrow> string" where
  "show_nat n = (if n < 10 then [digit n] else show_nat (n div 10) @ [digit (n mod 10)])"

declare show_nat.simps [simp del]

definition digits_value :: "string \<Rightarrow> nat" where
  "digits_value s = foldl (\<lambda>n c. 10 * n + digit_value c) 0 s"

definition parse_u32 :: "string \<Rightarrow> 32 word option" where
  "parse_u32 s =
     (if s \<noteq> [] \<and> list_all is_ascii_digit s \<and> digits_value s < 2 ^ 32
      then Some (of_nat (digits_value s)) else None)"

lemma parse_u32_code [code]:
  "parse_u32 s =
     (if s \<noteq> [] \<and> list_all is_ascii_digit s \<and> int (digits_value s) < 4294967296
      then Some (of_nat (digits_value s)) else None)"
  by (simp add: parse_u32_def)

text \<open>\<open>{:016x}\<close>: sixteen lower-case hexadecimal digits.\<close>

definition hex_digit :: "nat \<Rightarrow> char" where
  "hex_digit n = (if n < 10 then char_of (48 + n) else char_of (87 + n))"

definition show_hex16 :: "64 word \<Rightarrow> string" where
  "show_hex16 w = map (\<lambda>i. hex_digit (nat (uint w div 16 ^ i mod 16))) (rev [0..<16])"

text \<open>The same, digit by digit, for evaluation.\<close>

fun hex_digits :: "nat \<Rightarrow> int \<Rightarrow> string" where
  "hex_digits 0 n = []"
| "hex_digits (Suc k) n = hex_digits k (n div 16) @ [hex_digit (nat (n mod 16))]"

lemma hex_digits_map: "map (\<lambda>i. hex_digit (nat (n div 16 ^ i mod 16))) (rev [0..<k]) = hex_digits k n"
proof (induction k arbitrary: n)
  case (Suc k)
  have "[0..<Suc k] = 0 # map Suc [0..<k]" by (simp add: map_Suc_upt upt_conv_Cons del: upt_Suc)
  then have "rev [0..<Suc k] = map Suc (rev [0..<k]) @ [0]" by (simp add: rev_map del: upt_Suc)
  then show ?case by (simp add: comp_def zdiv_zmult2_eq flip: Suc.IH)
qed simp

lemma show_hex16_code [code]: "show_hex16 w = hex_digits 16 (uint w)"
  by (simp only: show_hex16_def hex_digits_map)

lemma hex_digit_code [code]:
  "hex_digit n = (if n < 16 then ''0123456789abcdef'' ! n else char_of (87 + n))"
proof -
  have "\<forall>k \<in> set [0..<16]. hex_digit k = ''0123456789abcdef'' ! k"
    by code_simp
  then show ?thesis by (auto simp: hex_digit_def)
qed

section \<open>Remote paths\<close>

definition ROOT_PATH :: string where
  "ROOT_PATH = ''disk:/''"

definition join_remote_path :: "string \<Rightarrow> string \<Rightarrow> string" where
  "join_remote_path parent name =
     (if parent = ROOT_PATH then ROOT_PATH @ name else parent @ ''/'' @ name)"

definition parent_path_of :: "string \<Rightarrow> string option" where
  "parent_path_of path =
     (if path = ROOT_PATH then None
      else case rsplit_once (CHR ''/'') path of
        None \<Rightarrow> None
      | Some (parent, _) \<Rightarrow>
          Some (if parent = [] \<or> parent = ''disk:'' then ROOT_PATH else parent))"

definition name_of :: "string \<Rightarrow> string" where
  "name_of path = (if path = ROOT_PATH then ROOT_PATH else last_segment (CHR ''/'') path)"

section \<open>Conflict names\<close>

definition COMPOUND_EXTENSIONS :: "string list" where
  "COMPOUND_EXTENSIONS = [''.tar.gz'', ''.tar.bz2'', ''.tar.xz'', ''.tar.zst'']"

fun strip_compound :: "string list \<Rightarrow> string \<Rightarrow> (string \<times> string) option" where
  "strip_compound [] name = None"
| "strip_compound (compound # cs) name =
     (case str_strip_suffix compound name of
        Some base \<Rightarrow> Some (base, compound)
      | None \<Rightarrow> strip_compound cs name)"

definition split_extension :: "string \<Rightarrow> string \<times> string" where
  "split_extension name =
     (case strip_compound COMPOUND_EXTENSIONS name of
        Some r \<Rightarrow> r
      | None \<Rightarrow>
          (case rsplit_once (CHR ''.'') name of
             Some (base, ext) \<Rightarrow> if base \<noteq> [] then (base, CHR ''.'' # ext) else (name, [])
           | None \<Rightarrow> (name, [])))"

definition strip_numeric_suffix :: "string \<Rightarrow> (string \<times> 32 word) option" where
  "strip_numeric_suffix stem =
     (case str_rfind '' ('' stem of
        None \<Rightarrow> None
      | Some start \<Rightarrow>
          (case str_get (start + 2) (length stem - 1) stem of
             None \<Rightarrow> None
           | Some digits \<Rightarrow>
               if str_strip_suffix '')'' stem = None \<or> digits = [] \<or> \<not> list_all is_ascii_digit digits
               then None
               else (case parse_u32 digits of
                       None \<Rightarrow> None
                     | Some index \<Rightarrow> Some (take start stem, index))))"

definition split_conflict_name :: "string \<Rightarrow> string \<times> string \<times> 32 word option" where
  "split_conflict_name name =
     (let (stem, ext) = split_extension name in
      case strip_numeric_suffix stem of
        Some (base, index) \<Rightarrow> (base, ext, Some index)
      | None \<Rightarrow> (stem, ext, None))"

definition conflict_candidate :: "string \<Rightarrow> 32 word \<Rightarrow> string \<Rightarrow> string" where
  "conflict_candidate base index ext = base @ '' ('' @ show_nat (unat index) @ '')'' @ ext"

text \<open>
  The \<open>u32\<close> index is incremented with overflow checks (the dev profile of Cargo.toml):
  \<open>None\<close> is the panic.  With the checks off the index would wrap to \<open>0\<close>.
\<close>

definition checked_succ :: "32 word \<Rightarrow> 32 word option" where
  "checked_succ i = (if i = 4294967295 then None else Some (i + 1))"

lemma checked_succ_unat: "checked_succ i = Some j \<Longrightarrow> unat j = Suc (unat i)"
proof -
  assume "checked_succ i = Some j"
  then have "i \<noteq> - 1" and j: "j = i + 1"
    by (auto simp: checked_succ_def split: if_splits)
  then have "1 + i \<noteq> 0" by (metis add.commute add_eq_0_iff)
  then show ?thesis using j by (metis add.commute unatSuc)
qed

function next_conflict_index :: "(string \<Rightarrow> bool) \<Rightarrow> string \<Rightarrow> string \<Rightarrow> 32 word \<Rightarrow> string option" where
  "next_conflict_index taken base ext index =
     (if \<not> taken (conflict_candidate base index ext) then Some (conflict_candidate base index ext)
      else case checked_succ index of
             None \<Rightarrow> None
           | Some index' \<Rightarrow> next_conflict_index taken base ext index')"
  by pat_completeness auto
termination
proof (relation "measure (\<lambda>(taken, base, ext, index). 2 ^ 32 - unat index)")
  fix taken :: "string \<Rightarrow> bool" and base ext index index'
  assume "checked_succ index = Some index'"
  then have "unat index' = Suc (unat index)" by (rule checked_succ_unat)
  moreover have "unat index' < 2 ^ 32" using unsigned_less [of index', where ?'a = nat] by simp
  ultimately show "((taken, base, ext, index'), (taken, base, ext, index))
      \<in> measure (\<lambda>(taken, base, ext, index). 2 ^ 32 - unat index)" by simp
qed simp

declare next_conflict_index.simps [simp del]

lemma next_conflict_index_code [code]:
  "next_conflict_index taken base ext index =
     (if \<not> taken (conflict_candidate base index ext) then Some (conflict_candidate base index ext)
      else if index = 4294967295 then None
      else next_conflict_index taken base ext (index + 1))"
  by (subst next_conflict_index.simps) (simp add: checked_succ_def)

definition next_conflict_name :: "string \<Rightarrow> (string \<Rightarrow> bool) \<Rightarrow> string option" where
  "next_conflict_name name taken =
     (let (base, ext, current_index) = split_conflict_name name in
      case checked_succ (case current_index of None \<Rightarrow> 1 | Some i \<Rightarrow> i) of
        None \<Rightarrow> None
      | Some index \<Rightarrow> next_conflict_index taken base ext index)"

section \<open>The LIKE operator\<close>

text \<open>
  SQL's \<open>LIKE\<close> as SQLite evaluates it: \<open>%\<close> stands for any sequence, \<open>_\<close> for any one
  character, and ASCII letters are compared without regard to case.
\<close>

definition fold_ascii_case :: "char \<Rightarrow> char" where
  "fold_ascii_case c =
     (if 65 \<le> (of_char c :: nat) \<and> (of_char c :: nat) \<le> 90 then char_of ((of_char c :: nat) + 32)
      else c)"

fun sql_like :: "string \<Rightarrow> string \<Rightarrow> bool" where
  "sql_like [] s = (s = [])"
| "sql_like (p # ps) [] = (p = CHR ''%'' \<and> sql_like ps [])"
| "sql_like (p # ps) (c # cs) =
     (if p = CHR ''%'' then sql_like ps (c # cs) \<or> sql_like (p # ps) cs
      else (p = CHR ''_'' \<or> fold_ascii_case p = fold_ascii_case c) \<and> sql_like ps cs)"


section \<open>Facts about segments\<close>

lemma takeWhile_rev_snoc: "c \<notin> set n \<Longrightarrow> takeWhile (\<lambda>x. x \<noteq> c) (rev n @ c # q) = rev n"
  by (subst takeWhile_append2) auto

lemma dropWhile_rev_snoc: "c \<notin> set n \<Longrightarrow> dropWhile (\<lambda>x. x \<noteq> c) (rev n @ c # q) = c # q"
  by (subst dropWhile_append2) auto

lemma rsplit_once_append [path_simps]:
  "c \<notin> set n \<Longrightarrow> rsplit_once c (p @ c # n) = Some (p, n)"
  by (simp add: rsplit_once_def takeWhile_rev_snoc dropWhile_rev_snoc)

lemma rsplit_once_None [path_simps]: "c \<notin> set s \<Longrightarrow> rsplit_once c s = None"
  by (simp add: rsplit_once_def)

lemma last_segment_append [path_simps]: "c \<notin> set n \<Longrightarrow> last_segment c (p @ c # n) = n"
  by (simp add: last_segment_def takeWhile_rev_snoc)

lemma split_last_segment: "c \<in> set s \<Longrightarrow> \<exists>p n. s = p @ c # n \<and> c \<notin> set n"
  by (rule split_list_last)

lemma last_segment_no_sep: "c \<notin> set (last_segment c s)"
  by (auto simp: last_segment_def dest: set_takeWhileD)

text \<open>A directory path and a file name as the callers pass them.\<close>

definition valid_dir :: "string \<Rightarrow> bool" where
  "valid_dir p \<longleftrightarrow> p \<noteq> [] \<and> p \<noteq> ''disk:''"

definition valid_name :: "string \<Rightarrow> bool" where
  "valid_name n \<longleftrightarrow> n \<noteq> [] \<and> CHR ''/'' \<notin> set n"

lemma ROOT_PATH_slash: "ROOT_PATH @ n = ''disk:'' @ CHR ''/'' # n"
  by (simp add: ROOT_PATH_def)

lemma join_remote_path_split:
  "join_remote_path p n = (if p = ROOT_PATH then ''disk:'' else p) @ CHR ''/'' # n"
  by (simp add: join_remote_path_def ROOT_PATH_slash)

lemma join_not_root: "valid_name n \<Longrightarrow> join_remote_path p n \<noteq> ROOT_PATH"
proof
  assume n: "valid_name n" and eq: "join_remote_path p n = ROOT_PATH"
  have "last_segment (CHR ''/'') (join_remote_path p n) = n"
    using n by (simp add: join_remote_path_split last_segment_append valid_name_def)
  moreover have "last_segment (CHR ''/'') ROOT_PATH = []"
    by (simp add: ROOT_PATH_def last_segment_def)
  ultimately show False using n eq by (simp add: valid_name_def)
qed

lemma parent_path_of_join [path_simps]:
  "valid_dir p \<Longrightarrow> valid_name n \<Longrightarrow> parent_path_of (join_remote_path p n) = Some p"
proof -
  assume p: "valid_dir p" and n: "valid_name n"
  have "rsplit_once (CHR ''/'') (join_remote_path p n) =
      Some (if p = ROOT_PATH then ''disk:'' else p, n)"
    using n by (simp add: join_remote_path_split rsplit_once_append valid_name_def)
  then show ?thesis
    using p join_not_root [OF n, of p] by (auto simp: parent_path_of_def valid_dir_def)
qed

lemma name_of_join [path_simps]: "valid_name n \<Longrightarrow> name_of (join_remote_path p n) = n"
  using join_not_root [of n p]
  by (simp add: name_of_def join_remote_path_split last_segment_append valid_name_def)

lemma parent_path_of_None: "parent_path_of p = None \<longleftrightarrow> p = ROOT_PATH \<or> CHR ''/'' \<notin> set p"
  by (auto simp: parent_path_of_def rsplit_once_def)

lemma parent_valid_dir: "parent_path_of p = Some q \<Longrightarrow> valid_dir q"
  by (auto simp: parent_path_of_def valid_dir_def ROOT_PATH_def split: if_splits option.splits)

text \<open>
  Every path other than the root that has a separator is its parent joined with its name,
  when the parent is an absolute directory path.
\<close>

lemma join_parent_name:
  assumes "parent_path_of p = Some q" and "rsplit_once (CHR ''/'') p = Some (r, n)"
    and "r \<noteq> []" and "r \<noteq> ROOT_PATH"
  shows "join_remote_path q (name_of p) = p"
proof -
  have "CHR ''/'' \<in> set p" using assms(2) by (auto simp: rsplit_once_def split: if_splits)
  then obtain r' n' where p: "p = r' @ CHR ''/'' # n'" and n': "CHR ''/'' \<notin> set n'"
    by (metis split_last_segment)
  with assms(2) have r: "r' = r" "n' = n" by (simp_all add: rsplit_once_append)
  have root: "p \<noteq> ROOT_PATH" using assms(1) by (auto simp: parent_path_of_def)
  with p n' r have name: "name_of p = n" by (simp add: name_of_def last_segment_append)
  from assms root have q: "q = (if r = ''disk:'' then ROOT_PATH else r)"
    by (auto simp: parent_path_of_def)
  with name p r assms(4) show ?thesis by (auto simp: join_remote_path_def ROOT_PATH_def)
qed

section \<open>Numbers in names\<close>

lemma digit_facts:
  assumes "n < 10"
  shows "is_ascii_digit (digit n)" and "digit_value (digit n) = n" and "digit n \<noteq> CHR '' ''"
    and "digit n \<noteq> CHR ''('' " and "digit n \<noteq> CHR '')''" and "digit n \<noteq> CHR ''.''"
    and "digit n \<noteq> CHR ''/''"
proof -
  have "of_char (digit n) = 48 + n" using assms by (simp add: digit_def)
  then show "is_ascii_digit (digit n)" and "digit_value (digit n) = n"
    and "digit n \<noteq> CHR '' ''" and "digit n \<noteq> CHR ''('' " and "digit n \<noteq> CHR '')''"
    and "digit n \<noteq> CHR ''.''" and "digit n \<noteq> CHR ''/''"
    using assms by (auto simp: is_ascii_digit_def digit_value_def)
qed

lemma digits_value_snoc: "digits_value (s @ [c]) = 10 * digits_value s + digit_value c"
  by (simp add: digits_value_def)

lemma digits_value_show [simp]: "digits_value (show_nat n) = n"
proof (induction n rule: show_nat.induct)
  case (1 n)
  show ?case
  proof (cases "n < 10")
    case True
    then show ?thesis by (subst show_nat.simps) (simp add: digits_value_def digit_facts)
  next
    case False
    with 1 show ?thesis by (subst show_nat.simps) (simp add: digits_value_snoc digit_facts)
  qed
qed

lemma show_nat_chars: "c \<in> set (show_nat n) \<Longrightarrow> \<exists>d < 10. c = digit d"
proof (induction n rule: show_nat.induct)
  case (1 n)
  show ?case
  proof (cases "n < 10")
    case True
    with 1(2) show ?thesis by (subst (asm) show_nat.simps) auto
  next
    case False
    with 1(2) have "c \<in> set (show_nat (n div 10)) \<or> c = digit (n mod 10)"
      by (subst (asm) show_nat.simps) auto
    moreover have "n mod 10 < 10" by simp
    ultimately show ?thesis using 1(1) [OF False] by blast
  qed
qed

lemma show_nat_nonempty [simp]: "show_nat n \<noteq> []"
  by (subst show_nat.simps) simp

lemma show_nat_digits: "list_all is_ascii_digit (show_nat n)"
  by (auto simp: list_all_iff dest!: show_nat_chars intro: digit_facts)

lemma show_nat_no: 
  "CHR '' '' \<notin> set (show_nat n)" "CHR ''('' \<notin> set (show_nat n)" "CHR '')'' \<notin> set (show_nat n)"
  "CHR ''.'' \<notin> set (show_nat n)" "CHR ''/'' \<notin> set (show_nat n)"
  using digit_facts(3-7) by (metis show_nat_chars)+

lemma show_nat_inj: "show_nat m = show_nat n \<longleftrightarrow> m = n"
  by (metis digits_value_show)

lemma parse_show_u32: "parse_u32 (show_nat (unat (w :: 32 word))) = Some w"
  using unsigned_less [of w, where ?'a = nat] by (simp add: parse_u32_def show_nat_digits)

lemma hex_digit_inj: "m < 16 \<Longrightarrow> n < 16 \<Longrightarrow> hex_digit m = hex_digit n \<Longrightarrow> m = n"
proof -
  have code: "of_char (hex_digit k) = (if k < 10 then 48 + k else 87 + k)" if "k < 16" for k :: nat
    using that by (cases "k < 10") (simp_all add: hex_digit_def)
  assume less: "m < 16" "n < 16" and eq: "hex_digit m = hex_digit n"
  have "(if m < 10 then 48 + m else 87 + m) = (if n < 10 then 48 + n else 87 + n)"
    using code [OF less(1)] code [OF less(2)] eq by metis
  then show "m = n" using less by (simp split: if_splits)
qed

lemma hex_expansion:
  "(m::nat) mod 16 ^ k = n mod 16 ^ k"
  if "\<And>i. i < k \<Longrightarrow> m div 16 ^ i mod 16 = n div 16 ^ i mod 16"
  using that
proof (induction k)
  case 0
  then show ?case by simp
next
  case (Suc k)
  have "x mod 16 ^ Suc k = 16 ^ k * (x div 16 ^ k mod 16) + x mod 16 ^ k" for x :: nat
    using mod_mult2_eq [of x "16 ^ k" 16] by (simp add: mult.commute)
  with Suc show ?case by (simp del: power_Suc)
qed

lemma show_hex16_inj: "show_hex16 v = show_hex16 w \<longleftrightarrow> v = w"
proof
  assume eq: "show_hex16 v = show_hex16 w"
  have "unat v div 16 ^ i mod 16 = unat w div 16 ^ i mod 16" if "i < 16" for i
  proof -
    have nat: "nat (uint x div 16 ^ i mod 16) = unat x div 16 ^ i mod 16" for x :: "64 word"
      by (simp add: nat_mod_distrib nat_div_distrib pos_imp_zdiv_nonneg_iff nat_power_eq)
    have i: "i \<in> set (rev [0..<16])" using that by simp
    have "hex_digit (unat v div 16 ^ i mod 16) = hex_digit (unat w div 16 ^ i mod 16)"
      using bspec [OF eq [unfolded show_hex16_def map_eq_conv] i] unfolding nat .
    then show ?thesis by (rule hex_digit_inj [rotated 2]) simp_all
  qed
  then have "unat v mod 16 ^ 16 = unat w mod 16 ^ 16" by (rule hex_expansion)
  moreover have "unat x < 16 ^ 16" for x :: "64 word"
    using unsigned_less [of x, where ?'a = nat] by simp
  ultimately have "unat v = unat w" by simp
  then show "v = w" by (simp add: word_unat_eq_iff)
qed simp


section \<open>Conflict names\<close>

lemma conflict_candidate_inj:
  "conflict_candidate base i ext = conflict_candidate base j ext \<longleftrightarrow> i = j"
  by (simp add: conflict_candidate_def show_nat_inj word_unat_eq_iff)

lemma unat_eqD: "unat v = unat w \<Longrightarrow> v = w"
  by (simp add: word_unat_eq_iff)

lemma checked_succ_None: "checked_succ i = None \<longleftrightarrow> i = 4294967295"
  by (simp add: checked_succ_def)

lemma next_conflict_index_Some:
  assumes "next_conflict_index taken base ext i = Some r"
  shows "\<exists>k. unat i \<le> unat k \<and> r = conflict_candidate base k ext \<and> \<not> taken r \<and>
    (\<forall>j. unat i \<le> unat j \<and> unat j < unat k \<longrightarrow> taken (conflict_candidate base j ext))"
  using assms
proof (induction taken base ext i rule: next_conflict_index.induct)
  case (1 taken base ext i)
  show ?case
  proof (cases "taken (conflict_candidate base i ext)")
    case False
    with 1(2) show ?thesis by (subst (asm) next_conflict_index.simps) auto
  next
    case True
    with 1(2) obtain i' where i': "checked_succ i = Some i'"
      and r: "next_conflict_index taken base ext i' = Some r"
      by (subst (asm) next_conflict_index.simps) (auto split: option.splits)
    from 1(1) [of i'] True i' r obtain k where k: "unat i' \<le> unat k" "r = conflict_candidate base k ext"
      "\<not> taken r" and below: "\<And>j. unat i' \<le> unat j \<and> unat j < unat k \<Longrightarrow>
        taken (conflict_candidate base j ext)" by auto
    from i' have suc: "unat i' = Suc (unat i)" by (rule checked_succ_unat)
    have "taken (conflict_candidate base j ext)" if "unat i \<le> unat j \<and> unat j < unat k" for j
      using that below [of j] suc True by (cases "unat j = unat i") (auto dest: unat_eqD)
    with k suc show ?thesis by (intro exI [of _ k]) auto
  qed
qed

lemma next_conflict_index_None:
  assumes "next_conflict_index taken base ext i = None" and "unat i \<le> unat j"
  shows "taken (conflict_candidate base j ext)"
  using assms
proof (induction taken base ext i rule: next_conflict_index.induct)
  case (1 taken base ext i)
  have t: "taken (conflict_candidate base i ext)"
    using 1(2) by (subst (asm) next_conflict_index.simps) (auto split: if_splits)
  show ?case
  proof (cases "checked_succ i")
    case None
    then have "unat i = 2 ^ 32 - 1" by (simp add: checked_succ_None)
    moreover have "unat j < 2 ^ 32" using unsigned_less [of j, where ?'a = nat] by simp
    ultimately have "j = i" using 1(3) by (simp add: word_unat_eq_iff)
    with t show ?thesis by simp
  next
    case (Some i')
    then have suc: "unat i' = Suc (unat i)" by (rule checked_succ_unat)
    from 1(2) t Some have "next_conflict_index taken base ext i' = None"
      by (subst (asm) next_conflict_index.simps) simp
    with 1(1) [of i'] t Some suc 1(3) show ?thesis
      by (cases "unat j = unat i") (auto dest: unat_eqD)
  qed
qed

lemma finite_taken_Some:
  assumes "finite {n. taken n}" and "card {n. taken n} + unat i < 2 ^ 32"
  shows "next_conflict_index taken base ext i \<noteq> None"
proof
  assume none: "next_conflict_index taken base ext i = None"
  let ?c = "\<lambda>j. conflict_candidate base j ext"
  let ?J = "{j :: 32 word. unat i \<le> unat j}"
  have "?c ` ?J \<subseteq> {n. taken n}" using next_conflict_index_None [OF none] by auto
  moreover have "inj_on ?c ?J" by (auto intro: inj_onI simp: conflict_candidate_inj)
  ultimately have "card ?J \<le> card {n. taken n}"
    using card_image card_mono assms(1) by metis
  moreover have "card ?J = 2 ^ 32 - unat i"
  proof -
    have "unat ` ?J = {unat i..<2 ^ 32}"
    proof (intro equalityI subsetI)
      fix n assume "n \<in> unat ` ?J"
      then show "n \<in> {unat i..<2 ^ 32}"
        using unsigned_less [where ?'a = nat and ?'b = 32] by auto
    next
      fix n assume n: "n \<in> {unat i..<2 ^ 32}"
      then have "unat (of_nat n :: 32 word) = n" by (simp add: unat_of_nat)
      with n show "n \<in> unat ` ?J" by (intro image_eqI [of _ _ "of_nat n"]) auto
    qed
    moreover have "inj_on unat ?J" by (auto intro: inj_onI simp: word_unat_eq_iff)
    ultimately show ?thesis by (metis card_image card_atLeastLessThan)
  qed
  ultimately show False using assms(2) by simp
qed

text \<open>Splitting a name that was made by \<open>conflict_candidate\<close>.\<close>

lemma str_strip_suffix_append [simp]: "str_strip_suffix p (x @ p) = Some x"
  by (simp add: str_strip_suffix_def)

lemma str_strip_suffix_Some: "str_strip_suffix p s = Some x \<longleftrightarrow> s = x @ p"
proof
  assume "str_strip_suffix p s = Some x"
  then show "s = x @ p"
    by (auto simp: str_strip_suffix_def split: if_splits) (metis append_take_drop_id)
qed simp

lemma str_strip_suffix_None: "str_strip_suffix p s = None \<longleftrightarrow> (\<forall>x. s \<noteq> x @ p)"
  by (metis not_None_eq str_strip_suffix_Some)

lemma str_strip_prefix_Some: "str_strip_prefix p s = Some x \<longleftrightarrow> s = p @ x"
proof
  assume "str_strip_prefix p s = Some x"
  then show "s = p @ x"
    by (auto simp: str_strip_prefix_def split: if_splits) (metis append_take_drop_id)
qed (simp add: str_strip_prefix_def)

lemma find_rev_upt:
  "P m \<Longrightarrow> m \<le> n \<Longrightarrow> (\<And>i. m < i \<Longrightarrow> i \<le> n \<Longrightarrow> \<not> P i) \<Longrightarrow> find P (rev [0..<Suc n]) = Some m"
proof (induction n)
  case (Suc n)
  show ?case
  proof (cases "m = Suc n")
    case False
    have "\<not> P (Suc n)" using False Suc.prems by simp
    moreover have "find P (rev [0..<Suc n]) = Some m"
      by (rule Suc.IH) (use Suc.prems False in auto)
    ultimately show ?thesis by simp
  qed (use Suc.prems in simp)
qed simp

lemma str_rfind_open:
  assumes "CHR '' '' \<notin> set t"
  shows "str_rfind '' ('' (base @ '' ('' @ t) = Some (length base)"
  unfolding str_rfind_def
proof (rule find_rev_upt)
  let ?s = "base @ '' ('' @ t"
  fix i assume gt: "length base < i" and le: "i \<le> length ?s"
  show "\<not> take (length '' ('') (drop i ?s) = '' (''"
  proof
    assume m: "take (length '' ('') (drop i ?s) = '' (''"
    have two: "length '' ('' = 2" by simp
    define u v where "u = take i ?s" and "v = drop 2 (drop i ?s)"
    have cut: "?s = u @ take 2 (drop i ?s) @ v"
      unfolding u_def v_def by (simp only: append_take_drop_id)
    have s: "?s = u @ '' ('' @ v" using cut unfolding m [unfolded two] .
    have u: "length u = i" using le by (simp add: u_def)
    obtain w where w: "u = base @ w" "w \<noteq> []" "w @ '' ('' @ v = '' ('' @ t"
      using gt s u by (auto simp: append_eq_append_conv2)
    then show False using assms
      by (cases w; cases "tl w") (auto simp: Cons_eq_append_conv)
  qed
qed simp_all

lemma strip_numeric_suffix_candidate:
  "strip_numeric_suffix (base @ '' ('' @ show_nat (unat k) @ '')'') = Some (base, k)"
proof -
  let ?d = "show_nat (unat k)"
  have "str_rfind '' ('' (base @ '' ('' @ ?d @ '')'') = Some (length base)"
    by (rule str_rfind_open) (simp add: show_nat_no)
  moreover have "str_strip_suffix '')'' (base @ '' ('' @ ?d @ '')'') \<noteq> None"
    using str_strip_suffix_append [of "'')''" "base @ '' ('' @ ?d"] by simp
  moreover have "str_get (length base + 2) (length (base @ '' ('' @ ?d @ '')'') - 1)
      (base @ '' ('' @ ?d @ '')'') = Some ?d"
    by (simp add: str_get_def)
  ultimately show ?thesis
    by (simp add: strip_numeric_suffix_def parse_show_u32 show_nat_digits)
qed

lemma strip_compound_Some:
  "strip_compound cs name = Some (base, ext) \<Longrightarrow> ext \<in> set cs \<and> name = base @ ext"
  by (induction cs) (auto split: option.splits simp: str_strip_suffix_Some)

lemma strip_compound_None:
  "strip_compound cs name = None \<longleftrightarrow> (\<forall>c \<in> set cs. \<forall>x. name \<noteq> x @ c)"
  by (induction cs) (auto split: option.splits simp: str_strip_suffix_Some str_strip_suffix_None)

lemma compound_shape:
  "c \<in> set COMPOUND_EXTENSIONS \<Longrightarrow> \<exists>e. c = ''.tar'' @ CHR ''.'' # e \<and> CHR ''.'' \<notin> set e"
  by (auto simp: COMPOUND_EXTENSIONS_def)

lemma compound_suffix_unique:
  assumes "c \<in> set COMPOUND_EXTENSIONS" and "x @ c = y @ CHR ''.'' # e" and "CHR ''.'' \<notin> set e"
  shows "y = x @ ''.tar'' \<and> c = ''.tar.'' @ e"
proof -
  obtain d where c: "c = ''.tar'' @ CHR ''.'' # d" and d: "CHR ''.'' \<notin> set d"
    using compound_shape [OF assms(1)] by blast
  have "rsplit_once (CHR ''.'') (x @ c) = Some (x @ ''.tar'', d)"
    using rsplit_once_append [OF d, of "x @ ''.tar''"] c by simp
  moreover have "rsplit_once (CHR ''.'') (x @ c) = Some (y, e)"
    unfolding assms(2) by (rule rsplit_once_append [OF assms(3)])
  ultimately show ?thesis using c by simp
qed

lemma split_extension_compound:
  assumes "c \<in> set COMPOUND_EXTENSIONS"
  shows "split_extension (x @ c) = (x, c)"
proof -
  have "strip_compound COMPOUND_EXTENSIONS (x @ c) \<noteq> None"
    using assms by (auto simp: strip_compound_None)
  then obtain b d where bd: "strip_compound COMPOUND_EXTENSIONS (x @ c) = Some (b, d)" by auto
  then have d: "d \<in> set COMPOUND_EXTENSIONS" and eq: "x @ c = b @ d"
    by (auto dest: strip_compound_Some)
  obtain e where e: "d = ''.tar'' @ CHR ''.'' # e" "CHR ''.'' \<notin> set e"
    using compound_shape [OF d] by blast
  with eq have "x @ c = (b @ ''.tar'') @ CHR ''.'' # e" by simp
  from compound_suffix_unique [OF assms this e(2)] have "b = x" "c = d"
    using e by simp_all
  with bd show ?thesis by (simp add: split_extension_def)
qed

lemma split_extension_simple:
  assumes "CHR ''.'' \<notin> set e" and "x \<noteq> []" and "\<And>z. x \<noteq> z @ ''.tar''"
  shows "split_extension (x @ CHR ''.'' # e) = (x, CHR ''.'' # e)"
proof -
  have "strip_compound COMPOUND_EXTENSIONS (x @ CHR ''.'' # e) = None"
    unfolding strip_compound_None
    using compound_suffix_unique [OF _ sym assms(1)] assms(3) by blast
  with assms(1,2) show ?thesis by (simp add: split_extension_def rsplit_once_append)
qed

lemma split_extension_none:
  assumes "CHR ''.'' \<notin> set (tl x)"
  shows "split_extension x = (x, [])"
proof -
  have "strip_compound COMPOUND_EXTENSIONS x = None"
    unfolding strip_compound_None
  proof (intro ballI allI notI)
    fix c z assume "c \<in> set COMPOUND_EXTENSIONS" and x: "x = z @ c"
    then show False using assms by (cases z) (auto simp: COMPOUND_EXTENSIONS_def)
  qed
  moreover have "rsplit_once (CHR ''.'') x = None \<or> (\<exists>e. rsplit_once (CHR ''.'') x = Some ([], e))"
  proof (cases x)
    case (Cons c cs)
    with assms show ?thesis
      using rsplit_once_append [of "CHR ''.''" cs "[]"]
      by (cases "c = CHR ''.''") (auto simp: rsplit_once_def)
  qed (simp add: rsplit_once_def)
  ultimately show ?thesis by (auto simp: split_extension_def)
qed

lemma in_tl: "c \<in> set (tl s) \<Longrightarrow> c \<in> set s"
  by (cases s) auto

text \<open>The three shapes of an extension, and what they say of the stem.\<close>

lemma split_extension_cases:
  assumes "split_extension name = (stem, ext)"
  obtains (compound) "ext \<in> set COMPOUND_EXTENSIONS"
  | (simple) e where "ext = CHR ''.'' # e" "CHR ''.'' \<notin> set e"
  | (none) "ext = []" "CHR ''.'' \<notin> set (tl stem)"
proof (cases "strip_compound COMPOUND_EXTENSIONS name")
  case (Some r)
  with assms have "ext \<in> set COMPOUND_EXTENSIONS"
    by (auto simp: split_extension_def dest: strip_compound_Some)
  then show ?thesis by (rule compound)
next
  case None
  show ?thesis
  proof (cases "CHR ''.'' \<in> set name")
    case False
    with assms None have "stem = name" "ext = []"
      by (simp_all add: split_extension_def rsplit_once_None)
    with False show ?thesis by (intro none) (auto dest: in_tl)
  next
    case True
    then obtain p e where name: "name = p @ CHR ''.'' # e" and e: "CHR ''.'' \<notin> set e"
      by (metis split_last_segment)
    show ?thesis
    proof (cases "p = []")
      case True
      with assms None name e show ?thesis
        by (intro none) (auto simp: split_extension_def rsplit_once_append [of _ e "[]", simplified])
    next
      case False
      with assms None name e show ?thesis
        by (intro simple) (auto simp: split_extension_def rsplit_once_append)
    qed
  qed
qed

lemma split_extension_candidate:
  assumes "split_extension name = (stem, ext)" and "prefix base stem"
  shows "split_extension (base @ '' ('' @ show_nat (unat k) @ '')'' @ ext) =
    (base @ '' ('' @ show_nat (unat k) @ '')'', ext)"
  (is "split_extension ?n = (?x, ext)")
  using assms(1)
proof (cases rule: split_extension_cases)
  case compound
  then show ?thesis using split_extension_compound [of ext ?x] by simp
next
  case (simple e)
  have "?x \<noteq> z @ ''.tar''" for z
  proof
    assume "?x = z @ ''.tar''"
    then have "last ?x = last (z @ ''.tar'')" by simp
    then show False by simp
  qed
  then show ?thesis using split_extension_simple [of e ?x] simple by simp
next
  case none
  have "CHR ''.'' \<notin> set (tl base)"
    using none(2) assms(2) by (cases base) (auto simp: prefix_def)
  then have "CHR ''.'' \<notin> set (tl ?x)"
    by (cases base) (auto simp: show_nat_no)
  then show ?thesis using split_extension_none none(1) by simp
qed

lemma strip_numeric_suffix_prefix:
  "strip_numeric_suffix stem = Some (base, i) \<Longrightarrow> prefix base stem"
  by (auto simp: strip_numeric_suffix_def take_is_prefix split: option.splits if_splits)

lemma split_conflict_name_candidate:
  assumes "split_conflict_name name = (base, ext, idx)"
  shows "split_conflict_name (conflict_candidate base k ext) = (base, ext, Some k)"
proof -
  obtain stem where ext: "split_extension name = (stem, ext)" and "prefix base stem"
    using assms by (auto simp: split_conflict_name_def split: prod.splits option.splits
        dest: strip_numeric_suffix_prefix)
  from split_extension_candidate [OF this, of k] show ?thesis
    using strip_numeric_suffix_candidate [of base k]
    by (simp add: split_conflict_name_def conflict_candidate_def)
qed

section \<open>LIKE\<close>

lemma sql_like_any: "sql_like ps s \<Longrightarrow> sql_like (CHR ''%'' # ps) s"
  by (cases s) auto

lemma sql_like_cons: "sql_like ps s \<Longrightarrow> sql_like (c # ps) (c # s)"
  by (cases "c = CHR ''%''") (simp_all add: sql_like_any)

lemma sql_like_prefix: "sql_like ps s \<Longrightarrow> sql_like (p @ ps) (p @ s)"
  by (induction p) (simp_all add: sql_like_cons del: sql_like.simps)

lemma sql_like_percent [simp]: "sql_like ''%'' s"
  by (induction s) auto

text \<open>Every path below \<open>p\<close> matches the pattern of \<open>rename_subtree\<close>.\<close>

lemma sql_like_descendant: "sql_like (p @ ''/%'') (p @ CHR ''/'' # s)"
  using sql_like_prefix [of "''/%''" "CHR ''/'' # s" p] by simp

text \<open>
  Without wildcards in the pattern's stem, the matches are the strings that start with it up
  to the case of ASCII letters.
\<close>

lemma sql_like_plain:
  assumes "CHR ''%'' \<notin> set p" and "CHR ''_'' \<notin> set p"
  shows "sql_like (p @ ''%'') s \<longleftrightarrow> length p \<le> length s \<and>
    map fold_ascii_case (take (length p) s) = map fold_ascii_case p"
  using assms
proof (induction p arbitrary: s)
  case (Cons c p)
  then show ?case by (cases s) auto
qed simp

end
