(* ===== verification/Database.thy ===== *)
theory Database
  imports Paths "HOL-Library.List_Lexorder" "HOL-Library.Char_ord"
begin

text \<open>
  The SQLite database of the sync service: the three tables of \<open>run_migrations\<close>
  (src/src/sync.rs) as lists of rows in insertion order, the SQL statements of the program as
  actions on them, and the functions of sync.rs that work on a \<open>Connection\<close>:
  \<open>upsert_operation\<close>, \<open>ensure_remote_row\<close>, \<open>rename_subtree\<close>,
  \<open>apply_conflict_locked\<close> and the queries.

  The SQL text in sync.rs is part of the source, so each statement is translated: the
  \<open>UNIQUE\<close> and primary keys of \<open>files\<close>, the foreign keys with \<open>ON DELETE CASCADE\<close>
  (the connection sets \<open>foreign_keys = ON\<close>), \<open>AUTOINCREMENT\<close> ids that are never
  reused, and \<open>ON CONFLICT(path) DO UPDATE\<close>.  The \<open>CHECK\<close>
  constraints are the types of the columns.  I/O failures of SQLite itself are not modelled.

  \<open>env\<close> is what an operation takes from outside: the clock, read once (\<open>now\<close>); the
  stream of random words \<open>rnd\<close>, drawn at the position kept in \<open>rng_pos\<close>; the cache
  directory; the \<open>Display\<close> text of a remote error; and the order in which a
  \<open>HashMap\<close> yields its values.  All are arbitrary.  A payload is the JSON
  object it encodes: \<open>serde_json\<close> is used to write and read it back.
\<close>

section \<open>Rows\<close>

type_synonym json_object = "(string \<times> string) list"

text \<open>\<open>SystemTime\<close>: nanoseconds since the Unix epoch, negative before it.\<close>

type_synonym system_time = int

record resource_entry =
  r_path :: string
  r_name :: string
  r_kind :: resource_kind
  r_size :: "64 word"
  r_created :: "system_time option"
  r_modified :: "system_time option"
  r_remote_version :: "string option"

record stored_entry =
  e_file_id :: string
  e_path :: string
  e_parent_path :: "string option"
  e_name :: string
  e_kind :: node_kind
  e_sync_state :: sync_state
  e_content_state :: content_state
  e_remote_version :: "string option"
  e_local_version :: int
  e_mtime :: "int option"
  e_size :: "64 word"
  e_cache_path :: "string option"
  e_last_remote_check_at :: "int option"
  e_remote_deleted :: bool
  e_last_error :: "string option"

record queue_row =
  q_id :: int
  q_file_id :: string
  q_op_type :: queue_op_type
  q_op_status :: queue_op_status
  q_payload :: "json_object option"
  q_retry_count :: int
  q_next_retry_at :: "int option"
  q_worker_id :: "string option"
  q_lease_expires_at :: "int option"
  q_created_at :: int
  q_updated_at :: int

record conflict_row =
  c_conflict_id :: string
  c_file_id :: string
  c_original_path :: string
  c_conflict_path :: string
  c_created_at :: int
  c_base_remote_version :: "string option"
  c_current_remote_version :: "string option"
  c_origin_device :: "string option"

record queued_operation =
  j_id :: int
  j_file_id :: string
  j_op_type :: queue_op_type
  j_op_status :: queue_op_status
  j_payload :: "json_object option"
  j_retry_count :: int

text \<open>The connection, with the position in the random stream.\<close>

record db =
  files :: "stored_entry list"
  operations_queue :: "queue_row list"
  conflicts :: "conflict_row list"
  last_op_id :: int
  user_version :: int
  rng_pos :: nat

record env =
  now :: int
  rnd :: "nat \<Rightarrow> 64 word"
  cache_dir :: string
  yandex_display :: "yandex_error \<Rightarrow> string"
  hash_order :: "resource_entry list \<Rightarrow> resource_entry list"

type_synonym 'a dbm = "(db, sync_error, 'a) action"

definition empty_db :: db where
  "empty_db = \<lparr>files = [], operations_queue = [], conflicts = [], last_op_id = 0,
     user_version = 0, rng_pos = 0\<rparr>"

definition run_migrations :: "unit dbm" where
  "run_migrations =
     and_then (gets user_version) (\<lambda>v.
     if v \<ge> 1 then ret ()
     else modify (\<lambda>d. d\<lparr>user_version := 1\<rparr>))"

section \<open>Columns and rows\<close>

text \<open>
  The integer columns of a row of \<open>files\<close> and its conversion to a \<open>StoredEntry\<close>.
  \<open>entry_to_row\<close> is what the \<open>params!\<close> of the statements write.
\<close>

record file_row =
  fr_file_id :: string
  fr_path :: string
  fr_parent_path :: "string option"
  fr_name :: string
  fr_kind :: int
  fr_sync_state :: int
  fr_content_state :: int
  fr_remote_version :: "string option"
  fr_local_version :: int
  fr_mtime :: "int option"
  fr_size :: int
  fr_cache_path :: "string option"
  fr_last_remote_check_at :: "int option"
  fr_remote_deleted :: int
  fr_last_error :: "string option"

definition to_sql_error :: "sync_error \<Rightarrow> db_error" where
  "to_sql_error err = FromSqlConversionFailure err"

definition sql_enum :: "sync_error + 'v \<Rightarrow> db_error + 'v" where
  "sql_enum r = (case r of Inl err \<Rightarrow> Inl (to_sql_error err) | Inr v \<Rightarrow> Inr v)"

definition row_to_entry :: "file_row \<Rightarrow> db_error + stored_entry" where
  "row_to_entry row =
     (case sql_enum (node_kind_try_from (fr_kind row)) of Inl err \<Rightarrow> Inl err | Inr kind \<Rightarrow>
     (case sql_enum (sync_state_try_from (fr_sync_state row)) of Inl err \<Rightarrow> Inl err | Inr st \<Rightarrow>
     (case sql_enum (content_state_try_from (fr_content_state row)) of Inl err \<Rightarrow> Inl err | Inr cs \<Rightarrow>
     Inr \<lparr>e_file_id = fr_file_id row, e_path = fr_path row, e_parent_path = fr_parent_path row,
       e_name = fr_name row, e_kind = kind, e_sync_state = st, e_content_state = cs,
       e_remote_version = fr_remote_version row, e_local_version = fr_local_version row,
       e_mtime = fr_mtime row, e_size = of_int (fr_size row), e_cache_path = fr_cache_path row,
       e_last_remote_check_at = fr_last_remote_check_at row,
       e_remote_deleted = (fr_remote_deleted row \<noteq> 0), e_last_error = fr_last_error row\<rparr>)))"

definition entry_to_row :: "stored_entry \<Rightarrow> file_row" where
  "entry_to_row e =
     \<lparr>fr_file_id = e_file_id e, fr_path = e_path e, fr_parent_path = e_parent_path e,
      fr_name = e_name e, fr_kind = node_kind_i32 (e_kind e),
      fr_sync_state = sync_state_i32 (e_sync_state e),
      fr_content_state = content_state_i32 (e_content_state e),
      fr_remote_version = e_remote_version e, fr_local_version = e_local_version e,
      fr_mtime = e_mtime e, fr_size = sint (e_size e), fr_cache_path = e_cache_path e,
      fr_last_remote_check_at = e_last_remote_check_at e,
      fr_remote_deleted = (if e_remote_deleted e then 1 else 0), fr_last_error = e_last_error e\<rparr>"

definition row_to_job :: "queue_row \<Rightarrow> queued_operation" where
  "row_to_job row =
     \<lparr>j_id = q_id row, j_file_id = q_file_id row, j_op_type = q_op_type row,
      j_op_status = q_op_status row, j_payload = q_payload row,
      j_retry_count = q_retry_count row\<rparr>"

lemma of_int_sint [simp]: "(of_int (sint (w :: 64 word)) :: 64 word) = w"
  by simp

lemma row_to_entry_entry_to_row: "row_to_entry (entry_to_row e) = Inr e"
  by (simp add: row_to_entry_def entry_to_row_def sql_enum_def enum_decode_encode)

section \<open>Statements\<close>

definition new_id :: "env \<Rightarrow> string \<Rightarrow> string dbm" where
  "new_id ev pre d =
     (Inr (pre @ ''-'' @ show_hex16 (rnd ev (rng_pos d))), d\<lparr>rng_pos := Suc (rng_pos d)\<rparr>)"

definition insert_file :: "stored_entry \<Rightarrow> unit dbm" where
  "insert_file e d =
     (if e_file_id e \<in> e_file_id ` set (files d)
          then (Inl (Db (UniqueViolation ''files.file_id'')), d)
          else if e_path e \<in> e_path ` set (files d)
          then (Inl (Db (UniqueViolation ''files.path'')), d)
          else (Inr (), d\<lparr>files := files d @ [e]\<rparr>))"

definition update_file :: "string \<Rightarrow> (stored_entry \<Rightarrow> stored_entry) \<Rightarrow> unit dbm" where
  "update_file fid f =
     modify (\<lambda>d. d\<lparr>files := update_where (\<lambda>e. e_file_id e = fid) f (files d)\<rparr>)"

definition update_file_path ::
    "string \<Rightarrow> string \<Rightarrow> string option \<Rightarrow> string \<Rightarrow> int \<Rightarrow> unit dbm" where
  "update_file_path fid path parent name mtime d =
     (if (\<exists>e \<in> set (files d). e_file_id e = fid) \<and>
             (\<exists>e \<in> set (files d). e_file_id e \<noteq> fid \<and> e_path e = path)
          then (Inl (Db (UniqueViolation ''files.path'')), d)
          else (Inr (), d\<lparr>files := update_where (\<lambda>e. e_file_id e = fid)
                  (\<lambda>e. e\<lparr>e_path := path, e_parent_path := parent, e_name := name,
                         e_mtime := Some mtime\<rparr>) (files d)\<rparr>))"

definition delete_file :: "string \<Rightarrow> unit dbm" where
  "delete_file fid =
     modify (\<lambda>d. d\<lparr>files := delete_where (\<lambda>e. e_file_id e = fid) (files d),
                   operations_queue := delete_where (\<lambda>q. q_file_id q = fid) (operations_queue d),
                   conflicts := delete_where (\<lambda>c. c_file_id c = fid) (conflicts d)\<rparr>)"

definition insert_op ::
    "string \<Rightarrow> queue_op_type \<Rightarrow> json_object \<Rightarrow> int \<Rightarrow> unit dbm" where
  "insert_op fid op payload t d =
     (if fid \<notin> e_file_id ` set (files d) then (Inl (Db ForeignKeyViolation), d)
          else (Inr (), d\<lparr>last_op_id := last_op_id d + 1,
            operations_queue := operations_queue d @
              [\<lparr>q_id = last_op_id d + 1, q_file_id = fid, q_op_type = op, q_op_status = Pending,
                q_payload = Some payload, q_retry_count = 0, q_next_retry_at = None,
                q_worker_id = None, q_lease_expires_at = None, q_created_at = t,
                q_updated_at = t\<rparr>]\<rparr>))"

definition update_ops :: "(queue_row \<Rightarrow> bool) \<Rightarrow> (queue_row \<Rightarrow> queue_row) \<Rightarrow> unit dbm" where
  "update_ops P f =
     modify (\<lambda>d. d\<lparr>operations_queue := update_where P f (operations_queue d)\<rparr>)"

definition delete_ops :: "(queue_row \<Rightarrow> bool) \<Rightarrow> unit dbm" where
  "delete_ops P = modify (\<lambda>d. d\<lparr>operations_queue := delete_where P (operations_queue d)\<rparr>)"

definition insert_conflict :: "conflict_row \<Rightarrow> unit dbm" where
  "insert_conflict c d =
     (if c_conflict_id c \<in> c_conflict_id ` set (conflicts d)
          then (Inl (Db (UniqueViolation ''conflicts.conflict_id'')), d)
          else if c_file_id c \<notin> e_file_id ` set (files d) then (Inl (Db ForeignKeyViolation), d)
          else (Inr (), d\<lparr>conflicts := conflicts d @ [c]\<rparr>))"

text \<open>\<open>SELECT ... WHERE P ORDER BY id ASC LIMIT 1\<close>.\<close>

definition first_op :: "(queue_row \<Rightarrow> bool) \<Rightarrow> db \<Rightarrow> queue_row option" where
  "first_op P d =
     (case sort_key q_id (filter P (operations_queue d)) of [] \<Rightarrow> None | q # _ \<Rightarrow> Some q)"

section \<open>Queries\<close>

definition find_path :: "string \<Rightarrow> db \<Rightarrow> stored_entry option" where
  "find_path path d = find (\<lambda>e. e_path e = path) (files d)"

definition find_file_id :: "string \<Rightarrow> db \<Rightarrow> stored_entry option" where
  "find_file_id fid d = find (\<lambda>e. e_file_id e = fid) (files d)"

definition query_entry_by_path :: "string \<Rightarrow> stored_entry option dbm" where
  "query_entry_by_path path = gets (find_path path)"

definition query_entry_by_file_id :: "string \<Rightarrow> stored_entry option dbm" where
  "query_entry_by_file_id fid = gets (find_file_id fid)"

text \<open>\<open>ORDER BY kind DESC, name ASC\<close>, as two stable sorts.\<close>

definition children_of :: "string \<Rightarrow> db \<Rightarrow> stored_entry list" where
  "children_of parent d =
     sort_key (\<lambda>e. - node_kind_i32 (e_kind e))
       (sort_key e_name
         (filter (\<lambda>e. e_parent_path e = Some parent \<and> e_sync_state e \<noteq> QueuedDelete
                      \<and> \<not> e_remote_deleted e) (files d)))"

definition query_children :: "string \<Rightarrow> stored_entry list dbm" where
  "query_children parent = gets (children_of parent)"

definition has_unsynced_local_changes :: "stored_entry \<Rightarrow> bool" where
  "has_unsynced_local_changes entry \<longleftrightarrow>
     e_sync_state entry \<in> {QueuedUpload, Uploading, Error}"

definition is_conflict_copy :: "string \<Rightarrow> string \<Rightarrow> bool dbm" where
  "is_conflict_copy fid path =
     gets (\<lambda>d. \<exists>c \<in> set (conflicts d). c_file_id c = fid \<and> c_conflict_path c = path)"

definition system_time_to_unix :: "system_time option \<Rightarrow> int option" where
  "system_time_to_unix time =
     (case time of None \<Rightarrow> None | Some t \<Rightarrow> if t < 0 then None else Some (t div 1000000000))"

definition parse_payload :: "json_object option \<Rightarrow> json_object" where
  "parse_payload payload = (case payload of None \<Rightarrow> [] | Some object \<Rightarrow> object)"

section \<open>The queue\<close>

definition upsert_operation ::
    "env \<Rightarrow> string \<Rightarrow> queue_op_type \<Rightarrow> json_object \<Rightarrow> bool \<Rightarrow> bool \<Rightarrow> unit dbm" where
  "upsert_operation ev fid op payload replace_uploads replace_all =
     and_then
       (if replace_all
        then delete_ops (\<lambda>q. q_file_id q = fid \<and>
               q_op_status q \<in> {Pending, RetryableError, Leased})
        else if replace_uploads
        then delete_ops (\<lambda>q. q_file_id q = fid \<and> q_op_type q = Upload \<and>
               q_op_status q \<in> {Pending, RetryableError, Leased})
        else ret ()) (\<lambda>_.
     and_then
       (gets (first_op (\<lambda>q. q_file_id q = fid \<and> q_op_type q = op \<and>
                q_op_status q \<in> {Pending, RetryableError}))) (\<lambda>existing.
     case existing of
       Some row \<Rightarrow>
         update_ops (\<lambda>q. q_id q = q_id row)
           (\<lambda>q. q\<lparr>q_payload := Some payload, q_op_status := Pending, q_next_retry_at := None,
                  q_updated_at := now ev\<rparr>)
     | None \<Rightarrow> insert_op fid op payload (now ev)))"

section \<open>Renaming a subtree\<close>

definition rename_target ::
    "string \<Rightarrow> string \<Rightarrow> string \<Rightarrow> string \<Rightarrow> string \<Rightarrow> string \<times> string option \<times> string" where
  "rename_target from to new_parent new_name old_path =
     (let tail = (case str_strip_prefix from old_path of Some rest \<Rightarrow> rest | None \<Rightarrow> []);
          new_path = to @ tail
      in (new_path,
          if new_path = to then Some new_parent else parent_path_of new_path,
          if new_path = to then new_name else name_of new_path))"

definition rename_selects :: "string \<Rightarrow> string \<Rightarrow> bool" where
  "rename_selects from path \<longleftrightarrow> path = from \<or> sql_like (from @ ''/%'') path"

definition rename_rows :: "string \<Rightarrow> db \<Rightarrow> (string \<times> string) list" where
  "rename_rows from d =
     map (\<lambda>e. (e_file_id e, e_path e))
       (sort_key (\<lambda>e. length (e_path e)) (filter (\<lambda>e. rename_selects from (e_path e)) (files d)))"

definition rename_subtree ::
    "string \<Rightarrow> string \<Rightarrow> string \<Rightarrow> string \<Rightarrow> int \<Rightarrow> unit dbm" where
  "rename_subtree from to new_parent new_name t =
     and_then (gets (rename_rows from)) (\<lambda>descendants.
     foreach descendants (\<lambda>(fid, old_path).
       case rename_target from to new_parent new_name old_path of
         (new_path, parent, name) \<Rightarrow> update_file_path fid new_path parent name t))"

section \<open>Remote rows and conflicts\<close>

definition node_kind_of :: "resource_kind \<Rightarrow> node_kind" where
  "node_kind_of k = (case k of resource_kind.File \<Rightarrow> File | resource_kind.Directory \<Rightarrow> Directory)"

definition opt_or :: "'a option \<Rightarrow> 'a option \<Rightarrow> 'a option" where
  "opt_or x y = (case x of None \<Rightarrow> y | Some _ \<Rightarrow> x)"

text \<open>The states \<open>?14\<close> to \<open>?18\<close> of the statement, whose rows keep their local columns.\<close>

definition keeps_local_columns :: "stored_entry \<Rightarrow> bool" where
  "keeps_local_columns f \<longleftrightarrow>
     e_sync_state f \<in> {QueuedUpload, Uploading, QueuedDelete, sync_state.Conflict, Error}"

definition remote_row ::
    "env \<Rightarrow> resource_entry \<Rightarrow> sync_state \<Rightarrow> stored_entry option \<Rightarrow> string \<Rightarrow> stored_entry" where
  "remote_row ev remote st existing fid =
     (let cache = (case existing of None \<Rightarrow> None | Some e \<Rightarrow> e_cache_path e) in
      \<lparr>e_file_id = fid, e_path = r_path remote, e_parent_path = parent_path_of (r_path remote),
       e_name = r_name remote, e_kind = node_kind_of (r_kind remote), e_sync_state = st,
       e_content_state = (if cache \<noteq> None then Hydrated else content_state.Placeholder),
       e_remote_version = r_remote_version remote,
       e_local_version = (case existing of None \<Rightarrow> 0 | Some e \<Rightarrow> e_local_version e),
       e_mtime = system_time_to_unix (opt_or (r_modified remote) (r_created remote)),
       e_size = r_size remote, e_cache_path = cache, e_last_remote_check_at = Some (now ev),
       e_remote_deleted = False, e_last_error = None\<rparr>)"

definition excluded_update :: "stored_entry \<Rightarrow> stored_entry \<Rightarrow> stored_entry" where
  "excluded_update excluded f =
     f\<lparr>e_parent_path := e_parent_path excluded,
       e_name := e_name excluded,
       e_kind := e_kind excluded,
       e_sync_state := (if keeps_local_columns f then e_sync_state f else e_sync_state excluded),
       e_content_state :=
         (if keeps_local_columns f then e_content_state f else e_content_state excluded),
       e_remote_version := e_remote_version excluded,
       e_mtime := (if keeps_local_columns f then e_mtime f else e_mtime excluded),
       e_size := (if keeps_local_columns f then e_size f else e_size excluded),
       e_cache_path := (if keeps_local_columns f then e_cache_path f else e_cache_path excluded),
       e_last_remote_check_at := e_last_remote_check_at excluded,
       e_remote_deleted := False,
       e_last_error := (if e_sync_state f = QueuedDelete then e_last_error f else None)\<rparr>"

text \<open>\<open>INSERT ... ON CONFLICT(path) DO UPDATE\<close>: the conflict target is checked first.\<close>

definition upsert_file :: "stored_entry \<Rightarrow> unit dbm" where
  "upsert_file excluded d =
     (if e_path excluded \<in> e_path ` set (files d)
          then (Inr (), d\<lparr>files := update_where (\<lambda>f. e_path f = e_path excluded)
                            (excluded_update excluded) (files d)\<rparr>)
          else insert_file excluded d)"

definition ensure_remote_row :: "env \<Rightarrow> resource_entry \<Rightarrow> sync_state \<Rightarrow> unit dbm" where
  "ensure_remote_row ev remote st =
     and_then (query_entry_by_path (r_path remote)) (\<lambda>existing.
     and_then (case existing of Some e \<Rightarrow> ret (e_file_id e) | None \<Rightarrow> new_id ev ''remote'') (\<lambda>fid.
     upsert_file (remote_row ev remote st existing fid)))"

definition next_conflict_path :: "string \<Rightarrow> string dbm" where
  "next_conflict_path original_path =
     (let parent = (case parent_path_of original_path of None \<Rightarrow> ROOT_PATH | Some p \<Rightarrow> p) in
      and_then (query_children parent) (\<lambda>children.
      and_then (ok_or (Panic ''attempt to add with overflow'')
        (next_conflict_name (name_of original_path) (\<lambda>n. n \<in> e_name ` set children))) (\<lambda>name.
      ret (join_remote_path parent name))))"

definition apply_conflict_locked ::
    "env \<Rightarrow> stored_entry \<Rightarrow> string option \<Rightarrow> string option \<Rightarrow> resource_entry option \<Rightarrow> unit dbm" where
  "apply_conflict_locked ev entry base_version current_version remote =
     and_then (next_conflict_path (e_path entry)) (\<lambda>conflict_path.
     and_then (rename_subtree (e_path entry) conflict_path
        (case parent_path_of conflict_path of None \<Rightarrow> ROOT_PATH | Some p \<Rightarrow> p)
        (name_of conflict_path) (now ev)) (\<lambda>_.
     and_then (update_file (e_file_id entry)
        (\<lambda>e. e\<lparr>e_sync_state := QueuedUpload, e_remote_version := None,
               e_remote_deleted := False, e_last_error := Some ''conflict''\<rparr>)) (\<lambda>_.
     and_then (delete_ops (\<lambda>q. q_file_id q = e_file_id entry \<and> q_op_status q \<noteq> Done)) (\<lambda>_.
     and_then (upsert_operation ev (e_file_id entry) Upload [(''path'', conflict_path)] False False) (\<lambda>_.
     and_then (new_id ev ''conflict'') (\<lambda>cid.
     and_then (insert_conflict
        \<lparr>c_conflict_id = cid, c_file_id = e_file_id entry, c_original_path = e_path entry,
         c_conflict_path = conflict_path, c_created_at = now ev,
         c_base_remote_version = base_version, c_current_remote_version = current_version,
         c_origin_device = None\<rparr>) (\<lambda>_.
     case remote of
       Some r \<Rightarrow> ensure_remote_row ev r Synced
     | None \<Rightarrow> ret ())))))))"

end
