(* ===== verification/Service.thy ===== *)
theory Service
  imports Database
begin

text \<open>
  The state of \<open>SyncService\<close> (src/src/sync.rs) and its local operations: what a FUSE
  callback or a D-Bus method does without the network, plus the lazy hydration of a file.

  The state holds the database connection, the local files (the cache and the staging
  files), the status counter, and the state \<open>'r\<close> of the remote side.  The trait
  \<open>RemoteSyncClient\<close> is the record \<open>client\<close>: one action on \<open>'r\<close> per method.  The
  remote side may change between and during calls in any way.

  A fault of the local file system is a predicate on paths (\<open>write_fault\<close>): a write or a
  removal there fails with the given error and leaves the file as it was.
\<close>

section \<open>State\<close>

type_synonym bytes = "8 word list"

record disk =
  contents :: "string \<Rightarrow> bytes option"
  write_fault :: "string \<Rightarrow> io_error option"

record 'r service =
  sdb :: db
  disk :: disk
  status_version :: "64 word"
  stop :: bool
  worker_handles :: nat
  remote :: 'r

record 'r client =
  fetch_resource_metadata :: "string \<Rightarrow> ('r, yandex_error, resource_entry) action"
  list_directory :: "string \<Rightarrow> ('r, yandex_error, resource_entry list) action"
  create_directory :: "string \<Rightarrow> ('r, yandex_error, unit) action"
  delete_resource :: "string \<Rightarrow> bool \<Rightarrow> ('r, yandex_error, unit) action"
  move_resource :: "string \<Rightarrow> string \<Rightarrow> bool \<Rightarrow> ('r, yandex_error, unit) action"
  resolve_download_url :: "string \<Rightarrow> ('r, yandex_error, string) action"
  resolve_upload_url :: "string \<Rightarrow> bool \<Rightarrow> ('r, yandex_error, string) action"
  upload_file :: "string \<Rightarrow> io_error + bytes \<Rightarrow> ('r, yandex_error, unit) action"
  download_file :: "string \<Rightarrow> ('r, yandex_error, bytes) action"

type_synonym ('r, 'a) sync = "('r service, sync_error, 'a) action"

definition on_db :: "'a dbm \<Rightarrow> ('r, 'a) sync" where
  "on_db m = on_part sdb (\<lambda>d s. s\<lparr>sdb := d\<rparr>) m"

definition on_disk :: "(disk, sync_error, 'a) action \<Rightarrow> ('r, 'a) sync" where
  "on_disk m = on_part disk (\<lambda>d s. s\<lparr>disk := d\<rparr>) m"

text \<open>A remote call hands its result to a \<open>match\<close>; \<open>or_remote\<close> is \<open>?\<close> on it.\<close>

definition call :: "('r, yandex_error, 'a) action \<Rightarrow> ('r, yandex_error + 'a) sync" where
  "call m s = (Inr (fst (m (remote s))), s\<lparr>remote := snd (m (remote s))\<rparr>)"

definition or_remote :: "yandex_error + 'a \<Rightarrow> ('r, 'a) sync" where
  "or_remote r = (case r of Inl err \<Rightarrow> throw (Remote err) | Inr x \<Rightarrow> ret x)"

text \<open>A transaction: the tables are restored when the body fails, the other state is not.\<close>

definition transaction :: "('r, 'a) sync \<Rightarrow> ('r, 'a) sync" where
  "transaction m s = (case m s of
       (Inl err, t) \<Rightarrow> (Inl err, t\<lparr>sdb := (sdb s)\<lparr>rng_pos := rng_pos (sdb t)\<rparr>\<rparr>)
     | (Inr x, t) \<Rightarrow> (Inr x, t))"

section \<open>Local files\<close>

definition fs_open :: "string \<Rightarrow> disk \<Rightarrow> io_error + bytes" where
  "fs_open p k = (case contents k p of None \<Rightarrow> Inl IoNotFound | Some bs \<Rightarrow> Inr bs)"

definition io_result :: "io_error + 'a \<Rightarrow> sync_error + 'a" where
  "io_result r = (case r of Inl err \<Rightarrow> Inl (sync_error.Io err) | Inr x \<Rightarrow> Inr x)"

definition fs_read :: "string \<Rightarrow> (disk, sync_error, bytes) action" where
  "fs_read p k = (io_result (fs_open p k), k)"

definition fs_write :: "string \<Rightarrow> bytes \<Rightarrow> (disk, sync_error, unit) action" where
  "fs_write p bs k =
     (case write_fault k p of
            Some err \<Rightarrow> (Inl (sync_error.Io err), k)
          | None \<Rightarrow> (Inr (), k\<lparr>contents := (contents k)(p := Some bs)\<rparr>))"

definition fs_create_dir_all :: "string \<Rightarrow> (disk, sync_error, unit) action" where
  "fs_create_dir_all p k =
     (case write_fault k p of Some err \<Rightarrow> (Inl (sync_error.Io err), k) | None \<Rightarrow> (Inr (), k))"

definition fs_copy :: "string \<Rightarrow> string \<Rightarrow> (disk, sync_error, unit) action" where
  "fs_copy source target = and_then (fs_read source) (fs_write target)"

definition fs_len :: "string \<Rightarrow> (disk, sync_error, nat) action" where
  "fs_len p = and_then (fs_read p) (\<lambda>bs. ret (length bs))"

text \<open>\<open>let _ = fs::remove_file(p)\<close>: the result is ignored.\<close>

definition fs_remove :: "string \<Rightarrow> (disk, sync_error, unit) action" where
  "fs_remove p k =
     (case write_fault k p of
            Some _ \<Rightarrow> (Inr (), k)
          | None \<Rightarrow> (Inr (), k\<lparr>contents := (contents k)(p := None)\<rparr>))"

definition create_parent_dir :: "string \<Rightarrow> (disk, sync_error, unit) action" where
  "create_parent_dir p =
     (case rsplit_once (CHR ''/'') p of None \<Rightarrow> ret () | Some (dir, _) \<Rightarrow> fs_create_dir_all dir)"

definition remove_cached :: "string option \<Rightarrow> ('r, unit) sync" where
  "remove_cached p = (case p of None \<Rightarrow> ret () | Some cache_path \<Rightarrow> on_disk (fs_remove cache_path))"

section \<open>Small operations\<close>

definition cache_path_for :: "string \<Rightarrow> string \<Rightarrow> string" where
  "cache_path_for dir file_id = dir @ ''/'' @ file_id @ ''.bin''"

definition bump_status_version :: "('r, unit) sync" where
  "bump_status_version = modify (\<lambda>s. s\<lparr>status_version := status_version s + 1\<rparr>)"

definition get_entry :: "string \<Rightarrow> ('r, stored_entry option) sync" where
  "get_entry path = on_db (query_entry_by_path path)"

definition entry_by_file_id :: "string \<Rightarrow> ('r, stored_entry option) sync" where
  "entry_by_file_id fid = on_db (query_entry_by_file_id fid)"

definition list_children :: "string \<Rightarrow> ('r, stored_entry list) sync" where
  "list_children parent = on_db (query_children parent)"

definition expect_entry :: "string \<Rightarrow> ('r, stored_entry) sync" where
  "expect_entry path = and_then (get_entry path) (ok_or sync_error.NotFound)"

definition request_refresh :: "env \<Rightarrow> string \<Rightarrow> ('r, unit) sync" where
  "request_refresh ev path =
     and_then (get_entry ROOT_PATH) (\<lambda>first.
     and_then (case first of Some e \<Rightarrow> ret e | None \<Rightarrow> expect_entry ROOT_PATH) (\<lambda>entry.
     and_then (on_db (upsert_operation ev (e_file_id entry) RefreshTree
                 [(''path'', ROOT_PATH)] False False)) (\<lambda>_.
     bump_status_version)))"

definition ensure_root_entry :: "env \<Rightarrow> ('r, unit) sync" where
  "ensure_root_entry ev =
     and_then (get_entry ROOT_PATH) (\<lambda>existing.
     if existing \<noteq> None then ret ()
     else and_then (on_db (insert_file
            \<lparr>e_file_id = ''root'', e_path = ROOT_PATH, e_parent_path = None, e_name = ROOT_PATH,
             e_kind = Directory, e_sync_state = sync_state.Placeholder,
             e_content_state = content_state.Placeholder, e_remote_version = None,
             e_local_version = 0, e_mtime = Some (now ev), e_size = 0, e_cache_path = None,
             e_last_remote_check_at = None, e_remote_deleted = False, e_last_error = None\<rparr>)) (\<lambda>_.
          bump_status_version))"

definition recover_expired_leases :: "env \<Rightarrow> ('r, unit) sync" where
  "recover_expired_leases ev =
     on_db (update_ops
       (\<lambda>q. q_op_status q = Leased \<and>
            (case q_lease_expires_at q of None \<Rightarrow> 0 | Some t \<Rightarrow> t) \<le> now ev)
       (\<lambda>q. q\<lparr>q_op_status := Pending, q_worker_id := None, q_lease_expires_at := None,
              q_updated_at := now ev\<rparr>))"

text \<open>\<open>open_at\<close>, after the connection is open: a fresh or an existing database.\<close>

definition open_at :: "env \<Rightarrow> ('r, unit) sync" where
  "open_at ev =
     and_then (on_disk (fs_create_dir_all (cache_dir ev))) (\<lambda>_.
     and_then (on_db run_migrations) (\<lambda>_.
     and_then (modify (\<lambda>s. s\<lparr>stop := False, status_version := 1, worker_handles := 0\<rparr>)) (\<lambda>_.
     and_then (ensure_root_entry ev) (\<lambda>_.
     and_then (recover_expired_leases ev) (\<lambda>_.
     request_refresh ev ROOT_PATH)))))"

text \<open>
  \<open>open_default\<close>: the state directory below \<open>XDG_STATE_HOME\<close>, \<open>HOME\<close> or the
  directory of temporary files, in this order.  A variable that is set but empty counts as
  set.  \<open>path_join\<close> is \<open>PathBuf::join\<close> with a relative path.
\<close>

definition path_join :: "string \<Rightarrow> string \<Rightarrow> string" where
  "path_join base rel =
     (if base = [] \<or> List.last base = CHR ''/'' then base @ rel else base @ ''/'' @ rel)"

definition state_home :: "string option \<Rightarrow> string option \<Rightarrow> string \<Rightarrow> string" where
  "state_home xdg_state_home home temp_dir =
     (case xdg_state_home of
        Some dir \<Rightarrow> dir
      | None \<Rightarrow>
          (case home of
             Some dir \<Rightarrow> path_join dir ''.local/state''
           | None \<Rightarrow> path_join temp_dir ''discohack-daemon-state''))"

definition open_default :: "string option \<Rightarrow> string option \<Rightarrow> string \<Rightarrow> env \<Rightarrow> ('r, unit) sync" where
  "open_default xdg_state_home home temp_dir ev =
     (let root_dir = path_join (state_home xdg_state_home home temp_dir) ''discohack-daemon'' in
      open_at (ev\<lparr>cache_dir := path_join root_dir ''cache''\<rparr>))"

text \<open>\<open>start_background\<close> and \<open>shutdown\<close>: the two worker threads and the stop flag.\<close>

definition start_background :: "('r, unit) sync" where
  "start_background =
     modify (\<lambda>s. if worker_handles s \<noteq> 0 then s else s\<lparr>worker_handles := 2\<rparr>)"

definition shutdown :: "('r, unit) sync" where
  "shutdown = modify (\<lambda>s. s\<lparr>stop := True, worker_handles := 0\<rparr>)"

section \<open>Creating, writing, deleting, renaming\<close>

definition new_local_row ::
    "env \<Rightarrow> string \<Rightarrow> string \<Rightarrow> string \<Rightarrow> string \<Rightarrow> node_kind \<Rightarrow> content_state \<Rightarrow> string option
     \<Rightarrow> stored_entry" where
  "new_local_row ev fid path parent_path name kind content cache_path =
     \<lparr>e_file_id = fid, e_path = path, e_parent_path = Some parent_path, e_name = name,
      e_kind = kind, e_sync_state = QueuedUpload, e_content_state = content,
      e_remote_version = None, e_local_version = 1, e_mtime = Some (now ev), e_size = 0,
      e_cache_path = cache_path, e_last_remote_check_at = None, e_remote_deleted = False,
      e_last_error = None\<rparr>"

definition create_file :: "env \<Rightarrow> string \<Rightarrow> string \<Rightarrow> ('r, stored_entry) sync" where
  "create_file ev parent_path name =
     and_then (expect_entry parent_path) (\<lambda>parent.
     if e_kind parent \<noteq> Directory then throw NotDir else
     (let path = join_remote_path parent_path name in
      and_then (get_entry path) (\<lambda>existing.
      if existing \<noteq> None then throw AlreadyExists else
      and_then (on_db (new_id ev ''file'')) (\<lambda>file_id.
      let cache_path = cache_path_for (cache_dir ev) file_id in
      and_then (on_disk (create_parent_dir cache_path)) (\<lambda>_.
      and_then (on_disk (fs_write cache_path [])) (\<lambda>_.
      and_then (on_db (insert_file
        (new_local_row ev file_id path parent_path name File Hydrated (Some cache_path)))) (\<lambda>_.
      and_then (on_db (upsert_operation ev file_id Upload [(''path'', path)] False False)) (\<lambda>_.
      and_then bump_status_version (\<lambda>_.
      expect_entry (join_remote_path parent_path name))))))))))"

definition mkdir :: "env \<Rightarrow> string \<Rightarrow> string \<Rightarrow> ('r, stored_entry) sync" where
  "mkdir ev parent_path name =
     and_then (expect_entry parent_path) (\<lambda>parent.
     if e_kind parent \<noteq> Directory then throw NotDir else
     (let path = join_remote_path parent_path name in
      and_then (get_entry path) (\<lambda>existing.
      if existing \<noteq> None then throw AlreadyExists else
      and_then (on_db (new_id ev ''dir'')) (\<lambda>file_id.
      and_then (on_db (insert_file
        (new_local_row ev file_id path parent_path name Directory content_state.Placeholder None))) (\<lambda>_.
      and_then (on_db (upsert_operation ev file_id Mkdir [(''path'', path)] False False)) (\<lambda>_.
      and_then bump_status_version (\<lambda>_.
      expect_entry (join_remote_path parent_path name))))))))"

definition apply_local_file_from_staging :: "env \<Rightarrow> string \<Rightarrow> string \<Rightarrow> ('r, stored_entry) sync" where
  "apply_local_file_from_staging ev path staging_path =
     and_then (expect_entry path) (\<lambda>entry.
     if e_kind entry \<noteq> File then throw IsDir else
     (let cache_path = (case e_cache_path entry of Some p \<Rightarrow> p
                        | None \<Rightarrow> cache_path_for (cache_dir ev) (e_file_id entry)) in
      and_then (on_disk (create_parent_dir cache_path)) (\<lambda>_.
      and_then (on_disk (fs_copy staging_path cache_path)) (\<lambda>_.
      and_then (on_disk (fs_len cache_path)) (\<lambda>len.
      and_then (on_db (update_file (e_file_id entry)
        (\<lambda>e. e\<lparr>e_sync_state := QueuedUpload, e_content_state := Hydrated,
               e_local_version := e_local_version e + 1, e_mtime := Some (now ev),
               e_size := of_nat len, e_cache_path := Some cache_path,
               e_remote_deleted := False, e_last_error := None\<rparr>))) (\<lambda>_.
      and_then (on_db (upsert_operation ev (e_file_id entry) Upload
                  [(''path'', path)] False False)) (\<lambda>_.
      and_then bump_status_version (\<lambda>_.
      expect_entry path))))))))"

definition unlink :: "env \<Rightarrow> string \<Rightarrow> bool \<Rightarrow> ('r, unit) sync" where
  "unlink ev path expect_dir =
     and_then (expect_entry path) (\<lambda>entry.
     if expect_dir \<and> e_kind entry = File then throw NotDir
     else if \<not> expect_dir \<and> e_kind entry = Directory then throw IsDir
     else
     and_then (if e_kind entry = Directory then list_children path else ret []) (\<lambda>children.
     if children \<noteq> [] then throw DirectoryNotEmpty else
     and_then
       (if e_remote_version entry = None
        then
          and_then (on_db (delete_ops (\<lambda>q. q_file_id q = e_file_id entry \<and> q_op_status q \<noteq> Done))) (\<lambda>_.
          and_then (on_db (delete_file (e_file_id entry))) (\<lambda>_.
          remove_cached (e_cache_path entry)))
        else
          and_then (on_db (update_file (e_file_id entry)
            (\<lambda>e. e\<lparr>e_sync_state := QueuedDelete, e_last_error := None\<rparr>))) (\<lambda>_.
          and_then (on_db (upsert_operation ev (e_file_id entry) Delete
                      [(''path'', path)] True True)) (\<lambda>_.
          remove_cached (e_cache_path entry)))) (\<lambda>_.
     bump_status_version)))"

definition rename :: "env \<Rightarrow> string \<Rightarrow> string \<Rightarrow> ('r, unit) sync" where
  "rename ev from to =
     and_then (expect_entry from) (\<lambda>entry.
     and_then (get_entry to) (\<lambda>existing.
     if existing \<noteq> None then throw AlreadyExists else
     and_then (ok_or sync_error.NotFound (parent_path_of to)) (\<lambda>new_parent.
     and_then (expect_entry new_parent) (\<lambda>parent.
     if e_kind parent \<noteq> Directory then throw NotDir else
     and_then (on_db (rename_subtree from to new_parent (name_of to) (now ev))) (\<lambda>_.
     and_then
       (if e_remote_version entry \<noteq> None
        then on_db (upsert_operation ev (e_file_id entry) Rename
               [(''old_path'', from), (''new_path'', to)] False False)
        else ret ()) (\<lambda>_.
     bump_status_version))))))"

section \<open>Reading\<close>

definition STALE_REFRESH_INTERVAL_SECS :: int where
  "STALE_REFRESH_INTERVAL_SECS = 30"

definition maybe_schedule_stale_refresh :: "env \<Rightarrow> stored_entry \<Rightarrow> ('r, unit) sync" where
  "maybe_schedule_stale_refresh ev entry =
     (if has_unsynced_local_changes entry \<or> e_sync_state entry = Downloading then ret ()
      else
        (let last_check = (case e_last_remote_check_at entry of None \<Rightarrow> 0 | Some t \<Rightarrow> t) in
         if now ev - last_check < STALE_REFRESH_INTERVAL_SECS then ret ()
         else and_then (attempt (request_refresh ev (e_path entry))) (\<lambda>_. ret ())))"

definition hydrate :: "env \<Rightarrow> 'r client \<Rightarrow> string \<Rightarrow> stored_entry \<Rightarrow> ('r, stored_entry) sync" where
  "hydrate ev cl path entry =
     and_then (call (resolve_download_url cl path)) (\<lambda>u.
     and_then (or_remote u) (\<lambda>download_url.
     and_then (call (download_file cl download_url)) (\<lambda>b.
     and_then (or_remote b) (\<lambda>bs.
     (let cache_path = (case e_cache_path entry of Some p \<Rightarrow> p
                        | None \<Rightarrow> cache_path_for (cache_dir ev) (e_file_id entry)) in
      and_then (on_disk (create_parent_dir cache_path)) (\<lambda>_.
      and_then (on_disk (fs_write cache_path bs)) (\<lambda>_.
      and_then (on_db (update_file (e_file_id entry)
        (\<lambda>e. e\<lparr>e_content_state := Hydrated, e_cache_path := Some cache_path,
               e_size := of_nat (length bs), e_mtime := Some (now ev),
               e_sync_state := (if e_sync_state e = sync_state.Placeholder then Synced
                                else e_sync_state e)\<rparr>))) (\<lambda>_.
      and_then bump_status_version (\<lambda>_.
      expect_entry path)))))))))"

definition ensure_hydrated :: "env \<Rightarrow> 'r client \<Rightarrow> string \<Rightarrow> ('r, stored_entry) sync" where
  "ensure_hydrated ev cl path =
     and_then (expect_entry path) (\<lambda>entry.
     if e_kind entry \<noteq> File then throw IsDir else
     and_then (gets (\<lambda>s. case e_cache_path entry of None \<Rightarrow> False
                         | Some p \<Rightarrow> contents (disk s) p \<noteq> None)) (\<lambda>cached.
     if cached
     then and_then (maybe_schedule_stale_refresh ev entry) (\<lambda>_. ret entry)
     else hydrate ev cl path entry))"

definition read_range :: "env \<Rightarrow> 'r client \<Rightarrow> string \<Rightarrow> 64 word \<Rightarrow> 32 word \<Rightarrow> ('r, bytes) sync" where
  "read_range ev cl path offset count =
     and_then (ensure_hydrated ev cl path) (\<lambda>entry.
     and_then (ok_or sync_error.NotFound (e_cache_path entry)) (\<lambda>cache_path.
     if count = 0 then ret [] else
     and_then (on_disk (fs_read cache_path)) (\<lambda>data.
     (let start = unat offset in
      if start \<ge> length data then ret []
      else (let stop_at = min (start + unat count) (length data) in
            ret (take (stop_at - start) (drop start data)))))))"

definition load_local_bytes :: "env \<Rightarrow> 'r client \<Rightarrow> string \<Rightarrow> ('r, bytes) sync" where
  "load_local_bytes ev cl path =
     and_then (ensure_hydrated ev cl path) (\<lambda>entry.
     and_then (ok_or sync_error.NotFound (e_cache_path entry)) (\<lambda>cache_path.
     on_disk (fs_read cache_path)))"

end
