(* ===== verification/Worker.thy ===== *)
theory Worker
  imports Service
begin

text \<open>
  The background worker of \<open>SyncService\<close> (src/src/sync.rs): leasing the next operation of
  the queue and processing it against the remote side, and the reconciliation of the local
  tables with a listing of the remote tree.

  \<open>process_upload\<close> is split where the code releases the database lock:
  \<open>upload_checked\<close> is the part from the version comparison on.  A remote failure that
  the code hands to \<open>retry_or_fail\<close> is a normal end of the processing; one that it
  propagates with \<open>?\<close> leaves the operation leased until the lease expires.

  The recursion over the remote tree takes fuel, since a remote side may answer with an
  unbounded tree; \<open>None\<close> is a traversal that the fuel did not suffice for.
\<close>

definition LEASE_TIMEOUT_SECS :: int where
  "LEASE_TIMEOUT_SECS = 30"

section \<open>Leasing\<close>

definition leasable :: "env \<Rightarrow> queue_row \<Rightarrow> bool" where
  "leasable ev q \<longleftrightarrow>
     q_op_status q \<in> {Pending, RetryableError} \<and>
     (case q_next_retry_at q of None \<Rightarrow> True | Some t \<Rightarrow> t \<le> now ev)"

definition lease_next_operation :: "env \<Rightarrow> ('r, queued_operation option) sync" where
  "lease_next_operation ev =
     and_then (on_db (new_id ev ''worker'')) (\<lambda>worker_id.
     and_then (on_db (gets (first_op (leasable ev)))) (\<lambda>found.
     case map_option row_to_job found of
       None \<Rightarrow> ret None
     | Some job \<Rightarrow>
         and_then (on_db (update_ops (\<lambda>q. q_id q = j_id job)
           (\<lambda>q. q\<lparr>q_op_status := Leased, q_worker_id := Some worker_id,
                  q_lease_expires_at := Some (now ev + LEASE_TIMEOUT_SECS),
                  q_updated_at := now ev\<rparr>))) (\<lambda>_.
         ret (Some (job\<lparr>j_op_status := Leased\<rparr>)))))"

section \<open>Ending an operation\<close>

definition set_file_state :: "string \<Rightarrow> sync_state \<Rightarrow> string option \<Rightarrow> ('r, unit) sync" where
  "set_file_state fid st err =
     and_then (on_db (update_file fid (\<lambda>e. e\<lparr>e_sync_state := st, e_last_error := err\<rparr>))) (\<lambda>_.
     bump_status_version)"

definition set_op_status :: "env \<Rightarrow> int \<Rightarrow> queue_op_status \<Rightarrow> unit dbm" where
  "set_op_status ev jid status =
     update_ops (\<lambda>q. q_id q = jid)
       (\<lambda>q. q\<lparr>q_op_status := status, q_worker_id := None, q_lease_expires_at := None,
              q_updated_at := now ev\<rparr>)"

definition mark_job_done_locked :: "env \<Rightarrow> int \<Rightarrow> unit dbm" where
  "mark_job_done_locked ev jid = set_op_status ev jid Done"

text \<open>The statements of \<open>finish_job\<close> under the lock, and the whole function.\<close>

definition finish_job_locked :: "env \<Rightarrow> int \<Rightarrow> queue_op_status \<Rightarrow> string option \<Rightarrow> unit dbm" where
  "finish_job_locked ev jid status last_error =
     and_then (set_op_status ev jid status) (\<lambda>_.
     case last_error of
       None \<Rightarrow> ret ()
     | Some err \<Rightarrow>
         and_then (gets (\<lambda>d. find (\<lambda>q. q_id q = jid) (operations_queue d))) (\<lambda>row.
         case row of
           None \<Rightarrow> ret ()
         | Some q \<Rightarrow> update_file (q_file_id q)
             (\<lambda>e. e\<lparr>e_last_error := Some err, e_sync_state := sync_state.Conflict\<rparr>)))"

definition finish_job :: "env \<Rightarrow> int \<Rightarrow> queue_op_status \<Rightarrow> string option \<Rightarrow> ('r, unit) sync" where
  "finish_job ev jid status last_error =
     and_then (on_db (finish_job_locked ev jid status last_error)) (\<lambda>_. bump_status_version)"

definition retryable :: "yandex_error \<Rightarrow> bool" where
  "retryable err \<longleftrightarrow>
     (case err of Unauthorized \<Rightarrow> True | Forbidden \<Rightarrow> True | Http _ \<Rightarrow> True | Status _ _ \<Rightarrow> True
      | _ \<Rightarrow> False)"

definition retry_delay :: "int \<Rightarrow> int" where
  "retry_delay retry_count = 2 ^ nat (min retry_count 5)"

definition retry_or_fail :: "env \<Rightarrow> queued_operation \<Rightarrow> yandex_error \<Rightarrow> ('r, unit) sync" where
  "retry_or_fail ev job err =
     and_then
       (if retryable err
        then on_db (update_ops (\<lambda>q. q_id q = j_id job)
               (\<lambda>q. q\<lparr>q_op_status := RetryableError, q_retry_count := q_retry_count q + 1,
                      q_next_retry_at := Some (now ev + retry_delay (j_retry_count job)),
                      q_worker_id := None, q_lease_expires_at := None,
                      q_updated_at := now ev\<rparr>))
        else on_db (set_op_status ev (j_id job) PermanentError)) (\<lambda>_.
     and_then (on_db (update_file (j_file_id job)
        (\<lambda>e. e\<lparr>e_sync_state := Error, e_last_error := Some (yandex_display ev err)\<rparr>))) (\<lambda>_.
     bump_status_version))"

section \<open>Upload\<close>

definition handle_conflict ::
    "env \<Rightarrow> stored_entry \<Rightarrow> string option \<Rightarrow> resource_entry option \<Rightarrow> ('r, unit) sync" where
  "handle_conflict ev entry current_version remote_resource =
     and_then (transaction (on_db (apply_conflict_locked ev entry (e_remote_version entry)
        current_version remote_resource))) (\<lambda>_.
     bump_status_version)"

definition upload_commit ::
    "env \<Rightarrow> queued_operation \<Rightarrow> stored_entry \<Rightarrow> resource_entry \<Rightarrow> ('r, unit) sync" where
  "upload_commit ev job entry fresh =
     and_then (on_db (update_file (e_file_id entry)
        (\<lambda>e. e\<lparr>e_sync_state := Synced, e_remote_version := r_remote_version fresh,
               e_size := r_size fresh, e_mtime := system_time_to_unix (r_modified fresh),
               e_remote_deleted := False, e_last_error := None,
               e_last_remote_check_at := system_time_to_unix (r_modified fresh)\<rparr>))) (\<lambda>_.
     and_then (on_db (mark_job_done_locked ev (j_id job))) (\<lambda>_.
     bump_status_version))"

definition upload_transfer ::
    "env \<Rightarrow> 'r client \<Rightarrow> queued_operation \<Rightarrow> stored_entry \<Rightarrow> string \<Rightarrow> ('r, unit) sync" where
  "upload_transfer ev cl job entry cache_path =
     and_then (call (resolve_upload_url cl (e_path entry) True)) (\<lambda>u.
     case u of Inl err \<Rightarrow> retry_or_fail ev job err | Inr href \<Rightarrow>
     and_then (gets (\<lambda>s. fs_open cache_path (disk s))) (\<lambda>body.
     and_then (call (upload_file cl href body)) (\<lambda>done.
     case done of Inl err \<Rightarrow> retry_or_fail ev job err | Inr _ \<Rightarrow>
     and_then (call (fetch_resource_metadata cl (e_path entry))) (\<lambda>meta.
     case meta of Inl err \<Rightarrow> retry_or_fail ev job err | Inr fresh \<Rightarrow>
     upload_commit ev job entry fresh))))"

definition upload_checked ::
    "env \<Rightarrow> 'r client \<Rightarrow> queued_operation \<Rightarrow> stored_entry \<Rightarrow> string \<Rightarrow> resource_entry option
     \<Rightarrow> ('r, unit) sync" where
  "upload_checked ev cl job entry cache_path remote_meta =
     (let current_remote_version = Option.bind remote_meta r_remote_version in
      if e_remote_version entry \<noteq> current_remote_version
      then and_then (handle_conflict ev entry current_remote_version remote_meta) (\<lambda>_.
           finish_job ev (j_id job) queue_op_status.Conflict (Some ''remote version conflict''))
      else upload_transfer ev cl job entry cache_path)"

text \<open>The first look at the remote file, and the \<open>match\<close> on what it returned.\<close>

definition upload_probe ::
    "env \<Rightarrow> 'r client \<Rightarrow> queued_operation \<Rightarrow> stored_entry \<Rightarrow> string \<Rightarrow> ('r, unit) sync" where
  "upload_probe ev cl job entry cache_path =
     and_then (call (fetch_resource_metadata cl (e_path entry))) (\<lambda>meta.
     case meta of
       Inr resource \<Rightarrow> upload_checked ev cl job entry cache_path (Some resource)
     | Inl err \<Rightarrow>
         if err = yandex_error.NotFound then upload_checked ev cl job entry cache_path None
         else retry_or_fail ev job err)"

definition process_upload :: "env \<Rightarrow> 'r client \<Rightarrow> queued_operation \<Rightarrow> ('r, unit) sync" where
  "process_upload ev cl job =
     and_then (and_then (entry_by_file_id (j_file_id job)) (ok_or sync_error.NotFound)) (\<lambda>entry.
     if e_sync_state entry = sync_state.Conflict
     then finish_job ev (j_id job) queue_op_status.Conflict (Some ''file is conflicted'')
     else
     and_then (ok_or sync_error.NotFound (e_cache_path entry)) (\<lambda>cache_path.
     and_then (set_file_state (e_file_id entry) Uploading None) (\<lambda>_.
     upload_probe ev cl job entry cache_path)))"

section \<open>Delete, mkdir, rename, download\<close>

text \<open>
  The \<open>match\<close> on the result of a remote change: \<open>Some\<close> of the error that goes to
  \<open>retry_or_fail\<close>.  A resource that is already gone, or a directory that is already
  there, counts as done.
\<close>

definition failure_unless_gone :: "yandex_error + unit \<Rightarrow> yandex_error option" where
  "failure_unless_gone r =
     (case r of Inr _ \<Rightarrow> None | Inl err \<Rightarrow> (case err of yandex_error.NotFound \<Rightarrow> None | _ \<Rightarrow> Some err))"

definition failure_unless_exists :: "yandex_error + unit \<Rightarrow> yandex_error option" where
  "failure_unless_exists r =
     (case r of Inr _ \<Rightarrow> None | Inl err \<Rightarrow> (case err of yandex_error.Conflict _ \<Rightarrow> None | _ \<Rightarrow> Some err))"

definition is_ok :: "'e + 'a \<Rightarrow> bool" where
  "is_ok r = (case r of Inr _ \<Rightarrow> True | Inl _ \<Rightarrow> False)"

definition process_delete :: "env \<Rightarrow> 'r client \<Rightarrow> queued_operation \<Rightarrow> ('r, unit) sync" where
  "process_delete ev cl job =
     (let payload = parse_payload (j_payload job);
          path = (case map_of payload ''path'' of Some p \<Rightarrow> p | None \<Rightarrow> ROOT_PATH) in
      and_then (call (delete_resource cl path True)) (\<lambda>r.
      case failure_unless_gone r of
        Some err \<Rightarrow> retry_or_fail ev job err
      | None \<Rightarrow>
          and_then (on_db (delete_ops (\<lambda>q. q_id q = j_id job))) (\<lambda>_.
          and_then (on_db (delete_file (j_file_id job))) (\<lambda>_.
          bump_status_version))))"

definition commit_remote_version :: "string \<Rightarrow> resource_entry \<Rightarrow> unit dbm" where
  "commit_remote_version fid fresh =
     update_file fid
       (\<lambda>e. e\<lparr>e_sync_state := Synced, e_remote_version := r_remote_version fresh,
              e_mtime := system_time_to_unix (r_modified fresh), e_last_error := None\<rparr>)"

definition process_mkdir :: "env \<Rightarrow> 'r client \<Rightarrow> queued_operation \<Rightarrow> ('r, unit) sync" where
  "process_mkdir ev cl job =
     and_then (and_then (entry_by_file_id (j_file_id job)) (ok_or sync_error.NotFound)) (\<lambda>entry.
     and_then (call (create_directory cl (e_path entry))) (\<lambda>r.
     case failure_unless_exists r of
       Some err \<Rightarrow> retry_or_fail ev job err
     | None \<Rightarrow>
     and_then (call (fetch_resource_metadata cl (e_path entry))) (\<lambda>meta.
     and_then (or_remote meta) (\<lambda>fresh.
     and_then (on_db (commit_remote_version (e_file_id entry) fresh)) (\<lambda>_.
     and_then (on_db (mark_job_done_locked ev (j_id job))) (\<lambda>_.
     bump_status_version))))))"

text \<open>\<open>OptionalRemote\<close>: a missing resource is \<open>None\<close>, not an error.\<close>

definition optional_remote :: "yandex_error + 'a \<Rightarrow> yandex_error + 'a option" where
  "optional_remote r =
     (case r of Inr x \<Rightarrow> Inr (Some x)
      | Inl err \<Rightarrow> if err = yandex_error.NotFound then Inr None else Inl err)"

definition process_rename :: "env \<Rightarrow> 'r client \<Rightarrow> queued_operation \<Rightarrow> ('r, unit) sync" where
  "process_rename ev cl job =
     (let payload = parse_payload (j_payload job) in
      and_then (ok_or sync_error.NotFound (map_of payload ''old_path'')) (\<lambda>old_path.
      and_then (ok_or sync_error.NotFound (map_of payload ''new_path'')) (\<lambda>new_path.
      and_then (call (fetch_resource_metadata cl new_path)) (\<lambda>probe.
      and_then (if is_ok probe then call (delete_resource cl old_path True)
                else call (move_resource cl old_path new_path True)) (\<lambda>r.
      case failure_unless_gone r of
        Some err \<Rightarrow> retry_or_fail ev job err
      | None \<Rightarrow>
      and_then (call (fetch_resource_metadata cl new_path)) (\<lambda>meta.
      and_then (or_remote (optional_remote meta)) (\<lambda>fresh.
      and_then (case fresh of
                  Some f \<Rightarrow> on_db (commit_remote_version (j_file_id job) f)
                | None \<Rightarrow> ret ()) (\<lambda>_.
      and_then (on_db (mark_job_done_locked ev (j_id job))) (\<lambda>_.
      bump_status_version)))))))))"

definition download_commit ::
    "env \<Rightarrow> queued_operation \<Rightarrow> stored_entry \<Rightarrow> bytes \<Rightarrow> ('r, unit) sync" where
  "download_commit ev job entry bs =
     (let cache_path = (case e_cache_path entry of Some p \<Rightarrow> p
                        | None \<Rightarrow> cache_path_for (cache_dir ev) (e_file_id entry)) in
      and_then (on_disk (create_parent_dir cache_path)) (\<lambda>_.
      and_then (on_disk (fs_write cache_path bs)) (\<lambda>_.
      and_then (on_db (update_file (e_file_id entry)
        (\<lambda>e. e\<lparr>e_content_state := Hydrated, e_cache_path := Some cache_path,
               e_size := of_nat (length bs), e_mtime := Some (now ev), e_sync_state := Synced,
               e_last_error := None, e_last_remote_check_at := Some (now ev)\<rparr>))) (\<lambda>_.
      and_then (on_db (mark_job_done_locked ev (j_id job))) (\<lambda>_.
      bump_status_version)))))"

definition process_download :: "env \<Rightarrow> 'r client \<Rightarrow> queued_operation \<Rightarrow> ('r, unit) sync" where
  "process_download ev cl job =
     and_then (and_then (entry_by_file_id (j_file_id job)) (ok_or sync_error.NotFound)) (\<lambda>entry.
     and_then (set_file_state (e_file_id entry) Downloading None) (\<lambda>_.
     and_then (call (resolve_download_url cl (e_path entry))) (\<lambda>u.
     case u of Inl err \<Rightarrow> retry_or_fail ev job err | Inr download_url \<Rightarrow>
     and_then (call (download_file cl download_url)) (\<lambda>b.
     case b of Inl err \<Rightarrow> retry_or_fail ev job err | Inr bs \<Rightarrow>
     download_commit ev job entry bs))))"

section \<open>Refresh\<close>

fun collect_remote_children ::
    "nat \<Rightarrow> 'r client \<Rightarrow> string \<Rightarrow> resource_entry list \<Rightarrow> ('r, resource_entry list option) sync"
and collect_each ::
    "nat \<Rightarrow> 'r client \<Rightarrow> resource_entry list \<Rightarrow> resource_entry list
     \<Rightarrow> ('r, resource_entry list option) sync" where
  "collect_remote_children 0 cl path all = ret None"
| "collect_remote_children (Suc fuel) cl path all =
     and_then (call (list_directory cl path)) (\<lambda>r.
     and_then (or_remote r) (\<lambda>children.
     collect_each fuel cl children all))"
| "collect_each fuel cl [] all = ret (Some all)"
| "collect_each fuel cl (child # children) all =
     (if r_kind child = resource_kind.Directory
      then and_then (collect_remote_children fuel cl (r_path child) (all @ [child])) (\<lambda>r.
           case r of None \<Rightarrow> ret None | Some all' \<Rightarrow> collect_each fuel cl children all')
      else collect_each fuel cl children (all @ [child]))"

definition collect_remote_tree ::
    "nat \<Rightarrow> 'r client \<Rightarrow> string \<Rightarrow> ('r, resource_entry list option) sync" where
  "collect_remote_tree fuel cl root =
     and_then (call (fetch_resource_metadata cl root)) (\<lambda>r.
     and_then (or_remote r) (\<lambda>root_meta.
     if r_kind root_meta = resource_kind.Directory
     then collect_remote_children fuel cl root [root_meta]
     else ret (Some [root_meta])))"

text \<open>The map keyed by path: a later entry replaces an earlier one with the same path.\<close>

fun remote_map :: "resource_entry list \<Rightarrow> resource_entry list" where
  "remote_map [] = []"
| "remote_map (r # rs) =
     (if r_path r \<in> r_path ` set rs then remote_map rs else r # remote_map rs)"

definition reconcile_known ::
    "env \<Rightarrow> stored_entry \<Rightarrow> resource_entry \<Rightarrow> unit dbm" where
  "reconcile_known ev local res =
     (if has_unsynced_local_changes local \<and> e_remote_version local \<noteq> r_remote_version res
      then apply_conflict_locked ev local (e_remote_version local) (r_remote_version res)
             (Some res)
      else if e_remote_version local \<noteq> r_remote_version res \<and> e_cache_path local \<noteq> None
              \<and> r_kind res = resource_kind.File
      then and_then (ensure_remote_row ev res Downloading) (\<lambda>_.
           and_then (query_entry_by_path (r_path res)) (\<lambda>updated.
           case updated of
             Some u \<Rightarrow> upsert_operation ev (e_file_id u) Download
                         [(''path'', r_path res)] False False
           | None \<Rightarrow> ret ()))
      else ensure_remote_row ev res Synced)"

definition reconcile_remote_entry ::
    "env \<Rightarrow> stored_entry list \<Rightarrow> resource_entry \<Rightarrow> unit dbm" where
  "reconcile_remote_entry ev local_entries res =
     (if r_path res = ROOT_PATH then ensure_remote_row ev res Synced
      else case find (\<lambda>e. e_path e = r_path res) local_entries of
        Some local \<Rightarrow> reconcile_known ev local res
      | None \<Rightarrow> ensure_remote_row ev res Synced)"

definition reconcile_missing ::
    "env \<Rightarrow> string set \<Rightarrow> stored_entry \<Rightarrow> ('r, unit) sync" where
  "reconcile_missing ev remote_paths local =
     (if e_path local = ROOT_PATH \<or> e_path local \<in> remote_paths then ret ()
      else if e_sync_state local = QueuedDelete then on_db (delete_file (e_file_id local))
      else and_then (on_db (is_conflict_copy (e_file_id local) (e_path local))) (\<lambda>copy.
        if copy then ret ()
        else if has_unsynced_local_changes local
        then on_db (apply_conflict_locked ev local (e_remote_version local) None None)
        else and_then (on_db (delete_file (e_file_id local))) (\<lambda>_.
             remove_cached (e_cache_path local))))"

definition reconcile_remote_tree :: "env \<Rightarrow> resource_entry list \<Rightarrow> ('r, unit) sync" where
  "reconcile_remote_tree ev remote_entries =
     (let values = hash_order ev (remote_map remote_entries) in
      and_then (on_db (gets files)) (\<lambda>local_entries.
      and_then (transaction (
        and_then (on_db (foreach values (reconcile_remote_entry ev local_entries))) (\<lambda>_.
        foreach local_entries (reconcile_missing ev (r_path ` set values))))) (\<lambda>_.
      bump_status_version)))"

definition process_refresh_tree ::
    "nat \<Rightarrow> env \<Rightarrow> 'r client \<Rightarrow> queued_operation \<Rightarrow> ('r, unit option) sync" where
  "process_refresh_tree fuel ev cl job =
     and_then (collect_remote_tree fuel cl ROOT_PATH) (\<lambda>collected.
     case collected of
       None \<Rightarrow> ret None
     | Some remote_entries \<Rightarrow>
         and_then (reconcile_remote_tree ev remote_entries) (\<lambda>_.
         and_then (on_db (mark_job_done_locked ev (j_id job))) (\<lambda>_.
         and_then bump_status_version (\<lambda>_. ret (Some ())))))"

section \<open>The worker\<close>

definition returns :: "('r, unit) sync \<Rightarrow> ('r, unit option) sync" where
  "returns m = and_then m (\<lambda>_. ret (Some ()))"

definition process_operation ::
    "nat \<Rightarrow> env \<Rightarrow> 'r client \<Rightarrow> queued_operation \<Rightarrow> ('r, unit option) sync" where
  "process_operation fuel ev cl job =
     (case j_op_type job of
        Upload \<Rightarrow> returns (process_upload ev cl job)
      | Delete \<Rightarrow> returns (process_delete ev cl job)
      | Mkdir \<Rightarrow> returns (process_mkdir ev cl job)
      | Rename \<Rightarrow> returns (process_rename ev cl job)
      | Move \<Rightarrow> returns (process_rename ev cl job)
      | RefreshTree \<Rightarrow> process_refresh_tree fuel ev cl job
      | RefreshDir \<Rightarrow> process_refresh_tree fuel ev cl job
      | Download \<Rightarrow> returns (process_download ev cl job)
      | ReconcileRemoteDelete \<Rightarrow> returns (process_delete ev cl job))"

text \<open>
  One round of \<open>worker_loop\<close>: nothing once the stop flag is set; errors of the three
  calls are logged and dropped.  The result is whether the round ran to its end within the
  fuel.  \<open>refresh_round\<close> is one round of \<open>refresh_loop\<close>.
\<close>

definition worker_round :: "nat \<Rightarrow> env \<Rightarrow> 'r client \<Rightarrow> ('r, bool) sync" where
  "worker_round fuel ev cl =
     and_then (gets stop) (\<lambda>stopped.
     if stopped then ret True else
     and_then (attempt (recover_expired_leases ev)) (\<lambda>_.
     and_then (attempt (lease_next_operation ev)) (\<lambda>leased.
     case leased of
       Inr (Some job) \<Rightarrow>
         and_then (attempt (process_operation fuel ev cl job)) (\<lambda>r. ret (r \<noteq> Inr None))
     | _ \<Rightarrow> ret True)))"

definition refresh_round :: "env \<Rightarrow> ('r, unit) sync" where
  "refresh_round ev =
     and_then (gets stop) (\<lambda>stopped.
     if stopped then ret ()
     else and_then (attempt (request_refresh ev ROOT_PATH)) (\<lambda>_. ret ()))"

end
