(* ===== verification/Invariants.thy ===== *)
theory Invariants
  imports Worker
begin

text \<open>
  How an invariant of the database is carried through the service.  The interface
  \<open>db_invariant\<close> lists what the single SQL statements owe to an invariant \<open>I\<close> of the
  tables; its lemmas say that every operation of the service then keeps \<open>I\<close>.
  \<open>worker_invariant\<close> adds the upload job, whose conflict branch depends on the queue, and
  gives the rounds of the worker; \<open>tolerant_invariant\<close> is the simple case in which \<open>I\<close>
  does not look at the synchronisation state, and is a \<open>worker_invariant\<close>.

  The theories \<open>Integrity\<close> and \<open>Calm\<close> interpret the interfaces on the integrity of the
  tables, on the shape of the tree, and on the absence of files marked as conflicted.
\<close>

section \<open>Rows as the program writes them\<close>

text \<open>
  A path column with a separator; the parent and name columns that belong to it; and a
  cache path that is the one of the row's own id.  The name of the root row is whatever the
  remote side calls it.
\<close>

definition consistent_path :: "string \<Rightarrow> string option \<Rightarrow> string \<Rightarrow> bool" where
  "consistent_path path parent name \<longleftrightarrow>
     CHR ''/'' \<in> set path \<and> parent = parent_path_of path \<and>
     (path \<noteq> ROOT_PATH \<longrightarrow> name = name_of path)"

definition canonical_cache :: "string \<Rightarrow> string \<Rightarrow> string option \<Rightarrow> bool" where
  "canonical_cache dir fid cache \<longleftrightarrow> cache = None \<or> cache = Some (cache_path_for dir fid)"

definition good_row :: "string \<Rightarrow> stored_entry \<Rightarrow> bool" where
  "good_row dir e \<longleftrightarrow>
     consistent_path (e_path e) (e_parent_path e) (e_name e) \<and>
     canonical_cache dir (e_file_id e) (e_cache_path e) \<and>
     e_sync_state e \<noteq> sync_state.Conflict"

text \<open>
  An \<open>UPDATE\<close> of the row \<open>fid\<close> that leaves its keys alone, writes no other cache path
  than the row's own, and does not mark it as conflicted.
\<close>

definition quiet_update :: "string \<Rightarrow> string \<Rightarrow> (stored_entry \<Rightarrow> stored_entry) \<Rightarrow> bool" where
  "quiet_update dir fid f \<longleftrightarrow>
     (\<forall>e. e_file_id e = fid \<longrightarrow>
        e_file_id (f e) = fid \<and> e_path (f e) = e_path e \<and>
        e_parent_path (f e) = e_parent_path e \<and> e_name (f e) = e_name e \<and>
        (e_cache_path (f e) = e_cache_path e \<or> e_cache_path (f e) = Some (cache_path_for dir fid)) \<and>
        (e_sync_state (f e) = sync_state.Conflict \<longrightarrow> e_sync_state e = sync_state.Conflict))"

definition op_update :: "(queue_row \<Rightarrow> queue_row) \<Rightarrow> bool" where
  "op_update f \<longleftrightarrow> (\<forall>q. q_id (f q) = q_id q \<and> q_file_id (f q) = q_file_id q)"

definition on_tables :: "(db \<Rightarrow> bool) \<Rightarrow> 'r service \<Rightarrow> bool" where
  "on_tables I s \<longleftrightarrow> I (sdb s)"

text \<open>What the remote side answers.\<close>

definition answers_good :: "(resource_entry \<Rightarrow> bool) \<Rightarrow> 'r client \<Rightarrow> bool" where
  "answers_good good cl \<longleftrightarrow>
     (\<forall>p w r w'. fetch_resource_metadata cl p w = (Inr r, w') \<longrightarrow> good r) \<and>
     (\<forall>p w rs w'. list_directory cl p w = (Inr rs, w') \<longrightarrow> (\<forall>r \<in> set rs. good r))"

definition good_env :: "string \<Rightarrow> env \<Rightarrow> bool" where
  "good_env dir ev \<longleftrightarrow> cache_dir ev = dir \<and> (\<forall>rs. set (hash_order ev rs) \<subseteq> set rs)"

lemma answers_goodD:
  assumes "answers_good good cl"
  shows "fst (fetch_resource_metadata cl p w) = Inr r \<Longrightarrow> good r"
    and "fst (list_directory cl p w) = Inr rs \<Longrightarrow> \<forall>r \<in> set rs. good r"
  using assms unfolding answers_good_def
  by (cases "fetch_resource_metadata cl p w"; cases "list_directory cl p w"; force)+

lemma join_nonempty_not_root: "n \<noteq> [] \<Longrightarrow> join_remote_path p n \<noteq> ROOT_PATH"
proof
  assume n: "n \<noteq> []" and eq: "join_remote_path p n = ROOT_PATH"
  show False
  proof (cases "CHR ''/'' \<in> set n")
    case False
    with n join_not_root eq show False by (simp add: valid_name_def)
  next
    case True
    have "count_list (join_remote_path p n) (CHR ''/'') \<ge> 2"
      using True count_list_0_iff [of n "CHR ''/''"] by (simp add: join_remote_path_split)
    moreover have "count_list ROOT_PATH (CHR ''/'') = 1" by (simp add: ROOT_PATH_def)
    ultimately show False using eq by simp
  qed
qed

lemma join_has_slash: "CHR ''/'' \<in> set (join_remote_path p n)"
  by (simp add: join_remote_path_split)

lemma consistent_join:
  assumes "CHR ''/'' \<in> set p" and "valid_name n"
  shows "consistent_path (join_remote_path p n) (Some p) n"
proof -
  have "valid_dir p" using assms(1) by (auto simp: valid_dir_def)
  with assms show ?thesis
    by (simp add: consistent_path_def join_has_slash parent_path_of_join name_of_join)
qed

lemma next_conflict_name_nonempty: "next_conflict_name name taken = Some r \<Longrightarrow> r \<noteq> []"
  by (auto simp: next_conflict_name_def conflict_candidate_def
      split: prod.splits option.splits dest!: next_conflict_index_Some)

section \<open>Lifting from the database to the service\<close>

lemma keeps_tables_on_db [keeps_rules]: "keeps I m \<Longrightarrow> keeps (on_tables I) (on_db m)"
  by (simp add: keeps_def on_tables_def on_db_def run_simps)

lemma keeps_tables_on_disk [keeps_rules]: "keeps (on_tables I) (on_disk m)"
  by (simp add: keeps_def on_tables_def on_disk_def run_simps)

lemma keeps_tables_call [keeps_rules]: "keeps (on_tables I) (call m)"
  by (simp add: keeps_def on_tables_def call_def)

lemma keeps_tables_modify:
  "(\<And>s. sdb (f s) = sdb s) \<Longrightarrow> keeps (on_tables I) (modify f)"
  by (simp add: keeps_def on_tables_def run_simps)

lemma keeps_tables_bump [keeps_rules]: "keeps (on_tables I) bump_status_version"
  by (simp add: bump_status_version_def keeps_tables_modify)

lemma keeps_or_remote [keeps_rules]: "keeps P (or_remote r)"
  by (cases r) (simp_all add: or_remote_def keeps_rules)

lemma keeps_remove_cached [keeps_rules]: "keeps (on_tables I) (remove_cached p)"
  unfolding remove_cached_def by (intro keeps_rules)

lemma keeps_tables_queries [keeps_rules]:
  "keeps P (query_entry_by_path p)" "keeps P (query_entry_by_file_id i)"
  "keeps P (query_children p)" "keeps P (is_conflict_copy i p)"
  by (simp_all add: query_entry_by_path_def query_entry_by_file_id_def query_children_def
      is_conflict_copy_def keeps_gets)

lemma keeps_tables_get [keeps_rules]:
  "keeps (on_tables I) (get_entry p)" "keeps (on_tables I) (entry_by_file_id i)"
  "keeps (on_tables I) (list_children p)" "keeps (on_tables I) (expect_entry p)"
  unfolding get_entry_def entry_by_file_id_def list_children_def expect_entry_def
  by (intro keeps_rules)+

text \<open>A rule that hands on what the first action returned and from which state.\<close>

lemma keeps_and_then_from:
  assumes "keeps P m" and "\<And>s x t. P s \<Longrightarrow> m s = (Inr x, t) \<Longrightarrow> keeps P (f x)"
  shows "keeps P (and_then m f)"
proof (rule keepsI)
  fix s assume "P s"
  obtain r t where m: "m s = (r, t)" by force
  with \<open>P s\<close> have "P t" using assms(1) keeps_result by metis
  show "P (snd (and_then m f s))"
  proof (cases r)
    case (Inl e)
    with m \<open>P t\<close> show ?thesis by (simp add: and_then_err)
  next
    case (Inr x)
    then have "keeps P (f x)" using assms(2) \<open>P s\<close> m by blast
    with m Inr \<open>P t\<close> show ?thesis by (simp add: and_then_ok keepsD)
  qed
qed

lemma find_path_member: "find_path p d = Some e \<Longrightarrow> e \<in> set (files d) \<and> e_path e = p"
  unfolding find_path_def by (rule find_SomeD)

lemma find_file_id_member: "find_file_id i d = Some e \<Longrightarrow> e \<in> set (files d) \<and> e_file_id e = i"
  unfolding find_file_id_def by (rule find_SomeD)

lemma run_on_db [run_simps]:
  "on_db m s = (fst (m (sdb s)), s\<lparr>sdb := snd (m (sdb s))\<rparr>)"
  by (simp add: on_db_def run_simps)

lemma run_on_disk [run_simps]:
  "on_disk m s = (fst (m (disk s)), s\<lparr>disk := snd (m (disk s))\<rparr>)"
  by (simp add: on_disk_def run_simps)

lemma run_get_entry [run_simps]: "get_entry p s = (Inr (find_path p (sdb s)), s)"
  by (simp add: get_entry_def query_entry_by_path_def run_simps)

lemma run_entry_by_file_id [run_simps]: "entry_by_file_id i s = (Inr (find_file_id i (sdb s)), s)"
  by (simp add: entry_by_file_id_def query_entry_by_file_id_def run_simps)

lemma run_list_children [run_simps]: "list_children p s = (Inr (children_of p (sdb s)), s)"
  by (simp add: list_children_def query_children_def run_simps)

lemma run_expect_entry [run_simps]:
  "expect_entry p s =
    (case find_path p (sdb s) of None \<Rightarrow> Inl sync_error.NotFound | Some e \<Rightarrow> Inr e, s)"
  by (simp add: expect_entry_def run_simps split: option.splits)

lemma run_bump [run_simps]:
  "bump_status_version s = (Inr (), s\<lparr>status_version := status_version s + 1\<rparr>)"
  by (simp add: bump_status_version_def run_simps)

lemma run_transaction [run_simps]:
  "transaction m s =
    (case fst (m s) of
       Inl err \<Rightarrow> (Inl err, (snd (m s))\<lparr>sdb := (sdb s)\<lparr>rng_pos := rng_pos (sdb (snd (m s)))\<rparr>\<rparr>)
     | Inr x \<Rightarrow> (Inr x, snd (m s)))"
  by (simp add: transaction_def split: prod.split sum.split)

lemma expect_entry_Inr:
  "expect_entry p s = (Inr e, t) \<Longrightarrow> t = s \<and> e \<in> set (files (sdb s)) \<and> e_path e = p"
  by (auto simp: run_simps split: option.splits dest: find_path_member)

lemma expect_file_id_Inr:
  "and_then (entry_by_file_id i) (ok_or err) s = (Inr e, t) \<Longrightarrow>
   t = s \<and> e \<in> set (files (sdb s)) \<and> e_file_id e = i"
  by (auto simp: run_simps ok_or_def split: option.splits dest: find_file_id_member)

text \<open>The lease: the smallest eligible id, and the row as it is leased.\<close>

lemma first_op_Some:
  assumes "first_op Q d = Some q"
  shows "q \<in> set (operations_queue d)" and "Q q"
    and "\<And>p. p \<in> set (operations_queue d) \<Longrightarrow> Q p \<Longrightarrow> q_id q \<le> q_id p"
proof -
  let ?s = "sort_key q_id (filter Q (operations_queue d))"
  from assms obtain qs where qs: "?s = q # qs"
    by (auto simp: first_op_def split: list.splits)
  then have "q \<in> set ?s" by simp
  then show "q \<in> set (operations_queue d)" and "Q q" by simp_all
  fix p assume "p \<in> set (operations_queue d)" and "Q p"
  then have "p \<in> set ?s" by simp
  moreover have "sorted (map q_id ?s)" by simp
  ultimately show "q_id q \<le> q_id p" unfolding qs by auto
qed

lemma first_op_None: "first_op Q d = None \<longleftrightarrow> (\<forall>p \<in> set (operations_queue d). \<not> Q p)"
proof -
  have "first_op Q d = None \<longleftrightarrow> sort_key q_id (filter Q (operations_queue d)) = []"
    by (simp add: first_op_def split: list.split)
  also have "\<dots> \<longleftrightarrow> (\<forall>p \<in> set (operations_queue d). \<not> Q p)"
    by (metis (no_types, lifting) filter_empty_conv set_empty set_sort)
  finally show ?thesis .
qed

lemma first_op_cong: "operations_queue d = operations_queue d' \<Longrightarrow> first_op Q d = first_op Q d'"
  by (simp add: first_op_def)

definition leased_row :: "env \<Rightarrow> string \<Rightarrow> queue_row \<Rightarrow> queue_row" where
  "leased_row ev worker q =
     q\<lparr>q_op_status := Leased, q_worker_id := Some worker,
       q_lease_expires_at := Some (now ev + LEASE_TIMEOUT_SECS), q_updated_at := now ev\<rparr>"

lemma run_lease:
  "lease_next_operation ev s =
    (case first_op (leasable ev) (sdb s) of
       None \<Rightarrow> (Inr None, s\<lparr>sdb := snd (new_id ev ''worker'' (sdb s))\<rparr>)
     | Some row \<Rightarrow>
         (Inr (Some ((row_to_job row)\<lparr>j_op_status := Leased\<rparr>)),
          s\<lparr>sdb := (snd (new_id ev ''worker'' (sdb s)))\<lparr>operations_queue :=
            update_where (\<lambda>q. q_id q = q_id row)
              (leased_row ev (''worker-'' @ show_hex16 (rnd ev (rng_pos (sdb s)))))
              (operations_queue (sdb s))\<rparr>\<rparr>))"
proof -
  have "first_op (leasable ev) ((sdb s)\<lparr>rng_pos := n\<rparr>) = first_op (leasable ev) (sdb s)" for n
    by (rule first_op_cong) simp
  then show ?thesis
    by (cases "first_op (leasable ev) (sdb s)")
       (simp_all add: lease_next_operation_def new_id_def run_simps update_ops_def row_to_job_def
         leased_row_def [abs_def])
qed

text \<open>What \<open>next_conflict_path\<close> computes.\<close>

definition conflict_parent :: "string \<Rightarrow> string" where
  "conflict_parent path = (case parent_path_of path of None \<Rightarrow> ROOT_PATH | Some p \<Rightarrow> p)"

definition conflict_name :: "string \<Rightarrow> db \<Rightarrow> string option" where
  "conflict_name path d =
     next_conflict_name (name_of path) (\<lambda>n. n \<in> e_name ` set (children_of (conflict_parent path) d))"

lemma run_next_conflict_path [run_simps]:
  "next_conflict_path path d =
    (case conflict_name path d of
       None \<Rightarrow> Inl (Panic ''attempt to add with overflow'')
     | Some n \<Rightarrow> Inr (join_remote_path (conflict_parent path) n), d)"
proof -
  have "next_conflict_path path d =
      and_then (ok_or (Panic ''attempt to add with overflow'') (conflict_name path d))
        (\<lambda>n. ret (join_remote_path (conflict_parent path) n)) d"
    unfolding next_conflict_path_def Let_def conflict_parent_def [symmetric] query_children_def
      conflict_name_def
    by (subst run_and_then) (simp only: run_gets fst_conv snd_conv sum.case)
  then show ?thesis by (cases "conflict_name path d") (simp_all add: run_simps)
qed

lemma next_conflict_path_parent:
  assumes "next_conflict_path p d = (Inr path, d')"
  shows "parent_path_of path \<noteq> None"
proof -
  from assms obtain n where name: "conflict_name p d = Some n"
    and path: "path = join_remote_path (conflict_parent p) n"
    unfolding run_next_conflict_path by (cases "conflict_name p d") simp_all
  have "n \<noteq> []" using name unfolding conflict_name_def by (rule next_conflict_name_nonempty)
  then have "path \<noteq> ROOT_PATH" unfolding path by (rule join_nonempty_not_root)
  moreover have "CHR ''/'' \<in> set path" unfolding path by (rule join_has_slash)
  ultimately show ?thesis by (simp add: parent_path_of_None)
qed

section \<open>The interface of a database invariant\<close>

locale db_invariant =
  fixes dir :: string and I :: "db \<Rightarrow> bool" and good_res :: "resource_entry \<Rightarrow> bool"
  assumes cache: "I d \<Longrightarrow> e \<in> set (files d) \<Longrightarrow> canonical_cache dir (e_file_id e) (e_cache_path e)"
    and slash: "I d \<Longrightarrow> e \<in> set (files d) \<Longrightarrow> CHR ''/'' \<in> set (e_path e)"
    and bookkeeping: "I (d\<lparr>rng_pos := n\<rparr>) = I d" "I (d\<lparr>user_version := v\<rparr>) = I d"
    and keep_insert: "good_row dir e \<Longrightarrow> keeps I (insert_file e)"
    and keep_update: "quiet_update dir fid f \<Longrightarrow> keeps I (update_file fid f)"
    and keep_path: "consistent_path path parent name \<Longrightarrow>
      keeps I (update_file_path fid path parent name t)"
    and keep_delete_file: "keeps I (delete_file fid)"
    and keep_insert_op: "keeps I (insert_op fid op payload t)"
    and keep_update_ops: "op_update g \<Longrightarrow> keeps I (update_ops Q g)"
    and keep_delete_ops: "keeps I (delete_ops Q)"
    and keep_insert_conflict: "keeps I (insert_conflict c)"
    and keep_remote_row: "good_res r \<Longrightarrow> cache_dir ev = dir \<Longrightarrow> st \<noteq> sync_state.Conflict \<Longrightarrow>
      keeps I (ensure_remote_row ev r st)"
begin

lemmas keep_statements = keep_insert keep_update keep_path keep_delete_file keep_insert_op
  keep_update_ops keep_delete_ops keep_insert_conflict keep_remote_row

lemma keep_new_id: "keeps I (new_id ev pre)"
  by (simp add: keeps_def new_id_def bookkeeping)

lemma keep_transaction: "keeps (on_tables I) m \<Longrightarrow> keeps (on_tables I) (transaction m)"
  by (auto simp: keeps_def transaction_def on_tables_def bookkeeping split: prod.splits sum.splits)

lemma keep_upsert_operation: "keeps I (upsert_operation ev fid op payload ru ra)"
  unfolding upsert_operation_def
  by (intro keeps_rules keep_statements) (simp add: op_update_def)

lemma keep_rename_subtree:
  assumes "parent_path_of to = Some parent"
  shows "keeps I (rename_subtree from to parent (name_of to) t)"
proof -
  have slash: "CHR ''/'' \<in> set to"
    using assms parent_path_of_None [of to] by auto
  have "consistent_path path p n"
    if "rename_target from to parent (name_of to) old = (path, p, n)" for old path p n
    using that assms slash by (auto simp: rename_target_def consistent_path_def Let_def)
  then show ?thesis unfolding rename_subtree_def
    by (intro keeps_rules keep_statements) blast
qed

lemma keep_apply_conflict:
  assumes dir: "cache_dir ev = dir" and res: "\<And>r. found = Some r \<Longrightarrow> good_res r"
  shows "keeps I (apply_conflict_locked ev entry base current found)"
proof -
  have rename: "keeps I (rename_subtree source path
      (case parent_path_of path of None \<Rightarrow> ROOT_PATH | Some p \<Rightarrow> p) (name_of path) t)"
    if "parent_path_of path \<noteq> None" for source path t
    using that by (auto intro: keep_rename_subtree)
  have quiet: "quiet_update dir fid (\<lambda>e. e\<lparr>e_sync_state := QueuedUpload, e_remote_version := None,
      e_remote_deleted := False, e_last_error := Some ''conflict''\<rparr>)" for fid
    by (simp add: quiet_update_def)
  show ?thesis
    unfolding apply_conflict_locked_def
  proof (rule keeps_and_then_from)
    show "keeps I (next_conflict_path (e_path entry))"
      unfolding next_conflict_path_def by (intro keeps_rules)
  next
    fix d path d'
    assume "next_conflict_path (e_path entry) d = (Inr path, d')"
    note renamed = rename [OF next_conflict_path_parent [OF this]]
    show "keeps I (and_then (rename_subtree (e_path entry) path
        (case parent_path_of path of None \<Rightarrow> ROOT_PATH | Some p \<Rightarrow> p) (name_of path) (now ev)) (\<lambda>_.
      and_then (update_file (e_file_id entry)
        (\<lambda>e. e\<lparr>e_sync_state := QueuedUpload, e_remote_version := None,
               e_remote_deleted := False, e_last_error := Some ''conflict''\<rparr>)) (\<lambda>_.
      and_then (delete_ops (\<lambda>q. q_file_id q = e_file_id entry \<and> q_op_status q \<noteq> Done)) (\<lambda>_.
      and_then (upsert_operation ev (e_file_id entry) Upload [(''path'', path)] False False) (\<lambda>_.
      and_then (new_id ev ''conflict'') (\<lambda>cid.
      and_then (insert_conflict
        \<lparr>c_conflict_id = cid, c_file_id = e_file_id entry, c_original_path = e_path entry,
         c_conflict_path = path, c_created_at = now ev,
         c_base_remote_version = base, c_current_remote_version = current,
         c_origin_device = None\<rparr>) (\<lambda>_.
      case found of Some r \<Rightarrow> ensure_remote_row ev r Synced | None \<Rightarrow> ret ())))))))"
      by (intro keeps_and_then renamed keep_update [OF quiet] keep_delete_ops
          keep_upsert_operation keep_new_id keep_insert_conflict keeps_option keeps_ret
          keep_remote_row res dir) simp_all
  qed
qed

text \<open>The local operations.\<close>

abbreviation P :: "'r service \<Rightarrow> bool" where
  "P \<equiv> on_tables I"

lemma keep_request_refresh: "keeps P (request_refresh ev path)"
  unfolding request_refresh_def
  by (intro keeps_rules keep_upsert_operation)

lemma keep_recover: "keeps P (recover_expired_leases ev)"
  unfolding recover_expired_leases_def
  by (intro keeps_rules keep_update_ops) (simp add: op_update_def)

lemma keep_ensure_root: "keeps P (ensure_root_entry ev)"
proof -
  have "good_row dir \<lparr>e_file_id = ''root'', e_path = ROOT_PATH, e_parent_path = None,
      e_name = ROOT_PATH, e_kind = Directory, e_sync_state = sync_state.Placeholder,
      e_content_state = content_state.Placeholder, e_remote_version = None,
      e_local_version = 0, e_mtime = Some t, e_size = 0, e_cache_path = None,
      e_last_remote_check_at = None, e_remote_deleted = False, e_last_error = None\<rparr>" for t
    by (simp add: good_row_def consistent_path_def canonical_cache_def parent_path_of_def ROOT_PATH_def)
  then show ?thesis unfolding ensure_root_entry_def
    by (intro keeps_rules keep_insert)
qed

lemma keep_open_at: "keeps P (open_at ev)"
  unfolding open_at_def run_migrations_def
  by (intro keeps_rules keep_ensure_root keep_recover keep_request_refresh keeps_tables_modify)
     (simp_all add: bookkeeping)

lemma keep_background: "keeps P start_background" "keeps P shutdown"
  unfolding start_background_def shutdown_def
  by (intro keeps_tables_modify; simp)+

lemma good_new_local_row:
  assumes "CHR ''/'' \<in> set parent" and "valid_name name"
    and "canonical_cache dir fid cache_path"
  shows "good_row dir (new_local_row ev fid (join_remote_path parent name) parent name kind cs cache_path)"
  using assms by (simp add: good_row_def new_local_row_def consistent_join)

text \<open>An operation that starts from a row it has looked up.\<close>

lemma keep_with_entry:
  assumes "\<And>e. CHR ''/'' \<in> set p \<Longrightarrow> e_path e = p \<Longrightarrow>
    canonical_cache dir (e_file_id e) (e_cache_path e) \<Longrightarrow> keeps P (f e)"
  shows "keeps P (and_then (expect_entry p) f)"
proof (rule keeps_and_then_from)
  fix s :: "'a service" and e t
  assume "P s" and "expect_entry p s = (Inr e, t)"
  then have "e \<in> set (files (sdb s))" "e_path e = p" "I (sdb s)"
    by (auto simp: on_tables_def dest!: expect_entry_Inr)
  then show "keeps P (f e)" using assms cache slash by blast
qed (rule keeps_rules)

lemma keep_with_file_id:
  assumes "\<And>e. e_file_id e = i \<Longrightarrow> canonical_cache dir i (e_cache_path e) \<Longrightarrow> keeps P (f e)"
  shows "keeps P (and_then (and_then (entry_by_file_id i) (ok_or err)) f)"
proof (rule keeps_and_then_from)
  fix s :: "'a service" and e t
  assume "P s" and "and_then (entry_by_file_id i) (ok_or err) s = (Inr e, t)"
  then have "e \<in> set (files (sdb s))" "e_file_id e = i" "I (sdb s)"
    by (auto simp: on_tables_def dest!: expect_file_id_Inr)
  then show "keeps P (f e)" using assms cache by blast
qed (intro keeps_rules)

lemma keep_create_file:
  assumes "cache_dir ev = dir" and "valid_name name"
  shows "keeps P (create_file ev parent name)"
  unfolding create_file_def Let_def
  by (rule keep_with_entry)
     (intro keeps_rules keep_insert keep_upsert_operation keep_new_id good_new_local_row;
      simp add: assms canonical_cache_def)

lemma keep_mkdir:
  assumes "valid_name name"
  shows "keeps P (mkdir ev parent name)"
  unfolding mkdir_def Let_def
  by (rule keep_with_entry)
     (intro keeps_rules keep_insert keep_upsert_operation keep_new_id good_new_local_row;
      simp add: assms canonical_cache_def)

lemma canonical_or_own:
  "canonical_cache dir fid c \<Longrightarrow>
   (case c of Some p \<Rightarrow> p | None \<Rightarrow> cache_path_for dir fid) = cache_path_for dir fid"
  by (auto simp: canonical_cache_def)

lemma keep_apply_local:
  assumes "cache_dir ev = dir"
  shows "keeps P (apply_local_file_from_staging ev path staging)"
  unfolding apply_local_file_from_staging_def Let_def assms
  by (rule keep_with_entry)
     (intro keeps_rules keep_update keep_upsert_operation;
      simp add: assms canonical_or_own quiet_update_def)

lemma keep_unlink: "keeps P (unlink ev path expect_dir)"
  unfolding unlink_def
  by (rule keep_with_entry)
     (intro keeps_rules keep_update keep_upsert_operation keep_delete_ops keep_delete_file;
      simp add: quiet_update_def)

lemma keep_rename: "keeps P (rename ev from to)"
proof -
  have "keeps P (and_then (ok_or err (parent_path_of to)) f)"
    if "\<And>q. parent_path_of to = Some q \<Longrightarrow> keeps P (f q)"
    for err and f :: "string \<Rightarrow> ('a, 'b) sync"
    using that by (cases "parent_path_of to") (simp_all add: ok_or_def keeps_rules)
  note from_parent = this
  show ?thesis unfolding rename_def
    by (intro keeps_rules from_parent keep_rename_subtree keep_upsert_operation) assumption
qed

lemma keep_hydrate:
  assumes "cache_dir ev = dir" and "canonical_cache dir (e_file_id entry) (e_cache_path entry)"
  shows "keeps P (hydrate ev cl path entry)"
  unfolding hydrate_def Let_def assms(1)
  by (intro keeps_rules keep_update) (simp add: canonical_or_own [OF assms(2)] quiet_update_def)

lemma keep_ensure_hydrated:
  assumes "cache_dir ev = dir"
  shows "keeps P (ensure_hydrated ev cl path)"
  unfolding ensure_hydrated_def maybe_schedule_stale_refresh_def Let_def
  by (rule keep_with_entry)
     (intro keeps_rules keep_request_refresh keep_hydrate; simp add: assms)

lemma keep_reads:
  assumes "cache_dir ev = dir"
  shows "keeps P (read_range ev cl path offset count)" and "keeps P (load_local_bytes ev cl path)"
  unfolding read_range_def load_local_bytes_def Let_def
  by (intro keeps_rules keep_ensure_hydrated assms)+

text \<open>The jobs of the worker, without the upload.\<close>

lemma keep_set_op_status: "keeps I (set_op_status ev jid status)"
  unfolding set_op_status_def by (intro keep_update_ops) (simp add: op_update_def)

lemma keep_mark_done: "keeps I (mark_job_done_locked ev jid)"
  unfolding mark_job_done_locked_def by (rule keep_set_op_status)

lemma keep_lease: "keeps P (lease_next_operation ev)"
  unfolding lease_next_operation_def
  by (intro keeps_rules keep_update_ops keep_new_id) (simp add: op_update_def)

lemma keep_set_file_state: "st \<noteq> sync_state.Conflict \<Longrightarrow> keeps P (set_file_state fid st err)"
  unfolding set_file_state_def by (intro keeps_rules keep_update) (simp add: quiet_update_def)

lemma keep_retry_or_fail: "keeps P (retry_or_fail ev job err)"
  unfolding retry_or_fail_def
  by (intro keeps_rules keep_update keep_update_ops keep_set_op_status)
     (simp_all add: quiet_update_def op_update_def)

lemma keep_commit_version: "keeps I (commit_remote_version fid fresh)"
  unfolding commit_remote_version_def by (intro keep_update) (simp add: quiet_update_def)

lemma keep_process_delete: "keeps P (process_delete ev cl job)"
  unfolding process_delete_def Let_def
  by (intro keeps_rules keep_retry_or_fail keep_delete_ops keep_delete_file)

lemma keep_process_mkdir: "keeps P (process_mkdir ev cl job)"
  unfolding process_mkdir_def
  by (intro keeps_rules keep_retry_or_fail keep_commit_version keep_mark_done)

lemma keep_process_rename: "keeps P (process_rename ev cl job)"
  unfolding process_rename_def Let_def
  by (intro keeps_rules keep_retry_or_fail keep_commit_version keep_mark_done)

lemma keep_process_download:
  assumes "cache_dir ev = dir"
  shows "keeps P (process_download ev cl job)"
  unfolding process_download_def download_commit_def Let_def assms
  by (rule keep_with_file_id)
     (intro keeps_rules keep_retry_or_fail keep_update keep_mark_done keep_set_file_state;
      simp add: assms canonical_or_own quiet_update_def)

lemma keep_upload_transfer: "keeps P (upload_transfer ev cl job entry cache_path)"
  unfolding upload_transfer_def upload_commit_def
  by (intro keeps_rules keep_retry_or_fail keep_update keep_mark_done)
     (simp add: quiet_update_def)

text \<open>Refresh.\<close>

lemma keep_collect:
  shows "keeps P (collect_remote_children fuel cl path all)"
    and "keeps P (collect_each fuel cl children all)"
proof (induction fuel cl path all and fuel cl children all
    rule: collect_remote_children_collect_each.induct)
  case (4 fuel cl child children all)
  then show ?case
    by (auto intro!: keeps_rules split: option.splits)
qed (auto intro!: keeps_rules)

text \<open>What the reconciliation does under the lock, from any snapshot of the local rows.\<close>

lemma keep_reconcile_locked:
  assumes dir: "cache_dir ev = dir" and res: "\<And>r. r \<in> set entries \<Longrightarrow> good_res r"
  shows "keeps P (transaction (
      and_then (on_db (foreach entries (reconcile_remote_entry ev locals))) (\<lambda>_.
      foreach locals (reconcile_missing ev paths))))"
proof -
  have "keeps I (reconcile_remote_entry ev locals r)" if "r \<in> set entries" for r
    unfolding reconcile_remote_entry_def reconcile_known_def
    using res [OF that] dir
    by (intro keeps_rules keep_apply_conflict keep_remote_row keep_upsert_operation) auto
  moreover have "keeps P (reconcile_missing ev paths e)" for e
    unfolding reconcile_missing_def using dir
    by (intro keeps_rules keep_apply_conflict keep_delete_file) auto
  ultimately show ?thesis by (intro keeps_rules keep_transaction) auto
qed

lemma answered_values:
  assumes ev: "good_env dir ev" and res: "\<And>r. r \<in> set entries \<Longrightarrow> good_res r"
    and r: "r \<in> set (hash_order ev (remote_map entries))"
  shows "good_res r"
proof -
  have "set (remote_map entries) \<subseteq> set entries" by (induction entries) auto
  with assms show ?thesis by (auto simp: good_env_def)
qed

lemma keep_reconcile:
  assumes ev: "good_env dir ev" and res: "\<And>r. r \<in> set entries \<Longrightarrow> good_res r"
  shows "keeps P (reconcile_remote_tree ev entries)"
  unfolding reconcile_remote_tree_def Let_def
  using ev answered_values [OF ev res]
  by (intro keeps_rules keep_reconcile_locked) (simp_all add: good_env_def)

end

section \<open>The upload job and the rounds of the worker\<close>

text \<open>A job as \<open>lease_next_operation\<close> hands it out: its row is in the queue, not done.\<close>

definition job_in_queue :: "queued_operation \<Rightarrow> db \<Rightarrow> bool" where
  "job_in_queue job d \<longleftrightarrow>
     (\<exists>q \<in> set (operations_queue d). q_id q = j_id job \<and> q_file_id q = j_file_id job \<and>
        q_op_status q \<noteq> Done)"

definition with_job :: "(db \<Rightarrow> bool) \<Rightarrow> queued_operation \<Rightarrow> db \<Rightarrow> bool" where
  "with_job I job d \<longleftrightarrow> I d \<and> job_in_queue job d"

text \<open>
  Only \<open>finish_job\<close> marks a file as conflicted, in two places: when the file already is,
  and after \<open>apply_conflict_locked\<close> on the file of the job.
\<close>

locale worker_invariant = db_invariant +
  assumes keep_finish_conflicted: "I d \<Longrightarrow> e \<in> set (files d) \<Longrightarrow>
      e_sync_state e = sync_state.Conflict \<Longrightarrow> I (snd (finish_job_locked ev jid status err d))"
    and keep_finish_conflict: "I d \<Longrightarrow> job_in_queue job d \<Longrightarrow> e_file_id e = j_file_id job \<Longrightarrow>
      cache_dir ev = dir \<Longrightarrow> (\<And>r. found = Some r \<Longrightarrow> good_res r) \<Longrightarrow>
      apply_conflict_locked ev e base current found d = (Inr (), d') \<Longrightarrow>
      I (snd (finish_job_locked ev (j_id job) status err d'))"
begin

lemma keep_with_job: 
  "keeps (on_tables (with_job I job)) (set_file_state fid Uploading err)"
  "keeps (on_tables (with_job I job)) (call m)"
proof -
  have "keeps I (update_file fid (\<lambda>e. e\<lparr>e_sync_state := Uploading, e_last_error := err\<rparr>))"
    by (intro keep_update) (simp add: quiet_update_def)
  then have "keeps (with_job I job)
      (update_file fid (\<lambda>e. e\<lparr>e_sync_state := Uploading, e_last_error := err\<rparr>))"
    by (simp add: keeps_def with_job_def job_in_queue_def update_file_def run_simps)
  then show "keeps (on_tables (with_job I job)) (set_file_state fid Uploading err)"
    unfolding set_file_state_def by (intro keeps_rules)
qed (rule keeps_rules)

lemma upload_checked_ends:
  fixes cl :: "'r client"
  assumes ev: "good_env dir ev" and job: "e_file_id entry = j_file_id job"
    and res: "\<And>r. meta = Some r \<Longrightarrow> good_res r"
  shows "ends (on_tables (with_job I job)) (on_tables I)
    (upload_checked ev cl job entry cache_path meta)"
proof (cases "e_remote_version entry = Option.bind meta r_remote_version")
  case True
  then show ?thesis
    unfolding upload_checked_def Let_def
    by (auto intro!: ends_keeps keep_upload_transfer simp: on_tables_def with_job_def)
next
  case False
  let ?cur = "Option.bind meta r_remote_version"
  have dir: "cache_dir ev = dir" using ev by (simp add: good_env_def)
  show ?thesis
  proof (rule endsI)
    fix s :: "'r service"
    assume "on_tables (with_job I job) s"
    then have I: "I (sdb s)" and q: "job_in_queue job (sdb s)"
      by (simp_all add: on_tables_def with_job_def)
    obtain r d where ac: "apply_conflict_locked ev entry (e_remote_version entry) ?cur meta (sdb s)
        = (r, d)" by force
    have Id: "I d"
      using keeps_result [OF keep_apply_conflict [OF dir res] I ac] by simp
    have fin: "I (snd (finish_job_locked ev (j_id job) st er d))" if "r = Inr ()" for st er
      using keep_finish_conflict [OF I q job dir res] ac that by blast
    show "on_tables I (snd (upload_checked ev cl job entry cache_path meta s))"
    proof (cases r)
      case (Inl err)
      with False ac I show ?thesis
        by (simp add: upload_checked_def Let_def handle_conflict_def on_tables_def
            run_simps bookkeeping)
    next
      case (Inr u)
      with False ac fin show ?thesis
        by (simp add: upload_checked_def Let_def handle_conflict_def on_tables_def
            finish_job_def run_simps split: sum.split)
    qed
  qed
qed

lemma with_jobD: "on_tables (with_job I job) s \<Longrightarrow> on_tables I s"
  by (simp add: on_tables_def with_job_def)

lemma upload_probe_ends:
  fixes cl :: "'r client"
  assumes ev: "good_env dir ev" and cl: "answers_good good_res cl"
    and fid: "e_file_id entry = j_file_id job"
  shows "ends (on_tables (with_job I job)) (on_tables I) (upload_probe ev cl job entry cache_path)"
  unfolding upload_probe_def
proof (rule ends_and_then_from)
  fix v :: "'r service" and meta v'
  assume v: "on_tables (with_job I job) v"
    and c: "call (fetch_resource_metadata cl (e_path entry)) v = (Inr meta, v')"
  then have v': "on_tables (with_job I job) v'"
    using keeps_result keeps_tables_call by metis
  have good: "good_res r" if "meta = Inr r" for r
    using cl c that unfolding answers_good_def call_def
    by (metis (no_types, lifting) Inr_inject Pair_inject prod.collapse)
  show "on_tables I (snd ((case meta of
     Inr resource \<Rightarrow> upload_checked ev cl job entry cache_path (Some resource)
   | Inl err \<Rightarrow>
       if err = yandex_error.NotFound then upload_checked ev cl job entry cache_path None
       else retry_or_fail ev job err) v'))"
  proof (cases meta)
    case (Inl err)
    then show ?thesis
      using endsD [OF upload_checked_ends [OF ev fid] v'] with_jobD [OF v']
        keepsD [OF keep_retry_or_fail] by auto
  next
    case (Inr r)
    then show ?thesis
      using endsD [OF upload_checked_ends [OF ev fid, of "Some r" cl cache_path] v'] good
      by simp
  qed
qed (rule keeps_tables_call, rule with_jobD)

lemma process_upload_ends:
  fixes cl :: "'r client"
  assumes ev: "good_env dir ev" and cl: "answers_good good_res cl"
  shows "ends (on_tables (with_job I job)) (on_tables I) (process_upload ev cl job)"
  unfolding process_upload_def
proof (rule ends_and_then_from)
  show "keeps (on_tables (with_job I job))
      (and_then (entry_by_file_id (j_file_id job)) (ok_or sync_error.NotFound))"
    by (intro keeps_rules)
next
  fix s :: "'r service" and entry t
  assume s: "on_tables (with_job I job) s"
    and "and_then (entry_by_file_id (j_file_id job)) (ok_or sync_error.NotFound) s = (Inr entry, t)"
  then have t: "t = s" and mem: "entry \<in> set (files (sdb s))" and fid: "e_file_id entry = j_file_id job"
    by (auto dest: expect_file_id_Inr)
  let ?rest = "and_then (ok_or sync_error.NotFound (e_cache_path entry)) (\<lambda>cache_path.
     and_then (set_file_state (e_file_id entry) Uploading None) (\<lambda>_.
     upload_probe ev cl job entry cache_path))"
  have "ends (on_tables (with_job I job)) (on_tables I) ?rest"
    by (intro ends_and_then upload_probe_ends [OF ev cl fid] keep_with_job keeps_ok_or)
       (auto intro: with_jobD)
  then have rest: "on_tables I (snd (?rest s))" using s endsD by metis
  have "on_tables I (snd (finish_job ev (j_id job) st er s))"
    if "e_sync_state entry = sync_state.Conflict" for st er
    using keep_finish_conflicted [OF _ mem that] with_jobD [OF s]
    by (simp add: on_tables_def finish_job_def run_simps split: sum.split)
  with rest t show "on_tables I (snd ((if e_sync_state entry = sync_state.Conflict
      then finish_job ev (j_id job) queue_op_status.Conflict (Some ''file is conflicted'')
      else ?rest) t))" by simp
qed (rule with_jobD)

lemma collected_good:
  fixes cl :: "'r client"
  shows "answers_good good_res cl \<Longrightarrow> \<forall>r \<in> set all. good_res r \<Longrightarrow>
      collect_remote_children fuel cl path all s = (Inr (Some rs), t) \<Longrightarrow> \<forall>r \<in> set rs. good_res r"
    and "answers_good good_res cl \<Longrightarrow>
      \<forall>r \<in> set all. good_res r \<Longrightarrow> \<forall>r \<in> set children. good_res r \<Longrightarrow>
      collect_each fuel cl children all s = (Inr (Some rs), t) \<Longrightarrow> \<forall>r \<in> set rs. good_res r"
proof (induction fuel cl path all and fuel cl children all arbitrary: s t rs and s t rs
    rule: collect_remote_children_collect_each.induct)
  case (2 fuel cl path all)
  from 2(4) obtain ch where c: "fst (list_directory cl path (remote s)) = Inr ch"
    and e: "collect_each fuel cl ch all (snd (call (list_directory cl path) s)) = (Inr (Some rs), t)"
    by (cases "fst (list_directory cl path (remote s))")
       (auto simp: call_def or_remote_def run_simps)
  from answers_goodD(2) [OF 2(2) c] have "\<forall>r \<in> set ch. good_res r" .
  with 2(1) 2(2) 2(3) e show ?case by blast
next
  case (4 fuel cl child children all)
  show ?case
  proof (cases "r_kind child = resource_kind.Directory")
    case True
    with 4(7) obtain r u where
      below: "collect_remote_children fuel cl (r_path child) (all @ [child]) s = (Inr r, u)"
      and each: "(case r of None \<Rightarrow> ret None | Some all' \<Rightarrow> collect_each fuel cl children all') u =
        (Inr (Some rs), t)"
      by (auto simp add: and_then_Inr simp del: run_simps)
    from each obtain all' where r: "r = Some all'"
      and each: "collect_each fuel cl children all' u = (Inr (Some rs), t)"
      by (cases r) (simp_all add: run_simps)
    have "\<forall>r \<in> set (all @ [child]). good_res r" using 4(5,6) by simp
    with 4(1) [OF True 4(4)] below r have "\<forall>r \<in> set all'. good_res r" by blast
    moreover have "\<forall>r \<in> set children. good_res r" using 4(6) by simp
    ultimately show ?thesis using 4(2) [OF True 4(4)] each by blast
  next
    case False
    with 4(7) have "collect_each fuel cl children (all @ [child]) s = (Inr (Some rs), t)" by simp
    with 4(3) [OF False 4(4)] 4(5,6) show ?thesis by simp
  qed
qed (auto simp: run_simps)

lemma collect_tree_good:
  fixes cl :: "'r client"
  assumes cl: "answers_good good_res cl"
    and run: "collect_remote_tree fuel cl root s = (Inr (Some rs), t)"
  shows "\<forall>r \<in> set rs. good_res r"
proof -
  from run obtain m where m: "fst (fetch_resource_metadata cl root (remote s)) = Inr m"
    and rest: "(if r_kind m = resource_kind.Directory then collect_remote_children fuel cl root [m]
      else ret (Some [m])) (snd (call (fetch_resource_metadata cl root) s)) = (Inr (Some rs), t)"
    by (cases "fst (fetch_resource_metadata cl root (remote s))")
       (auto simp: collect_remote_tree_def call_def or_remote_def run_simps)
  from answers_goodD(1) [OF cl m] have "good_res m" .
  with rest collected_good(1) [OF cl, where all = "[m]"] show ?thesis
    by (auto simp: run_simps split: if_splits)
qed

lemma keep_refresh_tree:
  assumes ev: "good_env dir ev" and cl: "answers_good good_res cl"
  shows "keeps P (process_refresh_tree fuel ev cl job)"
  unfolding process_refresh_tree_def
proof (rule keeps_and_then_from)
  show "keeps P (collect_remote_tree fuel cl ROOT_PATH)"
    unfolding collect_remote_tree_def by (intro keeps_rules keep_collect)
next
  fix s :: "'a service" and collected t
  assume "collect_remote_tree fuel cl ROOT_PATH s = (Inr collected, t)"
  then have "good_res r" if "collected = Some rs" "r \<in> set rs" for rs r
    using collect_tree_good [OF cl] that by blast
  then show "keeps P (case collected of None \<Rightarrow> ret None
      | Some remote_entries \<Rightarrow>
          and_then (reconcile_remote_tree ev remote_entries) (\<lambda>_.
          and_then (on_db (mark_job_done_locked ev (j_id job))) (\<lambda>_.
          and_then bump_status_version (\<lambda>_. ret (Some ())))))"
    by (intro keeps_rules keep_reconcile ev keep_mark_done)
qed

lemma process_operation_ends:
  assumes ev: "good_env dir ev" and cl: "answers_good good_res cl"
  shows "ends (on_tables (with_job I job)) (on_tables I) (process_operation fuel ev cl job)"
proof (cases "j_op_type job = Upload")
  case True
  then show ?thesis
    using process_upload_ends [OF ev cl, of job]
    by (simp add: process_operation_def returns_def ends_def run_simps split: sum.split)
next
  case False
  have "cache_dir ev = dir" using ev by (simp add: good_env_def)
  then have "keeps P (process_operation fuel ev cl job)"
    using False unfolding process_operation_def returns_def
    by (cases "j_op_type job")
       (simp_all add: keeps_rules keep_process_delete keep_process_mkdir keep_process_rename
         keep_process_download keep_refresh_tree [OF ev cl])
  then show ?thesis by (rule ends_keeps) (rule with_jobD)
qed

text \<open>A leased job is in the queue, so the job of a round satisfies \<open>with_job\<close>.\<close>

lemma leased_in_queue:
  assumes s: "on_tables I s" and run: "lease_next_operation ev s = (Inr (Some job), t)"
  shows "on_tables (with_job I job) t"
proof -
  let ?w = "''worker-'' @ show_hex16 (rnd ev (rng_pos (sdb s)))"
  obtain row where row: "first_op (leasable ev) (sdb s) = Some row"
    using run by (cases "first_op (leasable ev) (sdb s)") (simp_all add: run_lease)
  with run have job: "job = (row_to_job row)\<lparr>j_op_status := Leased\<rparr>"
    and t: "operations_queue (sdb t) = update_where (\<lambda>q. q_id q = q_id row)
      (leased_row ev ?w) (operations_queue (sdb s))"
    by (auto simp: run_lease)
  have "leased_row ev ?w row \<in> set (operations_queue (sdb t))"
    using first_op_Some(1) [OF row] unfolding t in_update_where
    by (intro bexI [of _ row]) simp_all
  moreover have "q_id (leased_row ev ?w row) = j_id job \<and> q_file_id (leased_row ev ?w row) = j_file_id job
      \<and> q_op_status (leased_row ev ?w row) \<noteq> Done"
    by (simp add: job leased_row_def row_to_job_def)
  ultimately have "job_in_queue job (sdb t)" unfolding job_in_queue_def by blast
  moreover have "on_tables I t" using keeps_result [OF keep_lease s run] .
  ultimately show ?thesis by (simp add: on_tables_def with_job_def)
qed

lemma keep_worker_round:
  fixes cl :: "'r client"
  assumes ev: "good_env dir ev" and cl: "answers_good good_res cl"
  shows "keeps P (worker_round fuel ev cl)"
proof (rule keepsI)
  fix s :: "'r service" assume "P s"
  then have s: "P (snd (recover_expired_leases ev s))" (is "P ?s")
    by (rule keepsD [OF keep_recover])
  obtain leased t where run: "lease_next_operation ev ?s = (leased, t)" by force
  have t: "P t" using keeps_result [OF keep_lease s run] .
  have "P (snd (process_operation fuel ev cl job t))" if "leased = Inr (Some job)" for job
    using endsD [OF process_operation_ends [OF ev cl] leased_in_queue [OF s]] run that by blast
  then show "P (snd (worker_round fuel ev cl s))"
    using run t \<open>P s\<close> by (simp add: worker_round_def run_simps split: sum.split option.split)
qed

lemma keep_refresh_round: "keeps P (refresh_round ev)"
  unfolding refresh_round_def by (intro keeps_rules keep_request_refresh)

end

section \<open>Invariants that do not look at the synchronisation state\<close>

locale tolerant_invariant = db_invariant +
  assumes keep_mark: "keeps I (update_file fid
      (\<lambda>e. e\<lparr>e_last_error := Some err, e_sync_state := sync_state.Conflict\<rparr>))"
begin

lemma keep_finish: "keeps I (finish_job_locked ev jid status err)"
  unfolding finish_job_locked_def
  by (intro keeps_rules keep_set_op_status keep_mark)

end

sublocale tolerant_invariant \<subseteq> worker_invariant
proof
  show "I (snd (finish_job_locked ev jid status err d))" if "I d" for ev jid status err d
    using that by (rule keepsD [OF keep_finish])
  show "I (snd (finish_job_locked ev (j_id job) status err d'))"
    if "I d" and "cache_dir ev = dir" and "\<And>r. found = Some r \<Longrightarrow> good_res r"
      and "apply_conflict_locked ev e base current found d = (Inr (), d')"
    for d job e ev found base current d' status err
    using keeps_result [OF keep_apply_conflict [OF that(2,3)] that(1,4)] by (rule keepsD [OF keep_finish])
qed

end
