(* ===== verification/Integrity.thy ===== *)
theory Integrity
  imports Invariants
begin

text \<open>
  Two invariants of the tables, both interpretations of \<open>tolerant_invariant\<close>.

  \<open>core_ok\<close> is the integrity of the database: the primary keys, the foreign keys, the
  ids of the queue, the path column with a separator, and the cache column, which is empty
  or the path of the row's own file id.  \<open>tree_ok\<close> adds that the parent and
  name columns are those of the path.
\<close>

section \<open>Integrity of the tables\<close>

definition keys_ok :: "db \<Rightarrow> bool" where
  "keys_ok d \<longleftrightarrow> distinct (map e_file_id (files d)) \<and> distinct (map e_path (files d))"

definition queue_ok :: "db \<Rightarrow> bool" where
  "queue_ok d \<longleftrightarrow>
     sorted_wrt (<) (map q_id (operations_queue d)) \<and>
     (\<forall>q \<in> set (operations_queue d). q_id q \<le> last_op_id d)"

definition foreign_ok :: "db \<Rightarrow> bool" where
  "foreign_ok d \<longleftrightarrow>
     (\<forall>q \<in> set (operations_queue d). q_file_id q \<in> e_file_id ` set (files d)) \<and>
     (\<forall>c \<in> set (conflicts d). c_file_id c \<in> e_file_id ` set (files d)) \<and>
     distinct (map c_conflict_id (conflicts d))"

definition rows_ok :: "string \<Rightarrow> db \<Rightarrow> bool" where
  "rows_ok dir d \<longleftrightarrow>
     (\<forall>e \<in> set (files d). CHR ''/'' \<in> set (e_path e) \<and>
        canonical_cache dir (e_file_id e) (e_cache_path e))"

definition core_ok :: "string \<Rightarrow> db \<Rightarrow> bool" where
  "core_ok dir d \<longleftrightarrow> keys_ok d \<and> queue_ok d \<and> foreign_ok d \<and> rows_ok dir d"

lemmas core_defs = core_ok_def keys_ok_def queue_ok_def foreign_ok_def rows_ok_def

lemma core_ok_empty: "core_ok dir empty_db"
  by (simp add: core_defs empty_db_def)

lemma sorted_update_where:
  "(\<And>q. key (f q) = key q) \<Longrightarrow> sorted_wrt (<) (map key (update_where Q f rows)) =
     sorted_wrt (<) (map key rows)"
  by (simp add: map_update_where)

lemma sorted_delete_where:
  "sorted_wrt (<) (map key rows) \<Longrightarrow> sorted_wrt (<) (map key (delete_where Q rows))"
  unfolding delete_where_def by (simp add: sorted_wrt_map sorted_wrt_filter)

text \<open>An update of rows of \<open>files\<close> that keeps the keys.\<close>

lemma files_update_ids:
  assumes "\<And>e. e \<in> set rows \<Longrightarrow> Q e \<Longrightarrow> key (f e) = key e"
  shows "map key (update_where Q f rows) = map key rows"
  using assms by (simp add: update_where_def)

lemma ids_of_rows: "map e_file_id rows = map e_file_id rows' \<Longrightarrow> e_file_id ` set rows = e_file_id ` set rows'"
  by (metis set_map)

lemma core_ok_files:
  assumes "core_ok dir d" and "map e_file_id rows = map e_file_id (files d)"
    and "distinct (map e_path rows)"
    and "\<And>e. e \<in> set rows \<Longrightarrow> CHR ''/'' \<in> set (e_path e) \<and> canonical_cache dir (e_file_id e) (e_cache_path e)"
  shows "core_ok dir (d\<lparr>files := rows\<rparr>)"
  using assms ids_of_rows [OF assms(2)] by (simp add: core_defs)

lemma core_keep_update:
  assumes upd: "\<And>e. e_file_id e = fid \<Longrightarrow> e_file_id (f e) = fid \<and> e_path (f e) = e_path e \<and>
    (e_cache_path (f e) = e_cache_path e \<or> e_cache_path (f e) = Some (cache_path_for dir fid))"
  shows "keeps (core_ok dir) (update_file fid f)"
proof (rule keepsI)
  fix d assume d: "core_ok dir d"
  let ?rows = "update_where (\<lambda>e. e_file_id e = fid) f (files d)"
  have "map e_file_id ?rows = map e_file_id (files d)" "map e_path ?rows = map e_path (files d)"
    using upd by (auto intro!: files_update_ids)
  moreover have "CHR ''/'' \<in> set (e_path e) \<and> canonical_cache dir (e_file_id e) (e_cache_path e)"
    if "e \<in> set ?rows" for e
  proof -
    from that obtain q where q: "q \<in> set (files d)" "e = (if e_file_id q = fid then f q else q)"
      by (auto simp: in_update_where)
    then have "CHR ''/'' \<in> set (e_path q)" "canonical_cache dir (e_file_id q) (e_cache_path q)"
      using d by (auto simp: core_defs)
    then show ?thesis
      using q upd [of q] by (auto simp: canonical_cache_def)
  qed
  ultimately show "core_ok dir (snd (update_file fid f d))"
    using core_ok_files [OF d, of ?rows] d by (simp add: update_file_def run_simps core_defs)
qed

lemma keys_keep_path: "keeps keys_ok (update_file_path fid path parent name t)"
proof (rule keepsI)
  fix d assume d: "keys_ok d"
  let ?f = "\<lambda>e. e\<lparr>e_path := path, e_parent_path := parent, e_name := name, e_mtime := Some t\<rparr>"
  let ?rows = "update_where (\<lambda>e. e_file_id e = fid) ?f (files d)"
  have ids: "map e_file_id ?rows = map e_file_id (files d)" by (simp add: map_update_where)
  show "keys_ok (snd (update_file_path fid path parent name t d))"
  proof (cases "\<exists>e \<in> set (files d). e_file_id e = fid")
    case False
    then have "?rows = files d" by (auto intro: update_where_none)
    with d show ?thesis by (simp add: update_file_path_def)
  next
    case True
    show ?thesis
    proof (cases "\<exists>e \<in> set (files d). e_file_id e \<noteq> fid \<and> e_path e = path")
      case free: False
      have "inj_on e_path (set ?rows)"
      proof (rule inj_onI)
        fix x y assume x: "x \<in> set ?rows" and y: "y \<in> set ?rows" and eq: "e_path x = e_path y"
        obtain a b where a: "a \<in> set (files d)" "x = (if e_file_id a = fid then ?f a else a)"
          and b: "b \<in> set (files d)" "y = (if e_file_id b = fid then ?f b else b)"
          using x y by (auto simp: in_update_where)
        have "e_file_id a = e_file_id b"
          using eq a b free d distinct_key_eq [of e_path "files d" a b]
          by (auto simp: keys_ok_def split: if_splits)
        then have "a = b"
          using a b d distinct_key_eq [of e_file_id "files d" a b] by (auto simp: keys_ok_def)
        with a b show "x = y" by simp
      qed
      moreover have "distinct ?rows" using ids d by (metis distinct_map keys_ok_def)
      ultimately have "distinct (map e_path ?rows)" by (simp add: distinct_map)
      with free ids d show ?thesis by (simp add: update_file_path_def keys_ok_def)
    qed (use d True in \<open>simp add: update_file_path_def\<close>)
  qed
qed

lemma core_keep_path:
  assumes "CHR ''/'' \<in> set path"
  shows "keeps (core_ok dir) (update_file_path fid path parent name t)"
proof (rule keepsI)
  fix d assume d: "core_ok dir d"
  let ?f = "\<lambda>e. e\<lparr>e_path := path, e_parent_path := parent, e_name := name, e_mtime := Some t\<rparr>"
  let ?rows = "update_where (\<lambda>e. e_file_id e = fid) ?f (files d)"
  have keys: "keys_ok (snd (update_file_path fid path parent name t d))"
    using keepsD [OF keys_keep_path] d by (simp add: core_ok_def)
  have "CHR ''/'' \<in> set (e_path e) \<and> canonical_cache dir (e_file_id e) (e_cache_path e)"
    if "e \<in> set ?rows" for e
    using that d assms by (auto simp: in_update_where core_defs)
  with keys d show "core_ok dir (snd (update_file_path fid path parent name t d))"
    using core_ok_files [OF d, of ?rows]
    by (auto simp: update_file_path_def keys_ok_def map_update_where split: if_splits)
qed

lemma core_keep_insert:
  assumes "CHR ''/'' \<in> set (e_path e)" and "canonical_cache dir (e_file_id e) (e_cache_path e)"
  shows "keeps (core_ok dir) (insert_file e)"
  using assms by (auto simp: keeps_def insert_file_def core_defs)

lemma core_keep_delete: "keeps (core_ok dir) (delete_file fid)"
  by (auto simp: keeps_def delete_file_def run_simps core_defs table_simps sorted_delete_where)

lemma core_keep_queue:
  "op_update g \<Longrightarrow> keeps (core_ok dir) (update_ops Q g)"
  "keeps (core_ok dir) (delete_ops Q)"
  "keeps (core_ok dir) (insert_op fid op payload t)"
proof -
  show "keeps (core_ok dir) (update_ops Q g)" if "op_update g"
    using that
    by (auto simp: keeps_def update_ops_def run_simps core_defs op_update_def sorted_update_where
        in_update_where)
  show "keeps (core_ok dir) (delete_ops Q)"
    by (auto simp: keeps_def delete_ops_def run_simps core_defs table_simps sorted_delete_where)
  show "keeps (core_ok dir) (insert_op fid op payload t)"
    by (force simp: keeps_def insert_op_def core_defs sorted_wrt_append)
qed

lemma core_keep_conflict: "keeps (core_ok dir) (insert_conflict c)"
  by (auto simp: keeps_def insert_conflict_def core_defs)

lemma remote_row_cache:
  "e_cache_path (remote_row ev r st existing fid) = Option.bind existing e_cache_path"
  "e_path (remote_row ev r st existing fid) = r_path r"
  "e_file_id (remote_row ev r st existing fid) = fid"
  "e_parent_path (remote_row ev r st existing fid) = parent_path_of (r_path r)"
  "e_name (remote_row ev r st existing fid) = r_name r"
  "e_sync_state (remote_row ev r st existing fid) = st"
  by (simp_all add: remote_row_def Let_def split: option.split)

lemma excluded_update_simps [simp]:
  "e_file_id (excluded_update x f) = e_file_id f"
  "e_path (excluded_update x f) = e_path f"
  "e_parent_path (excluded_update x f) = e_parent_path x"
  "e_name (excluded_update x f) = e_name x"
  by (simp_all add: excluded_update_def)

text \<open>\<open>ensure_remote_row\<close>: it updates the row with the path, or inserts a fresh one.\<close>

lemma run_ensure_remote_row:
  "ensure_remote_row ev r st d =
    (case find_path (r_path r) d of
       Some e \<Rightarrow> (Inr (), d\<lparr>files := update_where (\<lambda>f. e_path f = r_path r)
          (excluded_update (remote_row ev r st (Some e) (e_file_id e))) (files d)\<rparr>)
     | None \<Rightarrow> insert_file (remote_row ev r st None (''remote-'' @ show_hex16 (rnd ev (rng_pos d))))
          (d\<lparr>rng_pos := Suc (rng_pos d)\<rparr>))"
proof (cases "find_path (r_path r) d")
  case None
  then have "r_path r \<notin> e_path ` set (files d)" by (auto simp: find_path_def find_None)
  with None show ?thesis
    by (simp add: ensure_remote_row_def query_entry_by_path_def run_simps new_id_def upsert_file_def
        remote_row_cache)
next
  case (Some e)
  then have "r_path r \<in> e_path ` set (files d)" by (force dest!: find_path_member)
  with Some show ?thesis
    by (simp add: ensure_remote_row_def query_entry_by_path_def run_simps upsert_file_def
        remote_row_cache)
qed

lemma core_keep_remote:
  assumes "CHR ''/'' \<in> set (r_path r)"
  shows "keeps (core_ok dir) (ensure_remote_row ev r st)"
proof (rule keepsI)
  fix d assume d: "core_ok dir d"
  show "core_ok dir (snd (ensure_remote_row ev r st d))"
  proof (cases "find_path (r_path r) d")
    case None
    have "core_ok dir (d\<lparr>rng_pos := n\<rparr>)" for n using d by (simp add: core_defs)
    then show ?thesis
      using None assms keepsD [OF core_keep_insert]
      by (simp add: run_ensure_remote_row remote_row_cache canonical_cache_def)
  next
    case (Some e)
    then have e: "e \<in> set (files d)" "e_path e = r_path r" by (auto dest: find_path_member)
    let ?rows = "update_where (\<lambda>f. e_path f = r_path r)
      (excluded_update (remote_row ev r st (Some e) (e_file_id e))) (files d)"
    have "CHR ''/'' \<in> set (e_path x) \<and> canonical_cache dir (e_file_id x) (e_cache_path x)"
      if "x \<in> set ?rows" for x
    proof -
      from that obtain q where q: "q \<in> set (files d)"
        "x = (if e_path q = r_path r
          then excluded_update (remote_row ev r st (Some e) (e_file_id e)) q else q)"
        by (auto simp: in_update_where)
      have same: "q = e" if "e_path q = r_path r"
        using that e q d distinct_key_eq [of e_path "files d" q e] by (simp add: core_defs)
      have "CHR ''/'' \<in> set (e_path q) \<and> canonical_cache dir (e_file_id q) (e_cache_path q)"
        using q d by (auto simp: core_defs)
      then show ?thesis
        using q same by (auto simp: excluded_update_def remote_row_cache)
    qed
    then have "core_ok dir (d\<lparr>files := ?rows\<rparr>)"
      using core_ok_files [OF d, of ?rows] d by (simp add: map_update_where core_defs)
    then show ?thesis using Some by (simp add: run_ensure_remote_row)
  qed
qed

interpretation core: tolerant_invariant dir "core_ok dir" "\<lambda>r. CHR ''/'' \<in> set (r_path r)" for dir
proof
  show "canonical_cache dir (e_file_id e) (e_cache_path e)"
    if "core_ok dir d" and "e \<in> set (files d)" for d e
    using that by (auto simp: core_defs)
  show "CHR ''/'' \<in> set (e_path e)" if "core_ok dir d" and "e \<in> set (files d)" for d e
    using that by (auto simp: core_defs)
  show "core_ok dir (d\<lparr>rng_pos := n\<rparr>) = core_ok dir d" for d n by (simp add: core_defs)
  show "core_ok dir (d\<lparr>user_version := n\<rparr>) = core_ok dir d" for d n by (simp add: core_defs)
  show "keeps (core_ok dir) (insert_file e)" if "good_row dir e" for e
    using that by (intro core_keep_insert) (simp_all add: good_row_def consistent_path_def)
  show "keeps (core_ok dir) (update_file fid f)" if "quiet_update dir fid f" for fid f
    using that by (intro core_keep_update) (simp add: quiet_update_def)
  show "keeps (core_ok dir) (update_file_path fid path parent name t)"
    if "consistent_path path parent name" for fid path parent name t
    using that by (intro core_keep_path) (simp add: consistent_path_def)
  show "keeps (core_ok dir) (update_file fid
      (\<lambda>e. e\<lparr>e_last_error := Some err, e_sync_state := sync_state.Conflict\<rparr>))" for fid err
    by (intro core_keep_update) simp
qed (simp_all add: core_keep_delete core_keep_queue core_keep_conflict core_keep_remote)

section \<open>Invariants that hold row by row\<close>

text \<open>Integrity, and a property of every row of \<open>files\<close>.\<close>

definition rows_are :: "(stored_entry \<Rightarrow> bool) \<Rightarrow> db \<Rightarrow> bool" where
  "rows_are R d = list_all R (files d)"

definition all_rows :: "(stored_entry \<Rightarrow> bool) \<Rightarrow> string \<Rightarrow> db \<Rightarrow> bool" where
  "all_rows R dir d \<longleftrightarrow> core_ok dir d \<and> rows_are R d"

lemma rows_are_iff: "rows_are R d \<longleftrightarrow> (\<forall>e \<in> set (files d). R e)"
  by (simp add: rows_are_def list_all_iff)

lemma all_rows_keeps:
  assumes "keeps (core_ok dir) m"
    and "\<And>d. rows_are R d \<Longrightarrow> rows_are R (snd (m d))"
  shows "keeps (all_rows R dir) m"
  using assms by (auto simp: keeps_def all_rows_def)

lemma rows_update:
  "(\<And>e. e_file_id e = fid \<Longrightarrow> R e \<Longrightarrow> R (f e)) \<Longrightarrow> rows_are R d \<Longrightarrow>
   rows_are R (snd (update_file fid f d))"
  by (auto simp: rows_are_iff update_file_def run_simps in_update_where)

lemma rows_path:
  "(\<And>e. R e \<Longrightarrow> R (e\<lparr>e_path := path, e_parent_path := parent, e_name := name, e_mtime := Some t\<rparr>)) \<Longrightarrow>
   rows_are R d \<Longrightarrow>
   rows_are R (snd (update_file_path fid path parent name t d))"
  by (auto simp: rows_are_iff update_file_path_def in_update_where)

lemma rows_insert:
  "R e \<Longrightarrow> rows_are R d \<Longrightarrow> rows_are R (snd (insert_file e d))"
  by (auto simp: rows_are_iff insert_file_def)

lemma rows_other:
  "rows_are R d \<Longrightarrow> rows_are R (snd (delete_file fid d))"
  "rows_are R d \<Longrightarrow> rows_are R (snd (insert_op fid op payload t d))"
  "rows_are R d \<Longrightarrow> rows_are R (snd (update_ops Q g d))"
  "rows_are R d \<Longrightarrow> rows_are R (snd (delete_ops Q d))"
  "rows_are R d \<Longrightarrow> rows_are R (snd (insert_conflict c d))"
  by (simp_all add: rows_are_iff delete_file_def insert_op_def update_ops_def delete_ops_def insert_conflict_def
      run_simps table_simps)

lemma rows_remote:
  assumes new: "\<And>fid. R (remote_row ev r st None fid)"
    and old: "\<And>e f. R f \<Longrightarrow> e_path f = r_path r \<Longrightarrow>
      R (excluded_update (remote_row ev r st (Some e) (e_file_id e)) f)"
    and rows: "rows_are R d"
  shows "rows_are R (snd (ensure_remote_row ev r st d))"
proof (cases "find_path (r_path r) d")
  case None
  have "rows_are R (snd (insert_file x (d\<lparr>rng_pos := n\<rparr>)))" if "R x" for x n
    using rows_insert [of R x "d\<lparr>rng_pos := n\<rparr>"] that rows by (simp add: rows_are_def)
  with None new show ?thesis by (simp add: run_ensure_remote_row)
next
  case (Some e)
  with old rows show ?thesis by (auto simp: rows_are_iff run_ensure_remote_row in_update_where)
qed

section \<open>The shape of the tree\<close>

definition tree_row :: "stored_entry \<Rightarrow> bool" where
  "tree_row e \<longleftrightarrow> consistent_path (e_path e) (e_parent_path e) (e_name e)"

definition tree_ok :: "string \<Rightarrow> db \<Rightarrow> bool" where
  "tree_ok = all_rows tree_row"

text \<open>A remote answer names the resource by the last segment of its path.\<close>

definition consistent_resource :: "resource_entry \<Rightarrow> bool" where
  "consistent_resource r \<longleftrightarrow> consistent_path (r_path r) (parent_path_of (r_path r)) (r_name r)"

interpretation tree: tolerant_invariant dir "tree_ok dir" consistent_resource for dir
proof
  show "canonical_cache dir (e_file_id e) (e_cache_path e)"
    if "tree_ok dir d" and "e \<in> set (files d)" for d e
    using that by (auto simp: core_defs tree_ok_def all_rows_def)
  show "CHR ''/'' \<in> set (e_path e)" if "tree_ok dir d" and "e \<in> set (files d)" for d e
    using that by (auto simp: core_defs tree_ok_def all_rows_def)
  show "tree_ok dir (d\<lparr>rng_pos := n\<rparr>) = tree_ok dir d" for d n
    by (simp add: tree_ok_def all_rows_def rows_are_def core.bookkeeping)
  show "tree_ok dir (d\<lparr>user_version := n\<rparr>) = tree_ok dir d" for d n
    by (simp add: tree_ok_def all_rows_def rows_are_def core.bookkeeping)
  show "keeps (tree_ok dir) (insert_file e)" if "good_row dir e" for e
    using that unfolding tree_ok_def
    by (intro all_rows_keeps core.keep_insert rows_insert) (simp_all add: good_row_def tree_row_def)
  show "keeps (tree_ok dir) (update_file fid f)" if "quiet_update dir fid f" for fid f
    using that unfolding tree_ok_def
    by (intro all_rows_keeps core.keep_update rows_update)
       (simp_all add: quiet_update_def tree_row_def)
  show "keeps (tree_ok dir) (update_file_path fid path parent name t)"
    if "consistent_path path parent name" for fid path parent name t
    using that unfolding tree_ok_def
    by (intro all_rows_keeps core.keep_path rows_path) (simp_all add: tree_row_def)
  show "keeps (tree_ok dir) (ensure_remote_row ev r st)" if "consistent_resource r" for ev r st
    using that unfolding tree_ok_def
    by (intro all_rows_keeps core_keep_remote rows_remote)
       (simp_all add: tree_row_def consistent_resource_def consistent_path_def remote_row_cache)
  show "keeps (tree_ok dir) (update_file fid
      (\<lambda>e. e\<lparr>e_last_error := Some err, e_sync_state := sync_state.Conflict\<rparr>))" for fid err
    unfolding tree_ok_def
    by (intro all_rows_keeps core.keep_mark rows_update) (simp add: tree_row_def)
qed (simp_all add: tree_ok_def all_rows_keeps rows_other core_keep_delete core_keep_queue
      core_keep_conflict)

section \<open>No file is ever marked as conflicted\<close>

definition calm_row :: "stored_entry \<Rightarrow> bool" where
  "calm_row e \<longleftrightarrow> e_sync_state e \<noteq> sync_state.Conflict"

definition calm_ok :: "string \<Rightarrow> db \<Rightarrow> bool" where
  "calm_ok = all_rows calm_row"

text \<open>
  After \<open>apply_conflict_locked\<close> the row of the job is gone: it was deleted with the open
  operations of the file, and \<open>AUTOINCREMENT\<close> does not reuse its id.  So the
  \<open>finish_job\<close> that follows finds no row and marks nothing.
\<close>

definition on_queue :: "(queue_row list \<Rightarrow> int \<Rightarrow> bool) \<Rightarrow> db \<Rightarrow> bool" where
  "on_queue Q d \<longleftrightarrow> Q (operations_queue d) (last_op_id d)"

lemma keeps_on_queue:
  "keeps (on_queue Q) (update_file fid f)"
  "keeps (on_queue Q) (update_file_path fid path parent name t)"
  "keeps (on_queue Q) (insert_file e)"
  "keeps (on_queue Q) (insert_conflict c)"
  "keeps (on_queue Q) (new_id ev pre)"
  "keeps (on_queue Q) (ensure_remote_row ev r st)"
  by (simp_all add: keeps_def on_queue_def update_file_def update_file_path_def insert_file_def
      insert_conflict_def new_id_def run_ensure_remote_row run_simps split: option.split)

lemma keeps_on_queue_rename: "keeps (on_queue Q) (rename_subtree from to parent name t)"
  unfolding rename_subtree_def by (intro keeps_rules keeps_on_queue)

lemma keeps_on_queue_next: "keeps (on_queue Q) (next_conflict_path p)"
  unfolding next_conflict_path_def Let_def by (intro keeps_rules)

definition job_gone :: "int \<Rightarrow> queue_row list \<Rightarrow> int \<Rightarrow> bool" where
  "job_gone jid ops newest \<longleftrightarrow> jid \<le> newest \<and> (\<forall>q \<in> set ops. q_id q \<noteq> jid)"

definition job_open :: "int \<Rightarrow> string \<Rightarrow> queue_row list \<Rightarrow> int \<Rightarrow> bool" where
  "job_open jid fid ops newest \<longleftrightarrow>
     jid \<le> newest \<and> (\<forall>q \<in> set ops. q_id q = jid \<longrightarrow> q_file_id q = fid \<and> q_op_status q \<noteq> Done)"

lemma job_gone_upsert: "keeps (on_queue (job_gone jid)) (upsert_operation ev fid op payload ru ra)"
proof -
  have "keeps (on_queue (job_gone jid)) (insert_op fid op payload t)" for t
    by (auto simp: keeps_def on_queue_def job_gone_def insert_op_def)
  moreover have "keeps (on_queue (job_gone jid)) (delete_ops Q)" for Q
    by (auto simp: keeps_def on_queue_def job_gone_def delete_ops_def run_simps table_simps)
  moreover have "keeps (on_queue (job_gone jid)) (update_ops Q g)" if "op_update g" for Q g
    using that
    by (auto simp: keeps_def on_queue_def job_gone_def update_ops_def run_simps set_update_where
        op_update_def)
  ultimately show ?thesis
    unfolding upsert_operation_def by (intro keeps_rules) (auto simp: op_update_def)
qed

lemma job_open_delete:
  "ends (on_queue (job_open jid fid)) (on_queue (job_gone jid))
     (delete_ops (\<lambda>q. q_file_id q = fid \<and> q_op_status q \<noteq> Done))"
  by (auto simp: ends_def on_queue_def job_open_def job_gone_def delete_ops_def run_simps table_simps)

lemma yields_ends: "ends P Q m \<Longrightarrow> yields P m (\<lambda>_. Q)"
  unfolding ends_def yields_def by (metis snd_conv)

lemma yields_keeps: "keeps P m \<Longrightarrow> yields P m (\<lambda>_. P)"
  unfolding keeps_def yields_def by (metis snd_conv)

lemma apply_conflict_job_gone:
  "yields (on_queue (job_open jid (e_file_id entry)))
     (apply_conflict_locked ev entry base current found) (\<lambda>_. on_queue (job_gone jid))"
  unfolding apply_conflict_locked_def
proof (rule yields_and_then [OF yields_keeps [OF keeps_on_queue_next]],
    rule yields_and_then [OF yields_keeps [OF keeps_on_queue_rename]],
    rule yields_and_then [OF yields_keeps [OF keeps_on_queue(1)]],
    rule yields_and_then [OF yields_ends [OF job_open_delete]], rule yields_keeps)
  fix path
  show "keeps (on_queue (job_gone jid))
     (and_then (upsert_operation ev (e_file_id entry) Upload [(''path'', path)] False False) (\<lambda>_.
      and_then (new_id ev ''conflict'') (\<lambda>cid.
      and_then (insert_conflict
        \<lparr>c_conflict_id = cid, c_file_id = e_file_id entry, c_original_path = e_path entry,
         c_conflict_path = path, c_created_at = now ev,
         c_base_remote_version = base, c_current_remote_version = current,
         c_origin_device = None\<rparr>) (\<lambda>_.
      case found of Some r \<Rightarrow> ensure_remote_row ev r Synced | None \<Rightarrow> ret ()))))"
    by (intro keeps_and_then job_gone_upsert keeps_on_queue keeps_option keeps_ret)
qed

lemma finish_job_gone:
  assumes "on_queue (job_gone jid) d"
  shows "files (snd (finish_job_locked ev jid status err d)) = files d"
proof -
  have "find (\<lambda>q. q_id q = jid) (operations_queue (snd (set_op_status ev jid status d))) = None"
    using assms
    by (auto simp: find_None on_queue_def job_gone_def set_op_status_def update_ops_def run_simps
        in_update_where)
  moreover have "fst (set_op_status ev jid status d) = Inr ()"
    and "files (snd (set_op_status ev jid status d)) = files d"
    by (simp_all add: set_op_status_def update_ops_def run_simps)
  ultimately show ?thesis
    by (simp add: finish_job_locked_def run_simps split: option.split)
qed

interpretation calm_tables: db_invariant dir "calm_ok dir" "\<lambda>r. CHR ''/'' \<in> set (r_path r)" for dir
proof
  show "canonical_cache dir (e_file_id e) (e_cache_path e)"
    if "calm_ok dir d" and "e \<in> set (files d)" for d e
    using that by (auto simp: core_defs calm_ok_def all_rows_def)
  show "CHR ''/'' \<in> set (e_path e)" if "calm_ok dir d" and "e \<in> set (files d)" for d e
    using that by (auto simp: core_defs calm_ok_def all_rows_def)
  show "calm_ok dir (d\<lparr>rng_pos := n\<rparr>) = calm_ok dir d" for d n
    by (simp add: calm_ok_def all_rows_def rows_are_def core.bookkeeping)
  show "calm_ok dir (d\<lparr>user_version := n\<rparr>) = calm_ok dir d" for d n
    by (simp add: calm_ok_def all_rows_def rows_are_def core.bookkeeping)
  show "keeps (calm_ok dir) (insert_file e)" if "good_row dir e" for e
    using that unfolding calm_ok_def
    by (intro all_rows_keeps core.keep_insert rows_insert) (simp_all add: good_row_def calm_row_def)
  show "keeps (calm_ok dir) (update_file fid f)" if "quiet_update dir fid f" for fid f
    using that unfolding calm_ok_def
    by (intro all_rows_keeps core.keep_update rows_update)
       (auto simp add: quiet_update_def calm_row_def)
  show "keeps (calm_ok dir) (update_file_path fid path parent name t)"
    if "consistent_path path parent name" for fid path parent name t
    using that unfolding calm_ok_def
    by (intro all_rows_keeps core.keep_path rows_path) (simp_all add: calm_row_def)
  show "keeps (calm_ok dir) (ensure_remote_row ev r st)"
    if "CHR ''/'' \<in> set (r_path r)" and "st \<noteq> sync_state.Conflict" for ev r st
    using that unfolding calm_ok_def
    by (intro all_rows_keeps core_keep_remote rows_remote)
       (simp_all add: calm_row_def remote_row_cache excluded_update_def)
qed (simp_all add: calm_ok_def all_rows_keeps rows_other core_keep_delete core_keep_queue
      core_keep_conflict)

interpretation calm: worker_invariant dir "calm_ok dir" "\<lambda>r. CHR ''/'' \<in> set (r_path r)" for dir
proof
  show "calm_ok dir (snd (finish_job_locked ev jid status err d))"
    if "calm_ok dir d" "e \<in> set (files d)" "e_sync_state e = sync_state.Conflict"
    for d e ev jid status err
    using that by (auto simp: calm_ok_def all_rows_def rows_are_iff calm_row_def)
next
  fix d :: db and job e ev base current d' status err and found :: "resource_entry option"
  assume d: "calm_ok dir d" and job: "job_in_queue job d" and fid: "e_file_id e = j_file_id job"
    and dir: "cache_dir ev = dir" and res: "\<And>r. found = Some r \<Longrightarrow> CHR ''/'' \<in> set (r_path r)"
    and run: "apply_conflict_locked ev e base current found d = (Inr (), d')"
  have core: "core_ok dir d" using d by (simp add: calm_ok_def all_rows_def)
  from job obtain q where q: "q \<in> set (operations_queue d)" "q_id q = j_id job"
    "q_file_id q = j_file_id job" "q_op_status q \<noteq> Done"
    by (auto simp: job_in_queue_def)
  have "distinct (map q_id (operations_queue d))"
    using core by (simp add: core_defs strict_sorted_iff)
  then have "p = q" if "p \<in> set (operations_queue d)" "q_id p = j_id job" for p
    using distinct_key_eq [of q_id "operations_queue d" p q] that q(1,2) by simp
  moreover have "j_id job \<le> last_op_id d" using core q(1,2) by (auto simp: core_defs)
  ultimately have "on_queue (job_open (j_id job) (e_file_id e)) d"
    using q(3,4) fid unfolding on_queue_def job_open_def by metis
  then have gone: "on_queue (job_gone (j_id job)) d'"
    by (rule yieldsD [OF apply_conflict_job_gone _ run])
  have "calm_ok dir d'"
    using keeps_result [OF calm_tables.keep_apply_conflict [OF dir res] d run] .
  moreover have "core_ok dir (snd (finish_job_locked ev (j_id job) status err d'))"
    using keepsD [OF core.keep_finish] calculation by (simp add: calm_ok_def all_rows_def)
  ultimately show "calm_ok dir (snd (finish_job_locked ev (j_id job) status err d'))"
    using finish_job_gone [OF gone] by (simp add: calm_ok_def all_rows_def rows_are_def)
qed

end
