(* ===== verification/Daemon.thy ===== *)
theory Daemon
  imports Integrity
begin

text \<open>
  The running service as a transition system.  A step is one call of an operation of
  \<open>SyncService\<close> by the FUSE layer or the D-Bus interface, one round of a background
  thread, or a change of the world outside: the remote side, or the local files (the staging
  files are written by the FUSE layer).  Every call may fail in any way the operation can.

  \<open>reachable\<close> are the states of a service that was opened on an empty database and then
  ran any sequence of such steps, including a restart on the same database.  The calls are
  atomic here; the remote calls inside an operation may change the remote state arbitrarily.
\<close>

inductive daemon_step ::
    "string \<Rightarrow> (resource_entry \<Rightarrow> bool) \<Rightarrow> 'r service \<Rightarrow> 'r service \<Rightarrow> bool"
  for dir good where
  restart: "good_env dir ev \<Longrightarrow> daemon_step dir good s (snd (open_at ev s))"
| background: "daemon_step dir good s (snd (start_background s))"
| stopped: "daemon_step dir good s (snd (shutdown s))"
| refresh: "good_env dir ev \<Longrightarrow> daemon_step dir good s (snd (request_refresh ev path s))"
| created: "good_env dir ev \<Longrightarrow> valid_name name \<Longrightarrow>
    daemon_step dir good s (snd (create_file ev parent name s))"
| made_dir: "good_env dir ev \<Longrightarrow> valid_name name \<Longrightarrow>
    daemon_step dir good s (snd (mkdir ev parent name s))"
| committed: "good_env dir ev \<Longrightarrow>
    daemon_step dir good s (snd (apply_local_file_from_staging ev path staging s))"
| unlinked: "good_env dir ev \<Longrightarrow> daemon_step dir good s (snd (unlink ev path expect_dir s))"
| renamed: "good_env dir ev \<Longrightarrow> daemon_step dir good s (snd (rename ev source target s))"
| read: "good_env dir ev \<Longrightarrow> answers_good good cl \<Longrightarrow>
    daemon_step dir good s (snd (read_range ev cl path offset count s))"
| loaded: "good_env dir ev \<Longrightarrow> answers_good good cl \<Longrightarrow>
    daemon_step dir good s (snd (load_local_bytes ev cl path s))"
| worked: "good_env dir ev \<Longrightarrow> answers_good good cl \<Longrightarrow>
    daemon_step dir good s (snd (worker_round fuel ev cl s))"
| polled: "good_env dir ev \<Longrightarrow> daemon_step dir good s (snd (refresh_round ev s))"
| outside: "daemon_step dir good s (s\<lparr>remote := w, disk := k\<rparr>)"

inductive reachable :: "string \<Rightarrow> (resource_entry \<Rightarrow> bool) \<Rightarrow> 'r service \<Rightarrow> bool"
  for dir good where
  opened: "sdb s = empty_db \<Longrightarrow> good_env dir ev \<Longrightarrow> reachable dir good (snd (open_at ev s))"
| stepped: "reachable dir good s \<Longrightarrow> daemon_step dir good s t \<Longrightarrow> reachable dir good t"

context worker_invariant
begin

lemma keep_step: "daemon_step dir good_res s t \<Longrightarrow> P s \<Longrightarrow> P t"
proof (induction rule: daemon_step.induct)
  case (outside s w k)
  then show ?case by (simp add: on_tables_def)
next
  case (worked ev cl fuel s)
  then show ?case by (auto intro: keepsD [OF keep_worker_round])
qed (auto simp: good_env_def intro: keepsD keep_open_at keep_background keep_request_refresh
  keep_create_file keep_mkdir keep_apply_local keep_unlink keep_rename keep_reads
  keep_worker_round keep_refresh_round)

lemma reachable_keeps: "reachable dir good_res s \<Longrightarrow> I empty_db \<Longrightarrow> I (sdb s)"
proof (induction rule: reachable.induct)
  case (opened s ev)
  then have "P s" by (simp add: on_tables_def)
  then have "P (snd (open_at ev s))" by (rule keepsD [OF keep_open_at])
  then show ?case by (simp add: on_tables_def)
next
  case (stepped s t)
  then show ?case using keep_step [of s t] by (simp add: on_tables_def)
qed

end

lemma reachable_mono:
  assumes "reachable dir good s" and "\<And>r. good r \<Longrightarrow> good' r"
  shows "reachable dir good' s"
proof -
  have client: "answers_good good' cl" if "answers_good good cl" for cl :: "'a client"
    using that assms(2) unfolding answers_good_def by blast
  have "daemon_step dir good' s t" if "daemon_step dir good s t" for s t :: "'a service"
    using that by (induction rule: daemon_step.induct) (auto intro: daemon_step.intros client)
  with assms(1) show ?thesis
    by (induction rule: reachable.induct) (auto intro: reachable.intros)
qed

lemma slash_of_consistent: "consistent_resource r \<Longrightarrow> CHR ''/'' \<in> set (r_path r)"
  by (simp add: consistent_resource_def consistent_path_def)

lemma empty_ok: "core_ok dir empty_db" "tree_ok dir empty_db" "calm_ok dir empty_db"
  by (simp_all add: core_ok_empty tree_ok_def calm_ok_def all_rows_def rows_are_def empty_db_def
      core_ok_empty [unfolded empty_db_def])

lemmas reachable_core = core.reachable_keeps [OF _ empty_ok(1)]
  and reachable_tree = tree.reachable_keeps [OF _ empty_ok(2)]
  and reachable_calm = calm.reachable_keeps [OF _ empty_ok(3)]

end
