(* ===== verification/Fs_State.thy ===== *)
theory Fs_State
  imports Database
begin

text \<open>
  \<open>FsState\<close> of src/src/fs.rs: the tables the FUSE layer keeps under its mutex (inodes,
  paths, cached directories, write handles), the \<open>Entry\<close> they hold, and every method on
  them.

  \<open>SystemTime\<close> and \<open>Instant\<close> are nanoseconds; \<open>clock\<close> is what a call reads from
  both clocks.  Inode and handle numbers are natural numbers: the \<open>u64\<close> counters only
  count up from 2 and 1.  A \<open>HashMap\<close> is a map; \<open>dir_children\<close> and the write handles,
  which the code iterates over or whose removal bounds a recursion, are association lists
  without duplicate keys.  A \<open>BTreeMap\<close> is an association list that is read in the order
  of its keys.
\<close>

section \<open>Types\<close>

type_synonym ino = nat
type_synonym fh = nat
type_synonym instant = int

definition ROOT :: ino where
  "ROOT = 1"

definition METADATA_CACHE_TTL :: int where
  "METADATA_CACHE_TTL = 5 * 1000000000"

definition DOWNLOAD_URL_TTL :: int where
  "DOWNLOAD_URL_TTL = 300 * 1000000000"

datatype entry_kind = Directory | File

record entry =
  n_ino :: ino
  n_parent :: ino
  n_path :: string
  n_name :: string
  n_kind :: entry_kind
  n_size :: "64 word"
  n_created :: system_time
  n_modified :: system_time
  n_cached_at :: instant
  n_download_url :: "string option"
  n_download_url_cached_at :: "instant option"
  n_remote_present :: bool

record write_handle =
  h_ino :: ino
  h_parent :: ino
  h_path :: string
  h_staging_path :: string
  h_dirty :: bool
  h_is_new :: bool

record fs_state =
  next_ino :: ino
  next_fh :: fh
  entries :: "ino \<Rightarrow> entry option"
  path_to_ino :: "string \<Rightarrow> ino option"
  dir_children :: "(ino \<times> (string \<times> ino) list) list"
  dir_cache_time :: "ino \<Rightarrow> instant option"
  write_handles :: "(fh \<times> write_handle) list"

record clock =
  sys_now :: system_time
  instant_now :: instant

datatype fs_error =
    NotFound
  | NotDir
  | IsDir
  | AlreadyExists
  | NotEmpty
  | BadHandle
  | Io io_error
  | Sync sync_error
  | Remote yandex_error

datatype refresh_plan = EntryReady entry | EntryFetch string ino
datatype load_plan = DirectoryReady | DirectoryFetch string
datatype url_plan = UrlReady string | UrlFetch string

type_synonym 'a fsm = "(fs_state, fs_error, 'a) action"

section \<open>Association lists\<close>

definition without :: "'k \<Rightarrow> ('k \<times> 'v) list \<Rightarrow> ('k \<times> 'v) list" where
  "without k m = filter (\<lambda>p. fst p \<noteq> k) m"

definition put :: "'k \<Rightarrow> 'v \<Rightarrow> ('k \<times> 'v) list \<Rightarrow> ('k \<times> 'v) list" where
  "put k v m = (k, v) # without k m"

definition in_order :: "('k :: linorder \<times> 'v) list \<Rightarrow> ('k \<times> 'v) list" where
  "in_order m = sort_key fst m"

lemma map_of_without [simp]: "map_of (without k m) x = (if x = k then None else map_of m x)"
  by (induction m) (auto simp: without_def)

lemma map_of_put [simp]: "map_of (put k v m) x = (if x = k then Some v else map_of m x)"
  by (simp add: put_def)

lemma keys_without: "fst ` set (without k m) = fst ` set m - {k}"
  by (auto simp: without_def)

lemma keys_put: "fst ` set (put k v m) = insert k (fst ` set m)"
  by (auto simp: put_def keys_without)

lemma distinct_without: "distinct (map fst m) \<Longrightarrow> distinct (map fst (without k m))"
  by (simp add: without_def distinct_map_filter)

lemma distinct_put: "distinct (map fst m) \<Longrightarrow> distinct (map fst (put k v m))"
  by (simp add: put_def distinct_without keys_without)

lemma length_without_le: "length (without k m) \<le> length m"
  by (simp add: without_def)

lemma length_without_less: "map_of m k = Some v \<Longrightarrow> length (without k m) < length m"
  unfolding without_def by (rule length_filter_less [of "(k, v)"]) (auto dest: map_of_SomeD)

section \<open>Entries\<close>

text \<open>\<open>UNIX_EPOCH.checked_add(Duration::from_secs(mtime as u64))\<close>: a negative time, read as \<open>u64\<close>, overflows.\<close>

definition mtime_to_system :: "int option \<Rightarrow> system_time option" where
  "mtime_to_system mtime =
     (case mtime of None \<Rightarrow> None | Some t \<Rightarrow> if t < 0 then None else Some (t * 1000000000))"

definition kind_of_node :: "node_kind \<Rightarrow> entry_kind" where
  "kind_of_node k = (case k of node_kind.Directory \<Rightarrow> Directory | node_kind.File \<Rightarrow> File)"

definition kind_of_resource :: "resource_kind \<Rightarrow> entry_kind" where
  "kind_of_resource k =
     (case k of resource_kind.Directory \<Rightarrow> Directory | resource_kind.File \<Rightarrow> File)"

definition from_stored :: "clock \<Rightarrow> ino \<Rightarrow> ino \<Rightarrow> stored_entry \<Rightarrow> entry" where
  "from_stored ck i parent stored =
     (let created = (case mtime_to_system (e_mtime stored) of None \<Rightarrow> sys_now ck | Some t \<Rightarrow> t) in
      \<lparr>n_ino = i, n_parent = parent, n_path = e_path stored, n_name = e_name stored,
       n_kind = kind_of_node (e_kind stored), n_size = e_size stored,
       n_created = created, n_modified = created, n_cached_at = instant_now ck,
       n_download_url = None, n_download_url_cached_at = None,
       n_remote_present = (\<not> e_remote_deleted stored)\<rparr>)"

definition from_resource :: "clock \<Rightarrow> ino \<Rightarrow> ino \<Rightarrow> resource_entry \<Rightarrow> entry" where
  "from_resource ck i parent r =
     (let created = (case opt_or (r_created r) (r_modified r) of None \<Rightarrow> sys_now ck | Some t \<Rightarrow> t);
          modified = (case opt_or (r_modified r) (r_created r) of None \<Rightarrow> created | Some t \<Rightarrow> t) in
      \<lparr>n_ino = i, n_parent = parent, n_path = r_path r, n_name = r_name r,
       n_kind = kind_of_resource (r_kind r), n_size = r_size r,
       n_created = created, n_modified = modified, n_cached_at = instant_now ck,
       n_download_url = None, n_download_url_cached_at = None, n_remote_present = True\<rparr>)"

definition update_from_resource :: "clock \<Rightarrow> resource_entry \<Rightarrow> entry \<Rightarrow> entry" where
  "update_from_resource ck r n =
     n\<lparr>n_name := r_name r, n_kind := kind_of_resource (r_kind r), n_size := r_size r,
       n_created := (case opt_or (r_created r) (r_modified r) of None \<Rightarrow> n_created n | Some t \<Rightarrow> t),
       n_modified := (case opt_or (r_modified r) (r_created r) of None \<Rightarrow> n_modified n | Some t \<Rightarrow> t),
       n_cached_at := instant_now ck, n_remote_present := True,
       n_download_url := None, n_download_url_cached_at := None\<rparr>"

definition update_from_stored :: "clock \<Rightarrow> stored_entry \<Rightarrow> entry \<Rightarrow> entry" where
  "update_from_stored ck stored n =
     n\<lparr>n_path := e_path stored, n_name := e_name stored,
       n_kind := kind_of_node (e_kind stored), n_size := e_size stored,
       n_created := (case mtime_to_system (e_mtime stored) of None \<Rightarrow> n_created n | Some t \<Rightarrow> t),
       n_modified := (case mtime_to_system (e_mtime stored) of None \<Rightarrow> sys_now ck | Some t \<Rightarrow> t),
       n_cached_at := instant_now ck, n_remote_present := (\<not> e_remote_deleted stored),
       n_download_url := None, n_download_url_cached_at := None\<rparr>"

section \<open>Construction, numbers, plans\<close>

definition fs_state_new :: "clock \<Rightarrow> stored_entry \<Rightarrow> fs_state" where
  "fs_state_new ck root =
     \<lparr>next_ino = 2, next_fh = 1, entries = [ROOT \<mapsto> from_stored ck ROOT ROOT root],
      path_to_ino = [ROOT_PATH \<mapsto> ROOT], dir_children = [], dir_cache_time = (\<lambda>_. None),
      write_handles = []\<rparr>"

definition allocate_ino :: "ino fsm" where
  "allocate_ino s = (Inr (next_ino s), s\<lparr>next_ino := next_ino s + 1\<rparr>)"

definition allocate_file_handle :: "fh fsm" where
  "allocate_file_handle s = (Inr (next_fh s), s\<lparr>next_fh := next_fh s + 1\<rparr>)"

definition has_active_write_handle :: "ino \<Rightarrow> fs_state \<Rightarrow> bool" where
  "has_active_write_handle i s \<longleftrightarrow> (\<exists>p \<in> set (write_handles s). h_ino (snd p) = i)"

definition get_inode :: "ino \<Rightarrow> entry fsm" where
  "get_inode i = and_then (gets (\<lambda>s. entries s i)) (ok_or NotFound)"

definition set_inode :: "ino \<Rightarrow> entry \<Rightarrow> unit fsm" where
  "set_inode i n = modify (\<lambda>s. s\<lparr>entries := (entries s)(i \<mapsto> n)\<rparr>)"

definition entry_refresh_plan :: "clock \<Rightarrow> ino \<Rightarrow> refresh_plan fsm" where
  "entry_refresh_plan ck i =
     and_then (get_inode i) (\<lambda>n.
     and_then (gets (has_active_write_handle i)) (\<lambda>active.
     if \<not> n_remote_present n \<or> active \<or> instant_now ck - n_cached_at n < METADATA_CACHE_TTL
     then ret (EntryReady n)
     else ret (EntryFetch (n_path n) (n_parent n))))"

definition directory_load_plan :: "clock \<Rightarrow> ino \<Rightarrow> load_plan fsm" where
  "directory_load_plan ck i =
     and_then (get_inode i) (\<lambda>n.
     if n_kind n \<noteq> Directory then throw NotDir
     else and_then (gets (\<lambda>s. dir_cache_time s i)) (\<lambda>cached.
       case cached of
         None \<Rightarrow> ret (DirectoryFetch (n_path n))
       | Some t \<Rightarrow>
           if instant_now ck - t < METADATA_CACHE_TTL then ret DirectoryReady
           else ret (DirectoryFetch (n_path n))))"

definition download_url_plan :: "clock \<Rightarrow> ino \<Rightarrow> url_plan fsm" where
  "download_url_plan ck i =
     and_then (get_inode i) (\<lambda>n.
     if n_kind n \<noteq> File then throw IsDir
     else case (n_download_url n, n_download_url_cached_at n) of
       (Some url, Some t) \<Rightarrow>
         if instant_now ck - t < DOWNLOAD_URL_TTL then ret (UrlReady url)
         else ret (UrlFetch (n_path n))
     | _ \<Rightarrow> ret (UrlFetch (n_path n)))"

definition lookup_cached_child :: "ino \<Rightarrow> string \<Rightarrow> ino fsm" where
  "lookup_cached_child parent name =
     and_then (gets (\<lambda>s. Option.bind (map_of (dir_children s) parent) (\<lambda>ch. map_of ch name)))
       (ok_or NotFound)"

definition readdir_snapshot :: "ino \<Rightarrow> (ino \<times> entry_kind \<times> string) list fsm" where
  "readdir_snapshot i =
     and_then (get_inode i) (\<lambda>n.
     if n_kind n \<noteq> Directory then throw NotDir
     else gets (\<lambda>s.
       [(n_ino n, Directory, ''.''), (if n_ino n = ROOT then ROOT else n_parent n, Directory, ''..'')] @
       (case map_of (dir_children s) i of
          None \<Rightarrow> []
        | Some children \<Rightarrow>
            List.map_filter (\<lambda>(name, c). map_option (\<lambda>child. (c, n_kind child, name)) (entries s c))
              (in_order children))))"

section \<open>Filling the tables\<close>

definition upsert_entry :: "clock \<Rightarrow> ino \<Rightarrow> resource_entry \<Rightarrow> ino fsm" where
  "upsert_entry ck parent r =
     and_then (gets (\<lambda>s. path_to_ino s (r_path r))) (\<lambda>known.
     case known of
       Some i \<Rightarrow>
         and_then (modify (\<lambda>s. s\<lparr>entries := (entries s)(i := map_option
           (\<lambda>n. update_from_resource ck r (n\<lparr>n_parent := parent\<rparr>)) (entries s i))\<rparr>)) (\<lambda>_. ret i)
     | None \<Rightarrow>
         and_then allocate_ino (\<lambda>i.
         and_then (modify (\<lambda>s. s\<lparr>path_to_ino := (path_to_ino s)(r_path r \<mapsto> i),
           entries := (entries s)(i \<mapsto> from_resource ck i parent r)\<rparr>)) (\<lambda>_. ret i)))"

definition upsert_stored_entry :: "clock \<Rightarrow> ino \<Rightarrow> stored_entry \<Rightarrow> ino fsm" where
  "upsert_stored_entry ck parent stored =
     and_then (gets (\<lambda>s. path_to_ino s (e_path stored))) (\<lambda>known.
     case known of
       Some i \<Rightarrow>
         and_then (modify (\<lambda>s. s\<lparr>entries := (entries s)(i := map_option
           (\<lambda>n. update_from_stored ck stored (n\<lparr>n_parent := parent\<rparr>)) (entries s i))\<rparr>)) (\<lambda>_. ret i)
     | None \<Rightarrow>
         and_then allocate_ino (\<lambda>i.
         and_then (modify (\<lambda>s. s\<lparr>path_to_ino := (path_to_ino s)(e_path stored \<mapsto> i),
           entries := (entries s)(i \<mapsto> from_stored ck i parent stored)\<rparr>)) (\<lambda>_. ret i)))"

text \<open>The loop over the children, which collects the map from names to inodes.\<close>

fun fill_children ::
    "('c \<Rightarrow> string) \<Rightarrow> ('c \<Rightarrow> ino fsm) \<Rightarrow> 'c list \<Rightarrow> (string \<times> ino) list \<Rightarrow> (string \<times> ino) list fsm" where
  "fill_children name_of_child upsert [] mapped = ret mapped"
| "fill_children name_of_child upsert (c # cs) mapped =
     and_then (upsert c) (\<lambda>i. fill_children name_of_child upsert cs (put (name_of_child c) i mapped))"

definition store_children :: "clock \<Rightarrow> ino \<Rightarrow> (string \<times> ino) list \<Rightarrow> unit fsm" where
  "store_children ck parent mapped =
     modify (\<lambda>s. s\<lparr>dir_children := put parent mapped (dir_children s),
                   dir_cache_time := (dir_cache_time s)(parent \<mapsto> instant_now ck)\<rparr>)"

definition replace_directory_children :: "clock \<Rightarrow> ino \<Rightarrow> resource_entry list \<Rightarrow> unit fsm" where
  "replace_directory_children ck parent children =
     and_then (fill_children r_name (upsert_entry ck parent) children [])
       (store_children ck parent)"

definition replace_directory_children_from_stored :: "clock \<Rightarrow> ino \<Rightarrow> stored_entry list \<Rightarrow> unit fsm" where
  "replace_directory_children_from_stored ck parent children =
     and_then (fill_children e_name (upsert_stored_entry ck parent) children [])
       (store_children ck parent)"

definition cache_download_url :: "clock \<Rightarrow> ino \<Rightarrow> string \<Rightarrow> unit fsm" where
  "cache_download_url ck i url =
     and_then (get_inode i) (\<lambda>n.
     if n_kind n \<noteq> File then throw IsDir
     else set_inode i (n\<lparr>n_download_url := Some url, n_download_url_cached_at := Some (instant_now ck)\<rparr>))"

definition invalidate_download_url :: "ino \<Rightarrow> unit fsm" where
  "invalidate_download_url i =
     modify (\<lambda>s. s\<lparr>entries := (entries s)(i := map_option
       (\<lambda>n. n\<lparr>n_download_url := None, n_download_url_cached_at := None\<rparr>) (entries s i))\<rparr>)"

text \<open>Moving the key of an inode in \<open>path_to_ino\<close> when its path has changed.\<close>

definition move_path_key :: "string \<Rightarrow> string \<Rightarrow> ino \<Rightarrow> unit fsm" where
  "move_path_key old_path new_path i =
     (if old_path = new_path then ret ()
      else modify (\<lambda>s. s\<lparr>path_to_ino := (path_to_ino s)(old_path := None, new_path \<mapsto> i)\<rparr>))"

definition refresh_entry_from_stored :: "clock \<Rightarrow> ino \<Rightarrow> stored_entry \<Rightarrow> unit fsm" where
  "refresh_entry_from_stored ck i stored =
     and_then (get_inode i) (\<lambda>n.
     and_then (set_inode i (update_from_stored ck stored n)) (\<lambda>_.
     move_path_key (n_path n) (e_path stored) i))"

section \<open>Write handles\<close>

definition write_handle_snapshot :: "fh \<Rightarrow> write_handle fsm" where
  "write_handle_snapshot f = and_then (gets (\<lambda>s. map_of (write_handles s) f)) (ok_or BadHandle)"

definition set_handle :: "fh \<Rightarrow> write_handle \<Rightarrow> unit fsm" where
  "set_handle f h = modify (\<lambda>s. s\<lparr>write_handles := put f h (write_handles s)\<rparr>)"

definition mark_handle_dirty :: "fh \<Rightarrow> unit fsm" where
  "mark_handle_dirty f = and_then (write_handle_snapshot f) (\<lambda>h. set_handle f (h\<lparr>h_dirty := True\<rparr>))"

definition update_entry_size :: "clock \<Rightarrow> ino \<Rightarrow> 64 word \<Rightarrow> unit fsm" where
  "update_entry_size ck i new_size =
     and_then (get_inode i) (\<lambda>n.
     set_inode i (n\<lparr>n_size := new_size, n_modified := sys_now ck, n_cached_at := instant_now ck\<rparr>))"

definition mark_directory_loaded_stale :: "ino \<Rightarrow> unit fsm" where
  "mark_directory_loaded_stale i =
     modify (\<lambda>s. s\<lparr>dir_children := without i (dir_children s),
                   dir_cache_time := (dir_cache_time s)(i := None)\<rparr>)"

definition clean_handle :: "fh \<Rightarrow> string \<Rightarrow> unit fsm" where
  "clean_handle f path =
     and_then (write_handle_snapshot f) (\<lambda>h.
     set_handle f (h\<lparr>h_path := path, h_dirty := False, h_is_new := False\<rparr>))"

definition apply_committed_resource :: "clock \<Rightarrow> fh \<Rightarrow> resource_entry \<Rightarrow> unit fsm" where
  "apply_committed_resource ck f fresh =
     and_then (write_handle_snapshot f) (\<lambda>h.
     and_then (get_inode (h_ino h)) (\<lambda>n.
     and_then (set_inode (h_ino h) ((update_from_resource ck fresh
       (n\<lparr>n_parent := h_parent h, n_path := r_path fresh\<rparr>))\<lparr>n_remote_present := True\<rparr>)) (\<lambda>_.
     and_then (modify (\<lambda>s. s\<lparr>path_to_ino := (path_to_ino s)(r_path fresh \<mapsto> h_ino h)\<rparr>)) (\<lambda>_.
     and_then (clean_handle f (r_path fresh)) (\<lambda>_.
     mark_directory_loaded_stale (h_parent h))))))"

definition apply_committed_stored :: "clock \<Rightarrow> fh \<Rightarrow> stored_entry \<Rightarrow> unit fsm" where
  "apply_committed_stored ck f fresh =
     and_then (write_handle_snapshot f) (\<lambda>h.
     and_then (get_inode (h_ino h)) (\<lambda>n.
     and_then (set_inode (h_ino h) (update_from_stored ck fresh (n\<lparr>n_parent := h_parent h\<rparr>))) (\<lambda>_.
     and_then (move_path_key (n_path n) (e_path fresh) (h_ino h)) (\<lambda>_.
     and_then (clean_handle f (e_path fresh)) (\<lambda>_.
     mark_directory_loaded_stale (h_parent h))))))"

definition remove_write_handle :: "fh \<Rightarrow> write_handle fsm" where
  "remove_write_handle f =
     and_then (write_handle_snapshot f) (\<lambda>h.
     and_then (modify (\<lambda>s. s\<lparr>write_handles := without f (write_handles s)\<rparr>)) (\<lambda>_. ret h))"

section \<open>Recursion over the cached directories\<close>

text \<open>
  \<open>remove_entry_recursive\<close> takes the children out of the table before it descends, so it
  ends on any table, cyclic ones included.
\<close>

definition drop_entry :: "ino \<Rightarrow> fs_state \<Rightarrow> fs_state" where
  "drop_entry i s =
     (let s' = s\<lparr>dir_cache_time := (dir_cache_time s)(i := None)\<rparr> in
      case entries s' i of
        None \<Rightarrow> s'
      | Some n \<Rightarrow> s'\<lparr>entries := (entries s')(i := None),
                     path_to_ino := (path_to_ino s')(n_path n := None)\<rparr>)"

lemma drop_entry_children [simp]: "dir_children (drop_entry i s) = dir_children s"
  by (simp add: drop_entry_def Let_def split: option.split)

function remove_entry_recursive :: "ino \<Rightarrow> fs_state \<Rightarrow> fs_state"
and remove_children :: "ino list \<Rightarrow> fs_state \<Rightarrow> fs_state" where
  "remove_entry_recursive i s =
     (case map_of (dir_children s) i of
        None \<Rightarrow> drop_entry i s
      | Some children \<Rightarrow>
          drop_entry i (remove_children (map snd (in_order children))
            (s\<lparr>dir_children := without i (dir_children s)\<rparr>)))"
| "remove_children [] s = s"
| "remove_children (c # cs) s = remove_children cs (remove_entry_recursive c s)"
  by pat_completeness auto

termination
proof (relation "measures [\<lambda>x. case x of Inl (i, s) \<Rightarrow> length (dir_children s) | Inr (cs, s) \<Rightarrow> length (dir_children s),
    \<lambda>x. case x of Inl (i, s) \<Rightarrow> 0 | Inr (cs, s) \<Rightarrow> Suc (length cs)]")
  have shrinks:
    "remove_entry_recursive_remove_children_dom (Inl (i, s)) \<Longrightarrow>
       length (dir_children (remove_entry_recursive i s)) \<le> length (dir_children s)"
    "remove_entry_recursive_remove_children_dom (Inr (cs, s)) \<Longrightarrow>
       length (dir_children (remove_children cs s)) \<le> length (dir_children s)" for i cs s
  proof (induction i s and cs s rule: remove_entry_recursive_remove_children.pinduct)
    case (1 i s)
    show ?case
    proof (cases "map_of (dir_children s) i")
      case None
      with 1 show ?thesis by (simp add: remove_entry_recursive.psimps)
    next
      case (Some ch)
      with 1 have "length (dir_children (remove_children (map snd (in_order ch))
          (s\<lparr>dir_children := without i (dir_children s)\<rparr>))) \<le> length (without i (dir_children s))"
        by simp
      with 1(1) Some show ?thesis
        using length_without_le [of i "dir_children s"] by (simp add: remove_entry_recursive.psimps)
    qed
  next
    case (3 c cs s)
    then show ?case by (simp add: remove_children.psimps)
  qed (simp add: remove_children.psimps)
  {
  fix i and s :: fs_state and children
  assume "map_of (dir_children s) i = Some children"
  then show "(Inr (map snd (in_order children), s\<lparr>dir_children := without i (dir_children s)\<rparr>), Inl (i, s))
    \<in> measures [\<lambda>x. case x of Inl (i, s) \<Rightarrow> length (dir_children s) | Inr (cs, s) \<Rightarrow> length (dir_children s),
      \<lambda>x. case x of Inl (i, s) \<Rightarrow> 0 | Inr (cs, s) \<Rightarrow> Suc (length cs)]"
    by (simp add: length_without_less)
  }
  {
  fix c cs s
  assume "remove_entry_recursive_remove_children_dom (Inl (c, s))"
  from shrinks(1) [OF this]
  show "(Inr (cs, remove_entry_recursive c s), Inr (c # cs, s))
    \<in> measures [\<lambda>x. case x of Inl (i, s) \<Rightarrow> length (dir_children s) | Inr (cs, s) \<Rightarrow> length (dir_children s),
      \<lambda>x. case x of Inl (i, s) \<Rightarrow> 0 | Inr (cs, s) \<Rightarrow> Suc (length cs)]"
    by auto
  }
qed simp_all

text \<open>
  \<open>collect_subtree\<close> descends without changing the table, so on a cyclic one it does not
  return: \<open>None\<close> is a descent deeper than the fuel.
\<close>

fun collect_subtree :: "nat \<Rightarrow> (ino \<times> (string \<times> ino) list) list \<Rightarrow> ino \<Rightarrow> ino list option"
and collect_all :: "nat \<Rightarrow> (ino \<times> (string \<times> ino) list) list \<Rightarrow> ino list \<Rightarrow> ino list option" where
  "collect_subtree 0 table i = None"
| "collect_subtree (Suc fuel) table i =
     (case map_of table i of
        None \<Rightarrow> Some [i]
      | Some children \<Rightarrow>
          map_option (\<lambda>below. i # below) (collect_all fuel table (map snd (in_order children))))"
| "collect_all fuel table [] = Some []"
| "collect_all fuel table (c # cs) =
     (case collect_subtree fuel table c of
        None \<Rightarrow> None
      | Some xs \<Rightarrow> map_option (\<lambda>ys. xs @ ys) (collect_all fuel table cs))"

text \<open>One turn of the loop over the collected inodes.\<close>

definition retarget_entry :: "clock \<Rightarrow> ino \<Rightarrow> ino \<Rightarrow> string \<Rightarrow> string \<Rightarrow> string \<Rightarrow> ino \<Rightarrow> fs_state \<Rightarrow> fs_state" where
  "retarget_entry ck i newparent newname old_path new_path j s =
     (case entries s j of
        None \<Rightarrow> s
      | Some n \<Rightarrow>
          (let tail = (case str_strip_prefix old_path (n_path n) of Some t \<Rightarrow> t | None \<Rightarrow> []);
               n1 = n\<lparr>n_path := new_path @ tail\<rparr>;
               n2 = (if j = i then n1\<lparr>n_parent := newparent, n_name := newname\<rparr> else n1);
               n3 = n2\<lparr>n_cached_at := instant_now ck\<rparr> in
           s\<lparr>path_to_ino := (path_to_ino s)(n_path n := None, n_path n3 \<mapsto> j),
             entries := (entries s)(j \<mapsto> n3)\<rparr>))"

definition retarget_handle :: "ino \<Rightarrow> ino \<Rightarrow> string \<Rightarrow> string \<Rightarrow> write_handle \<Rightarrow> write_handle" where
  "retarget_handle i newparent old_path new_path h =
     (case str_strip_prefix old_path (h_path h) of
        None \<Rightarrow> h
      | Some tail \<Rightarrow>
          (let h1 = h\<lparr>h_path := new_path @ tail\<rparr> in
           if h_ino h = i then h1\<lparr>h_parent := newparent\<rparr> else h1))"

text \<open>The stack overflow of an endless descent is a panic.\<close>

definition rename_entry_subtree :: "clock \<Rightarrow> ino \<Rightarrow> ino \<Rightarrow> string \<Rightarrow> string \<Rightarrow> unit fsm" where
  "rename_entry_subtree ck i newparent newname new_path =
     and_then (gets (\<lambda>s. entries s i)) (\<lambda>found.
     case found of
       None \<Rightarrow> ret ()
     | Some n \<Rightarrow>
         and_then (gets (\<lambda>s. collect_subtree (Suc (Suc (length (dir_children s)))) (dir_children s) i)) (\<lambda>below.
         and_then (ok_or (Sync (Panic ''stack overflow'')) below) (\<lambda>descendants.
         modify (\<lambda>s.
           (let s' = fold (retarget_entry ck i newparent newname (n_path n) new_path) descendants s in
            s'\<lparr>write_handles :=
              map (\<lambda>(f, h). (f, retarget_handle i newparent (n_path n) new_path h)) (write_handles s')\<rparr>)))))"

end
