(* ===== verification/Fs.thy ===== *)
theory Fs
  imports Fs_State Service
begin

text \<open>
  \<open>YandexDiskFs\<close> of src/src/fs.rs: the operations behind the FUSE callbacks and the
  \<open>Filesystem\<close> handlers, over the service and the tables of \<open>Fs_State\<close>.  A handler's
  reply is a sum: the errno, or what is replied.

  Each handler is one step here, as the FUSE session calls it; the code takes the two mutexes
  (of the tables and of the database) in turn inside it.  The staging files live on the
  same disk as the cache.
\<close>

section \<open>State and lifting\<close>

record 'r fs =
  svc :: "'r service"
  fstate :: fs_state
  fs_uid :: "32 word"
  fs_gid :: "32 word"

type_synonym ('r, 'a) fuse = "('r fs, fs_error, 'a) action"

text \<open>What an operation takes from outside: the clocks, and the random words of \<open>create_staging_file\<close>.\<close>

record fs_env =
  sync_env :: env
  fs_clock :: clock
  temp_dir :: string
  process_id :: nat
  staging_rnd :: "nat \<Rightarrow> 64 word"

definition from_sync_error :: "sync_error \<Rightarrow> fs_error" where
  "from_sync_error value =
     (case value of
        sync_error.NotFound \<Rightarrow> NotFound
      | sync_error.NotDir \<Rightarrow> NotDir
      | sync_error.IsDir \<Rightarrow> IsDir
      | sync_error.AlreadyExists \<Rightarrow> AlreadyExists
      | sync_error.DirectoryNotEmpty \<Rightarrow> NotEmpty
      | other \<Rightarrow> Sync other)"

definition on_sync :: "('r, 'a) sync \<Rightarrow> ('r, 'a) fuse" where
  "on_sync m s = (case m (svc s) of
       (Inl err, t) \<Rightarrow> (Inl (from_sync_error err), s\<lparr>svc := t\<rparr>)
     | (Inr x, t) \<Rightarrow> (Inr x, s\<lparr>svc := t\<rparr>))"

definition on_state :: "'a fsm \<Rightarrow> ('r, 'a) fuse" where
  "on_state m = on_part fstate (\<lambda>p s. s\<lparr>fstate := p\<rparr>) m"

definition on_files :: "(disk, io_error, 'a) action \<Rightarrow> ('r, 'a) fuse" where
  "on_files m s = (case m (disk (svc s)) of
       (Inl err, k) \<Rightarrow> (Inl (Io err), s\<lparr>svc := (svc s)\<lparr>disk := k\<rparr>\<rparr>)
     | (Inr x, k) \<Rightarrow> (Inr x, s\<lparr>svc := (svc s)\<lparr>disk := k\<rparr>\<rparr>))"

section \<open>Staging files\<close>

definition staging_candidate :: "fs_env \<Rightarrow> nat \<Rightarrow> string" where
  "staging_candidate fe i =
     temp_dir fe @ ''/discohack-staging-'' @ show_nat (process_id fe) @ ''-'' @ show_hex16 (staging_rnd fe i)"

text \<open>\<open>create_new\<close> refuses an existing file; the loop tries thirty-two names.\<close>

fun try_candidates :: "fs_env \<Rightarrow> bytes \<Rightarrow> nat list \<Rightarrow> (disk, io_error, string) action" where
  "try_candidates fe initial [] k = (Inl IoAlreadyExists, k)"
| "try_candidates fe initial (i # rest) k =
     (let candidate = staging_candidate fe i in
      if contents k candidate \<noteq> None \<or> write_fault k candidate = Some IoAlreadyExists
      then try_candidates fe initial rest k
      else case write_fault k candidate of
             Some err \<Rightarrow> (Inl err, k)
           | None \<Rightarrow> (Inr candidate, k\<lparr>contents := (contents k)(candidate \<mapsto> initial)\<rparr>))"

definition create_staging_file :: "fs_env \<Rightarrow> bytes \<Rightarrow> ('r, string) fuse" where
  "create_staging_file fe initial = on_files (try_candidates fe initial [0..<32])"

text \<open>
  Opening an existing file for writing, \<open>set_len\<close>, \<open>seek\<close> and \<open>write_all\<close>.  A
  position from \<open>2 ^ 63\<close> on is not a valid offset.
\<close>

definition open_for_write :: "string \<Rightarrow> (disk, io_error, bytes) action" where
  "open_for_write p k = (case contents k p of
       None \<Rightarrow> (Inl IoNotFound, k)
     | Some bs \<Rightarrow> (case write_fault k p of Some err \<Rightarrow> (Inl err, k) | None \<Rightarrow> (Inr bs, k)))"

definition seek :: "64 word \<Rightarrow> (disk, io_error, unit) action" where
  "seek offset = (if offset < 0x8000000000000000 then ret () else throw (IoOther ''invalid seek''))"

definition resized :: "nat \<Rightarrow> bytes \<Rightarrow> bytes" where
  "resized n bs = take n bs @ replicate (n - length bs) 0"

definition overwritten :: "nat \<Rightarrow> bytes \<Rightarrow> bytes \<Rightarrow> bytes" where
  "overwritten offset data bs =
     (if data = [] then bs
      else resized offset bs @ data @ drop (offset + length data) bs)"

definition set_len :: "string \<Rightarrow> 64 word \<Rightarrow> (disk, io_error, unit) action" where
  "set_len p n =
     and_then (open_for_write p) (\<lambda>bs.
     and_then (seek n) (\<lambda>_.
     modify (\<lambda>k. k\<lparr>contents := (contents k)(p \<mapsto> resized (unat n) bs)\<rparr>)))"

definition write_local_range :: "string \<Rightarrow> 64 word \<Rightarrow> bytes \<Rightarrow> (disk, io_error, unit) action" where
  "write_local_range p offset data =
     and_then (open_for_write p) (\<lambda>bs.
     and_then (seek offset) (\<lambda>_.
     modify (\<lambda>k. k\<lparr>contents := (contents k)(p \<mapsto> overwritten (unat offset) data bs)\<rparr>)))"

definition read_local_range :: "string \<Rightarrow> 64 word \<Rightarrow> 32 word \<Rightarrow> (disk, io_error, bytes) action" where
  "read_local_range p offset count =
     (if count = 0 then ret []
      else and_then (gets (\<lambda>k. fs_open p k)) (\<lambda>opened.
           and_then (of_result opened) (\<lambda>bs.
           and_then (seek offset) (\<lambda>_.
           ret (take (unat count) (drop (unat offset) bs))))))"

definition file_len :: "string \<Rightarrow> (disk, io_error, nat) action" where
  "file_len p = and_then (gets (\<lambda>k. fs_open p k)) (\<lambda>opened.
                and_then (of_result opened) (\<lambda>bs. ret (length bs)))"

section \<open>Looking up\<close>

text \<open>\<open>join_remote_path\<close> of fs.rs, a second copy of the function.\<close>

definition fs_join_remote_path :: "string \<Rightarrow> string \<Rightarrow> string" where
  "fs_join_remote_path parent name =
     (if parent = ROOT_PATH then ROOT_PATH @ name else parent @ ''/'' @ name)"

definition with_sync :: "clock \<Rightarrow> 'r service \<Rightarrow> 32 word \<Rightarrow> 32 word \<Rightarrow> (sync_error + 'r fs) \<times> 'r service" where
  "with_sync ck s uid gid =
     (case expect_entry ROOT_PATH s of
        (Inl err, t) \<Rightarrow> (Inl err, t)
      | (Inr root, t) \<Rightarrow> (Inr \<lparr>svc = t, fstate = fs_state_new ck root, fs_uid = uid, fs_gid = gid\<rparr>, t))"

definition ensure_entry_fresh :: "fs_env \<Rightarrow> ino \<Rightarrow> ('r, entry) fuse" where
  "ensure_entry_fresh fe i =
     and_then (on_state (get_inode i)) (\<lambda>snapshot.
     and_then (on_state (gets (has_active_write_handle i))) (\<lambda>active.
     if active then ret snapshot
     else
     and_then (on_sync (get_entry (n_path snapshot))) (\<lambda>stored.
     case stored of
       None \<Rightarrow> throw NotFound
     | Some st \<Rightarrow>
         and_then (on_state (refresh_entry_from_stored (fs_clock fe) i st)) (\<lambda>_.
         on_state (get_inode i)))))"

definition getattr_entry :: "fs_env \<Rightarrow> ino \<Rightarrow> ('r, entry) fuse" where
  "getattr_entry fe i = ensure_entry_fresh fe i"

definition ensure_directory_loaded :: "fs_env \<Rightarrow> ino \<Rightarrow> ('r, unit) fuse" where
  "ensure_directory_loaded fe i =
     and_then (ensure_entry_fresh fe i) (\<lambda>n.
     if n_kind n \<noteq> Directory then throw NotDir
     else
     and_then (on_sync (list_children (n_path n))) (\<lambda>children.
     on_state (replace_directory_children_from_stored (fs_clock fe) i children)))"

definition lookup_entry :: "fs_env \<Rightarrow> ino \<Rightarrow> string \<Rightarrow> ('r, entry) fuse" where
  "lookup_entry fe parent name =
     and_then (ensure_directory_loaded fe parent) (\<lambda>_.
     and_then (on_state (lookup_cached_child parent name)) (\<lambda>child.
     getattr_entry fe child))"

definition readdir_listing :: "fs_env \<Rightarrow> ino \<Rightarrow> ('r, (ino \<times> entry_kind \<times> string) list) fuse" where
  "readdir_listing fe i =
     and_then (ensure_directory_loaded fe i) (\<lambda>_. on_state (readdir_snapshot i))"

definition download_url_for :: "fs_env \<Rightarrow> ino \<Rightarrow> ('r, string) fuse" where
  "download_url_for fe i = and_then (ensure_entry_fresh fe i) (\<lambda>n. ret (n_path n))"

section \<open>Reading and writing\<close>

definition read_handle_data :: "fh \<Rightarrow> 64 word \<Rightarrow> 32 word \<Rightarrow> ('r, bytes) fuse" where
  "read_handle_data f offset count =
     and_then (on_state (write_handle_snapshot f)) (\<lambda>h.
     on_files (read_local_range (h_staging_path h) offset count))"

definition read_entry_data ::
    "fs_env \<Rightarrow> 'r client \<Rightarrow> ino \<Rightarrow> 64 word \<Rightarrow> 32 word \<Rightarrow> ('r, bytes) fuse" where
  "read_entry_data fe cl i offset count =
     and_then (getattr_entry fe i) (\<lambda>n.
     if n_kind n \<noteq> File then throw IsDir
     else if offset \<ge> n_size n \<or> count = 0 then ret []
     else on_sync (read_range (sync_env fe) cl (n_path n) offset count))"

definition read_data ::
    "fs_env \<Rightarrow> 'r client \<Rightarrow> ino \<Rightarrow> fh option \<Rightarrow> 64 word \<Rightarrow> 32 word \<Rightarrow> ('r, bytes) fuse" where
  "read_data fe cl i f offset count =
     (case f of
        None \<Rightarrow> read_entry_data fe cl i offset count
      | Some h \<Rightarrow>
          and_then (attempt (read_handle_data h offset count)) (\<lambda>r.
          case r of Inr bs \<Rightarrow> ret bs | Inl _ \<Rightarrow> read_entry_data fe cl i offset count))"

definition has_write_handle :: "fh \<Rightarrow> fs_state \<Rightarrow> bool" where
  "has_write_handle f s \<longleftrightarrow> map_of (write_handles s) f \<noteq> None"

definition open_file_handle ::
    "fs_env \<Rightarrow> 'r client \<Rightarrow> ino \<Rightarrow> bool \<Rightarrow> bool \<Rightarrow> ('r, fh) fuse" where
  "open_file_handle fe cl i writable trunc =
     and_then (getattr_entry fe i) (\<lambda>n.
     if n_kind n \<noteq> File then throw IsDir
     else if \<not> writable then ret 0
     else
     and_then (if n_size n = 0 then ret []
               else on_sync (load_local_bytes (sync_env fe) cl (n_path n))) (\<lambda>initial.
     and_then (create_staging_file fe initial) (\<lambda>staging_path.
     and_then (if trunc then on_files (set_len staging_path 0) else ret ()) (\<lambda>_.
     and_then (on_state allocate_file_handle) (\<lambda>f.
     and_then (on_state (set_handle f
       \<lparr>h_ino = i, h_parent = n_parent n, h_path = n_path n, h_staging_path = staging_path,
        h_dirty = trunc, h_is_new = False\<rparr>)) (\<lambda>_.
     and_then (if trunc
               then and_then (on_state (update_entry_size (fs_clock fe) i 0)) (\<lambda>_.
                    on_state (Fs_State.invalidate_download_url i))
               else ret ()) (\<lambda>_.
     ret f)))))))"

definition create_pending_file :: "fs_env \<Rightarrow> ino \<Rightarrow> string \<Rightarrow> ('r, entry \<times> fh) fuse" where
  "create_pending_file fe parent name =
     and_then (ensure_directory_loaded fe parent) (\<lambda>_.
     and_then (getattr_entry fe parent) (\<lambda>parent_entry.
     if n_kind parent_entry \<noteq> Directory then throw NotDir
     else
     and_then (on_sync (create_file (sync_env fe) (n_path parent_entry) name)) (\<lambda>stored.
     and_then (create_staging_file fe []) (\<lambda>staging_path.
     and_then (on_state (upsert_stored_entry (fs_clock fe) parent stored)) (\<lambda>i.
     and_then (on_state (get_inode i)) (\<lambda>n.
     and_then (on_state allocate_file_handle) (\<lambda>f.
     and_then (on_state (set_handle f
       \<lparr>h_ino = i, h_parent = parent, h_path = e_path stored, h_staging_path = staging_path,
        h_dirty = False, h_is_new = True\<rparr>)) (\<lambda>_.
     and_then (on_state (mark_directory_loaded_stale parent)) (\<lambda>_.
     ret (n, f))))))))))"

definition write_handle_data :: "fs_env \<Rightarrow> fh \<Rightarrow> 64 word \<Rightarrow> bytes \<Rightarrow> ('r, 32 word) fuse" where
  "write_handle_data fe f offset data =
     and_then (on_state (write_handle_snapshot f)) (\<lambda>h.
     and_then (on_files (write_local_range (h_staging_path h) offset data)) (\<lambda>_.
     and_then (on_files (file_len (h_staging_path h))) (\<lambda>len.
     and_then (on_state (mark_handle_dirty f)) (\<lambda>_.
     and_then (on_state (update_entry_size (fs_clock fe) (h_ino h) (of_nat len))) (\<lambda>_.
     and_then (on_state (Fs_State.invalidate_download_url (h_ino h))) (\<lambda>_.
     ret (of_nat (length data))))))))"

definition truncate_handle :: "fs_env \<Rightarrow> fh \<Rightarrow> 64 word \<Rightarrow> ('r, entry) fuse" where
  "truncate_handle fe f new_size =
     and_then (on_state (write_handle_snapshot f)) (\<lambda>h.
     and_then (on_files (set_len (h_staging_path h) new_size)) (\<lambda>_.
     and_then (on_state (mark_handle_dirty f)) (\<lambda>_.
     and_then (on_state (update_entry_size (fs_clock fe) (h_ino h) new_size)) (\<lambda>_.
     and_then (on_state (Fs_State.invalidate_download_url (h_ino h))) (\<lambda>_.
     on_state (get_inode (h_ino h)))))))"

definition commit_write_handle :: "fs_env \<Rightarrow> fh \<Rightarrow> ('r, unit) fuse" where
  "commit_write_handle fe f =
     and_then (on_state (write_handle_snapshot f)) (\<lambda>h.
     if \<not> h_dirty h then ret ()
     else
     and_then (on_sync (apply_local_file_from_staging (sync_env fe) (h_path h) (h_staging_path h))) (\<lambda>fresh.
     on_state (apply_committed_stored (fs_clock fe) f fresh)))"

definition finish_write_handle :: "fh \<Rightarrow> bool \<Rightarrow> ('r, unit) fuse" where
  "finish_write_handle f cleanup_on_success =
     and_then (on_state (remove_write_handle f)) (\<lambda>h.
     if cleanup_on_success then on_sync (on_disk (fs_remove (h_staging_path h))) else ret ())"

definition truncate_entry ::
    "fs_env \<Rightarrow> 'r client \<Rightarrow> ino \<Rightarrow> fh option \<Rightarrow> 64 word \<Rightarrow> ('r, entry) fuse" where
  "truncate_entry fe cl i f new_size =
     (case f of
        Some h \<Rightarrow> truncate_handle fe h new_size
      | None \<Rightarrow>
          and_then (open_file_handle fe cl i True False) (\<lambda>temp_handle.
          and_then (truncate_handle fe temp_handle new_size) (\<lambda>truncated.
          and_then (commit_write_handle fe temp_handle) (\<lambda>_.
          and_then (finish_write_handle temp_handle True) (\<lambda>_.
          ret truncated)))))"

section \<open>The tree\<close>

definition mkdir_entry :: "fs_env \<Rightarrow> ino \<Rightarrow> string \<Rightarrow> ('r, entry) fuse" where
  "mkdir_entry fe parent name =
     and_then (ensure_directory_loaded fe parent) (\<lambda>_.
     and_then (getattr_entry fe parent) (\<lambda>parent_entry.
     if n_kind parent_entry \<noteq> Directory then throw NotDir
     else
     and_then (on_sync (mkdir (sync_env fe) (n_path parent_entry) name)) (\<lambda>fresh.
     and_then (on_state (upsert_stored_entry (fs_clock fe) parent fresh)) (\<lambda>i.
     and_then (on_state (mark_directory_loaded_stale parent)) (\<lambda>_.
     on_state (get_inode i))))))"

definition unlink_entry :: "fs_env \<Rightarrow> ino \<Rightarrow> string \<Rightarrow> bool \<Rightarrow> ('r, unit) fuse" where
  "unlink_entry fe parent name expect_dir =
     and_then (lookup_entry fe parent name) (\<lambda>n.
     if expect_dir \<and> n_kind n = File then throw NotDir
     else if \<not> expect_dir \<and> n_kind n = Directory then throw IsDir
     else
     and_then (on_sync (unlink (sync_env fe) (n_path n) expect_dir)) (\<lambda>_.
     and_then (on_state (modify (remove_entry_recursive (n_ino n)))) (\<lambda>_.
     on_state (mark_directory_loaded_stale parent))))"

definition rename_entry :: "fs_env \<Rightarrow> ino \<Rightarrow> string \<Rightarrow> ino \<Rightarrow> string \<Rightarrow> ('r, unit) fuse" where
  "rename_entry fe parent name newparent newname =
     and_then (lookup_entry fe parent name) (\<lambda>n.
     and_then (getattr_entry fe newparent) (\<lambda>new_parent_entry.
     if n_kind new_parent_entry \<noteq> Directory then throw NotDir
     else
     (let new_path = fs_join_remote_path (n_path new_parent_entry) newname in
      and_then (on_sync (rename (sync_env fe) (n_path n) new_path)) (\<lambda>_.
      and_then (on_state (gets (\<lambda>s. path_to_ino s new_path))) (\<lambda>existing.
      and_then (case existing of
                  None \<Rightarrow> ret ()
                | Some j \<Rightarrow> if j \<noteq> n_ino n then on_state (modify (remove_entry_recursive j)) else ret ()) (\<lambda>_.
      and_then (on_state (rename_entry_subtree (fs_clock fe) (n_ino n) newparent newname new_path)) (\<lambda>_.
      and_then (on_state (mark_directory_loaded_stale parent)) (\<lambda>_.
      on_state (mark_directory_loaded_stale newparent)))))))))"

section \<open>Replies\<close>

datatype errno = ENOENT | ENOTDIR | EISDIR | EEXIST | ENOTEMPTY | EBADF | EIO | EACCES | EINVAL | EOPNOTSUPP

definition errno_for :: "fs_error \<Rightarrow> errno" where
  "errno_for err =
     (case err of
        NotFound \<Rightarrow> ENOENT
      | NotDir \<Rightarrow> ENOTDIR
      | IsDir \<Rightarrow> EISDIR
      | AlreadyExists \<Rightarrow> EEXIST
      | NotEmpty \<Rightarrow> ENOTEMPTY
      | BadHandle \<Rightarrow> EBADF
      | Io _ \<Rightarrow> EIO
      | Sync e \<Rightarrow> (case e of sync_error.Conflict _ \<Rightarrow> EEXIST | _ \<Rightarrow> EIO)
      | Remote e \<Rightarrow>
          (case e of
             yandex_error.NotFound \<Rightarrow> ENOENT
           | Unauthorized \<Rightarrow> EACCES
           | Forbidden \<Rightarrow> EACCES
           | Auth _ \<Rightarrow> EACCES
           | yandex_error.Conflict _ \<Rightarrow> EEXIST
           | InvalidResponse _ \<Rightarrow> EIO
           | Http _ \<Rightarrow> EIO
           | yandex_error.Io _ \<Rightarrow> EIO
           | Status _ _ \<Rightarrow> EIO))"

record file_attr =
  a_ino :: ino
  a_size :: "64 word"
  a_blocks :: nat
  a_atime :: system_time
  a_mtime :: system_time
  a_ctime :: system_time
  a_crtime :: system_time
  a_kind :: entry_kind
  a_perm :: nat
  a_nlink :: nat
  a_uid :: "32 word"
  a_gid :: "32 word"

definition attr_for :: "'r fs \<Rightarrow> entry \<Rightarrow> file_attr" where
  "attr_for s n =
     (let is_dir = (n_kind n = Directory); sz = (if is_dir then 0 else n_size n) in
      \<lparr>a_ino = n_ino n, a_size = sz, a_blocks = (unat sz + 511) div 512,
       a_atime = n_modified n, a_mtime = n_modified n, a_ctime = n_modified n,
       a_crtime = n_created n, a_kind = n_kind n,
       a_perm = (if is_dir then 493 else 420), a_nlink = (if is_dir then 2 else 1),
       a_uid = fs_uid s, a_gid = fs_gid s\<rparr>)"

definition reply :: "('r, 'a) fuse \<Rightarrow> ('r fs, errno, 'a) action" where
  "reply m s = (case m s of (Inl err, t) \<Rightarrow> (Inl (errno_for err), t) | (Inr x, t) \<Rightarrow> (Inr x, t))"

definition reply_attr :: "('r, entry) fuse \<Rightarrow> ('r fs, errno, file_attr) action" where
  "reply_attr m = and_then (reply m) (\<lambda>n. gets (\<lambda>s. attr_for s n))"

text \<open>An \<open>OsStr\<close> that is not UTF-8 is \<open>None\<close>.\<close>

definition fuse_lookup :: "fs_env \<Rightarrow> ino \<Rightarrow> string option \<Rightarrow> ('r fs, errno, file_attr) action" where
  "fuse_lookup fe parent name =
     (case name of None \<Rightarrow> throw ENOENT | Some n \<Rightarrow> reply_attr (lookup_entry fe parent n))"

definition fuse_getattr :: "fs_env \<Rightarrow> ino \<Rightarrow> ('r fs, errno, file_attr) action" where
  "fuse_getattr fe i = reply_attr (getattr_entry fe i)"

definition fuse_access :: "ino \<Rightarrow> ('r fs, errno, unit) action" where
  "fuse_access i = and_then (gets (\<lambda>s. entries (fstate s) i \<noteq> None)) (\<lambda>known.
     if known then ret () else throw ENOENT)"

definition fuse_opendir :: "fs_env \<Rightarrow> ino \<Rightarrow> ('r fs, errno, fh) action" where
  "fuse_opendir fe i =
     and_then (reply (getattr_entry fe i)) (\<lambda>n.
     if n_kind n = Directory then ret 0 else throw ENOTDIR)"

text \<open>
  \<open>reply.add\<close> stores the entry unless the buffer is full, and says whether it was: the
  reply holds the entries from the offset on that fit, each with the offset of the next.
\<close>

definition fuse_readdir ::
    "fs_env \<Rightarrow> nat \<Rightarrow> ino \<Rightarrow> nat \<Rightarrow> ('r fs, errno, (ino \<times> nat \<times> entry_kind \<times> string) list) action" where
  "fuse_readdir fe capacity i offset =
     and_then (reply (readdir_listing fe i)) (\<lambda>listing.
     ret (take capacity (drop offset
       (map (\<lambda>(index, (j, kind, name)). (j, index + 1, kind, name)) (enumerate 0 listing)))))"

definition fuse_open :: "fs_env \<Rightarrow> 'r client \<Rightarrow> ino \<Rightarrow> bool \<Rightarrow> bool \<Rightarrow> ('r fs, errno, fh) action" where
  "fuse_open fe cl i writable trunc = reply (open_file_handle fe cl i writable trunc)"

definition fuse_read ::
    "fs_env \<Rightarrow> 'r client \<Rightarrow> ino \<Rightarrow> fh \<Rightarrow> 64 word \<Rightarrow> 32 word \<Rightarrow> ('r fs, errno, bytes) action" where
  "fuse_read fe cl i f offset count = reply (read_data fe cl i (Some f) offset count)"

definition fuse_setattr ::
    "fs_env \<Rightarrow> 'r client \<Rightarrow> ino \<Rightarrow> 64 word option \<Rightarrow> fh option \<Rightarrow> ('r fs, errno, file_attr) action" where
  "fuse_setattr fe cl i new_size f =
     reply_attr (case new_size of
       Some n \<Rightarrow> truncate_entry fe cl i f n
     | None \<Rightarrow> getattr_entry fe i)"

definition fuse_mknod :: "('r fs, errno, file_attr) action" where
  "fuse_mknod = throw EOPNOTSUPP"

definition fuse_mkdir :: "fs_env \<Rightarrow> ino \<Rightarrow> string option \<Rightarrow> ('r fs, errno, file_attr) action" where
  "fuse_mkdir fe parent name =
     (case name of None \<Rightarrow> throw EINVAL | Some n \<Rightarrow> reply_attr (mkdir_entry fe parent n))"

definition fuse_unlink :: "fs_env \<Rightarrow> ino \<Rightarrow> string option \<Rightarrow> ('r fs, errno, unit) action" where
  "fuse_unlink fe parent name =
     (case name of None \<Rightarrow> throw EINVAL | Some n \<Rightarrow> reply (unlink_entry fe parent n False))"

definition fuse_rmdir :: "fs_env \<Rightarrow> ino \<Rightarrow> string option \<Rightarrow> ('r fs, errno, unit) action" where
  "fuse_rmdir fe parent name =
     (case name of None \<Rightarrow> throw EINVAL | Some n \<Rightarrow> reply (unlink_entry fe parent n True))"

definition fuse_rename ::
    "fs_env \<Rightarrow> ino \<Rightarrow> string option \<Rightarrow> ino \<Rightarrow> string option \<Rightarrow> ('r fs, errno, unit) action" where
  "fuse_rename fe parent name newparent newname =
     (case (name, newname) of
        (Some n, Some m) \<Rightarrow> reply (rename_entry fe parent n newparent m)
      | _ \<Rightarrow> throw EINVAL)"

definition fuse_write :: "fs_env \<Rightarrow> fh \<Rightarrow> 64 word \<Rightarrow> bytes \<Rightarrow> ('r fs, errno, 32 word) action" where
  "fuse_write fe f offset data = reply (write_handle_data fe f offset data)"

definition fuse_create :: "fs_env \<Rightarrow> ino \<Rightarrow> string option \<Rightarrow> ('r fs, errno, file_attr \<times> fh) action" where
  "fuse_create fe parent name =
     (case name of
        None \<Rightarrow> throw EINVAL
      | Some n \<Rightarrow>
          and_then (reply (create_pending_file fe parent n)) (\<lambda>(entry, f).
          gets (\<lambda>s. (attr_for s entry, f))))"

definition fuse_flush :: "fs_env \<Rightarrow> fh \<Rightarrow> ('r fs, errno, unit) action" where
  "fuse_flush fe f =
     and_then (gets (\<lambda>s. has_write_handle f (fstate s))) (\<lambda>held.
     if f = 0 \<or> \<not> held then ret () else reply (commit_write_handle fe f))"

definition fuse_fsync :: "fs_env \<Rightarrow> fh \<Rightarrow> ('r fs, errno, unit) action" where
  "fuse_fsync fe f =
     and_then (gets (\<lambda>s. has_write_handle f (fstate s))) (\<lambda>held.
     if f = 0 \<or> \<not> held then ret () else reply (commit_write_handle fe f))"

definition fuse_release :: "fs_env \<Rightarrow> fh \<Rightarrow> ('r fs, errno, unit) action" where
  "fuse_release fe f =
     and_then (attempt (reply (if f = 0 then ret () else commit_write_handle fe f))) (\<lambda>committed.
     case committed of
       Inr _ \<Rightarrow>
         and_then (if f \<noteq> 0 then attempt (reply (finish_write_handle f True)) else ret (Inr ())) (\<lambda>_.
         ret ())
     | Inl err \<Rightarrow>
         and_then (attempt (reply (finish_write_handle f False))) (\<lambda>_. throw err))"

definition fuse_releasedir :: "('r fs, errno, unit) action" where
  "fuse_releasedir = ret ()"

end
