(* ===== verification/Mounted.thy ===== *)
theory Mounted
  imports Daemon Fs
begin

text \<open>
  The mounted file system: a transition system of FUSE requests over the service of
  \<open>Daemon\<close>, and what every request keeps.  The interface \<open>fuse_invariant\<close> lists what the
  methods of \<open>FsState\<close> owe to a property of the tables; its lemmas carry that property,
  and any property the service keeps, through every handler.  It is interpreted on the
  consistency of the tables and on the reachable states of the service.
\<close>

section \<open>Requests\<close>

text \<open>
  A request comes with single path segments (the kernel cuts paths at slashes); the
  background threads, D-Bus calls and the staging files of other processes are steps of the
  service.
\<close>

inductive fuse_step ::
    "string \<Rightarrow> (resource_entry \<Rightarrow> bool) \<Rightarrow> 'r fs \<Rightarrow> 'r fs \<Rightarrow> bool"
  for dir good where
  lookup_req: "fuse_step dir good s (snd (fuse_lookup fe i name s))"
| getattr_req: "fuse_step dir good s (snd (fuse_getattr fe i s))"
| access_req: "fuse_step dir good s (snd (fuse_access i s))"
| opendir_req: "fuse_step dir good s (snd (fuse_opendir fe i s))"
| readdir_req: "fuse_step dir good s (snd (fuse_readdir fe n i offset s))"
| open_req: "good_env dir (sync_env fe) \<Longrightarrow> answers_good good cl \<Longrightarrow>
    fuse_step dir good s (snd (fuse_open fe cl i writable trunc s))"
| read_req: "good_env dir (sync_env fe) \<Longrightarrow> answers_good good cl \<Longrightarrow>
    fuse_step dir good s (snd (fuse_read fe cl i f pos count s))"
| setattr_req: "good_env dir (sync_env fe) \<Longrightarrow> answers_good good cl \<Longrightarrow>
    fuse_step dir good s (snd (fuse_setattr fe cl i new_size h s))"
| mknod_req: "fuse_step dir good s (snd (fuse_mknod s))"
| mkdir_req: "good_env dir (sync_env fe) \<Longrightarrow> pred_option valid_name name \<Longrightarrow>
    fuse_step dir good s (snd (fuse_mkdir fe i name s))"
| unlink_req: "good_env dir (sync_env fe) \<Longrightarrow> fuse_step dir good s (snd (fuse_unlink fe i name s))"
| rmdir_req: "good_env dir (sync_env fe) \<Longrightarrow> fuse_step dir good s (snd (fuse_rmdir fe i name s))"
| rename_req: "good_env dir (sync_env fe) \<Longrightarrow>
    fuse_step dir good s (snd (fuse_rename fe i name j name' s))"
| write_req: "fuse_step dir good s (snd (fuse_write fe f pos data s))"
| create_req: "good_env dir (sync_env fe) \<Longrightarrow> pred_option valid_name name \<Longrightarrow>
    fuse_step dir good s (snd (fuse_create fe i name s))"
| flush_req: "good_env dir (sync_env fe) \<Longrightarrow> fuse_step dir good s (snd (fuse_flush fe f s))"
| fsync_req: "good_env dir (sync_env fe) \<Longrightarrow> fuse_step dir good s (snd (fuse_fsync fe f s))"
| release_req: "good_env dir (sync_env fe) \<Longrightarrow> fuse_step dir good s (snd (fuse_release fe f s))"
| releasedir_req: "fuse_step dir good s (snd (fuse_releasedir s))"
| service_step: "daemon_step dir good (svc s) t \<Longrightarrow> fuse_step dir good s (s\<lparr>svc := t\<rparr>)"

inductive mounted :: "string \<Rightarrow> (resource_entry \<Rightarrow> bool) \<Rightarrow> 'r fs \<Rightarrow> bool"
  for dir good where
  mount: "reachable dir good sv \<Longrightarrow> with_sync ck sv uid gid = (Inr s, t) \<Longrightarrow> mounted dir good s"
| request: "mounted dir good s \<Longrightarrow> fuse_step dir good s t \<Longrightarrow> mounted dir good t"

section \<open>What the handlers keep\<close>

definition fs_parts :: "(fs_state \<Rightarrow> bool) \<Rightarrow> ('r service \<Rightarrow> bool) \<Rightarrow> 'r fs \<Rightarrow> bool" where
  "fs_parts I J s \<longleftrightarrow> I (fstate s) \<and> J (svc s)"

locale fuse_invariant =
  fixes dir :: string and good :: "resource_entry \<Rightarrow> bool"
    and I :: "fs_state \<Rightarrow> bool" and J :: "'r service \<Rightarrow> bool"
  assumes steps: "J s \<Longrightarrow> daemon_step dir good s t \<Longrightarrow> J t"
    and keep_fresh: "keeps I (refresh_entry_from_stored ck i st)"
    and keep_children: "keeps I (replace_directory_children_from_stored ck i children)"
    and keep_upsert: "keeps I (upsert_stored_entry ck i st)"
    and keep_handle: "I p \<Longrightarrow> I (snd (and_then allocate_file_handle (\<lambda>f. set_handle f h) p))"
    and keep_size: "keeps I (update_entry_size ck i n)"
    and keep_url: "keeps I (Fs_State.invalidate_download_url i)"
    and keep_dirty: "keeps I (mark_handle_dirty f)"
    and keep_committed: "keeps I (apply_committed_stored ck f st)"
    and keep_closed: "keeps I (remove_write_handle f)"
    and keep_stale: "keeps I (mark_directory_loaded_stale i)"
    and keep_removed: "I p \<Longrightarrow> I (remove_entry_recursive i p)"
    and keep_renamed: "keeps I (rename_entry_subtree ck i j name path)"
begin

abbreviation P :: "'r fs \<Rightarrow> bool" where
  "P \<equiv> fs_parts I J"

lemma keep_state: "keeps I m \<Longrightarrow> keeps P (on_state m)"
  by (simp add: keeps_def on_state_def fs_parts_def run_simps)

lemma keep_look: "keeps P (on_state (gets f))" "keeps P (on_state (get_inode i))"
    "keeps P (on_state (lookup_cached_child i name))" "keeps P (on_state (readdir_snapshot i))"
    "keeps P (on_state (write_handle_snapshot f'))"
  unfolding get_inode_def lookup_cached_child_def readdir_snapshot_def write_handle_snapshot_def
  by (intro keep_state keeps_rules)+

lemma keep_sync: "(\<And>s. J s \<Longrightarrow> J (snd (m s))) \<Longrightarrow> keeps P (on_sync m)"
  by (auto simp: keeps_def on_sync_def fs_parts_def split: prod.split sum.split)
    (metis snd_conv)+

lemma keep_sync_step:
  "(\<And>s. daemon_step dir good s (snd (m s))) \<Longrightarrow> keeps P (on_sync m)"
  using steps by (blast intro: keep_sync)

lemma keep_sync_look: "keeps P (on_sync (get_entry p))" "keeps P (on_sync (list_children p))"
  by (intro keep_sync; simp add: run_get_entry run_list_children)+

lemma disk_step: "J s \<Longrightarrow> J (s\<lparr>disk := k\<rparr>)"
  using steps [OF _ daemon_step.outside [where s = s and w = "remote s" and k = k]] by simp

lemma keep_files: "keeps P (on_files m)"
  by (auto simp: keeps_def on_files_def fs_parts_def disk_step split: prod.split sum.split)

lemma keep_reply: "keeps P m \<Longrightarrow> keeps P (reply m)"
  by (auto simp: keeps_def reply_def split: prod.split sum.split)

lemma keep_reply_attr: "keeps P m \<Longrightarrow> keeps P (reply_attr m)"
  unfolding reply_attr_def by (intro keeps_rules keep_reply)

lemmas keep_parts = keep_look keep_sync_look keep_files keep_reply keep_reply_attr
  keep_state [OF keep_fresh] keep_state [OF keep_children] keep_state [OF keep_upsert]
  keep_state [OF keep_size] keep_state [OF keep_url] keep_state [OF keep_dirty]
  keep_state [OF keep_committed] keep_state [OF keep_closed] keep_state [OF keep_stale]
  keep_state [OF keep_renamed]

lemma keep_remove: "keeps P (on_state (modify (remove_entry_recursive i)))"
  by (intro keep_state keeps_modify keep_removed)

lemma keep_fresh_entry: "keeps P (ensure_entry_fresh fe i)" "keeps P (getattr_entry fe i)"
  unfolding getattr_entry_def ensure_entry_fresh_def by (intro keeps_rules keep_parts)+

lemma keep_loaded: "keeps P (ensure_directory_loaded fe i)" "keeps P (lookup_entry fe i name)"
    "keeps P (readdir_listing fe i)"
  unfolding lookup_entry_def readdir_listing_def ensure_directory_loaded_def
  by (intro keeps_rules keep_parts keep_fresh_entry)+

lemma keep_new_handle:
  assumes "\<And>f. keeps P (rest f)"
  shows "keeps P (and_then (on_state allocate_file_handle) (\<lambda>f.
      and_then (on_state (set_handle f h)) (\<lambda>_. rest f)))"
proof (rule keepsI)
  fix s assume s: "P s"
  let ?p = "snd (and_then allocate_file_handle (\<lambda>f. set_handle f h) (fstate s))"
  have "P (s\<lparr>fstate := ?p\<rparr>)" using s keep_handle by (simp add: fs_parts_def)
  with assms show "P (snd (and_then (on_state allocate_file_handle) (\<lambda>f.
      and_then (on_state (set_handle f h)) (\<lambda>_. rest f)) s))"
    by (simp add: keeps_def on_state_def allocate_file_handle_def set_handle_def run_simps)
qed

lemma keep_write: "keeps P (write_handle_data fe f pos data)" "keeps P (truncate_handle fe f n)"
  unfolding write_handle_data_def truncate_handle_def by (intro keeps_rules keep_parts)+

lemma keep_commit:
  "good_env dir (sync_env fe) \<Longrightarrow> keeps P (commit_write_handle fe f)"
  unfolding commit_write_handle_def
  by (intro keeps_rules keep_parts keep_sync_step daemon_step.committed)

lemma keep_finish: "keeps P (finish_write_handle f cleanup)"
  unfolding finish_write_handle_def
  by (intro keeps_rules keep_parts keep_sync) (simp add: run_on_disk disk_step)

lemma keep_open:
  assumes "good_env dir (sync_env fe)" and "answers_good good cl"
  shows "keeps P (open_file_handle fe cl i writable trunc)"
  unfolding open_file_handle_def create_staging_file_def using assms
  by (intro keeps_rules keep_new_handle keep_parts keep_fresh_entry keep_sync_step daemon_step.loaded)

lemma keep_create:
  assumes "good_env dir (sync_env fe)" and "valid_name name"
  shows "keeps P (create_pending_file fe i name)"
  unfolding create_pending_file_def create_staging_file_def using assms
  by (intro keeps_rules keep_new_handle keep_parts keep_fresh_entry keep_loaded keep_sync_step
      daemon_step.created)

lemma keep_read:
  assumes "good_env dir (sync_env fe)" and "answers_good good cl"
  shows "keeps P (read_data fe cl i h pos count)"
  unfolding read_data_def read_entry_data_def read_handle_data_def using assms
  by (intro keeps_rules keep_parts keep_fresh_entry keep_sync_step daemon_step.read)

lemma keep_truncate:
  assumes "good_env dir (sync_env fe)" and "answers_good good cl"
  shows "keeps P (truncate_entry fe cl i h n)"
  unfolding truncate_entry_def using assms
  by (intro keeps_rules keep_open keep_write keep_commit keep_finish)

lemma keep_tree:
  assumes "good_env dir (sync_env fe)"
  shows "valid_name name \<Longrightarrow> keeps P (mkdir_entry fe i name)"
    and "keeps P (unlink_entry fe i name expect_dir)"
    and "keeps P (rename_entry fe i name j name')"
  unfolding mkdir_entry_def unlink_entry_def rename_entry_def
  by (intro keeps_rules keep_parts keep_remove keep_fresh_entry keep_loaded keep_sync_step
      daemon_step.made_dir daemon_step.unlinked daemon_step.renamed assms; assumption?)+

lemma keep_request: "fuse_step dir good s t \<Longrightarrow> P s \<Longrightarrow> P t"
proof (induction rule: fuse_step.induct)
  case (service_step s t)
  then show ?case using steps by (auto simp: fs_parts_def)
next
  case (mkdir_req fe name s i)
  then have "keeps P (fuse_mkdir fe i name)"
    unfolding fuse_mkdir_def by (intro keeps_rules keep_parts keep_tree) auto
  from this mkdir_req.prems show ?case by (rule keepsD)
next
  case (create_req fe name s i)
  then have "keeps P (fuse_create fe i name)"
    unfolding fuse_create_def by (intro keeps_rules keep_parts keep_create) auto
  from this create_req.prems show ?case by (rule keepsD)
qed (unfold fuse_lookup_def fuse_getattr_def fuse_access_def fuse_opendir_def fuse_readdir_def
      fuse_open_def fuse_read_def fuse_setattr_def fuse_mknod_def fuse_unlink_def fuse_rmdir_def
      fuse_rename_def fuse_write_def fuse_flush_def fuse_fsync_def fuse_release_def fuse_releasedir_def;
    erule keepsD [rotated]; intro keeps_rules keep_parts keep_fresh_entry keep_loaded keep_open
      keep_read keep_truncate keep_write keep_commit keep_finish keep_tree; assumption)+

end

section \<open>Consistent tables\<close>

definition entries_ok :: "fs_state \<Rightarrow> bool" where
  "entries_ok p \<longleftrightarrow> (\<forall>i n. entries p i = Some n \<longrightarrow> 0 < i \<and> i < next_ino p \<and> n_ino n = i)"

definition index_ok :: "fs_state \<Rightarrow> bool" where
  "index_ok p \<longleftrightarrow>
     (\<forall>path i. path_to_ino p path = Some i \<longrightarrow> (\<exists>n. entries p i = Some n \<and> n_path n = path))"

definition handles_ok :: "fs_state \<Rightarrow> bool" where
  "handles_ok p \<longleftrightarrow> distinct (map fst (write_handles p)) \<and>
     (\<forall>f \<in> fst ` set (write_handles p). 0 < f \<and> f < next_fh p) \<and> 0 < next_fh p"

definition fs_ok :: "fs_state \<Rightarrow> bool" where
  "fs_ok p \<longleftrightarrow> 0 < next_ino p \<and> entries_ok p \<and> index_ok p \<and> handles_ok p \<and>
     distinct (map fst (dir_children p))"

lemmas fs_ok_defs = fs_ok_def entries_ok_def index_ok_def handles_ok_def

text \<open>A change of one entry and of the index, and the cases it comes in.\<close>

lemma fs_ok_entry:
  assumes "fs_ok p" and "entries p i = Some n" and "n_ino n' = i"
    and "index' = path_to_ino p \<and> n_path n' = n_path n \<or>
      index' = (path_to_ino p)(n_path n := None, n_path n' \<mapsto> i)"
  shows "fs_ok (p\<lparr>entries := (entries p)(i \<mapsto> n'), path_to_ino := index'\<rparr>)"
  using assms by (fastforce simp: fs_ok_defs split: if_splits)

lemma fs_ok_moved:
  assumes "fs_ok p" and "entries p i = Some n" and "n_ino n' = i" and "n_path n' = path"
  shows "fs_ok (p\<lparr>path_to_ino := (path_to_ino p)(n_path n := None, path \<mapsto> i),
    entries := (entries p)(i \<mapsto> n')\<rparr>)"
  using assms by (fastforce simp: fs_ok_defs split: if_splits)

lemma fs_ok_new:
  assumes "fs_ok p" and "n_ino n = next_ino p" and "path_to_ino p (n_path n) = None"
  shows "fs_ok (p\<lparr>next_ino := next_ino p + 1, path_to_ino := (path_to_ino p)(n_path n \<mapsto> next_ino p),
    entries := (entries p)(next_ino p \<mapsto> n)\<rparr>)"
  using assms unfolding fs_ok_defs by (auto split: if_splits) (metis less_SucI, metis nat_neq_iff option.inject)

lemma update_from_stored_simps [simp]:
  "n_ino (update_from_stored ck st n) = n_ino n" "n_path (update_from_stored ck st n) = e_path st"
  by (simp_all add: update_from_stored_def)

lemma fs_ok_handles:
  "fs_ok p \<Longrightarrow> f \<in> fst ` set (write_handles p) \<Longrightarrow> fs_ok (p\<lparr>write_handles := put f h (write_handles p)\<rparr>)"
  by (auto simp: fs_ok_defs distinct_put keys_put)

lemma fs_ok_children:
  "fs_ok p \<Longrightarrow> distinct (map fst children) \<Longrightarrow> fs_ok (p\<lparr>dir_children := children, dir_cache_time := cached\<rparr>)"
  by (simp add: fs_ok_def entries_ok_def index_ok_def handles_ok_def)

lemma from_stored_simps [simp]:
  "n_ino (from_stored ck i j st) = i" "n_path (from_stored ck i j st) = e_path st"
  by (simp_all add: from_stored_def Let_def)

lemma run_write_handle_snapshot [run_simps]:
  "write_handle_snapshot f p = (case map_of (write_handles p) f of None \<Rightarrow> Inl BadHandle | Some h \<Rightarrow> Inr h, p)"
  by (simp add: write_handle_snapshot_def run_simps split: option.split)

lemma run_get_inode [run_simps]:
  "get_inode i p = (case entries p i of None \<Rightarrow> Inl NotFound | Some n \<Rightarrow> Inr n, p)"
  by (simp add: get_inode_def run_simps split: option.split)

lemmas fs_runs = set_inode_def move_path_key_def set_handle_def allocate_ino_def run_simps

lemma fs_keep_fresh: "keeps fs_ok (refresh_entry_from_stored ck i st)"
proof (rule keepsI)
  fix p assume p: "fs_ok p"
  show "fs_ok (snd (refresh_entry_from_stored ck i st p))"
  proof (cases "entries p i")
    case (Some n)
    then have "n_ino n = i" using p by (simp add: fs_ok_defs)
    then show ?thesis
      using Some fs_ok_entry [OF p Some, of "update_from_stored ck st n" "path_to_ino p"]
        fs_ok_entry [OF p Some, of "update_from_stored ck st n" "(path_to_ino p)(n_path n := None, e_path st \<mapsto> i)"]
      by (auto simp: refresh_entry_from_stored_def fs_runs)
  qed (use p in \<open>simp add: refresh_entry_from_stored_def fs_runs\<close>)
qed

lemma fs_keep_upsert: "keeps fs_ok (upsert_stored_entry ck i st)"
proof (rule keepsI)
  fix p assume p: "fs_ok p"
  show "fs_ok (snd (upsert_stored_entry ck i st p))"
  proof (cases "path_to_ino p (e_path st)")
    case (Some j)
    then obtain n where n: "entries p j = Some n" "n_path n = e_path st"
      using p unfolding fs_ok_def index_ok_def by blast
    moreover have "n_ino n = j" using p n(1) by (simp add: fs_ok_defs)
    ultimately show ?thesis
      using Some fs_ok_entry [OF p n(1), of "update_from_stored ck st (n\<lparr>n_parent := i\<rparr>)" "path_to_ino p"]
      by (simp add: upsert_stored_entry_def fs_runs)
  next
    case None
    then show ?thesis
      using fs_ok_new [OF p, of "from_stored ck (next_ino p) i st"]
      by (simp add: upsert_stored_entry_def fs_runs)
  qed
qed

lemma fs_keep_fill:
  "(\<And>c. keeps fs_ok (upsert c)) \<Longrightarrow> keeps fs_ok (fill_children name_of_child upsert cs mapped)"
  by (induction cs arbitrary: mapped) (auto intro: keeps_rules)

lemma fs_keep_children: "keeps fs_ok (replace_directory_children_from_stored ck i children)"
proof -
  have "keeps fs_ok (store_children ck i mapped)" for mapped
    unfolding store_children_def
    by (rule keeps_modify, rule fs_ok_children) (auto simp: fs_ok_def distinct_put)
  then show ?thesis
    unfolding replace_directory_children_from_stored_def
    by (intro keeps_rules fs_keep_fill fs_keep_upsert)
qed

lemma fs_keep_handle: "fs_ok p \<Longrightarrow> fs_ok (snd (and_then allocate_file_handle (\<lambda>f. set_handle f h) p))"
  by (auto simp: allocate_file_handle_def fs_runs fs_ok_defs distinct_put keys_put less_Suc_eq)

lemma fs_keep_size: "keeps fs_ok (update_entry_size ck i m)"
proof (rule keepsI)
  fix p assume p: "fs_ok p"
  show "fs_ok (snd (update_entry_size ck i m p))"
  proof (cases "entries p i")
    case (Some n)
    then have "n_ino n = i" using p by (simp add: fs_ok_defs)
    then show ?thesis
      using Some fs_ok_entry [OF p Some, of "n\<lparr>n_size := m, n_modified := sys_now ck, n_cached_at := instant_now ck\<rparr>" "path_to_ino p"]
      by (simp add: update_entry_size_def fs_runs)
  qed (use p in \<open>simp add: update_entry_size_def fs_runs\<close>)
qed

lemma fs_keep_url: "keeps fs_ok (Fs_State.invalidate_download_url i)"
proof (rule keepsI)
  fix p assume p: "fs_ok p"
  show "fs_ok (snd (Fs_State.invalidate_download_url i p))"
  proof (cases "entries p i")
    case (Some n)
    then have "n_ino n = i" using p by (simp add: fs_ok_defs)
    then show ?thesis
      using Some fs_ok_entry [OF p Some, of "n\<lparr>n_download_url := None, n_download_url_cached_at := None\<rparr>" "path_to_ino p"]
      by (simp add: Fs_State.invalidate_download_url_def fs_runs)
  next
    case None
    then have "(entries p)(i := None) = entries p" by (simp add: fun_upd_idem)
    with p None show ?thesis by (simp add: Fs_State.invalidate_download_url_def fs_runs)
  qed
qed

lemma key_of: "map_of m f = Some h \<Longrightarrow> f \<in> fst ` set m"
  by (force dest: map_of_SomeD)

lemma fs_keep_dirty: "keeps fs_ok (mark_handle_dirty f)"
  by (auto intro!: keepsI simp: mark_handle_dirty_def fs_runs fs_ok_handles key_of split: option.split
      sum.split)

lemma fs_keep_stale: "keeps fs_ok (mark_directory_loaded_stale i)"
  unfolding mark_directory_loaded_stale_def
  by (rule keeps_modify, rule fs_ok_children) (auto simp: fs_ok_def distinct_without)

lemma fs_keep_closed: "keeps fs_ok (remove_write_handle f)"
  by (auto intro!: keepsI simp: remove_write_handle_def fs_runs fs_ok_defs without_def distinct_map_filter
      split: option.split sum.split)

lemma fs_keep_committed: "keeps fs_ok (apply_committed_stored ck f st)"
proof (rule keepsI)
  fix p assume p: "fs_ok p"
  show "fs_ok (snd (apply_committed_stored ck f st p))"
  proof (cases "map_of (write_handles p) f")
    case None
    with p show ?thesis by (simp add: apply_committed_stored_def fs_runs)
  next
    case h: (Some h)
    show ?thesis
    proof (cases "entries p (h_ino h)")
      case None
      with p h show ?thesis by (simp add: apply_committed_stored_def fs_runs)
    next
      case (Some n)
      let ?n = "update_from_stored ck st (n\<lparr>n_parent := h_parent h\<rparr>)"
      let ?index = "if n_path n = e_path st then path_to_ino p
        else (path_to_ino p)(n_path n := None, e_path st \<mapsto> h_ino h)"
      let ?q = "p\<lparr>entries := (entries p)(h_ino h \<mapsto> ?n), path_to_ino := ?index\<rparr>"
      have "n_ino n = h_ino h" using p Some by (simp add: fs_ok_defs)
      then have q: "fs_ok ?q" by (intro fs_ok_entry [OF p Some]) auto
      have "f \<in> fst ` set (write_handles ?q)" using key_of [OF h] by simp
      from keepsD [OF fs_keep_stale, OF fs_ok_handles [OF q this], of "h_parent h"] h Some show ?thesis
        by (auto simp: apply_committed_stored_def fs_runs clean_handle_def)
    qed
  qed
qed

lemma fs_ok_drop:
  assumes "fs_ok p" shows "fs_ok (drop_entry i p)"
proof -
  have "fs_ok (p\<lparr>dir_cache_time := cached, entries := (entries p)(i := None),
      path_to_ino := (path_to_ino p)(n_path n := None)\<rparr>)" if "entries p i = Some n" for n cached
    using assms that unfolding fs_ok_defs by (auto split: if_splits) (metis option.inject)
  moreover have "fs_ok (p\<lparr>dir_cache_time := cached\<rparr>)" for cached
    using assms by (simp add: fs_ok_defs)
  ultimately show ?thesis by (simp add: drop_entry_def Let_def split: option.split)
qed

lemma fs_keep_removed:
  "fs_ok p \<Longrightarrow> fs_ok (remove_entry_recursive i p)" "fs_ok p \<Longrightarrow> fs_ok (remove_children cs p)"
proof (induction i p and cs p rule: remove_entry_recursive_remove_children.induct)
  case (1 i s)
  show ?case
  proof (cases "map_of (dir_children s) i")
    case None
    with 1 show ?thesis by (simp add: fs_ok_drop)
  next
    case (Some children)
    have "fs_ok (s\<lparr>dir_children := without i (dir_children s)\<rparr>)"
      using 1(2) by (simp add: fs_ok_defs distinct_without)
    with 1(1) Some show ?thesis by (simp add: fs_ok_drop)
  qed
qed simp_all

lemma fs_ok_retarget: "fs_ok p \<Longrightarrow> fs_ok (retarget_entry ck i j name old new k p)"
proof (cases "entries p k")
  case (Some n)
  moreover assume p: "fs_ok p"
  ultimately have "n_ino n = k" by (simp add: fs_ok_defs)
  then show ?thesis
    using Some by (simp add: retarget_entry_def Let_def) (intro conjI impI; rule fs_ok_moved [OF p]; (assumption | simp))
qed (simp add: retarget_entry_def)

lemma fs_keep_renamed: "keeps fs_ok (rename_entry_subtree ck i j name path)"
proof -
  have fold: "fs_ok p \<Longrightarrow> fs_ok (fold (retarget_entry ck i j name old new) xs p)" for p old new xs
    by (induction xs arbitrary: p) (simp_all add: fs_ok_retarget)
  have "fs_ok (p\<lparr>write_handles := map (\<lambda>(f, h). (f, g h)) (write_handles p)\<rparr>)" if "fs_ok p" for p g
    using that by (force simp: fs_ok_defs comp_def case_prod_unfold)
  with fold show ?thesis
    unfolding rename_entry_subtree_def by (intro keeps_rules) (simp add: Let_def)
qed

interpretation fuse: fuse_invariant dir good fs_ok "reachable dir good"
  by unfold_locales
    (auto intro: reachable.stepped fs_keep_fresh fs_keep_children fs_keep_upsert fs_keep_handle
      fs_keep_size fs_keep_url fs_keep_dirty fs_keep_committed fs_keep_closed fs_keep_stale
      fs_keep_removed fs_keep_renamed simp del: remove_entry_recursive.simps)

section \<open>Numbers are not reused\<close>

definition grew :: "fs_state \<Rightarrow> fs_state \<Rightarrow> bool" where
  "grew p q \<longleftrightarrow> next_ino p \<le> next_ino q \<and> next_fh p \<le> next_fh q \<and>
     (\<forall>i < next_ino p. entries p i = None \<longrightarrow> entries q i = None)"

lemma grew_refl: "grew p p"
  by (simp add: grew_def)

lemma grew_trans: "grew p q \<Longrightarrow> grew q r \<Longrightarrow> grew p r"
  unfolding grew_def by (meson le_trans less_le_trans)

lemma keeps_grown:
  assumes "keeps fs_ok m" and "\<And>q. fs_ok q \<Longrightarrow> grew q (snd (m q))"
  shows "keeps (\<lambda>q. fs_ok q \<and> grew p q) m"
  using assms unfolding keeps_def by (meson grew_trans)

lemma index_entry: "fs_ok q \<Longrightarrow> path_to_ino q path = Some i \<Longrightarrow> entries q i \<noteq> None"
  unfolding fs_ok_def index_ok_def by fastforce

lemma grew_upsert: "fs_ok q \<Longrightarrow> grew q (snd (upsert_stored_entry ck i st q))"
  by (auto simp: upsert_stored_entry_def fs_runs grew_def dest: index_entry split: option.split)

lemma grew_fill:
  assumes "\<And>c q. fs_ok q \<Longrightarrow> grew q (snd (upsert c q))" and "\<And>c. keeps fs_ok (upsert c)"
  shows "fs_ok q \<Longrightarrow> grew q (snd (fill_children name_of_child upsert cs mapped q))"
proof (induction cs arbitrary: q mapped)
  case (Cons c cs)
  have "grew q (snd (upsert c q))" "fs_ok (snd (upsert c q))"
    using assms Cons.prems by (auto dest: keepsD)
  with Cons.IH show ?case by (auto simp: run_simps intro: grew_trans split: sum.split)
qed (simp add: run_simps grew_refl)

lemma grew_children: "fs_ok q \<Longrightarrow> grew q (snd (replace_directory_children_from_stored ck i children q))"
proof -
  assume q: "fs_ok q"
  let ?fill = "fill_children e_name (upsert_stored_entry ck i) children []"
  have "grew q (snd (?fill q))" using grew_fill [OF grew_upsert fs_keep_upsert q] .
  moreover have "grew r (snd (store_children ck i mapped r))" for r mapped
    by (simp add: store_children_def run_simps grew_def)
  ultimately show ?thesis
    by (auto simp: replace_directory_children_from_stored_def run_simps intro: grew_trans split: sum.split)
qed

lemma grew_drop: "grew q (drop_entry i q)"
  by (auto simp: drop_entry_def Let_def grew_def split: option.split)

lemma grew_removed:
  "grew q (remove_entry_recursive i q)" "grew q (remove_children cs q)"
proof (induction i q and cs q rule: remove_entry_recursive_remove_children.induct)
  case (1 i s)
  have "grew s (s\<lparr>dir_children := without i (dir_children s)\<rparr>)" by (simp add: grew_def)
  with 1 show ?case
    by (auto intro: grew_drop grew_trans split: option.split)
next
  case (3 c cs s)
  then show ?case by (auto intro: grew_trans simp del: remove_entry_recursive.simps)
qed (simp add: grew_refl)

lemma snd_ok_or: "snd (ok_or e x s) = s"
  by (cases x) (simp_all add: run_simps)

lemma grew_renamed: "fs_ok q \<Longrightarrow> grew q (snd (rename_entry_subtree ck i j name path q))"
proof -
  have one: "grew r (retarget_entry ck i j name old new k r)" for r old new k
    by (auto simp: retarget_entry_def Let_def grew_def split: option.split)
  have fold: "grew r (fold (retarget_entry ck i j name old new) xs r)" for r old new xs
    by (induction xs arbitrary: r) (auto intro: grew_refl grew_trans one)
  have "grew r (r\<lparr>write_handles := hs\<rparr>)" for r hs by (simp add: grew_def)
  then have last_step: "grew r ((fold (retarget_entry ck i j name old new) xs r)\<lparr>write_handles := hs\<rparr>)"
    for r old new xs hs
    by (rule grew_trans [OF fold])
  show ?thesis
    by (auto simp: rename_entry_subtree_def run_simps Let_def grew_refl last_step snd_ok_or
        simp del: collect_subtree.simps split: option.split sum.split)
qed

lemma grew_committed: "grew q (snd (apply_committed_stored ck f st q))"
  by (auto simp: apply_committed_stored_def clean_handle_def mark_directory_loaded_stale_def fs_runs grew_def
      split: option.split)

lemma grew_small:
  "grew q (snd (refresh_entry_from_stored ck i st q))" "grew q (snd (update_entry_size ck i n q))"
  "grew q (snd (Fs_State.invalidate_download_url i q))" "grew q (snd (mark_handle_dirty f q))"
  "grew q (snd (remove_write_handle f q))" "grew q (snd (mark_directory_loaded_stale i q))"
  by (auto simp: refresh_entry_from_stored_def update_entry_size_def Fs_State.invalidate_download_url_def
      mark_handle_dirty_def remove_write_handle_def mark_directory_loaded_stale_def fs_runs grew_def
      split: option.split)

interpretation grown: fuse_invariant dir good "\<lambda>q. fs_ok q \<and> grew p q" "reachable dir good"
proof unfold_locales
  fix q f h assume q: "fs_ok q \<and> grew p q"
  have "grew q (snd (and_then allocate_file_handle (\<lambda>f. set_handle f h) q))"
    by (simp add: allocate_file_handle_def fs_runs grew_def)
  with q show "fs_ok (snd (and_then allocate_file_handle (\<lambda>f. set_handle f h) q)) \<and>
      grew p (snd (and_then allocate_file_handle (\<lambda>f. set_handle f h) q))"
    by (auto intro: fs_keep_handle grew_trans)
next
  fix q i assume "fs_ok q \<and> grew p q"
  then show "fs_ok (remove_entry_recursive i q) \<and> grew p (remove_entry_recursive i q)"
    by (auto intro: fs_keep_removed grew_trans grew_removed simp del: remove_entry_recursive.simps)
qed (auto intro!: keeps_grown fs_keep_fresh fs_keep_children fs_keep_upsert fs_keep_size fs_keep_url
    fs_keep_dirty fs_keep_committed fs_keep_closed fs_keep_stale fs_keep_renamed grew_upsert grew_children
    grew_renamed grew_committed grew_small intro: reachable.stepped)

section \<open>Every request\<close>

lemma fs_ok_new_state: "e_path root = ROOT_PATH \<Longrightarrow> fs_ok (fs_state_new ck root)"
  by (auto simp: fs_ok_defs fs_state_new_def ROOT_def split: if_splits)

lemma mounted_parts: "mounted dir good s \<Longrightarrow> fs_ok (fstate s) \<and> reachable dir good (svc s)"
proof (induction rule: mounted.induct)
  case (mount sv ck uid gid s t)
  then have "s = \<lparr>svc = sv, fstate = fs_state_new ck (the (find_path ROOT_PATH (sdb sv))), fs_uid = uid, fs_gid = gid\<rparr>"
    "\<exists>e. find_path ROOT_PATH (sdb sv) = Some e"
    by (auto simp: with_sync_def run_expect_entry split: option.splits)
  with mount(1) show ?case
    by (auto intro!: fs_ok_new_state dest: find_path_member)
next
  case (request s t)
  then show ?case using fuse.keep_request [of dir good s t] by (simp add: fs_parts_def)
qed

end
