(* ===== verification/Fake.thy ===== *)
theory Fake
  imports Worker
begin

text \<open>
  \<open>FakeRemoteClient\<close>, the in-memory remote side of the repository's own tests
  (module \<open>tests\<close> of src/src/sync.rs).  The witnesses of the development run the
  service against it, on the scenarios of those tests and on others.

  Its two hash maps are association lists without duplicate keys.
\<close>

record fake_remote =
  resources :: "(string \<times> resource_entry) list"
  remote_contents :: "(string \<times> bytes) list"
  fail_uploads :: "string list"

definition alist_put :: "'k \<Rightarrow> 'v \<Rightarrow> ('k \<times> 'v) list \<Rightarrow> ('k \<times> 'v) list" where
  "alist_put k v m = filter (\<lambda>p. fst p \<noteq> k) m @ [(k, v)]"

definition alist_remove :: "'k \<Rightarrow> ('k \<times> 'v) list \<Rightarrow> ('k \<times> 'v) list" where
  "alist_remove k m = filter (\<lambda>p. fst p \<noteq> k) m"

definition fake_dir_entry :: "string \<Rightarrow> resource_entry" where
  "fake_dir_entry path =
     \<lparr>r_path = path, r_name = (if path = ROOT_PATH then ROOT_PATH else name_of path),
      r_kind = resource_kind.Directory, r_size = 0, r_created = Some 0, r_modified = Some 0,
      r_remote_version = Some (''dir:'' @ path)\<rparr>"

definition insert_dir :: "string \<Rightarrow> fake_remote \<Rightarrow> fake_remote" where
  "insert_dir path w = w\<lparr>resources := alist_put path (fake_dir_entry path) (resources w)\<rparr>"

definition fake_file_entry :: "string \<Rightarrow> bytes \<Rightarrow> string \<Rightarrow> resource_entry" where
  "fake_file_entry path bs version =
     \<lparr>r_path = path, r_name = name_of path, r_kind = resource_kind.File,
      r_size = of_nat (length bs), r_created = Some 0, r_modified = Some 0,
      r_remote_version = Some version\<rparr>"

definition fake_insert_file :: "string \<Rightarrow> bytes \<Rightarrow> string \<Rightarrow> fake_remote \<Rightarrow> fake_remote" where
  "fake_insert_file path bs version w =
     w\<lparr>resources := alist_put path (fake_file_entry path bs version) (resources w),
       remote_contents := alist_put path bs (remote_contents w)\<rparr>"

definition fake_under :: "string \<Rightarrow> string \<Rightarrow> bool" where
  "fake_under path key \<longleftrightarrow> key = path \<or> str_strip_prefix (path @ ''/'') key \<noteq> None"

definition fake_fetch :: "string \<Rightarrow> (fake_remote, yandex_error, resource_entry) action" where
  "fake_fetch path w = (case map_of (resources w) path of
      Some r \<Rightarrow> Inr r | None \<Rightarrow> Inl yandex_error.NotFound, w)"

definition fake_children :: "string \<Rightarrow> fake_remote \<Rightarrow> resource_entry list" where
  "fake_children path w =
     (let pre = (if path = ROOT_PATH then ROOT_PATH else path @ ''/'') in
      sort_key r_path (filter
        (\<lambda>r. r_path r \<noteq> path \<and>
             (case str_strip_prefix pre (r_path r) of
                None \<Rightarrow> False | Some rest \<Rightarrow> CHR ''/'' \<notin> set rest))
        (map snd (resources w))))"

definition fake_list :: "string \<Rightarrow> (fake_remote, yandex_error, resource_entry list) action" where
  "fake_list path = and_then (fake_fetch path) (\<lambda>_. gets (fake_children path))"

definition fake_create_directory :: "string \<Rightarrow> (fake_remote, yandex_error, unit) action" where
  "fake_create_directory path w =
     (if path \<in> fst ` set (resources w) then (Inl (yandex_error.Conflict ''exists''), w)
          else (Inr (), insert_dir path w))"

definition fake_delete :: "string \<Rightarrow> bool \<Rightarrow> (fake_remote, yandex_error, unit) action" where
  "fake_delete path permanently w =
     (if \<forall>k \<in> fst ` set (resources w). \<not> fake_under path k
          then (Inl yandex_error.NotFound, w)
          else (Inr (), w\<lparr>resources := filter (\<lambda>p. \<not> fake_under path (fst p)) (resources w),
                  remote_contents := filter (\<lambda>p. \<not> fake_under path (fst p)) (remote_contents w)\<rparr>))"

definition fake_move_one :: "string \<Rightarrow> string \<Rightarrow> string \<Rightarrow> fake_remote \<Rightarrow> fake_remote" where
  "fake_move_one from to old_path w =
     (let tail = (case str_strip_prefix from old_path of Some t \<Rightarrow> t | None \<Rightarrow> []);
          new_path = to @ tail in
      case map_of (resources w) old_path of
        None \<Rightarrow> w
      | Some r \<Rightarrow>
          (let w' = w\<lparr>resources := alist_put new_path
                 (r\<lparr>r_path := new_path, r_name := name_of new_path,
                    r_remote_version := Some (''rev:'' @ new_path)\<rparr>)
                 (alist_remove old_path (resources w))\<rparr> in
           case map_of (remote_contents w') old_path of
             None \<Rightarrow> w'
           | Some bs \<Rightarrow> w'\<lparr>remote_contents :=
               alist_put new_path bs (alist_remove old_path (remote_contents w'))\<rparr>))"

definition fake_move :: "string \<Rightarrow> string \<Rightarrow> bool \<Rightarrow> (fake_remote, yandex_error, unit) action" where
  "fake_move from to overwrite w =
     (case filter (fake_under from) (map fst (resources w)) of
            [] \<Rightarrow> (Inl yandex_error.NotFound, w)
          | ks \<Rightarrow> (Inr (), fold (fake_move_one from to) ks w))"

definition fake_upload :: "string \<Rightarrow> io_error + bytes \<Rightarrow> (fake_remote, yandex_error, unit) action" where
  "fake_upload href body w =
     (if href \<in> set (fail_uploads w) then (Inl Forbidden, w)
          else case body of
            Inl err \<Rightarrow> (Inl (yandex_error.Io err), w)
          | Inr bs \<Rightarrow> (Inr (), fake_insert_file href bs
              (''rev:'' @ href @ '':'' @ show_nat (length bs)) w))"

definition fake_download :: "string \<Rightarrow> (fake_remote, yandex_error, bytes) action" where
  "fake_download href w = (case map_of (remote_contents w) href of
      Some bs \<Rightarrow> Inr bs | None \<Rightarrow> Inl yandex_error.NotFound, w)"

definition fake_client :: "fake_remote client" where
  "fake_client =
     \<lparr>fetch_resource_metadata = fake_fetch,
      list_directory = fake_list,
      create_directory = fake_create_directory,
      delete_resource = fake_delete,
      move_resource = fake_move,
      resolve_download_url = ret,
      resolve_upload_url = (\<lambda>path _. ret path),
      upload_file = fake_upload,
      download_file = fake_download\<rparr>"

section \<open>The fixture of the tests\<close>

definition fast_bytes :: bytes where
  "fast_bytes = [102, 97, 115, 116]"

definition fixture :: fake_remote where
  "fixture = fake_insert_file ''disk:/fast.txt'' fast_bytes ''rev-fast''
     (insert_dir ROOT_PATH \<lparr>resources = [], remote_contents = [], fail_uploads = []\<rparr>)"

definition test_env :: "int \<Rightarrow> env" where
  "test_env t = \<lparr>now = t, rnd = of_nat, cache_dir = ''/state/cache'',
     yandex_display = (\<lambda>_. ''remote error''), hash_order = (\<lambda>rs. rs)\<rparr>"

lemma test_env_simps [simp]: "now (test_env t) = t" "cache_dir (test_env t) = ''/state/cache''"
  by (simp_all add: test_env_def)

definition test_service :: "fake_remote \<Rightarrow> fake_remote service" where
  "test_service w = \<lparr>sdb = empty_db,
     disk = \<lparr>contents = (\<lambda>_. None), write_fault = (\<lambda>_. None)\<rparr>, status_version = 0,
     stop = False, worker_handles = 0, remote = w\<rparr>"

text \<open>\<open>fresh_service\<close>: an opened service that has processed its first refresh.\<close>

definition fresh_service :: "fake_remote \<Rightarrow> fake_remote service" where
  "fresh_service w =
     snd (and_then (open_at (test_env 1000)) (\<lambda>_. worker_round 20 (test_env 1000) fake_client)
       (test_service w))"

end
