(* ===== verification/Sample.thy ===== *)
theory Sample
  imports Mounted Fake
begin

text \<open>
  Reachable states for the witnesses: a service in which a directory and a file were
  created, and a mount of a new one in which a file is created and being written.
\<close>

section \<open>A service\<close>

text \<open>
  A reachable state for the witnesses: a service opened on an empty database in which a
  directory and a file were created.
\<close>

definition sample_state :: "fake_remote service" where
  "sample_state = snd (create_file (test_env 1001) ''disk:/docs'' ''a.txt''
     (snd (mkdir (test_env 1001) ROOT_PATH ''docs'' (snd (open_at (test_env 1000) (test_service fixture))))))"

lemma good_test_env: "good_env ''/state/cache'' (test_env t)"
  by (simp add: good_env_def test_env_def)

lemma sample_reachable: "reachable ''/state/cache'' good sample_state"
proof -
  have "sdb (test_service fixture) = empty_db" by (simp add: test_service_def)
  then have "reachable ''/state/cache'' good (snd (open_at (test_env 1000) (test_service fixture)))"
    by (rule opened) (rule good_test_env)
  then have "reachable ''/state/cache'' good
      (snd (mkdir (test_env 1001) ROOT_PATH ''docs'' (snd (open_at (test_env 1000) (test_service fixture)))))"
    by (rule stepped) (intro made_dir good_test_env, simp add: valid_name_def)
  then show ?thesis unfolding sample_state_def
    by (rule stepped) (intro created good_test_env, simp add: valid_name_def)
qed

lemma sample_rows: "length (files (sdb sample_state)) = 3"
  by code_simp

lemma sample_row: "files (sdb sample_state) ! 2 \<in> set (files (sdb sample_state))"
  using sample_rows by (metis nth_mem numeral_2_eq_2 numeral_3_eq_3 lessI)

lemma sample_cache: "e_cache_path (files (sdb sample_state) ! 2) =
    Some (cache_path_for ''/state/cache'' (e_file_id (files (sdb sample_state) ! 2)))"
  by code_simp

section \<open>A mount\<close>

definition sample_fe :: "int \<Rightarrow> fs_env" where
  "sample_fe t =
     \<lparr>sync_env = test_env t, fs_clock = \<lparr>sys_now = t * 1000000000, instant_now = t * 1000000000\<rparr>,
      temp_dir = ''/tmp'', process_id = 7, staging_rnd = of_nat\<rparr>"

definition sample_open :: "fake_remote service" where
  "sample_open = snd (open_at (test_env 1000) (test_service fixture))"

definition sample_root :: stored_entry where
  "sample_root = files (sdb sample_open) ! 0"

definition sample_mount :: "fake_remote fs" where
  "sample_mount =
     \<lparr>svc = sample_open, fstate = fs_state_new (fs_clock (sample_fe 1002)) sample_root,
      fs_uid = 1000, fs_gid = 1000\<rparr>"

definition sample_fs :: "fake_remote fs" where
  "sample_fs = snd (fuse_write (sample_fe 1004) 1 2 [7, 8, 9]
     (snd (fuse_create (sample_fe 1003) ROOT (Some ''new.txt'') sample_mount)))"

lemma sample_opened: "reachable ''/state/cache'' good sample_open"
  unfolding sample_open_def by (rule opened) (simp_all add: test_service_def good_test_env)

lemma sample_mounts: "with_sync (fs_clock (sample_fe 1002)) sample_open 1000 1000 = (Inr sample_mount, sample_open)"
proof -
  have "find_path ROOT_PATH (sdb sample_open) = Some sample_root" by code_simp
  then show ?thesis by (simp add: sample_mount_def with_sync_def run_expect_entry)
qed

lemma good_sample_fe: "good_env ''/state/cache'' (sync_env (sample_fe t))"
  by (simp add: sample_fe_def good_test_env)

lemma sample_mounted: "mounted ''/state/cache'' good sample_fs"
proof -
  have "mounted ''/state/cache'' good sample_mount" by (rule mount [OF sample_opened sample_mounts])
  then have "mounted ''/state/cache'' good
      (snd (fuse_create (sample_fe 1003) ROOT (Some ''new.txt'') sample_mount))"
    by (rule request) (intro create_req good_sample_fe, simp add: valid_name_def)
  then show ?thesis unfolding sample_fs_def by (rule request) (rule write_req)
qed

end
