(* ===== verification/Fuse.thy ===== *)
theory Fuse
  imports Sample
begin

text \<open>
  What holds of the mounted file system: the service below it stays reachable, the tables
  stay consistent, and inode and handle numbers are not reused.
\<close>

section \<open>Every request\<close>



text \<open>
  C19: In a mounted file system the tables are consistent: every inode in the table carries
  its own number, between 1 and the next number; the path index leads to an entry with that
  path, so no inode is indexed under two paths; handles are distinct, positive and below the
  next handle.
\<close>

theorem mounted_tables_consistent:
  assumes "mounted dir good s"
  shows "(\<forall>i n. entries (fstate s) i = Some n \<longrightarrow> 0 < i \<and> i < next_ino (fstate s) \<and> n_ino n = i) \<and>
    (\<forall>path i. path_to_ino (fstate s) path = Some i \<longrightarrow>
       (\<exists>n. entries (fstate s) i = Some n \<and> n_path n = path)) \<and>
    distinct (map fst (write_handles (fstate s))) \<and>
    (\<forall>f \<in> fst ` set (write_handles (fstate s)). 0 < f \<and> f < next_fh (fstate s))"
  using mounted_parts [OF assms] by (simp add: fs_ok_defs)

text \<open>The handle of the sample, opened for writing.\<close>

lemma sample_handle:
  "map (\<lambda>(f, h). (f, h_ino h, h_path h, h_staging_path h, h_dirty h)) (write_handles (fstate sample_fs)) =
     [(1, 2, ''disk:/new.txt'', ''/tmp/discohack-staging-7-0000000000000000'', True)]"
  by code_simp

theorem mounted_tables_consistent_witness:
  "fst ` set (write_handles (fstate sample_fs)) = {1} \<and> 1 < next_fh (fstate sample_fs)"
proof -
  have one: "fst ` set (write_handles (fstate sample_fs)) = {1}"
  proof -
    have "map fst (write_handles (fstate sample_fs)) = [1]"
      using arg_cong [OF sample_handle, of "map fst"] by (simp add: comp_def case_prod_unfold)
    then show ?thesis by (metis empty_set list.simps(15) set_map)
  qed
  with mounted_tables_consistent [OF sample_mounted] show ?thesis by auto
qed



end
