(* ===== verification/Queue.thy ===== *)
theory Queue
  imports Integrity Fake
begin

text \<open>
  The operations queue of src/src/sync.rs: what \<open>upsert_operation\<close> leaves in it, which
  operation a lease takes and for how long, how expired leases come back, and the retry
  policy of \<open>retry_or_fail\<close>.
\<close>

section \<open>Enqueueing\<close>

definition open_op :: "string \<Rightarrow> queue_op_type \<Rightarrow> queue_row \<Rightarrow> bool" where
  "open_op fid op q \<longleftrightarrow>
     q_file_id q = fid \<and> q_op_type q = op \<and> q_op_status q \<in> {Pending, RetryableError}"

definition open_ops :: "string \<Rightarrow> queue_op_type \<Rightarrow> db \<Rightarrow> queue_row list" where
  "open_ops fid op d = filter (open_op fid op) (operations_queue d)"

lemma distinct_op_ids: "queue_ok d \<Longrightarrow> distinct (map q_id (operations_queue d))"
  by (simp add: queue_ok_def strict_sorted_iff)

lemma update_where_unique:
  assumes "distinct (map key rows)" and "x \<in> set rows"
  shows "update_where (\<lambda>r. key r = key x) f rows = map (\<lambda>r. if r = x then f r else r) rows"
  unfolding update_where_def using distinct_key_eq [OF assms(1) _ assms(2)] by auto

lemma filter_map_stable:
  "(\<And>x. x \<in> set xs \<Longrightarrow> Q (f x) = Q x) \<Longrightarrow> filter Q (map f xs) = map f (filter Q xs)"
  by (induction xs) auto

lemma open_op_eta: "(\<lambda>q. q_file_id q = fid \<and> q_op_type q = op \<and> q_op_status q \<in> {Pending, RetryableError})
    = open_op fid op"
  by (simp add: fun_eq_iff open_op_def)

definition refreshed_op :: "env \<Rightarrow> json_object \<Rightarrow> queue_row \<Rightarrow> queue_row" where
  "refreshed_op ev payload q =
     q\<lparr>q_payload := Some payload, q_op_status := Pending, q_next_retry_at := None,
       q_updated_at := now ev\<rparr>"

lemma run_upsert_plain:
  "upsert_operation ev fid op payload False False d =
    (case first_op (open_op fid op) d of
       Some row \<Rightarrow> (Inr (), d\<lparr>operations_queue :=
         update_where (\<lambda>q. q_id q = q_id row) (refreshed_op ev payload) (operations_queue d)\<rparr>)
     | None \<Rightarrow> insert_op fid op payload (now ev) d)"
  unfolding upsert_operation_def open_op_eta
  by (cases "first_op (open_op fid op) d")
     (simp_all add: run_simps update_ops_def refreshed_op_def [abs_def])

lemma upsert_coalesced:
  assumes ok: "queue_ok d" and fid: "fid \<in> e_file_id ` set (files d)"
  shows "\<exists>d'. upsert_operation ev fid op payload False False d = (Inr (), d') \<and>
    files d' = files d \<and>
    length (open_ops fid op d') = max 1 (length (open_ops fid op d)) \<and>
    (\<exists>q \<in> set (open_ops fid op d'). q_op_status q = Pending \<and> q_payload q = Some payload \<and>
       q_next_retry_at q = None) \<and>
    filter (\<lambda>q. q_file_id q \<noteq> fid \<or> q_op_type q \<noteq> op) (operations_queue d') =
    filter (\<lambda>q. q_file_id q \<noteq> fid \<or> q_op_type q \<noteq> op) (operations_queue d)"
proof (cases "first_op (open_op fid op) d")
  case None
  then have none: "open_ops fid op d = []"
    by (simp add: open_ops_def first_op_None filter_empty_conv)
  obtain q where run: "upsert_operation ev fid op payload False False d =
      (Inr (), d\<lparr>last_op_id := last_op_id d + 1, operations_queue := operations_queue d @ [q]\<rparr>)"
    and q: "q_file_id q = fid" "q_op_type q = op" "q_op_status q = Pending"
      "q_payload q = Some payload" "q_next_retry_at q = None"
    using None fid by (simp add: run_upsert_plain insert_op_def)
  have "open_op fid op q" using q by (simp add: open_op_def)
  with none q show ?thesis by (auto simp add: run open_ops_def)
next
  case (Some row)
  note row = first_op_Some(1,2) [OF Some]
  let ?f = "\<lambda>q. if q = row then refreshed_op ev payload q else q"
  have upd: "update_where (\<lambda>q. q_id q = q_id row) (refreshed_op ev payload) (operations_queue d) =
      map ?f (operations_queue d)"
    using update_where_unique [OF distinct_op_ids [OF ok] row(1)] .
  have stable: "open_op fid op (?f q) = open_op fid op q"
    "(q_file_id (?f q) \<noteq> fid \<or> q_op_type (?f q) \<noteq> op) = (q_file_id q \<noteq> fid \<or> q_op_type q \<noteq> op)" for q
    using row(2) by (auto simp: open_op_def refreshed_op_def)
  let ?d' = "d\<lparr>operations_queue := map ?f (operations_queue d)\<rparr>"
  have opens: "open_ops fid op ?d' = map ?f (open_ops fid op d)"
    by (simp add: open_ops_def filter_map_stable stable del: if_image_distrib)
  have mem: "row \<in> set (open_ops fid op d)" using row by (simp add: open_ops_def)
  then have "?f row \<in> set (open_ops fid op ?d')" unfolding opens by force
  moreover have "length (open_ops fid op ?d') = max 1 (length (open_ops fid op d))"
    using mem by (cases "open_ops fid op d") (simp_all add: opens)
  moreover have "filter (\<lambda>q. q_file_id q \<noteq> fid \<or> q_op_type q \<noteq> op) (operations_queue ?d') =
      filter (\<lambda>q. q_file_id q \<noteq> fid \<or> q_op_type q \<noteq> op) (operations_queue d)"
  proof -
    let ?Q = "\<lambda>q. q_file_id q \<noteq> fid \<or> q_op_type q \<noteq> op"
    have "filter ?Q (map ?f (operations_queue d)) = map ?f (filter ?Q (operations_queue d))"
      by (rule filter_map_stable) (rule stable(2))
    also have "\<dots> = filter ?Q (operations_queue d)"
      using row(2) by (intro map_idI) (auto simp: open_op_def)
    finally show ?thesis by simp
  qed
  moreover have "q_op_status (?f row) = Pending \<and> q_payload (?f row) = Some payload \<and>
      q_next_retry_at (?f row) = None" by (simp add: refreshed_op_def)
  moreover have "upsert_operation ev fid op payload False False d = (Inr (), ?d')"
    using Some upd by (simp add: run_upsert_plain)
  moreover have "files ?d' = files d" by simp
  ultimately show ?thesis by blast
qed

text \<open>
  C10: Enqueueing an operation for a file coalesces: afterwards there is a pending operation
  of that type for the file with the new payload and no retry delay, their number has grown
  only if there was none, and the operations of other files and types and the files are
  as before.
\<close>

theorem upsert_coalesces:
  assumes ok: "queue_ok d" and fid: "fid \<in> e_file_id ` set (files d)"
  shows "\<exists>d'. upsert_operation ev fid op payload False False d = (Inr (), d') \<and>
    files d' = files d \<and>
    length (open_ops fid op d') = max 1 (length (open_ops fid op d)) \<and>
    (\<exists>q \<in> set (open_ops fid op d'). q_op_status q = Pending \<and> q_payload q = Some payload \<and>
       q_next_retry_at q = None) \<and>
    filter (\<lambda>q. q_file_id q \<noteq> fid \<or> q_op_type q \<noteq> op) (operations_queue d') =
    filter (\<lambda>q. q_file_id q \<noteq> fid \<or> q_op_type q \<noteq> op) (operations_queue d)"
  using assms by (rule upsert_coalesced)

theorem upsert_coalesces_witness:
  "\<exists>d'. upsert_operation (test_env 1002) ''root'' RefreshTree [(''path'', ROOT_PATH)] False False
      (sdb (fresh_service fixture)) = (Inr (), d') \<and>
    files d' = files (sdb (fresh_service fixture)) \<and>
    length (open_ops ''root'' RefreshTree d') =
      max 1 (length (open_ops ''root'' RefreshTree (sdb (fresh_service fixture)))) \<and>
    (\<exists>q \<in> set (open_ops ''root'' RefreshTree d'). q_op_status q = Pending \<and>
       q_payload q = Some [(''path'', ROOT_PATH)] \<and> q_next_retry_at q = None) \<and>
    filter (\<lambda>q. q_file_id q \<noteq> ''root'' \<or> q_op_type q \<noteq> RefreshTree) (operations_queue d') =
    filter (\<lambda>q. q_file_id q \<noteq> ''root'' \<or> q_op_type q \<noteq> RefreshTree)
      (operations_queue (sdb (fresh_service fixture)))"
proof (rule upsert_coalesces)
  have "map q_id (operations_queue (sdb (fresh_service fixture))) = [1]" by code_simp
  moreover have "last_op_id (sdb (fresh_service fixture)) = 1" by code_simp
  ultimately show "queue_ok (sdb (fresh_service fixture))" by (auto simp: queue_ok_def)
  have "map e_file_id (files (sdb (fresh_service fixture))) ! 0 = ''root''" by code_simp
  moreover have "length (files (sdb (fresh_service fixture))) = 2" by code_simp
  ultimately show "''root'' \<in> e_file_id ` set (files (sdb (fresh_service fixture)))"
    by (metis image_set length_map nth_mem zero_less_numeral)
qed

definition unfinished :: "string \<Rightarrow> queue_row \<Rightarrow> bool" where
  "unfinished fid q \<longleftrightarrow> q_file_id q = fid \<and> q_op_status q \<in> {Pending, RetryableError, Leased}"

text \<open>
  Enqueueing with \<open>replace_all\<close>, as a deletion does, replaces whatever was still to
  be done for the file: the new operation is its only one that is not finished, and the
  operations of other files are as before.
\<close>

theorem upsert_replaces:
  assumes fid: "fid \<in> e_file_id ` set (files d)"
  shows "\<exists>d' q. upsert_operation ev fid op payload ru True d = (Inr (), d') \<and>
    files d' = files d \<and>
    filter (unfinished fid) (operations_queue d') = [q] \<and>
    q_op_type q = op \<and> q_op_status q = Pending \<and> q_payload q = Some payload \<and>
    q_id q = last_op_id d + 1 \<and>
    filter (\<lambda>q. q_file_id q \<noteq> fid) (operations_queue d') =
    filter (\<lambda>q. q_file_id q \<noteq> fid) (operations_queue d)"
proof -
  let ?kept = "delete_where (unfinished fid) (operations_queue d)"
  let ?d = "d\<lparr>operations_queue := ?kept\<rparr>"
  have un: "(\<lambda>q. q_file_id q = fid \<and> q_op_status q \<in> {Pending, RetryableError, Leased}) = unfinished fid"
    by (simp add: fun_eq_iff unfinished_def)
  have "first_op (open_op fid op) ?d = None"
    by (auto simp: first_op_None open_op_def unfinished_def table_simps)
  then obtain q where run: "upsert_operation ev fid op payload ru True d =
      (Inr (), d\<lparr>last_op_id := last_op_id d + 1, operations_queue := ?kept @ [q]\<rparr>)"
    and q: "q_file_id q = fid" "q_op_type q = op" "q_op_status q = Pending"
      "q_payload q = Some payload" "q_id q = last_op_id d + 1"
    using fid unfolding upsert_operation_def un open_op_eta
    by (simp add: run_simps delete_ops_def insert_op_def)
  have "filter (unfinished fid) (?kept @ [q]) = [q]"
    using q by (auto simp: delete_where_def unfinished_def filter_empty_conv)
  moreover have "filter (\<lambda>q. q_file_id q \<noteq> fid) (?kept @ [q]) =
      filter (\<lambda>q. q_file_id q \<noteq> fid) (operations_queue d)"
    using q(1) by (auto simp: delete_where_def unfinished_def intro: filter_cong)
  ultimately show ?thesis using q by (simp add: run)
qed

theorem upsert_replaces_witness:
  "\<exists>d' q. upsert_operation (test_env 1002) ''f'' Delete [(''path'', ''disk:/f'')] True True
      (empty_db\<lparr>files := [new_local_row (test_env 1) ''f'' ''disk:/f'' ROOT_PATH ''f'' File Hydrated None]\<rparr>)
      = (Inr (), d') \<and>
    files d' = [new_local_row (test_env 1) ''f'' ''disk:/f'' ROOT_PATH ''f'' File Hydrated None] \<and>
    filter (unfinished ''f'') (operations_queue d') = [q] \<and>
    q_op_type q = Delete \<and> q_op_status q = Pending \<and> q_payload q = Some [(''path'', ''disk:/f'')] \<and>
    q_id q = 1"
proof -
  let ?d = "empty_db\<lparr>files := [new_local_row (test_env 1) ''f'' ''disk:/f'' ROOT_PATH ''f'' File Hydrated None]\<rparr>"
  have "''f'' \<in> e_file_id ` set (files ?d)" by (simp add: new_local_row_def)
  from upsert_replaces [OF this, of "test_env 1002" Delete "[(''path'', ''disk:/f'')]" True]
  show ?thesis by (auto simp: empty_db_def)
qed

section \<open>Leasing\<close>

text \<open>
  C9: A lease hands out the operation with the smallest id among those that are pending or
  to be retried and due, marks exactly that row as leased for the next thirty seconds, and
  touches no file; it hands out nothing exactly when no operation is due.
\<close>

theorem lease_takes_oldest:
  assumes ok: "queue_ok (sdb s)"
  shows "\<exists>t. sdb t = (sdb s)\<lparr>rng_pos := Suc (rng_pos (sdb s)), operations_queue := operations_queue (sdb t)\<rparr> \<and>
    ((\<forall>q \<in> set (operations_queue (sdb s)). \<not> leasable ev q) \<and>
       lease_next_operation ev s = (Inr None, t) \<and>
       operations_queue (sdb t) = operations_queue (sdb s) \<or>
     (\<exists>row w. row \<in> set (operations_queue (sdb s)) \<and> leasable ev row \<and>
       (\<forall>q \<in> set (operations_queue (sdb s)). leasable ev q \<longrightarrow> q_id row \<le> q_id q) \<and>
       lease_next_operation ev s = (Inr (Some ((row_to_job row)\<lparr>j_op_status := Leased\<rparr>)), t) \<and>
       operations_queue (sdb t) = map (\<lambda>q. if q = row
         then q\<lparr>q_op_status := Leased, q_worker_id := Some w,
                q_lease_expires_at := Some (now ev + 30), q_updated_at := now ev\<rparr>
         else q) (operations_queue (sdb s))))"
proof (cases "first_op (leasable ev) (sdb s)")
  case None
  then have "lease_next_operation ev s = (Inr None, s\<lparr>sdb := snd (new_id ev ''worker'' (sdb s))\<rparr>)"
    by (simp add: run_lease)
  with None show ?thesis
    by (intro exI [of _ "s\<lparr>sdb := snd (new_id ev ''worker'' (sdb s))\<rparr>"])
       (auto simp: first_op_None new_id_def)
next
  case (Some row)
  note row = first_op_Some [OF Some]
  let ?w = "''worker-'' @ show_hex16 (rnd ev (rng_pos (sdb s)))"
  let ?ops = "map (\<lambda>q. if q = row then leased_row ev ?w q else q) (operations_queue (sdb s))"
  let ?t = "s\<lparr>sdb := (snd (new_id ev ''worker'' (sdb s)))\<lparr>operations_queue := ?ops\<rparr>\<rparr>"
  have run: "lease_next_operation ev s = (Inr (Some ((row_to_job row)\<lparr>j_op_status := Leased\<rparr>)), ?t)"
    using Some update_where_unique [OF distinct_op_ids [OF ok] row(1)] by (simp add: run_lease)
  have ops: "operations_queue (sdb ?t) = map (\<lambda>q. if q = row
         then q\<lparr>q_op_status := Leased, q_worker_id := Some ?w,
                q_lease_expires_at := Some (now ev + 30), q_updated_at := now ev\<rparr>
         else q) (operations_queue (sdb s))"
    by (simp add: leased_row_def LEASE_TIMEOUT_SECS_def)
  have "sdb ?t = (sdb s)\<lparr>rng_pos := Suc (rng_pos (sdb s)), operations_queue := operations_queue (sdb ?t)\<rparr>"
    by (simp add: new_id_def)
  with row run ops show ?thesis by blast
qed

text \<open>A queue for the witnesses: one operation waits for its retry, two are pending.\<close>

definition sample_op :: "int \<Rightarrow> queue_op_status \<Rightarrow> int option \<Rightarrow> queue_row" where
  "sample_op i status retry_at =
     \<lparr>q_id = i, q_file_id = ''f'', q_op_type = Upload, q_op_status = status, q_payload = None,
      q_retry_count = 0, q_next_retry_at = retry_at, q_worker_id = None,
      q_lease_expires_at = None, q_created_at = 0, q_updated_at = 0\<rparr>"

definition sample_queue :: "fake_remote service" where
  "sample_queue = (test_service fixture)\<lparr>sdb := empty_db\<lparr>
     files := [new_local_row (test_env 1) ''f'' ''disk:/f'' ROOT_PATH ''f'' File Hydrated None],
     operations_queue := [sample_op 3 RetryableError (Some 5000), sample_op 4 Pending None,
       sample_op 6 Pending None],
     last_op_id := 6\<rparr>\<rparr>"

lemma sample_queue_ok: "queue_ok (sdb sample_queue)"
  by (simp add: queue_ok_def sample_queue_def sample_op_def)

lemma sample_first: "first_op (leasable (test_env 1002)) (sdb sample_queue) = Some (sample_op 4 Pending None)"
  by (simp add: first_op_def sample_queue_def leasable_def sample_op_def test_env_def)

lemma sample_lease: "fst (lease_next_operation (test_env 1002) sample_queue) =
     Inr (Some ((row_to_job (sample_op 4 Pending None))\<lparr>j_op_status := Leased\<rparr>))"
  by (simp add: run_lease sample_first)

lemma sample_leased_queue:
  "operations_queue (sdb (snd (lease_next_operation (test_env 1002) sample_queue))) =
   [sample_op 3 RetryableError (Some 5000),
    leased_row (test_env 1002) (''worker-'' @ show_hex16 0) (sample_op 4 Pending None),
    sample_op 6 Pending None]"
  unfolding run_lease sample_first
  by (simp add: sample_queue_def sample_op_def update_where_def test_env_def test_service_def empty_db_def)

theorem lease_takes_oldest_witness:
  "fst (lease_next_operation (test_env 1002) sample_queue) =
     Inr (Some ((row_to_job (sample_op 4 Pending None))\<lparr>j_op_status := Leased\<rparr>))"
proof -
  let ?s = sample_queue
  have ops: "operations_queue (sdb ?s) =
      [sample_op 3 RetryableError (Some 5000), sample_op 4 Pending None, sample_op 6 Pending None]"
    by (simp add: sample_queue_def)
  have due: "\<not> leasable (test_env 1002) (sample_op 3 RetryableError (Some 5000))"
    "leasable (test_env 1002) (sample_op 4 Pending None)"
    "leasable (test_env 1002) (sample_op 6 Pending None)"
    by (simp_all add: leasable_def sample_op_def test_env_def)
  obtain row t where row: "row \<in> set (operations_queue (sdb ?s))" "leasable (test_env 1002) row"
    "\<forall>q \<in> set (operations_queue (sdb ?s)). leasable (test_env 1002) q \<longrightarrow> q_id row \<le> q_id q"
    and run: "lease_next_operation (test_env 1002) ?s =
      (Inr (Some ((row_to_job row)\<lparr>j_op_status := Leased\<rparr>)), t)"
    using lease_takes_oldest [OF sample_queue_ok, of "test_env 1002"] due
    by (auto simp only: ops list.set insert_iff empty_iff simp_thms)
  have "row = sample_op 4 Pending None"
    using row due by (auto simp: ops sample_op_def)
  with run show ?thesis by simp
qed

section \<open>Leases end\<close>

lemma run_recover:
  "recover_expired_leases ev s = (Inr (), s\<lparr>sdb := (sdb s)\<lparr>operations_queue :=
     update_where (\<lambda>q. q_op_status q = Leased \<and>
        (case q_lease_expires_at q of None \<Rightarrow> 0 | Some t \<Rightarrow> t) \<le> now ev)
       (\<lambda>q. q\<lparr>q_op_status := Pending, q_worker_id := None, q_lease_expires_at := None,
              q_updated_at := now ev\<rparr>) (operations_queue (sdb s))\<rparr>\<rparr>)"
  by (simp add: recover_expired_leases_def run_simps update_ops_def)

text \<open>
  C8: While a lease has not expired, no other worker gets the operation: recovering and
  leasing again less than thirty seconds later hands out a different one.
\<close>

theorem lease_exclusive:
  assumes ok: "queue_ok (sdb s)"
    and first: "lease_next_operation ev s = (Inr (Some job), t)"
    and early: "now ev' < now ev + 30"
    and second: "and_then (recover_expired_leases ev') (\<lambda>_. lease_next_operation ev') t = (Inr (Some job'), u)"
  shows "j_id job' \<noteq> j_id job"
proof -
  let ?w = "''worker-'' @ show_hex16 (rnd ev (rng_pos (sdb s)))"
  obtain row where row: "first_op (leasable ev) (sdb s) = Some row"
    using first by (cases "first_op (leasable ev) (sdb s)") (simp_all add: run_lease)
  let ?ops = "update_where (\<lambda>q. q_id q = q_id row) (leased_row ev ?w) (operations_queue (sdb s))"
  from first row have jid: "j_id job = q_id row" and t: "operations_queue (sdb t) = ?ops"
    by (auto simp: run_lease row_to_job_def)
  let ?r = "snd (recover_expired_leases ev' t)"
  have lease2: "lease_next_operation ev' ?r = (Inr (Some job'), u)"
    using second by (simp add: run_simps run_recover)
  then obtain row' where row': "first_op (leasable ev') (sdb ?r) = Some row'"
    by (cases "first_op (leasable ev') (sdb ?r)") (simp_all add: run_lease)
  with lease2 have jid': "j_id job' = q_id row'" by (auto simp: run_lease row_to_job_def)
  have leased: "q_op_status p = Leased \<and> q_lease_expires_at p = Some (now ev + 30)"
    if "p \<in> set ?ops" "q_id p = q_id row" for p
  proof -
    from that(1) obtain q where q: "p = (if q_id q = q_id row then leased_row ev ?w q else q)"
      unfolding in_update_where by blast
    then have "q_id p = q_id q" by (simp add: leased_row_def)
    with q that(2) show ?thesis by (simp add: leased_row_def LEASE_TIMEOUT_SECS_def)
  qed
  have "q_op_status q = Leased" if q: "q \<in> set (operations_queue (sdb ?r))" "q_id q = q_id row" for q
  proof -
    let ?P = "\<lambda>q. q_op_status q = Leased \<and> (case q_lease_expires_at q of None \<Rightarrow> 0 | Some t \<Rightarrow> t) \<le> now ev'"
    let ?f = "\<lambda>q. q\<lparr>q_op_status := Pending, q_worker_id := None, q_lease_expires_at := None,
              q_updated_at := now ev'\<rparr>"
    have "operations_queue (sdb ?r) = update_where ?P ?f ?ops" by (simp add: run_recover t)
    with q(1) obtain p where p: "p \<in> set ?ops" "q = (if ?P p then ?f p else p)"
      using in_update_where [of q ?P ?f ?ops] by auto
    then have "q_id p = q_id row" using q(2) by (cases "?P p") simp_all
    from leased [OF p(1) this] early have "\<not> ?P p" by simp
    with leased [OF p(1) \<open>q_id p = q_id row\<close>] p(2) show ?thesis by (simp only: if_False)
  qed
  then show ?thesis
    using first_op_Some(1,2) [OF row'] jid jid' by (auto simp: leasable_def)
qed

lemma sample_second: "\<exists>job' u. and_then (recover_expired_leases (test_env 1031))
    (\<lambda>_. lease_next_operation (test_env 1031))
    (snd (lease_next_operation (test_env 1002) sample_queue)) = (Inr (Some job'), u)"
proof -
  let ?s = "snd (recover_expired_leases (test_env 1031) (snd (lease_next_operation (test_env 1002) sample_queue)))"
  have "operations_queue (sdb ?s) = [sample_op 3 RetryableError (Some 5000),
      leased_row (test_env 1002) (''worker-'' @ show_hex16 0) (sample_op 4 Pending None),
      sample_op 6 Pending None]"
    by (simp add: run_recover sample_leased_queue update_where_def sample_op_def leased_row_def
        LEASE_TIMEOUT_SECS_def)
  then have "first_op (leasable (test_env 1031)) (sdb ?s) = Some (sample_op 6 Pending None)"
    by (simp add: first_op_def leasable_def sample_op_def leased_row_def)
  then show ?thesis by (simp add: run_simps run_recover run_lease)
qed

theorem lease_exclusive_witness:
  "\<exists>job' u. and_then (recover_expired_leases (test_env 1031)) (\<lambda>_. lease_next_operation (test_env 1031))
      (snd (lease_next_operation (test_env 1002) sample_queue)) = (Inr (Some job'), u) \<and>
    j_id job' \<noteq> 4"
proof -
  obtain job' u where second: "and_then (recover_expired_leases (test_env 1031))
      (\<lambda>_. lease_next_operation (test_env 1031))
      (snd (lease_next_operation (test_env 1002) sample_queue)) = (Inr (Some job'), u)"
    using sample_second by blast
  let ?job = "(row_to_job (sample_op 4 Pending None))\<lparr>j_op_status := Leased\<rparr>"
  have "lease_next_operation (test_env 1002) sample_queue =
      (Inr (Some ?job), snd (lease_next_operation (test_env 1002) sample_queue))"
    by (rule prod_eqI) (use sample_lease in simp_all)
  from lease_exclusive [OF sample_queue_ok this _ second] second
  show ?thesis by (auto simp: row_to_job_def sample_op_def)
qed

text \<open>
  Recovery gives back exactly the operations whose lease has run out: they become
  pending, without a worker and at once leasable unless a retry time is set; every other
  row, the files and the conflicts stay as they are.
\<close>

theorem recover_expired_only:
  assumes "0 \<le> now ev"
  shows "\<exists>t. recover_expired_leases ev s = (Inr (), t) \<and>
    files (sdb t) = files (sdb s) \<and> conflicts (sdb t) = conflicts (sdb s) \<and>
    operations_queue (sdb t) = map (\<lambda>q.
      if q_op_status q = Leased \<and> (\<forall>e. q_lease_expires_at q = Some e \<longrightarrow> e \<le> now ev)
      then q\<lparr>q_op_status := Pending, q_worker_id := None, q_lease_expires_at := None,
             q_updated_at := now ev\<rparr>
      else q) (operations_queue (sdb s))"
proof -
  have cond: "(\<lambda>q. q_op_status q = Leased \<and>
        (case q_lease_expires_at q of None \<Rightarrow> 0 | Some t \<Rightarrow> t) \<le> now ev) =
      (\<lambda>q. q_op_status q = Leased \<and> (\<forall>e. q_lease_expires_at q = Some e \<longrightarrow> e \<le> now ev))"
    using assms by (simp add: fun_eq_iff split: option.split)
  show ?thesis unfolding run_recover cond update_where_def by simp
qed

theorem recover_expired_only_witness:
  "operations_queue (sdb (snd (recover_expired_leases (test_env 1032)
     (snd (lease_next_operation (test_env 1002) sample_queue))))) ! 1 =
   (sample_op 4 Pending None)\<lparr>q_updated_at := 1032\<rparr>"
proof -
  have "operations_queue (sdb (snd (recover_expired_leases (test_env 1032) s))) = map (\<lambda>q.
      if q_op_status q = Leased \<and> (\<forall>e. q_lease_expires_at q = Some e \<longrightarrow> e \<le> 1032)
      then q\<lparr>q_op_status := Pending, q_worker_id := None, q_lease_expires_at := None,
             q_updated_at := 1032\<rparr>
      else q) (operations_queue (sdb s))" for s :: "fake_remote service"
    using recover_expired_only [of "test_env 1032" s] by auto
  then show ?thesis
    by (simp add: sample_leased_queue leased_row_def LEASE_TIMEOUT_SECS_def sample_op_def)
qed

section \<open>Retries\<close>

text \<open>
  C11: After a failure that may pass, the operation waits between one and thirty-two seconds,
  twice as long after each failure up to the sixth: it is not leasable before that time and
  leasable from then on.  Its retry counter has grown by one and the file shows the error.
\<close>

theorem retry_backoff:
  assumes q: "q \<in> set (operations_queue (sdb s))" "q_id q = j_id job"
    and retry: "retryable err" and count: "0 \<le> j_retry_count job"
  shows "\<exists>t q' d. retry_or_fail ev job err s = (Inr (), t) \<and> q' \<in> set (operations_queue (sdb t)) \<and>
    q_id q' = q_id q \<and> q_retry_count q' = q_retry_count q + 1 \<and>
    d = 2 ^ min (nat (j_retry_count job)) 5 \<and> 1 \<le> d \<and> d \<le> 32 \<and>
    (\<forall>ev'. leasable ev' q' \<longleftrightarrow> now ev + d \<le> now ev') \<and>
    (\<forall>e \<in> set (files (sdb t)). e_file_id e = j_file_id job \<longrightarrow>
       e_sync_state e = Error \<and> e_last_error e = Some (yandex_display ev err))"
proof -
  define d where "d = retry_delay (j_retry_count job)"
  let ?f = "\<lambda>q. q\<lparr>q_op_status := RetryableError, q_retry_count := q_retry_count q + 1,
      q_next_retry_at := Some (now ev + d), q_worker_id := None, q_lease_expires_at := None,
      q_updated_at := now ev\<rparr>"
  let ?g = "\<lambda>e. e\<lparr>e_sync_state := Error, e_last_error := Some (yandex_display ev err)\<rparr>"
  let ?d = "(sdb s)\<lparr>operations_queue := update_where (\<lambda>q. q_id q = j_id job) ?f (operations_queue (sdb s)),
      files := update_where (\<lambda>e. e_file_id e = j_file_id job) ?g (files (sdb s))\<rparr>"
  let ?t = "s\<lparr>sdb := ?d, status_version := status_version s + 1\<rparr>"
  have run: "retry_or_fail ev job err s = (Inr (), ?t)"
    using retry by (simp add: retry_or_fail_def run_simps update_ops_def update_file_def d_def)
  have d: "d = 2 ^ min (nat (j_retry_count job)) 5"
    using count by (auto simp add: d_def retry_delay_def min_def)
  have "(2 :: int) ^ min k 5 \<le> 2 ^ 5" for k :: nat by (rule power_increasing) simp_all
  then have bounds: "1 \<le> d" "d \<le> 32" unfolding d by simp_all
  have mem: "?f q \<in> set (operations_queue (sdb ?t))"
    using q by (auto simp: in_update_where)
  have "leasable ev' (?f q) \<longleftrightarrow> now ev + d \<le> now ev'" for ev'
    by (simp add: leasable_def)
  moreover have "e_sync_state e = Error \<and> e_last_error e = Some (yandex_display ev err)"
    if "e \<in> set (files (sdb ?t))" "e_file_id e = j_file_id job" for e
    using that update_where_hit [of e "\<lambda>e. e_file_id e = j_file_id job" ?g "files (sdb s)"] by auto
  ultimately show ?thesis
    using run d bounds mem by (intro exI [of _ ?t] exI [of _ "?f q"] exI [of _ d]) auto
qed

theorem retry_backoff_witness:
  "\<exists>t q' d. retry_or_fail (test_env 1002) (row_to_job (sample_op 4 Pending None)) (Http ''timeout'')
      sample_queue = (Inr (), t) \<and> q' \<in> set (operations_queue (sdb t)) \<and> q_id q' = 4 \<and>
    q_retry_count q' = 1 \<and> d = (1 :: int) \<and>
    (\<forall>ev'. leasable ev' q' \<longleftrightarrow> 1003 \<le> now ev')"
proof -
  have "sample_op 4 Pending None \<in> set (operations_queue (sdb sample_queue))"
    by (simp add: sample_queue_def)
  from retry_backoff [OF this, of "row_to_job (sample_op 4 Pending None)" "Http ''timeout''" "test_env 1002"]
  show ?thesis by (auto simp: row_to_job_def sample_op_def retryable_def)
qed

text \<open>
  Any other failure is final: the operation is never leased again, whatever the time,
  and the file shows the error; such are a missing resource, a remote conflict, an
  authentication or local I/O error and an invalid answer.
\<close>

theorem permanent_failure:
  assumes q: "q \<in> set (operations_queue (sdb s))" "q_id q = j_id job"
    and final: "err = yandex_error.NotFound \<or> err = yandex_error.Conflict msg \<or> err = Auth a \<or>
      err = yandex_error.Io i \<or> err = InvalidResponse msg"
  shows "\<exists>t q'. retry_or_fail ev job err s = (Inr (), t) \<and> q' \<in> set (operations_queue (sdb t)) \<and>
    q_id q' = q_id q \<and> q_op_status q' = PermanentError \<and> q_retry_count q' = q_retry_count q \<and>
    (\<forall>ev'. \<not> leasable ev' q') \<and>
    (\<forall>e \<in> set (files (sdb t)). e_file_id e = j_file_id job \<longrightarrow>
       e_sync_state e = Error \<and> e_last_error e = Some (yandex_display ev err))"
proof -
  let ?f = "\<lambda>q. q\<lparr>q_op_status := PermanentError, q_worker_id := None,
      q_lease_expires_at := None, q_updated_at := now ev\<rparr>"
  let ?g = "\<lambda>e. e\<lparr>e_sync_state := Error, e_last_error := Some (yandex_display ev err)\<rparr>"
  let ?t = "s\<lparr>sdb := (sdb s)\<lparr>
      operations_queue := update_where (\<lambda>q. q_id q = j_id job) ?f (operations_queue (sdb s)),
      files := update_where (\<lambda>e. e_file_id e = j_file_id job) ?g (files (sdb s))\<rparr>,
    status_version := status_version s + 1\<rparr>"
  have "\<not> retryable err" using final by (auto simp: retryable_def)
  then have run: "retry_or_fail ev job err s = (Inr (), ?t)"
    by (simp add: retry_or_fail_def run_simps set_op_status_def update_ops_def update_file_def)
  have mem: "?f q \<in> set (operations_queue (sdb ?t))" using q by (auto simp: in_update_where)
  have "e_sync_state e = Error \<and> e_last_error e = Some (yandex_display ev err)"
    if "e \<in> set (files (sdb ?t))" "e_file_id e = j_file_id job" for e
    using that update_where_hit [of e "\<lambda>e. e_file_id e = j_file_id job" ?g "files (sdb s)"] by auto
  then show ?thesis
    using run mem by (intro exI [of _ ?t] exI [of _ "?f q"]) (auto simp: leasable_def)
qed

theorem permanent_failure_witness:
  "\<exists>t q'. retry_or_fail (test_env 1002) (row_to_job (sample_op 4 Pending None)) yandex_error.NotFound
      sample_queue = (Inr (), t) \<and> q' \<in> set (operations_queue (sdb t)) \<and> q_id q' = 4 \<and>
    (\<forall>ev'. \<not> leasable ev' q')"
proof -
  have "sample_op 4 Pending None \<in> set (operations_queue (sdb sample_queue))"
    by (simp add: sample_queue_def)
  from permanent_failure [OF this, of "row_to_job (sample_op 4 Pending None)" yandex_error.NotFound,
      where ev = "test_env 1002"]
  show ?thesis by (auto simp: row_to_job_def sample_op_def)
qed

end
