(* ===== verification/Offline.thy ===== *)
theory Offline
  imports Queue Integrity
begin

text \<open>
  Local files: what \<open>apply_local_file_from_staging\<close> stores is what the reading operations
  return, without a remote call.
\<close>

section \<open>Storing a staged file\<close>

definition cache_path_of :: "env \<Rightarrow> stored_entry \<Rightarrow> string" where
  "cache_path_of ev e =
     (case e_cache_path e of Some p \<Rightarrow> p | None \<Rightarrow> cache_path_for (cache_dir ev) (e_file_id e))"

definition saved_row :: "env \<Rightarrow> bytes \<Rightarrow> stored_entry \<Rightarrow> stored_entry" where
  "saved_row ev bs e =
     e\<lparr>e_sync_state := QueuedUpload, e_content_state := Hydrated,
       e_local_version := e_local_version e + 1, e_mtime := Some (now ev),
       e_size := of_nat (length bs), e_cache_path := Some (cache_path_of ev e),
       e_remote_deleted := False, e_last_error := None\<rparr>"

definition no_faults :: "disk \<Rightarrow> bool" where
  "no_faults k \<longleftrightarrow> (\<forall>p. write_fault k p = None)"

lemma run_create_parent_dir: "no_faults k \<Longrightarrow> create_parent_dir p k = (Inr (), k)"
  by (simp add: create_parent_dir_def fs_create_dir_all_def no_faults_def run_simps split: option.split prod.split)

lemma find_file_id_path:
  "keys_ok d \<Longrightarrow> find_path path d = Some e \<Longrightarrow> find_file_id (e_file_id e) d = Some e"
  unfolding find_file_id_def by (rule find_unique_key) (auto simp: keys_ok_def dest: find_path_member)

lemma find_path_update:
  assumes d: "keys_ok d" and e: "find_path path d = Some e" and f: "\<And>x. e_path (f x) = e_path x"
    and rows: "files d' = update_where (\<lambda>x. e_file_id x = e_file_id e) f (files d)"
  shows "find_path path d' = Some (f e)"
proof -
  have "e_path (if e_file_id x = e_file_id e then f x else x) = e_path x" for x using f by simp
  then have "find_path path d' = map_option (\<lambda>x. if e_file_id x = e_file_id e then f x else x) (find_path path d)"
    by (simp add: find_path_def rows update_where_def find_map_same)
  with e show ?thesis by simp
qed

text \<open>Looking up rows after an \<open>INSERT\<close>, an \<open>UPDATE\<close> and a \<open>DELETE\<close> of one row.\<close>

lemma find_path_cong: "files d = files d' \<Longrightarrow> find_path p d = find_path p d'"
  by (simp add: find_path_def)

lemma find_appended: "find P (xs @ [x]) = (case find P xs of None \<Rightarrow> if P x then Some x else None | Some y \<Rightarrow> Some y)"
  by (induction xs) simp_all

lemma find_path_unused: "find_path p d = None \<longleftrightarrow> p \<notin> e_path ` set (files d)"
  by (auto simp: find_path_def find_None)

lemma find_path_appended:
  assumes rows: "files d' = files d @ [e]" and free: "e_path e \<notin> e_path ` set (files d)"
  shows "find_path p d' = (if p = e_path e then Some e else find_path p d)"
proof -
  have "find_path (e_path e) d = None" using free by (simp add: find_path_unused)
  then show ?thesis by (auto simp: find_path_def rows find_appended split: option.split)
qed

lemma same_row:
  "keys_ok d \<Longrightarrow> find_path path d = Some e \<Longrightarrow> x \<in> set (files d) \<Longrightarrow> e_file_id x = e_file_id e \<Longrightarrow> x = e"
  using distinct_key_eq [of e_file_id "files d" x e] find_path_member [of path d e] by (simp add: keys_ok_def)

lemma find_path_updated:
  assumes d: "keys_ok d" and e: "find_path path d = Some e" and f: "\<And>x. e_path (f x) = e_path x"
    and rows: "files d' = update_where (\<lambda>x. e_file_id x = e_file_id e) f (files d)"
  shows "find_path p d' = (if p = path then Some (f e) else find_path p d)"
proof (cases "p = path")
  case True
  with find_path_update [OF d e f rows] show ?thesis by simp
next
  case False
  let ?g = "\<lambda>x. if e_file_id x = e_file_id e then f x else x"
  have "find_path p d' = map_option ?g (find_path p d)"
    by (simp add: find_path_def rows update_where_def find_map_same f)
  also have "\<dots> = find_path p d"
  proof (cases "find_path p d")
    case (Some x)
    then have "e_file_id x \<noteq> e_file_id e"
      using False same_row [OF d e, of x] find_path_member [OF Some] find_path_member [OF e] by auto
    with Some show ?thesis by simp
  qed simp
  finally show ?thesis using False by simp
qed

lemma find_filter: "find P (filter Q xs) = find (\<lambda>x. Q x \<and> P x) xs"
  by (induction xs) simp_all

lemma find_path_deleted:
  assumes d: "keys_ok d" and e: "find_path path d = Some e"
    and rows: "files d' = delete_where (\<lambda>x. e_file_id x = e_file_id e) (files d)"
  shows "find_path p d' = (if p = path then None else find_path p d)"
proof -
  have hit: "e_file_id x = e_file_id e \<longleftrightarrow> e_path x = path" if "x \<in> set (files d)" for x
    using that d find_path_member [OF e] same_row [OF d e that]
      distinct_key_eq [of e_path "files d" x e] by (auto simp: keys_ok_def)
  have "find_path p d' = find (\<lambda>x. e_path x \<noteq> path \<and> e_path x = p) (files d)"
    unfolding find_path_def rows delete_where_def find_filter
    by (rule find_cong [OF refl]) (simp add: hit)
  also have "\<dots> = (if p = path then None else find_path p d)"
  proof (cases "p = path")
    case False
    then have same: "(\<lambda>x. e_path x \<noteq> path \<and> e_path x = p) = (\<lambda>x. e_path x = p)" by auto
    show ?thesis using False by (simp only: same find_path_def if_False)
  qed (simp add: find_None)
  finally show ?thesis .
qed

lemma keys_update:
  assumes "keys_ok d" and "\<And>x. e_path (f x) = e_path x" and "\<And>x. e_file_id (f x) = e_file_id x"
    and "files d' = update_where P f (files d)"
  shows "keys_ok d'"
  using assms by (simp add: keys_ok_def map_update_where)

lemma run_apply_local_at:
  assumes ok: "keys_ok (sdb s)" "queue_ok (sdb s)"
    and e: "find_path path (sdb s) = Some e" "e_kind e = File"
    and k: "contents (disk s) staging = Some bs"
      "create_parent_dir (cache_path_of ev e) (disk s) = (Inr (), disk s)"
      "write_fault (disk s) (cache_path_of ev e) = None"
  shows "\<exists>d. apply_local_file_from_staging ev path staging s =
      (Inr (saved_row ev bs e), s\<lparr>sdb := d,
        disk := (disk s)\<lparr>contents := (contents (disk s))(cache_path_of ev e \<mapsto> bs)\<rparr>,
        status_version := status_version s + 1\<rparr>) \<and>
    (\<forall>p. find_path p d = (if p = path then Some (saved_row ev bs e) else find_path p (sdb s))) \<and> keys_ok d \<and>
    (\<exists>q \<in> set (open_ops (e_file_id e) Upload d). q_op_status q = Pending \<and>
       q_payload q = Some [(''path'', path)] \<and> q_next_retry_at q = None)"
proof -
  let ?f = "\<lambda>x. x\<lparr>e_sync_state := QueuedUpload, e_content_state := Hydrated,
    e_local_version := e_local_version x + 1, e_mtime := Some (now ev), e_size := of_nat (length bs),
    e_cache_path := Some (cache_path_of ev e), e_remote_deleted := False, e_last_error := None\<rparr>"
  let ?k = "(disk s)\<lparr>contents := (contents (disk s))(cache_path_of ev e \<mapsto> bs)\<rparr>"
  let ?rows = "update_where (\<lambda>x. e_file_id x = e_file_id e) ?f (files (sdb s))"
  let ?d = "(sdb s)\<lparr>files := ?rows\<rparr>"
  have mem: "e \<in> set (files (sdb s))" using find_path_member [OF e(1)] by simp
  have "map e_file_id ?rows = map e_file_id (files (sdb s))" by (simp add: map_update_where)
  then have ids: "e_file_id ` set ?rows = e_file_id ` set (files (sdb s))" by (metis set_map)
  have "queue_ok ?d" using ok(2) by (simp add: queue_ok_def)
  moreover have "e_file_id e \<in> e_file_id ` set (files ?d)" using mem ids by simp
  ultimately obtain d where up: "upsert_operation ev (e_file_id e) Upload [(''path'', path)] False False ?d = (Inr (), d)"
    and same: "files d = files ?d"
    and queued: "\<exists>q \<in> set (open_ops (e_file_id e) Upload d). q_op_status q = Pending \<and>
       q_payload q = Some [(''path'', path)] \<and> q_next_retry_at q = None"
    using upsert_coalesced by blast
  have rows: "files d = ?rows" using same by simp
  have found: "find_path p d = (if p = path then Some (saved_row ev bs e) else find_path p (sdb s))" for p
    using find_path_updated [OF ok(1) e(1), of ?f d] rows by (simp add: saved_row_def)
  have "keys_ok d" by (rule keys_update [OF ok(1) _ _ rows]) simp_all
  moreover have "apply_local_file_from_staging ev path staging s =
      (Inr (saved_row ev bs e), s\<lparr>sdb := d, disk := ?k, status_version := status_version s + 1\<rparr>)"
  proof -
    have copy: "fs_copy staging (cache_path_of ev e) (disk s) = (Inr (), ?k)"
      using k by (simp add: fs_copy_def fs_read_def fs_open_def io_result_def fs_write_def run_simps)
    have len: "fs_len (cache_path_of ev e) ?k = (Inr (length bs), ?k)"
      by (simp add: fs_len_def fs_read_def fs_open_def io_result_def run_simps)
    have upd: "update_file (e_file_id e) ?f (sdb s) = (Inr (), ?d)"
      by (simp add: update_file_def run_simps)
    show ?thesis
      unfolding apply_local_file_from_staging_def Let_def cache_path_of_def [symmetric]
      by (simp add: run_simps e k(2) copy len upd up found)
  qed
  ultimately show ?thesis using found queued by blast
qed

lemma run_apply_local:
  assumes ok: "keys_ok (sdb s)" "queue_ok (sdb s)"
    and e: "find_path path (sdb s) = Some e" "e_kind e = File"
    and k: "contents (disk s) staging = Some bs" "no_faults (disk s)"
  shows "\<exists>d. apply_local_file_from_staging ev path staging s =
      (Inr (saved_row ev bs e), s\<lparr>sdb := d,
        disk := (disk s)\<lparr>contents := (contents (disk s))(cache_path_of ev e \<mapsto> bs)\<rparr>,
        status_version := status_version s + 1\<rparr>) \<and>
    find_path path d = Some (saved_row ev bs e) \<and> keys_ok d \<and>
    (\<exists>q \<in> set (open_ops (e_file_id e) Upload d). q_op_status q = Pending \<and>
       q_payload q = Some [(''path'', path)] \<and> q_next_retry_at q = None)"
proof -
  have "write_fault (disk s) (cache_path_of ev e) = None" using k(2) by (simp add: no_faults_def)
  from run_apply_local_at [OF ok e k(1) run_create_parent_dir [OF k(2)] this] show ?thesis by metis
qed

text \<open>A cached file with local changes is read from its cache, without a remote call.\<close>

lemma run_ensure_hydrated_cached:
  assumes "find_path path (sdb t) = Some r" and "e_kind r = File" and "e_sync_state r = QueuedUpload"
    and "e_cache_path r = Some c" and "contents (disk t) c = Some bs"
  shows "ensure_hydrated ev cl path t = (Inr r, t)"
  using assms
  by (simp add: ensure_hydrated_def run_simps maybe_schedule_stale_refresh_def has_unsynced_local_changes_def)

lemma range_is_slice:
  "(if n = 0 then [] else if length bs \<le> i then [] else take (min (i + n) (length bs) - i) (drop i bs)) =
   take n (drop i bs)"
  by (auto simp: min_def)

lemma run_read_cached:
  assumes "ensure_hydrated ev cl path t = (Inr r, t)"
    and "e_cache_path r = Some c" and "contents (disk t) c = Some bs"
  shows "load_local_bytes ev cl path t = (Inr bs, t)"
    and "read_range ev cl path offset count t = (Inr (take (unat count) (drop (unat offset) bs)), t)"
proof -
  have data: "fs_read c (disk t) = (Inr bs, disk t)"
    using assms(3) by (simp add: fs_read_def fs_open_def io_result_def)
  show "load_local_bytes ev cl path t = (Inr bs, t)"
    by (simp add: load_local_bytes_def run_simps assms(1,2) data)
  have "read_range ev cl path offset count t =
      (Inr (if unat count = 0 then [] else if length bs \<le> unat offset then []
        else take (min (unat offset + unat count) (length bs) - unat offset) (drop (unat offset) bs)), t)"
    by (simp add: read_range_def run_simps assms(1,2) data Let_def unat_eq_zero)
  then show "read_range ev cl path offset count t = (Inr (take (unat count) (drop (unat offset) bs)), t)"
    by (simp only: range_is_slice)
qed

text \<open>
  Writes are local and durable for readers.  Storing a staged file succeeds without a
  remote call, raises the local version, queues one upload that is due at once, and from then
  on any reader, with any client, online or not, gets exactly the staged bytes: as a whole,
  and for each range the slice the range denotes.
\<close>

theorem local_write_served:
  assumes ok: "keys_ok (sdb s)" "queue_ok (sdb s)"
    and e: "find_path path (sdb s) = Some e" "e_kind e = File"
    and k: "contents (disk s) staging = Some bs" "no_faults (disk s)"
  shows "\<exists>r t. apply_local_file_from_staging ev path staging s = (Inr r, t) \<and> remote t = remote s \<and>
    e_sync_state r = QueuedUpload \<and> e_local_version r = e_local_version e + 1 \<and>
    e_size r = of_nat (length bs) \<and>
    (\<exists>q \<in> set (open_ops (e_file_id e) Upload (sdb t)). q_op_status q = Pending \<and> q_next_retry_at q = None) \<and>
    (\<forall>ev' cl. load_local_bytes ev' cl path t = (Inr bs, t)) \<and>
    (\<forall>ev' cl offset count.
       read_range ev' cl path offset count t = (Inr (take (unat count) (drop (unat offset) bs)), t))"
proof -
  obtain d where run: "apply_local_file_from_staging ev path staging s =
      (Inr (saved_row ev bs e), s\<lparr>sdb := d,
        disk := (disk s)\<lparr>contents := (contents (disk s))(cache_path_of ev e \<mapsto> bs)\<rparr>,
        status_version := status_version s + 1\<rparr>)"
    and found: "find_path path d = Some (saved_row ev bs e)"
    and queued: "\<exists>q \<in> set (open_ops (e_file_id e) Upload d). q_op_status q = Pending \<and>
       q_payload q = Some [(''path'', path)] \<and> q_next_retry_at q = None"
    using run_apply_local [OF ok e k] by blast
  let ?t = "s\<lparr>sdb := d, disk := (disk s)\<lparr>contents := (contents (disk s))(cache_path_of ev e \<mapsto> bs)\<rparr>,
        status_version := status_version s + 1\<rparr>"
  have row: "e_kind (saved_row ev bs e) = File" "e_sync_state (saved_row ev bs e) = QueuedUpload"
    "e_cache_path (saved_row ev bs e) = Some (cache_path_of ev e)"
    "e_local_version (saved_row ev bs e) = e_local_version e + 1"
    "e_size (saved_row ev bs e) = of_nat (length bs)"
    using e(2) by (simp_all add: saved_row_def)
  have cached: "contents (disk ?t) (cache_path_of ev e) = Some bs" by simp
  have hydrated: "ensure_hydrated ev' cl path ?t = (Inr (saved_row ev bs e), ?t)" for ev' and cl :: "'a client"
    using found by (intro run_ensure_hydrated_cached [OF _ row(1-3) cached]) simp
  show ?thesis
    using run row queued run_read_cached [OF hydrated row(3) cached]
    by (intro exI [of _ "saved_row ev bs e"] exI [of _ ?t]) auto
qed

text \<open>A service in which a file was created and a staging file lies ready.\<close>

definition edited_service :: "fake_remote service" where
  "edited_service =
     (let s = snd (create_file (test_env 1001) ROOT_PATH ''a.txt''
                (snd (open_at (test_env 1000) (test_service fixture)))) in
      s\<lparr>disk := \<lparr>contents = (contents (disk s))(''/tmp/x'' \<mapsto> [1, 2, 3, 4]), write_fault = (\<lambda>_. None)\<rparr>\<rparr>)"

lemma edited_row:
  "files (sdb edited_service) ! 1 =
      \<lparr>e_file_id = ''file-0000000000000000'', e_path = ''disk:/a.txt'', e_parent_path = Some ''disk:/'',
       e_name = ''a.txt'', e_kind = File, e_sync_state = QueuedUpload, e_content_state = Hydrated,
       e_remote_version = None, e_local_version = 1, e_mtime = Some 1001, e_size = 0,
       e_cache_path = Some ''/state/cache/file-0000000000000000.bin'', e_last_remote_check_at = None,
       e_remote_deleted = False, e_last_error = None\<rparr>"
  by code_simp

lemma edited_ready:
  "keys_ok (sdb edited_service)" "queue_ok (sdb edited_service)"
  "find_path ''disk:/a.txt'' (sdb edited_service) = Some (files (sdb edited_service) ! 1)"
  "contents (disk edited_service) ''/tmp/x'' = Some [1, 2, 3, 4]"
  "no_faults (disk edited_service)"
proof -
  show "keys_ok (sdb edited_service)" "queue_ok (sdb edited_service)"
    unfolding keys_ok_def queue_ok_def by code_simp+
  show "find_path ''disk:/a.txt'' (sdb edited_service) = Some (files (sdb edited_service) ! 1)" by code_simp
qed (simp_all add: no_faults_def edited_service_def Let_def)

theorem local_write_served_witness:
  "\<exists>r t. apply_local_file_from_staging (test_env 1002) ''disk:/a.txt'' ''/tmp/x'' edited_service = (Inr r, t) \<and>
    (\<forall>ev' cl. read_range ev' cl ''disk:/a.txt'' 1 2 t = (Inr [2, 3], t))"
  using local_write_served [OF edited_ready(1-3) _ edited_ready(4,5), of "test_env 1002"] edited_row
  by fastforce

end
