(* ===== verification/Handles.thy ===== *)
theory Handles
  imports Sample Offline
begin

text \<open>
  Write handles of src/src/fs.rs, one level below the requests: what is written through a
  handle is read back through it, what is released is what the service then serves, and a
  rename that takes a handle of another file along.
\<close>

section \<open>Bytes\<close>

lemma length_resized [simp]: "length (resized n bs) = n"
  by (simp add: resized_def)

lemma nth_resized: "i < n \<Longrightarrow> resized n bs ! i = (if i < length bs then bs ! i else 0)"
  by (auto simp: resized_def nth_append)

lemma length_overwritten:
  "length (overwritten offset data bs) =
     (if data = [] then length bs else max (length bs) (offset + length data))"
  by (auto simp: overwritten_def)

lemma nth_overwritten:
  assumes "i < length (overwritten offset data bs)"
  shows "overwritten offset data bs ! i =
    (if offset \<le> i \<and> i < offset + length data then data ! (i - offset)
     else if i < length bs then bs ! i else 0)"
  using assms by (auto simp: overwritten_def nth_append nth_resized split: if_splits)

section \<open>Running on the parts of a mount\<close>

lemma run_on_sync [run_simps]:
  "on_sync m s = ((case fst (m (svc s)) of Inl err \<Rightarrow> Inl (from_sync_error err) | Inr x \<Rightarrow> Inr x),
     s\<lparr>svc := snd (m (svc s))\<rparr>)"
  by (simp add: on_sync_def split: prod.split sum.split)

lemma run_on_state [run_simps]: "on_state m s = (fst (m (fstate s)), s\<lparr>fstate := snd (m (fstate s))\<rparr>)"
  by (simp add: on_state_def run_simps)

lemma run_on_files [run_simps]:
  "on_files m s = ((case fst (m (disk (svc s))) of Inl err \<Rightarrow> Inl (Io err) | Inr x \<Rightarrow> Inr x),
     s\<lparr>svc := (svc s)\<lparr>disk := snd (m (disk (svc s)))\<rparr>\<rparr>)"
  by (simp add: on_files_def split: prod.split sum.split)

lemma run_reply [run_simps]:
  "reply m s = ((case fst (m s) of Inl err \<Rightarrow> Inl (errno_for err) | Inr x \<Rightarrow> Inr x), snd (m s))"
  by (simp add: reply_def split: prod.split sum.split)

lemma run_open_for_write:
  "contents k p = Some bs \<Longrightarrow> no_faults k \<Longrightarrow> open_for_write p k = (Inr bs, k)"
  by (simp add: open_for_write_def no_faults_def)

lemma run_write_local_range:
  "contents k p = Some bs \<Longrightarrow> no_faults k \<Longrightarrow> offset < 0x8000000000000000 \<Longrightarrow>
   write_local_range p offset data k =
     (Inr (), k\<lparr>contents := (contents k)(p \<mapsto> overwritten (unat offset) data bs)\<rparr>)"
  by (simp add: write_local_range_def run_simps run_open_for_write seek_def)

lemma run_read_local_range:
  "contents k p = Some bs \<Longrightarrow> offset < 0x8000000000000000 \<Longrightarrow>
   read_local_range p offset count k = (Inr (take (unat count) (drop (unat offset) bs)), k)"
  by (simp add: read_local_range_def run_simps fs_open_def seek_def)

lemma run_set_handle [run_simps]:
  "set_handle f h s = (Inr (), s\<lparr>write_handles := put f h (write_handles s)\<rparr>)"
  by (simp add: set_handle_def run_simps)

lemma run_set_inode [run_simps]: "set_inode i n s = (Inr (), s\<lparr>entries := (entries s)(i \<mapsto> n)\<rparr>)"
  by (simp add: set_inode_def run_simps)

section \<open>Writing and reading through a handle\<close>

lemma run_write_handle_data:
  assumes h: "map_of (write_handles (fstate s)) f = Some h" and n: "entries (fstate s) (h_ino h) = Some n"
    and k: "contents (disk (svc s)) (h_staging_path h) = Some bs" "no_faults (disk (svc s))"
    and offset: "offset < 0x8000000000000000"
  shows "\<exists>q. write_handle_data fe f offset data s = (Inr (of_nat (length data)), s\<lparr>fstate := q,
      svc := (svc s)\<lparr>disk := (disk (svc s))\<lparr>contents := (contents (disk (svc s)))
        (h_staging_path h \<mapsto> overwritten (unat offset) data bs)\<rparr>\<rparr>\<rparr>) \<and>
    map_of (write_handles q) f = Some (h\<lparr>h_dirty := True\<rparr>)"
proof -
  let ?k = "(disk (svc s))\<lparr>contents := (contents (disk (svc s)))(h_staging_path h \<mapsto> overwritten (unat offset) data bs)\<rparr>"
  have len: "file_len (h_staging_path h) ?k = (Inr (length (overwritten (unat offset) data bs)), ?k)"
    by (simp add: file_len_def run_simps fs_open_def)
  show ?thesis
    by (rule exI [of _ "fstate (snd (write_handle_data fe f offset data s))"])
      (simp add: write_handle_data_def run_simps h n run_write_local_range [OF k offset] len
        mark_handle_dirty_def update_entry_size_def Fs_State.invalidate_download_url_def)
qed

lemma run_fuse_read_handle:
  assumes "map_of (write_handles (fstate s)) f = Some h"
    and "contents (disk (svc s)) (h_staging_path h) = Some bs" and "offset < 0x8000000000000000"
  shows "fuse_read fe cl i f offset count s = (Inr (take (unat count) (drop (unat offset) bs)), s)"
  using assms by (simp add: fuse_read_def read_data_def read_handle_data_def run_simps run_read_local_range)

text \<open>
  C23: What is written through a handle is read back through it.  A write into an open handle
  reports all bytes written, and every read through the handle then sees the staging file with
  exactly the written bytes replaced: bytes outside the written range are as they were, and a
  gap behind the old end is filled with zeros.
\<close>

theorem write_read_handle:
  assumes handle: "map_of (write_handles (fstate s)) f = Some h"
    and entry: "entries (fstate s) (h_ino h) = Some n"
    and staging: "contents (disk (svc s)) (h_staging_path h) = Some bs" "no_faults (disk (svc s))"
    and offset: "offset < 0x8000000000000000"
  shows "\<exists>t new. fuse_write fe f offset data s = (Inr (of_nat (length data)), t) \<and>
    length new = (if data = [] then length bs else max (length bs) (unat offset + length data)) \<and>
    (\<forall>i < length new. new ! i =
       (if unat offset \<le> i \<and> i < unat offset + length data then data ! (i - unat offset)
        else if i < length bs then bs ! i else 0)) \<and>
    (\<forall>cl i from_byte count. from_byte < 0x8000000000000000 \<longrightarrow>
       fuse_read fe cl i f from_byte count t = (Inr (take (unat count) (drop (unat from_byte) new)), t))"
proof -
  let ?new = "overwritten (unat offset) data bs"
  let ?svc = "(svc s)\<lparr>disk := (disk (svc s))\<lparr>contents := (contents (disk (svc s)))(h_staging_path h \<mapsto> ?new)\<rparr>\<rparr>"
  obtain q where run: "write_handle_data fe f offset data s = (Inr (of_nat (length data)), s\<lparr>fstate := q, svc := ?svc\<rparr>)"
    and held: "map_of (write_handles q) f = Some (h\<lparr>h_dirty := True\<rparr>)"
    using run_write_handle_data [OF handle entry staging offset] by blast
  let ?t = "s\<lparr>fstate := q, svc := ?svc\<rparr>"
  have "fuse_read fe cl i f from_byte count ?t = (Inr (take (unat count) (drop (unat from_byte) ?new)), ?t)"
    if "from_byte < 0x8000000000000000" for cl :: "'a client" and i from_byte count
    using held that by (intro run_fuse_read_handle [where h = "h\<lparr>h_dirty := True\<rparr>"]) simp_all
  moreover have "fuse_write fe f offset data s = (Inr (of_nat (length data)), ?t)"
    by (simp add: fuse_write_def run_simps run)
  ultimately show ?thesis
    by (intro exI [of _ ?t] exI [of _ ?new]) (simp add: length_overwritten nth_overwritten)
qed

text \<open>The sample is evaluated once for all the facts the witnesses need.\<close>

definition sample_write :: write_handle where
  "sample_write = \<lparr>h_ino = 2, h_parent = 1, h_path = ''disk:/new.txt'',
     h_staging_path = ''/tmp/discohack-staging-7-0000000000000000'', h_dirty = True, h_is_new = True\<rparr>"

definition ready_sample :: "fake_remote fs \<Rightarrow> bool" where
  "ready_sample s \<longleftrightarrow>
     map_of (write_handles (fstate s)) 1 = Some sample_write \<and>
     map_option n_name (entries (fstate s) 2) = Some ''new.txt'' \<and>
     contents (disk (svc s)) (h_staging_path sample_write) = Some [0, 0, 7, 8, 9] \<and>
     map_option e_kind (find_path (h_path sample_write) (sdb (svc s))) = Some node_kind.File \<and>
     map_option (cache_path_of (test_env 1005)) (find_path (h_path sample_write) (sdb (svc s))) \<noteq>
       Some (h_staging_path sample_write) \<and>
     keys_ok (sdb (svc s)) \<and> queue_ok (sdb (svc s))"

lemma sample_ready: "ready_sample sample_fs"
  by code_simp

lemma sample_facts:
  "map_of (write_handles (fstate sample_fs)) 1 = Some sample_write"
  "map_option n_name (entries (fstate sample_fs) 2) = Some ''new.txt''"
  "contents (disk (svc sample_fs)) (h_staging_path sample_write) = Some [0, 0, 7, 8, 9]"
  "map_option e_kind (find_path (h_path sample_write) (sdb (svc sample_fs))) = Some node_kind.File"
  "map_option (cache_path_of (test_env 1005)) (find_path (h_path sample_write) (sdb (svc sample_fs))) \<noteq>
     Some (h_staging_path sample_write)"
  "keys_ok (sdb (svc sample_fs))" "queue_ok (sdb (svc sample_fs))"
  using sample_ready by (simp_all only: ready_sample_def simp_thms)

lemma sample_entry: "\<exists>n. entries (fstate sample_fs) (h_ino sample_write) = Some n"
  using sample_facts(2) by (auto simp: sample_write_def)

lemma sample_no_faults: "no_faults (disk (svc sample_fs))"
proof -
  have "write_fault (disk (svc sample_fs)) p = None" for p by code_simp
  then show ?thesis by (simp add: no_faults_def)
qed

theorem write_read_handle_witness:
  "\<exists>t new. fuse_write (sample_fe 1005) 1 4 [1, 1] sample_fs = (Inr 2, t) \<and> length new = 6 \<and>
     new ! 3 = 8 \<and> new ! 5 = 1 \<and>
     (\<forall>cl. fuse_read (sample_fe 1005) cl 2 1 0 100 t = (Inr (take 100 new), t))"
proof -
  obtain n where n: "entries (fstate sample_fs) (h_ino sample_write) = Some n"
    using sample_entry by blast
  have low: "(4 :: 64 word) < 0x8000000000000000" "(0 :: 64 word) < 0x8000000000000000" by simp_all
  from write_read_handle [OF sample_facts(1) n sample_facts(3) sample_no_faults low(1), of "sample_fe 1005" "[1, 1]"]
  obtain t new where wrote: "fuse_write (sample_fe 1005) 1 4 [1, 1] sample_fs = (Inr (of_nat (length [1 :: 8 word, 1])), t)"
    and len: "length new = (if [1, 1 :: 8 word] = [] then length [0, 0, 7, 8, 9 :: 8 word]
      else max (length [0, 0, 7, 8, 9 :: 8 word]) (unat (4 :: 64 word) + length [1, 1 :: 8 word]))"
    and new: "\<forall>i < length new. new ! i =
       (if unat (4 :: 64 word) \<le> i \<and> i < unat (4 :: 64 word) + length [1, 1 :: 8 word]
        then [1, 1] ! (i - unat (4 :: 64 word)) else if i < length [0, 0, 7, 8, 9 :: 8 word] then [0, 0, 7, 8, 9] ! i else 0)"
    and read: "\<forall>cl i from_byte count. from_byte < 0x8000000000000000 \<longrightarrow>
       fuse_read (sample_fe 1005) cl i 1 from_byte count t = (Inr (take (unat count) (drop (unat from_byte) new)), t)"
    by (elim exE conjE)
  have "length new = 6" using len by simp
  moreover from this have "new ! 3 = 8" "new ! 5 = 1"
    using new [rule_format, of 3] new [rule_format, of 5] by simp_all
  moreover have "fuse_read (sample_fe 1005) cl 2 1 0 100 t = (Inr (take 100 new), t)" for cl
    using read [rule_format, OF low(2), of cl 2 100] by simp
  moreover have "of_nat (length [1 :: 8 word, 1]) = (2 :: 32 word)" by simp
  ultimately show ?thesis using wrote by metis
qed

section \<open>Closing\<close>

lemma run_apply_committed:
  assumes h: "map_of (write_handles s) f = Some h" and n: "entries s (h_ino h) = Some n"
  shows "\<exists>q. apply_committed_stored ck f fresh s = (Inr (), q) \<and>
    map_of (write_handles q) f = Some (h\<lparr>h_path := e_path fresh, h_dirty := False, h_is_new := False\<rparr>)"
  by (rule exI [of _ "snd (apply_committed_stored ck f fresh s)"])
    (simp add: apply_committed_stored_def run_simps h n move_path_key_def clean_handle_def
      mark_directory_loaded_stale_def)

text \<open>
  C24: Closing a written file makes it durable.  Releasing a dirty handle stores its staging
  file: the handle and the staging file are gone, an upload that is due at once is queued,
  and every reader of the path gets exactly the bytes of the staging file, without a remote
  call.
\<close>

theorem release_stores:
  assumes ok: "keys_ok (sdb (svc s))" "queue_ok (sdb (svc s))"
    and handle: "map_of (write_handles (fstate s)) f = Some h" "h_dirty h" "f \<noteq> 0"
    and entry: "entries (fstate s) (h_ino h) = Some n"
    and row: "find_path (h_path h) (sdb (svc s)) = Some e" "e_kind e = node_kind.File"
    and staging: "contents (disk (svc s)) (h_staging_path h) = Some bs" "no_faults (disk (svc s))"
    and apart: "h_staging_path h \<noteq> cache_path_of (sync_env fe) e"
  shows "\<exists>t. fuse_release fe f s = (Inr (), t) \<and>
    map_of (write_handles (fstate t)) f = None \<and>
    contents (disk (svc t)) (h_staging_path h) = None \<and> remote (svc t) = remote (svc s) \<and>
    (\<exists>q \<in> set (open_ops (e_file_id e) Upload (sdb (svc t))). q_op_status q = Pending \<and> q_next_retry_at q = None) \<and>
    (\<forall>ev cl. load_local_bytes ev cl (h_path h) (svc t) = (Inr bs, svc t))"
proof -
  let ?ev = "sync_env fe" and ?c = "cache_path_of (sync_env fe) e"
  let ?r = "saved_row ?ev bs e" and ?h = "h\<lparr>h_path := h_path h, h_dirty := False, h_is_new := False\<rparr>"
  let ?k = "(disk (svc s))\<lparr>contents := (contents (disk (svc s)))(?c \<mapsto> bs)\<rparr>"
  obtain d where run: "apply_local_file_from_staging ?ev (h_path h) (h_staging_path h) (svc s) =
      (Inr ?r, (svc s)\<lparr>sdb := d, disk := ?k, status_version := status_version (svc s) + 1\<rparr>)"
    and found: "find_path (h_path h) d = Some ?r"
    and queued: "\<exists>q \<in> set (open_ops (e_file_id e) Upload d). q_op_status q = Pending \<and>
       q_payload q = Some [(''path'', h_path h)] \<and> q_next_retry_at q = None"
    using run_apply_local [OF ok row staging] by blast
  have path: "e_path ?r = h_path h" using row(1) by (simp add: saved_row_def find_path_member)
  obtain q where committed: "apply_committed_stored (fs_clock fe) f ?r (fstate s) = (Inr (), q)"
    and held: "map_of (write_handles q) f = Some ?h"
    using run_apply_committed [OF handle(1) entry, of "fs_clock fe" ?r] path by auto
  let ?t = "s\<lparr>fstate := q\<lparr>write_handles := without f (write_handles q)\<rparr>,
    svc := (svc s)\<lparr>sdb := d, disk := ?k\<lparr>contents := (contents ?k)(h_staging_path h := None)\<rparr>,
      status_version := status_version (svc s) + 1\<rparr>\<rparr>"
  have commit: "commit_write_handle fe f s =
      (Inr (), s\<lparr>svc := (svc s)\<lparr>sdb := d, disk := ?k, status_version := status_version (svc s) + 1\<rparr>, fstate := q\<rparr>)"
    by (simp add: commit_write_handle_def run_simps handle run committed)
  have unfaulted: "write_fault (disk (svc s)) p = None" for p using staging(2) by (simp add: no_faults_def)
  have release: "fuse_release fe f s = (Inr (), ?t)"
    by (simp add: fuse_release_def run_simps handle(3) commit finish_write_handle_def remove_write_handle_def
        held fs_remove_def unfaulted)
  have "e_kind ?r = node_kind.File" "e_sync_state ?r = QueuedUpload" "e_cache_path ?r = Some ?c"
    using row(2) by (simp_all add: saved_row_def)
  moreover have cached: "contents (disk (svc ?t)) ?c = Some bs" using apart by simp
  ultimately have "ensure_hydrated ev cl (h_path h) (svc ?t) = (Inr ?r, svc ?t)" for ev and cl :: "'a client"
    using found by (intro run_ensure_hydrated_cached) simp_all
  then have "load_local_bytes ev cl (h_path h) (svc ?t) = (Inr bs, svc ?t)" for ev and cl :: "'a client"
    using \<open>e_cache_path ?r = Some ?c\<close> cached by (rule run_read_cached(1))
  with release queued show ?thesis by (intro exI [of _ ?t]) auto
qed

theorem release_stores_witness:
  "\<exists>t. fuse_release (sample_fe 1005) 1 sample_fs = (Inr (), t) \<and>
    (\<forall>ev cl. load_local_bytes ev cl ''disk:/new.txt'' (svc t) = (Inr [0, 0, 7, 8, 9], svc t))"
proof -
  have handle: "h_dirty sample_write" "(1 :: nat) \<noteq> 0" and path: "h_path sample_write = ''disk:/new.txt''"
    by (simp_all add: sample_write_def)
  obtain n where entry: "entries (fstate sample_fs) (h_ino sample_write) = Some n"
    using sample_entry by blast
  obtain e where row: "find_path (h_path sample_write) (sdb (svc sample_fs)) = Some e" "e_kind e = node_kind.File"
    using sample_facts(4) by (metis map_option_eq_Some)
  have "map_option (cache_path_of (test_env 1005)) (find_path (h_path sample_write) (sdb (svc sample_fs))) \<noteq>
      Some (h_staging_path sample_write)"
    by (rule sample_facts(5))
  then have apart: "h_staging_path sample_write \<noteq> cache_path_of (sync_env (sample_fe 1005)) e"
    using row(1) by (auto simp: sample_fe_def)
  from release_stores [OF sample_facts(6,7,1) handle entry row sample_facts(3) sample_no_faults apart]
  show ?thesis unfolding path by blast
qed

section \<open>A rename that takes another file's handle along\<close>

lemma map_of_map_snd: "map_of (map (\<lambda>(k, v). (k, g v)) m) x = map_option g (map_of m x)"
  by (induction m) auto

lemma write_handles_retarget [simp]: "write_handles (retarget_entry ck i newparent newname old new_path j s) = write_handles s"
  by (simp add: retarget_entry_def Let_def split: option.split)

lemma write_handles_retarget_all:
  "write_handles (fold (retarget_entry ck i newparent newname old new_path) js s) = write_handles s"
  by (induction js arbitrary: s) simp_all

lemma run_rename_handles:
  assumes "entries s i = Some n"
    and "collect_subtree (Suc (Suc (length (dir_children s)))) (dir_children s) i = Some below"
    and "map_of (write_handles s) f = Some h"
  shows "\<exists>q. rename_entry_subtree ck i newparent newname new_path s = (Inr (), q) \<and>
    map_of (write_handles q) f = Some (retarget_handle i newparent (n_path n) new_path h)"
  using assms
  by (simp add: rename_entry_subtree_def run_simps Let_def write_handles_retarget_all map_of_map_snd)

text \<open>
  C25: A rename takes along the write handles of other files whose path merely starts with the
  same characters: after renaming an entry, an open handle whose path continues the old path
  in any way, also without a slash, points below the new path.  When there is no file of that
  name, closing the handle fails with \<open>ENOENT\<close>, the handle is gone, and nothing of what was
  written reaches the service: the bytes stay in a staging file no table refers to.
\<close>

theorem rename_takes_sibling_handle:
  assumes entry: "entries (fstate s) i = Some n"
    and below: "collect_subtree (Suc (Suc (length (dir_children (fstate s))))) (dir_children (fstate s)) i = Some below"
    and handle: "map_of (write_handles (fstate s)) f = Some h" "h_dirty h" "f \<noteq> 0"
    and path: "h_path h = n_path n @ tail"
    and free: "find_path (new_path @ tail) (sdb (svc s)) = None"
  shows "\<exists>t u. on_state (rename_entry_subtree ck i newparent newname new_path) s = (Inr (), t) \<and>
    map_option h_path (map_of (write_handles (fstate t)) f) = Some (new_path @ tail) \<and>
    fuse_release fe f t = (Inl ENOENT, u) \<and> map_of (write_handles (fstate u)) f = None \<and> svc u = svc s"
proof -
  let ?h = "retarget_handle i newparent (n_path n) new_path h"
  obtain q where run: "rename_entry_subtree ck i newparent newname new_path (fstate s) = (Inr (), q)"
    and held: "map_of (write_handles q) f = Some ?h"
    using run_rename_handles [OF entry below handle(1)] by blast
  have "str_strip_prefix (n_path n) (h_path h) = Some tail" using path by (simp add: str_strip_prefix_Some)
  then have h: "h_path ?h = new_path @ tail" "h_dirty ?h"
    using handle(2) by (simp_all add: retarget_handle_def Let_def)
  let ?t = "s\<lparr>fstate := q\<rparr>"
  let ?u = "s\<lparr>fstate := q\<lparr>write_handles := without f (write_handles q)\<rparr>\<rparr>"
  have "apply_local_file_from_staging (sync_env fe) (new_path @ tail) (h_staging_path ?h) (svc s) =
      (Inl sync_error.NotFound, svc s)"
    by (simp add: apply_local_file_from_staging_def run_simps free)
  then have "commit_write_handle fe f ?t = (Inl NotFound, ?t)"
    by (simp add: commit_write_handle_def run_simps held h from_sync_error_def)
  then have "fuse_release fe f ?t = (Inl ENOENT, ?u)"
    by (simp add: fuse_release_def run_simps handle(3) errno_for_def finish_write_handle_def
        remove_write_handle_def held)
  then show ?thesis
    using run held h(1) by (intro exI [of _ ?t] exI [of _ ?u]) (simp add: run_simps)
qed

text \<open>
  A directory \<open>new\<close> beside the file \<open>new.txt\<close>, which is open for writing.
\<close>

definition table_entry :: "ino \<Rightarrow> string \<Rightarrow> string \<Rightarrow> entry_kind \<Rightarrow> entry" where
  "table_entry i path name kind = \<lparr>n_ino = i, n_parent = ROOT, n_path = path, n_name = name, n_kind = kind,
     n_size = 0, n_created = 0, n_modified = 0, n_cached_at = 0, n_download_url = None,
     n_download_url_cached_at = None, n_remote_present = True\<rparr>"

definition twin_fs :: "fake_remote fs" where
  "twin_fs = \<lparr>svc = sample_open, fstate = \<lparr>next_ino = 4, next_fh = 2,
     entries = [1 \<mapsto> table_entry 1 ''disk:/'' ''disk:'' Directory,
       2 \<mapsto> table_entry 2 ''disk:/new.txt'' ''new.txt'' File, 3 \<mapsto> table_entry 3 ''disk:/new'' ''new'' Directory],
     path_to_ino = [''disk:/'' \<mapsto> 1, ''disk:/new.txt'' \<mapsto> 2, ''disk:/new'' \<mapsto> 3],
     dir_children = [(1, [(''new'', 3), (''new.txt'', 2)])], dir_cache_time = (\<lambda>_. None),
     write_handles = [(1, sample_write)]\<rparr>, fs_uid = 1000, fs_gid = 1000\<rparr>"

theorem rename_takes_sibling_handle_witness:
  "\<exists>t u. on_state (rename_entry_subtree (fs_clock (sample_fe 1006)) 3 ROOT ''old'' ''disk:/old'') twin_fs = (Inr (), t) \<and>
     map_option h_path (map_of (write_handles (fstate t)) 1) = Some ''disk:/old.txt'' \<and>
     fuse_release (sample_fe 1007) 1 t = (Inl ENOENT, u) \<and> svc u = svc twin_fs"
proof -
  have entry: "entries (fstate twin_fs) 3 = Some (table_entry 3 ''disk:/new'' ''new'' Directory)"
    by (simp add: twin_fs_def)
  have below: "collect_subtree (Suc (Suc (length (dir_children (fstate twin_fs))))) (dir_children (fstate twin_fs)) 3 = Some [3]"
    by (simp add: twin_fs_def)
  have handle: "map_of (write_handles (fstate twin_fs)) 1 = Some sample_write"
    by (simp add: twin_fs_def)
  have free: "find_path (''disk:/old'' @ ''.txt'') (sdb (svc twin_fs)) = None"
    unfolding twin_fs_def fs.simps by code_simp
  have facts: "h_dirty sample_write" "(1 :: nat) \<noteq> 0"
    "h_path sample_write = n_path (table_entry 3 ''disk:/new'' ''new'' Directory) @ ''.txt''"
    by (simp_all add: sample_write_def table_entry_def)
  show ?thesis
    using rename_takes_sibling_handle [OF entry below handle facts free, of "fs_clock (sample_fe 1006)" ROOT "''old''" "sample_fe 1007"]
    by (elim exE conjE) (intro exI conjI, assumption, simp, assumption, assumption)
qed

end
