(* ===== verification/Status.thy ===== *)
theory Status
  imports Daemon
begin

text \<open>
  What the service reports over D-Bus: \<open>sync_summary\<close>, \<open>sync_items\<close>,
  \<open>sync_status\<close> and \<open>list_directory_statuses\<close> of src/src/sync.rs with the
  dictionaries they are turned into, and the properties and methods of \<open>DaemonInterface\<close>
  (src/src/dbus_service.rs) that pass them on.

  The counters are \<open>u32\<close>; their sums are taken with overflow checks (the dev profile), an
  overflow being a \<open>Panic\<close>.  Rows with the same modification time come in insertion
  order, where SQL leaves the order open.
\<close>

section \<open>Labels\<close>

definition sync_state_label :: "sync_state \<Rightarrow> string" where
  "sync_state_label st =
     (case st of
        Synced \<Rightarrow> ''synced''
      | QueuedUpload \<Rightarrow> ''queued''
      | QueuedDelete \<Rightarrow> ''queued''
      | Uploading \<Rightarrow> ''uploading''
      | Downloading \<Rightarrow> ''downloading''
      | sync_state.Placeholder \<Rightarrow> ''downloading''
      | sync_state.Conflict \<Rightarrow> ''conflict''
      | Error \<Rightarrow> ''error'')"

definition sync_direction :: "sync_state \<Rightarrow> string" where
  "sync_direction st =
     (case st of
        Uploading \<Rightarrow> ''upload''
      | QueuedUpload \<Rightarrow> ''upload''
      | QueuedDelete \<Rightarrow> ''upload''
      | Downloading \<Rightarrow> ''download''
      | sync_state.Placeholder \<Rightarrow> ''download''
      | Synced \<Rightarrow> ''none''
      | sync_state.Conflict \<Rightarrow> ''none''
      | Error \<Rightarrow> ''none'')"

section \<open>Status of one entry\<close>

record status_entry =
  st_path :: string
  st_name :: string
  st_kind :: string
  st_state :: string
  st_direction :: string
  st_is_conflicted :: bool
  st_is_placeholder :: bool
  st_progress :: "32 word"
  st_bytes_done :: "64 word"
  st_bytes_total :: "64 word"
  st_updated_at :: int
  st_known :: bool

definition status_from_entry :: "stored_entry \<Rightarrow> status_entry" where
  "status_from_entry entry =
     \<lparr>st_path = e_path entry, st_name = e_name entry,
      st_kind = (case e_kind entry of File \<Rightarrow> ''file'' | Directory \<Rightarrow> ''directory''),
      st_state = sync_state_label (e_sync_state entry),
      st_direction = sync_direction (e_sync_state entry),
      st_is_conflicted = (e_sync_state entry = sync_state.Conflict),
      st_is_placeholder = (e_content_state entry = content_state.Placeholder),
      st_progress = (if e_sync_state entry = Synced then 100 else 0),
      st_bytes_done = 0, st_bytes_total = e_size entry,
      st_updated_at = (case e_mtime entry of None \<Rightarrow> 0 | Some t \<Rightarrow> t),
      st_known = True\<rparr>"

definition unknown_status :: "string \<Rightarrow> status_entry" where
  "unknown_status path =
     \<lparr>st_path = path, st_name = name_of path, st_kind = ''unknown'', st_state = ''unknown'',
      st_direction = ''none'', st_is_conflicted = False, st_is_placeholder = False,
      st_progress = 0, st_bytes_done = 0, st_bytes_total = 0, st_updated_at = 0,
      st_known = False\<rparr>"

definition sync_status :: "string \<Rightarrow> ('r, status_entry) sync" where
  "sync_status path =
     and_then (get_entry path) (\<lambda>found.
     case found of
       Some entry \<Rightarrow> ret (status_from_entry entry)
     | None \<Rightarrow> ret (unknown_status path))"

definition list_directory_statuses :: "string \<Rightarrow> ('r, status_entry list) sync" where
  "list_directory_statuses path =
     and_then (expect_entry path) (\<lambda>entry.
     if e_kind entry \<noteq> Directory then throw NotDir
     else and_then (list_children path) (\<lambda>children.
          ret (map status_from_entry children)))"

section \<open>Summary and items\<close>

record sync_summary_t =
  active_count :: "32 word"
  uploading_count :: "32 word"
  downloading_count :: "32 word"
  queued_count :: "32 word"
  conflict_count :: "32 word"
  error_count :: "32 word"
  last_update_unix :: int
  is_syncing :: bool
  attention_required :: bool

text \<open>\<open>SELECT sync_state, COUNT(*) ... GROUP BY sync_state\<close>, and \<open>count as u32\<close>.\<close>

definition all_states :: "sync_state list" where
  "all_states = [Synced, QueuedUpload, Uploading, Downloading, sync_state.Conflict, QueuedDelete,
     Error, sync_state.Placeholder]"

definition in_state :: "sync_state \<Rightarrow> db \<Rightarrow> nat" where
  "in_state st d = length (filter (\<lambda>e. e_sync_state e = st) (files d))"

definition group_by_state :: "db \<Rightarrow> (sync_state \<times> nat) list" where
  "group_by_state d = filter (\<lambda>p. snd p \<noteq> 0) (map (\<lambda>st. (st, in_state st d)) all_states)"

definition count_of :: "(sync_state \<times> nat) list \<Rightarrow> sync_state \<Rightarrow> 32 word" where
  "count_of groups st = (case map_of groups st of None \<Rightarrow> 0 | Some n \<Rightarrow> of_nat n)"

definition checked_add :: "32 word \<Rightarrow> 32 word \<Rightarrow> sync_error + 32 word" where
  "checked_add a b =
     (if unat a + unat b < 2 ^ 32 then Inr (a + b)
      else Inl (Panic ''attempt to add with overflow''))"

text \<open>The overflow test on words, for evaluation.\<close>

lemma checked_add_code [code]:
  "checked_add a b = (if a \<le> a + b then Inr (a + b) else Inl (Panic ''attempt to add with overflow''))"
proof -
  have "unat a + unat b < 2 ^ 32 \<longleftrightarrow> a \<le> a + b"
    unfolding no_olen_add_nat by simp
  then show ?thesis by (simp add: checked_add_def)
qed

definition sync_summary :: "env \<Rightarrow> ('r, sync_summary_t) sync" where
  "sync_summary ev =
     and_then (on_db (gets group_by_state)) (\<lambda>groups.
     let uploading = count_of groups Uploading;
         downloading = count_of groups Downloading;
         conflicting = count_of groups sync_state.Conflict;
         failed = count_of groups Error in
     and_then (of_result (checked_add (count_of groups QueuedUpload) (count_of groups QueuedDelete))) (\<lambda>queued.
     and_then (of_result (checked_add queued uploading)) (\<lambda>busy.
     and_then (of_result (checked_add busy downloading)) (\<lambda>active.
     ret \<lparr>active_count = active, uploading_count = uploading, downloading_count = downloading,
          queued_count = queued, conflict_count = conflicting, error_count = failed,
          last_update_unix = now ev, is_syncing = (active > 0),
          attention_required = (conflicting > 0 \<or> failed > 0)\<rparr>))))"

record sync_item =
  i_path :: string
  i_state :: string
  i_direction :: string
  i_progress :: "32 word"
  i_bytes_done :: "64 word"
  i_bytes_total :: "64 word"
  i_updated_at :: int

definition MAX_SYNC_ITEMS :: nat where
  "MAX_SYNC_ITEMS = 32"

definition mtime_or_zero :: "stored_entry \<Rightarrow> int" where
  "mtime_or_zero e = (case e_mtime e of None \<Rightarrow> 0 | Some t \<Rightarrow> t)"

definition item_states :: "sync_state set" where
  "item_states = {QueuedUpload, Uploading, Downloading, sync_state.Conflict, Error}"

definition item_from_entry :: "stored_entry \<Rightarrow> sync_item" where
  "item_from_entry entry =
     \<lparr>i_path = e_path entry, i_state = sync_state_label (e_sync_state entry),
      i_direction = sync_direction (e_sync_state entry),
      i_progress = (if e_sync_state entry = Synced then 100 else 0),
      i_bytes_done = 0, i_bytes_total = e_size entry, i_updated_at = mtime_or_zero entry\<rparr>"

definition item_rows :: "db \<Rightarrow> stored_entry list" where
  "item_rows d =
     take MAX_SYNC_ITEMS
       (sort_key (\<lambda>e. - mtime_or_zero e) (filter (\<lambda>e. e_sync_state e \<in> item_states) (files d)))"

definition sync_items :: "('r, sync_item list) sync" where
  "sync_items = on_db (gets (\<lambda>d. map item_from_entry (item_rows d)))"

section \<open>Dictionaries\<close>

datatype owned_value = U32 "32 word" | U64 "64 word" | I64 int | Bool bool | Str string

type_synonym dict = "(string \<times> owned_value) list"

definition summary_to_dict :: "sync_summary_t \<Rightarrow> dict" where
  "summary_to_dict summary =
     [(''active_count'', U32 (active_count summary)),
      (''uploading_count'', U32 (uploading_count summary)),
      (''downloading_count'', U32 (downloading_count summary)),
      (''queued_count'', U32 (queued_count summary)),
      (''conflict_count'', U32 (conflict_count summary)),
      (''error_count'', U32 (error_count summary)),
      (''last_update_unix'', I64 (last_update_unix summary)),
      (''is_syncing'', Bool (is_syncing summary)),
      (''attention_required'', Bool (attention_required summary))]"

definition sync_summary_dict :: "env \<Rightarrow> ('r, dict) sync" where
  "sync_summary_dict ev = and_then (sync_summary ev) (\<lambda>summary. ret (summary_to_dict summary))"

definition item_to_dict :: "sync_item \<Rightarrow> dict" where
  "item_to_dict item =
     [(''path'', Str (i_path item)), (''state'', Str (i_state item)),
      (''direction'', Str (i_direction item)), (''progress'', U32 (i_progress item)),
      (''bytes_done'', U64 (i_bytes_done item)), (''bytes_total'', U64 (i_bytes_total item)),
      (''updated_at'', I64 (i_updated_at item))]"

definition sync_items_dict :: "('r, dict list) sync" where
  "sync_items_dict = and_then sync_items (\<lambda>items. ret (map item_to_dict items))"

definition status_to_dict :: "status_entry \<Rightarrow> dict" where
  "status_to_dict entry =
     [(''path'', Str (st_path entry)), (''name'', Str (st_name entry)),
      (''kind'', Str (st_kind entry)), (''state'', Str (st_state entry)),
      (''direction'', Str (st_direction entry)),
      (''is_conflicted'', Bool (st_is_conflicted entry)),
      (''is_placeholder'', Bool (st_is_placeholder entry)),
      (''progress'', U32 (st_progress entry)),
      (''bytes_done'', U64 (st_bytes_done entry)),
      (''bytes_total'', U64 (st_bytes_total entry)),
      (''updated_at'', I64 (st_updated_at entry)),
      (''known'', Bool (st_known entry))]"

definition status_dict :: "string \<Rightarrow> ('r, dict) sync" where
  "status_dict path = and_then (sync_status path) (\<lambda>entry. ret (status_to_dict entry))"

definition directory_statuses_dict :: "string \<Rightarrow> ('r, dict list) sync" where
  "directory_statuses_dict path =
     and_then (list_directory_statuses path) (\<lambda>entries. ret (map status_to_dict entries))"

section \<open>The D-Bus interface\<close>

text \<open>\<open>zbus::fdo::Error::Failed\<close> carries the \<open>Display\<close> text of the error.\<close>

datatype fdo_error = Failed string

definition map_err :: "('e \<Rightarrow> 'f) \<Rightarrow> ('s, 'e, 'a) action \<Rightarrow> ('s, 'f, 'a) action" where
  "map_err f m s = (case m s of (Inl e, t) \<Rightarrow> (Inl (f e), t) | (Inr x, t) \<Rightarrow> (Inr x, t))"

definition dbus_sync_summary ::
    "(sync_error \<Rightarrow> string) \<Rightarrow> env \<Rightarrow> ('r service, fdo_error, dict) action" where
  "dbus_sync_summary display ev = map_err (\<lambda>err. Failed (display err)) (sync_summary_dict ev)"

definition dbus_sync_items :: "(sync_error \<Rightarrow> string) \<Rightarrow> ('r service, fdo_error, dict list) action" where
  "dbus_sync_items display = map_err (\<lambda>err. Failed (display err)) sync_items_dict"

definition dbus_get_sync_status ::
    "(sync_error \<Rightarrow> string) \<Rightarrow> string \<Rightarrow> ('r service, fdo_error, dict) action" where
  "dbus_get_sync_status display path = map_err (\<lambda>err. Failed (display err)) (status_dict path)"

definition dbus_list_directory_statuses ::
    "(sync_error \<Rightarrow> string) \<Rightarrow> string \<Rightarrow> ('r service, fdo_error, dict list) action" where
  "dbus_list_directory_statuses display path =
     map_err (\<lambda>err. Failed (display err)) (directory_statuses_dict path)"

definition dbus_request_refresh ::
    "(sync_error \<Rightarrow> string) \<Rightarrow> env \<Rightarrow> string \<Rightarrow> ('r service, fdo_error, unit) action" where
  "dbus_request_refresh display ev path =
     map_err (\<lambda>err. Failed (display err)) (request_refresh ev path)"

text \<open>
  One turn of \<open>spawn_sync_property_updates\<close>: the version seen last, the version now,
  and whether the two property signals are emitted.
\<close>

definition property_poll :: "64 word \<Rightarrow> 'r service \<Rightarrow> 64 word \<times> bool" where
  "property_poll last_seen s =
     (if status_version s = last_seen then (last_seen, False) else (status_version s, True))"

section \<open>Facts\<close>

lemma count_of_group: "count_of (group_by_state d) st = of_nat (in_state st d)"
proof -
  have "map_of (filter (\<lambda>p. snd p \<noteq> (0::nat)) (map (\<lambda>st. (st, f st)) xs)) st =
      (if st \<in> set xs \<and> f st \<noteq> 0 then Some (f st) else None)" for f and xs :: "sync_state list"
    by (induction xs) auto
  moreover have "st \<in> set all_states" by (cases st) (simp_all add: all_states_def)
  ultimately show ?thesis by (simp add: count_of_def group_by_state_def)
qed

lemma checked_add_of_nat:
  "m + n < 2 ^ 32 \<Longrightarrow> checked_add (of_nat m) (of_nat n) = Inr (of_nat (m + n))"
  by (simp add: checked_add_def unat_of_nat)

lemma in_state_sum:
  "length (files d) = in_state Synced d + in_state QueuedUpload d + in_state Uploading d +
     in_state Downloading d + in_state sync_state.Conflict d + in_state QueuedDelete d +
     in_state Error d + in_state sync_state.Placeholder d"
proof -
  have "length xs = (\<Sum>st\<leftarrow>all_states. length (filter (\<lambda>e. e_sync_state e = st) xs))"
    for xs :: "stored_entry list"
  proof (induction xs)
    case (Cons x xs)
    then show ?case by (cases "e_sync_state x") (simp_all add: all_states_def)
  qed (simp add: all_states_def)
  from this [of "files d"] show ?thesis by (simp add: in_state_def all_states_def)
qed

lemma run_sync_summary:
  assumes "length (files (sdb s)) < 2 ^ 32"
  shows "sync_summary ev s =
    (let d = sdb s; queued = in_state QueuedUpload d + in_state QueuedDelete d;
         active = queued + in_state Uploading d + in_state Downloading d in
     (Inr \<lparr>active_count = of_nat active, uploading_count = of_nat (in_state Uploading d),
        downloading_count = of_nat (in_state Downloading d), queued_count = of_nat queued,
        conflict_count = of_nat (in_state sync_state.Conflict d),
        error_count = of_nat (in_state Error d), last_update_unix = now ev,
        is_syncing = (0 < active),
        attention_required = (0 < in_state sync_state.Conflict d \<or> 0 < in_state Error d)\<rparr>, s))"
proof -
  let ?d = "sdb s"
  have pos: "0 < (of_nat n :: 32 word) \<longleftrightarrow> 0 < n" if "n < 2 ^ 32" for n
    using that by (simp add: word_less_nat_alt unat_of_nat)
  have bound: "in_state QueuedUpload ?d + in_state QueuedDelete ?d + in_state Uploading ?d +
      in_state Downloading ?d + in_state sync_state.Conflict ?d + in_state Error ?d < 2 ^ 32"
    using assms in_state_sum [of ?d] by linarith
  have adds: "checked_add (of_nat (in_state QueuedUpload ?d)) (of_nat (in_state QueuedDelete ?d)) =
      Inr (of_nat (in_state QueuedUpload ?d + in_state QueuedDelete ?d))"
    "checked_add (of_nat (in_state QueuedUpload ?d + in_state QueuedDelete ?d))
      (of_nat (in_state Uploading ?d)) =
      Inr (of_nat (in_state QueuedUpload ?d + in_state QueuedDelete ?d + in_state Uploading ?d))"
    "checked_add (of_nat (in_state QueuedUpload ?d + in_state QueuedDelete ?d + in_state Uploading ?d))
      (of_nat (in_state Downloading ?d)) =
      Inr (of_nat (in_state QueuedUpload ?d + in_state QueuedDelete ?d + in_state Uploading ?d
        + in_state Downloading ?d))"
    using bound by (intro checked_add_of_nat; linarith)+
  show ?thesis
    unfolding sync_summary_def Let_def
    by (simp only: run_simps run_on_db fst_conv snd_conv sum.case count_of_group adds)
       (use bound in \<open>simp add: pos del: of_nat_add\<close>)
qed

end
