(* ===== verification/Report.thy ===== *)
theory Report
  imports Status Sample
begin







end
