(* ===== verification/Naming.thy ===== *)
theory Naming
  imports Database
begin

text \<open>
  The properties of the path and name functions of src/src/sync.rs: joining and splitting a
  remote path, the names of conflict copies, and the encodings of the database columns.
\<close>

section \<open>Paths\<close>

text \<open>
  Joining a directory path with a name and taking the parent and the name of the result
  gives both back, for every directory path other than the empty string and the bare
  \<open>disk:\<close>, and every non-empty name without a slash.
\<close>

theorem join_splits_back:
  assumes "valid_dir p" and "valid_name n"
  shows "parent_path_of (join_remote_path p n) = Some p \<and> name_of (join_remote_path p n) = n \<and>
    join_remote_path p n \<noteq> ROOT_PATH"
  using assms by (simp add: parent_path_of_join name_of_join join_not_root)

theorem join_splits_back_witness:
  "parent_path_of (join_remote_path ''disk:/a'' ''b.txt'') = Some ''disk:/a'' \<and>
   name_of (join_remote_path ''disk:/a'' ''b.txt'') = ''b.txt'' \<and>
   join_remote_path ''disk:/a'' ''b.txt'' \<noteq> ROOT_PATH"
  using join_splits_back [of "''disk:/a''" "''b.txt''"] by (simp add: valid_dir_def valid_name_def)

section \<open>Conflict names\<close>

lemma unat_numeral_32: "unat (2 :: 32 word) = 2"
  by simp

lemma next_conflict_name_unfold:
  "split_conflict_name name = (base, ext, idx) \<Longrightarrow>
   checked_succ (case idx of None \<Rightarrow> 1 | Some i \<Rightarrow> i) = Some k \<Longrightarrow>
   next_conflict_name name taken = next_conflict_index taken base ext k"
  by (simp add: next_conflict_name_def)

lemma next_conflict_name_SomeE:
  assumes "next_conflict_name name taken = Some r"
  obtains base ext idx k where "split_conflict_name name = (base, ext, idx)"
    and "checked_succ (case idx of None \<Rightarrow> 1 | Some i \<Rightarrow> i) = Some k"
    and "next_conflict_index taken base ext k = Some r"
  using assms by (auto simp: next_conflict_name_def split: prod.splits option.splits)

text \<open>
  C12: The name chosen for a conflict copy is free; it is the original's base with an index
  in parentheses and the original's extension; the index is larger than the one the
  original carries (and at least 2), and every smaller such index is taken.
\<close>

theorem conflict_name_least_free:
  assumes "next_conflict_name name taken = Some r" and "split_conflict_name name = (base, ext, idx)"
  shows "\<exists>k. r = conflict_candidate base k ext \<and> \<not> taken r \<and>
    (case idx of None \<Rightarrow> 1 | Some i \<Rightarrow> unat i) < unat k \<and>
    (\<forall>j. (case idx of None \<Rightarrow> 1 | Some i \<Rightarrow> unat i) < unat j \<and> unat j < unat k \<longrightarrow>
       taken (conflict_candidate base j ext))"
proof -
  from assms obtain k0 where k0: "checked_succ (case idx of None \<Rightarrow> 1 | Some i \<Rightarrow> i) = Some k0"
    and run: "next_conflict_index taken base ext k0 = Some r"
    by (auto elim: next_conflict_name_SomeE)
  have "unat k0 = Suc (case idx of None \<Rightarrow> 1 | Some i \<Rightarrow> unat i)"
    using checked_succ_unat [OF k0] by (cases idx) simp_all
  then show ?thesis using next_conflict_index_Some [OF run] by (auto simp: Suc_le_eq)
qed

theorem conflict_name_least_free_witness:
  "\<exists>k. ''report (4).tar.gz'' = conflict_candidate ''report'' k ''.tar.gz'' \<and>
    ''report (4).tar.gz'' \<notin> {''report (3).tar.gz''} \<and> 2 < unat k"
proof -
  have "next_conflict_name ''report (2).tar.gz'' (\<lambda>n. n \<in> {''report (3).tar.gz''}) =
      Some ''report (4).tar.gz''" by code_simp
  moreover have "split_conflict_name ''report (2).tar.gz'' = (''report'', ''.tar.gz'', Some 2)"
    by code_simp
  ultimately have "\<exists>k. ''report (4).tar.gz'' = conflict_candidate ''report'' k ''.tar.gz'' \<and>
      ''report (4).tar.gz'' \<notin> {''report (3).tar.gz''} \<and>
      (case Some (2 :: 32 word) of None \<Rightarrow> 1 | Some i \<Rightarrow> unat i) < unat k"
    using conflict_name_least_free by blast
  then show ?thesis by (simp only: option.case unat_numeral_32)
qed

text \<open>
  C13: Looking for a conflict name ends without the overflow panic whenever the taken names
  are finitely many and their number together with the index of the original stays below
  \<open>2 ^ 32 - 1\<close>.
\<close>

theorem conflict_name_found:
  assumes "finite {n. taken n}" and "split_conflict_name name = (base, ext, idx)"
    and "card {n. taken n} + (case idx of None \<Rightarrow> 1 | Some i \<Rightarrow> unat i) < 2 ^ 32 - 1"
  shows "\<exists>r. next_conflict_name name taken = Some r"
proof -
  let ?i = "(case idx of None \<Rightarrow> 1 | Some i \<Rightarrow> i) :: 32 word"
  have u: "unat ?i = (case idx of None \<Rightarrow> 1 | Some i \<Rightarrow> unat i)" by (cases idx) simp_all
  then have "?i \<noteq> 4294967295" using assms(3) by auto
  then obtain k where k: "checked_succ ?i = Some k" by (auto simp: checked_succ_def)
  from checked_succ_unat [OF k] u assms(3) have "card {n. taken n} + unat k < 2 ^ 32" by simp
  from finite_taken_Some [OF assms(1) this, of base ext] show ?thesis
    using next_conflict_name_unfold [OF assms(2) k] by auto
qed

theorem conflict_name_found_witness:
  "\<exists>r. next_conflict_name ''a.txt'' (\<lambda>n. n \<in> {''a (2).txt''}) = Some r"
proof -
  have "split_conflict_name ''a.txt'' = (''a'', ''.txt'', None)" by code_simp
  from conflict_name_found [OF _ this, of "\<lambda>n. n \<in> {''a (2).txt''}"] show ?thesis by simp
qed

text \<open>
  C14: The overflow panic of the \<open>u32\<close> index is reached by a single name: any file
  called \<open>base (4294967295)ext\<close> that has a conflict makes the search fail, whatever names
  are taken.
\<close>

theorem conflict_name_overflow:
  assumes "split_extension (base @ ext) = (base, ext)"
  shows "next_conflict_name (conflict_candidate base 4294967295 ext) taken = None"
proof -
  have "split_extension (conflict_candidate base 4294967295 ext) =
      (base @ '' ('' @ show_nat (unat (4294967295 :: 32 word)) @ '')'', ext)"
    unfolding conflict_candidate_def by (rule split_extension_candidate [OF assms]) simp
  then have "split_conflict_name (conflict_candidate base 4294967295 ext) =
      (base, ext, Some 4294967295)"
    using strip_numeric_suffix_candidate [of base 4294967295]
    by (simp only: split_conflict_name_def prod.case option.case Let_def)
  then show ?thesis by (simp add: next_conflict_name_def checked_succ_def)
qed

theorem conflict_name_overflow_witness:
  "next_conflict_name (conflict_candidate ''photo'' 4294967295 ''.jpg'') (\<lambda>_. False) = None"
proof -
  have "split_extension (''photo'' @ ''.jpg'') = (''photo'', ''.jpg'')" by code_simp
  then show ?thesis by (rule conflict_name_overflow)
qed

text \<open>
  Conflict copies of conflict copies count on: the name made for a file splits into the
  same base and extension as the file's own name, with the new index.
\<close>

theorem conflict_name_chain:
  assumes "next_conflict_name name taken = Some r" and "split_conflict_name name = (base, ext, idx)"
  shows "\<exists>k. r = conflict_candidate base k ext \<and> split_conflict_name r = (base, ext, Some k)"
proof -
  from assms obtain k where "r = conflict_candidate base k ext"
    by (auto elim!: next_conflict_name_SomeE dest: next_conflict_index_Some)
  then show ?thesis using split_conflict_name_candidate [OF assms(2), of k] by auto
qed

theorem conflict_name_chain_witness:
  "\<exists>k. ''file (2).txt'' = conflict_candidate ''file'' k ''.txt'' \<and>
    split_conflict_name ''file (2).txt'' = (''file'', ''.txt'', Some k)"
proof (rule conflict_name_chain)
  show "next_conflict_name ''file.txt'' (\<lambda>_. False) = Some ''file (2).txt''" by code_simp
  show "split_conflict_name ''file.txt'' = (''file'', ''.txt'', None)" by code_simp
qed

section \<open>Columns\<close>

lemma enum_ranges:
  "range node_kind_i32 = {0..1}" "range sync_state_i32 = {0..7}"
  "range content_state_i32 = {0..1}" "range queue_op_type_i32 = {0..8}"
  "range queue_op_status_i32 = {0..5}"
proof -
  have sets: "{0..1} = {0, 1 :: int}" "{0..7} = {0, 1, 2, 3, 4, 5, 6, 7 :: int}"
    "{0..8} = {0, 1, 2, 3, 4, 5, 6, 7, 8 :: int}" "{0..5} = {0, 1, 2, 3, 4, 5 :: int}"
    by auto
  have univ: "UNIV = set [File, Directory]"
    "UNIV = set [Synced, QueuedUpload, Uploading, Downloading, sync_state.Conflict, QueuedDelete,
       Error, sync_state.Placeholder]"
    "UNIV = set [content_state.Placeholder, Hydrated]"
    "UNIV = set [Upload, Delete, Mkdir, Move, Rename, RefreshTree, RefreshDir, Download,
       ReconcileRemoteDelete]"
    "UNIV = set [Pending, Leased, Done, RetryableError, PermanentError, queue_op_status.Conflict]"
    using node_kind.complete sync_state.complete content_state.complete queue_op_type.complete
      queue_op_status.complete by blast+
  show "range node_kind_i32 = {0..1}" unfolding univ(1) sets by auto
  show "range sync_state_i32 = {0..7}" unfolding univ(2) sets by auto
  show "range content_state_i32 = {0..1}" unfolding univ(3) sets by auto
  show "range queue_op_type_i32 = {0..8}" unfolding univ(4) sets by auto
  show "range queue_op_status_i32 = {0..5}" unfolding univ(5) sets by auto
qed

text \<open>
  C15: The integer conversions accept exactly the range that the \<open>CHECK\<close> constraints of
  the schema allow, give back the variant that was stored, and reject any other integer with
  the name of the type and the value.
\<close>

theorem enum_columns_exact:
  "(node_kind_try_from i = Inr k \<longleftrightarrow> i = node_kind_i32 k) \<and>
   (sync_state_try_from i = Inr s \<longleftrightarrow> i = sync_state_i32 s) \<and>
   (content_state_try_from i = Inr c \<longleftrightarrow> i = content_state_i32 c) \<and>
   (queue_op_type_try_from i = Inr t \<longleftrightarrow> i = queue_op_type_i32 t) \<and>
   (queue_op_status_try_from i = Inr u \<longleftrightarrow> i = queue_op_status_i32 u) \<and>
   (node_kind_try_from i = Inl e \<longleftrightarrow> i \<notin> {0..1} \<and> e = InvalidEnum ''NodeKind'' i) \<and>
   (sync_state_try_from i = Inl e \<longleftrightarrow> i \<notin> {0..7} \<and> e = InvalidEnum ''SyncState'' i) \<and>
   (content_state_try_from i = Inl e \<longleftrightarrow> i \<notin> {0..1} \<and> e = InvalidEnum ''ContentState'' i) \<and>
   (queue_op_type_try_from i = Inl e \<longleftrightarrow> i \<notin> {0..8} \<and> e = InvalidEnum ''QueueOpType'' i) \<and>
   (queue_op_status_try_from i = Inl e \<longleftrightarrow> i \<notin> {0..5} \<and> e = InvalidEnum ''QueueOpStatus'' i)"
  unfolding node_kind_try_from_def sync_state_try_from_def content_state_try_from_def
    queue_op_type_try_from_def queue_op_status_try_from_def node_kind.encode_decode
    sync_state.encode_decode content_state.encode_decode queue_op_type.encode_decode
    queue_op_status.encode_decode node_kind.decode_error sync_state.decode_error
    content_state.decode_error queue_op_type.decode_error queue_op_status.decode_error
  by (simp add: enum_ranges)

text \<open>
  A row of \<open>files\<close> that the program writes is read back as the same entry.
\<close>

theorem file_row_roundtrip: "row_to_entry (entry_to_row e) = Inr e"
  by (rule row_to_entry_entry_to_row)

end
