(* ===== verification/Auth.thy ===== *)
theory Auth
  imports Paths
begin

text \<open>
  The login of the daemon (src/src/auth.rs): \<open>AuthManager\<close>, a PKCE login that is pending
  until the callback completes it and access tokens that are refreshed when they expire, and
  \<open>YandexOAuthClient\<close>, which talks to the token endpoint.

  The traits \<open>OAuthClient\<close> and \<open>CredentialStore\<close> are records of actions on a world
  \<open>'w\<close>.  The crates the code calls are parameters: \<open>encode\<close> (URL-safe base64), \<open>sha256\<close>,
  \<open>parse_url\<close> (\<open>Url::parse_with_params\<close>) and the HTTP exchange of the token endpoint.
  \<open>AuthManager\<close> holds its mutex during a whole operation, except in \<open>complete_login\<close>,
  which releases it around the exchange: its two locked sections are separate definitions.
\<close>

section \<open>State\<close>

type_synonym byte_string = "8 word list"

record stored_credentials =
  access_token :: string
  refresh_token :: string
  expires_at :: "int option"

record pending_login =
  p_code_verifier :: string
  p_code_challenge :: string
  p_created_at :: int

record 'w auth =
  credentials :: "stored_credentials option"
  pending :: "pending_login option"
  outside :: 'w

record begin_login_response =
  authorize_url :: string
  code_challenge :: string
  redirect_uri :: string

record 'w oauth_client =
  exchange_authorization_code :: "string \<Rightarrow> string \<Rightarrow> ('w, auth_error, stored_credentials) action"
  refresh_with :: "string \<Rightarrow> ('w, auth_error, stored_credentials) action"

record 'w credential_store =
  load_credentials :: "('w, auth_error, stored_credentials option) action"
  save_credentials :: "stored_credentials \<Rightarrow> ('w, auth_error, unit) action"

text \<open>The crates: base64, SHA-256, URL building.\<close>

record crates =
  encode :: "byte_string \<Rightarrow> string"
  sha256 :: "byte_string \<Rightarrow> byte_string"
  parse_url :: "string \<Rightarrow> (string \<times> string) list \<Rightarrow> string + string"

text \<open>The clocks and the generator: \<open>Utc::now\<close> in seconds, \<open>Instant\<close> in nanoseconds.\<close>

record auth_env =
  utc_now :: int
  auth_instant :: int
  random_bytes :: byte_string

type_synonym ('w, 'a) authm = "('w auth, auth_error, 'a) action"

definition YANDEX_CLIENT_ID :: string where
  "YANDEX_CLIENT_ID = ''f0a18436bca24de4acf033329b0d5933''"

definition YANDEX_AUTHORIZE_URL :: string where
  "YANDEX_AUTHORIZE_URL = ''https://oauth.yandex.ru/authorize''"

definition YANDEX_REDIRECT_URI :: string where
  "YANDEX_REDIRECT_URI = ''http://localhost:6532/oauth/yandex-disk''"

definition TOKEN_REFRESH_SKEW :: int where
  "TOKEN_REFRESH_SKEW = 30"

definition PENDING_LOGIN_TTL :: int where
  "PENDING_LOGIN_TTL = 600 * 1000000000"

definition outside_call :: "('w, auth_error, 'a) action \<Rightarrow> ('w, 'a) authm" where
  "outside_call m = on_part outside (\<lambda>w s. s\<lparr>outside := w\<rparr>) m"

section \<open>AuthManager\<close>

definition is_expired :: "auth_env \<Rightarrow> stored_credentials \<Rightarrow> bool" where
  "is_expired ae c =
     (case expires_at c of None \<Rightarrow> False | Some t \<Rightarrow> t \<le> utc_now ae + TOKEN_REFRESH_SKEW)"

definition auth_new :: "'w credential_store \<Rightarrow> 'w \<Rightarrow> (auth_error + 'w auth) \<times> 'w" where
  "auth_new store w =
     (case load_credentials store w of
        (Inl err, w') \<Rightarrow> (Inl err, w')
      | (Inr c, w') \<Rightarrow> (Inr \<lparr>credentials = c, pending = None, outside = w'\<rparr>, w'))"

definition is_authenticated :: "'w auth \<Rightarrow> bool" where
  "is_authenticated s \<longleftrightarrow> credentials s \<noteq> None"

definition as_bytes :: "string \<Rightarrow> byte_string" where
  "as_bytes s = map of_char s"

definition generate_code_verifier :: "crates \<Rightarrow> auth_env \<Rightarrow> string" where
  "generate_code_verifier cr ae = encode cr (random_bytes ae)"

definition derive_code_challenge :: "crates \<Rightarrow> string \<Rightarrow> string" where
  "derive_code_challenge cr code_verifier = encode cr (sha256 cr (as_bytes code_verifier))"

definition build_authorize_url :: "crates \<Rightarrow> string \<Rightarrow> auth_error + string" where
  "build_authorize_url cr challenge =
     (case parse_url cr YANDEX_AUTHORIZE_URL
        [(''response_type'', ''code''), (''client_id'', YANDEX_CLIENT_ID),
         (''code_challenge'', challenge), (''code_challenge_method'', ''S256'')] of
        Inl err \<Rightarrow> Inl (Url err) | Inr url \<Rightarrow> Inr url)"

definition login_pending :: "auth_env \<Rightarrow> 'w auth \<Rightarrow> bool" where
  "login_pending ae s \<longleftrightarrow>
     (case pending s of None \<Rightarrow> False
      | Some p \<Rightarrow> auth_instant ae - p_created_at p < PENDING_LOGIN_TTL)"

definition begin_login :: "crates \<Rightarrow> auth_env \<Rightarrow> ('w, begin_login_response) authm" where
  "begin_login cr ae =
     and_then (gets (login_pending ae)) (\<lambda>busy.
     if busy then throw LoginAlreadyPending
     else
     (let verifier = generate_code_verifier cr ae;
          challenge = derive_code_challenge cr verifier in
      and_then (of_result (build_authorize_url cr challenge)) (\<lambda>url.
      and_then (modify (\<lambda>s. s\<lparr>pending := Some \<lparr>p_code_verifier = verifier,
        p_code_challenge = challenge, p_created_at = auth_instant ae\<rparr>\<rparr>)) (\<lambda>_.
      ret \<lparr>authorize_url = url, code_challenge = challenge, redirect_uri = YANDEX_REDIRECT_URI\<rparr>))))"

text \<open>\<open>complete_login\<close>: the pending login is taken, exchanged without the lock, and put back on failure.\<close>

definition take_pending :: "('w, pending_login) authm" where
  "take_pending =
     and_then (gets pending) (\<lambda>p.
     and_then (modify (\<lambda>s. s\<lparr>pending := None\<rparr>)) (\<lambda>_.
     ok_or NoPendingLogin p))"

definition finish_exchange ::
    "'w credential_store \<Rightarrow> pending_login \<Rightarrow> auth_error + stored_credentials \<Rightarrow> ('w, unit) authm" where
  "finish_exchange store p r =
     (case r of
        Inl err \<Rightarrow> and_then (modify (\<lambda>s. s\<lparr>pending := Some p\<rparr>)) (\<lambda>_. throw err)
      | Inr c \<Rightarrow>
          and_then (outside_call (save_credentials store c)) (\<lambda>_.
          modify (\<lambda>s. s\<lparr>credentials := Some c\<rparr>)))"

definition complete_login ::
    "'w oauth_client \<Rightarrow> 'w credential_store \<Rightarrow> string \<Rightarrow> ('w, unit) authm" where
  "complete_login oauth store code =
     and_then take_pending (\<lambda>p.
     and_then (attempt (outside_call (exchange_authorization_code oauth code (p_code_verifier p)))) (\<lambda>r.
     finish_exchange store p r))"

text \<open>The common end of \<open>access_token\<close> and \<open>refresh_access_token\<close>.\<close>

definition renew ::
    "'w oauth_client \<Rightarrow> 'w credential_store \<Rightarrow> stored_credentials \<Rightarrow> ('w, string) authm" where
  "renew oauth store c =
     and_then (outside_call (refresh_with oauth (refresh_token c))) (\<lambda>refreshed.
     and_then (outside_call (save_credentials store refreshed)) (\<lambda>_.
     and_then (modify (\<lambda>s. s\<lparr>credentials := Some refreshed\<rparr>)) (\<lambda>_.
     ret (access_token refreshed))))"

definition get_access_token ::
    "auth_env \<Rightarrow> 'w oauth_client \<Rightarrow> 'w credential_store \<Rightarrow> ('w, string) authm" where
  "get_access_token ae oauth store =
     and_then (and_then (gets credentials) (ok_or AuthenticationRequired)) (\<lambda>c.
     if \<not> is_expired ae c then ret (access_token c) else renew oauth store c)"

definition refresh_access_token :: "'w oauth_client \<Rightarrow> 'w credential_store \<Rightarrow> ('w, string) authm" where
  "refresh_access_token oauth store =
     and_then (and_then (gets credentials) (ok_or AuthenticationRequired)) (\<lambda>c. renew oauth store c)"

section \<open>The token endpoint\<close>

record token_response =
  t_access_token :: "string option"
  t_refresh_token :: "string option"
  t_expires_in :: "32 word option"

text \<open>
  An answer of the endpoint: its status, its text (\<open>None\<close> when the body cannot be read),
  and what the body decodes to.
\<close>

record token_answer =
  ta_status :: nat
  ta_text :: "string option"
  ta_json :: "string + token_response"

type_synonym 'w token_endpoint = "(string \<times> string) list \<Rightarrow> ('w, string, token_answer) action"

definition is_success :: "nat \<Rightarrow> bool" where
  "is_success status \<longleftrightarrow> 200 \<le> status \<and> status < 300"

definition ok_or_invalid :: "string \<Rightarrow> string option \<Rightarrow> auth_error + string" where
  "ok_or_invalid msg x = (case x of None \<Rightarrow> Inl (InvalidTokenResponse msg) | Some v \<Rightarrow> Inr v)"

definition credentials_from_response :: "auth_env \<Rightarrow> token_response \<Rightarrow> auth_error + stored_credentials" where
  "credentials_from_response ae r =
     (case ok_or_invalid ''missing access_token in token response'' (t_access_token r) of
        Inl err \<Rightarrow> Inl err
      | Inr access \<Rightarrow>
     (case ok_or_invalid ''missing refresh_token in token response'' (t_refresh_token r) of
        Inl err \<Rightarrow> Inl err
      | Inr refresh \<Rightarrow>
          Inr \<lparr>access_token = access, refresh_token = refresh,
               expires_at = map_option (\<lambda>n. utc_now ae + uint n) (t_expires_in r)\<rparr>))"

definition token_error :: "token_answer \<Rightarrow> auth_error" where
  "token_error a = TokenEndpoint (ta_status a)
     (case ta_text a of None \<Rightarrow> ''<unable to read body>'' | Some body \<Rightarrow> body)"

definition token_result :: "auth_env \<Rightarrow> token_answer \<Rightarrow> auth_error + stored_credentials" where
  "token_result ae a =
     (if \<not> is_success (ta_status a) then Inl (token_error a)
      else case ta_json a of
        Inl err \<Rightarrow> Inl (AuthHttp err)
      | Inr r \<Rightarrow> credentials_from_response ae r)"

definition send_token_request ::
    "auth_env \<Rightarrow> 'w token_endpoint \<Rightarrow> (string \<times> string) list \<Rightarrow> ('w, auth_error, stored_credentials) action" where
  "send_token_request ae post params = (\<lambda>w.
     case post params w of
       (Inl err, w') \<Rightarrow> (Inl (AuthHttp err), w')
     | (Inr a, w') \<Rightarrow> (token_result ae a, w'))"

definition yandex_oauth :: "auth_env \<Rightarrow> 'w token_endpoint \<Rightarrow> string \<Rightarrow> 'w oauth_client" where
  "yandex_oauth ae post client_id =
     \<lparr>exchange_authorization_code = (\<lambda>code verifier. send_token_request ae post
        [(''grant_type'', ''authorization_code''), (''code'', code),
         (''client_id'', client_id), (''code_verifier'', verifier)]),
      refresh_with = (\<lambda>token. send_token_request ae post
        [(''grant_type'', ''refresh_token''), (''client_id'', client_id),
         (''refresh_token'', token)])\<rparr>"

end
