(* ===== verification/Yandex.thy ===== *)
theory Yandex
  imports Auth Service
begin

text \<open>
  The HTTP client of Yandex Disk (src/src/yadisk.rs) and its implementation of the trait
  \<open>RemoteSyncClient\<close> (src/src/sync.rs).

  The HTTP library is a parameter: \<open>send\<close> answers a request, \<open>api\<close> and \<open>transfers\<close>
  being the two clients of the struct; the JSON decoder and the RFC 3339 parser are
  parameters too.  An answer carries its status, its text and bytes when the body can be
  read, and what the body decodes to.
\<close>

section \<open>Requests and answers\<close>

datatype http_method = GET | PUT | POST | DELETE

record request =
  q_method :: http_method
  q_url :: string
  q_query :: "(string \<times> string) list"
  q_token :: "string option"
  q_range :: "(64 word \<times> 64 word) option"
  q_body :: "bytes option"

datatype api_resource = ApiResource
  (a_path: string) (a_name: string) (a_type: string) (a_size: "64 word option")
  (a_created: "string option") (a_modified: "string option") (a_revision: "64 word option")
  (a_md5: "string option") (a_sha256: "string option") (a_resource_id: "string option")
  (a_embedded: "(api_resource list \<times> 64 word option) option")

record transfer_link =
  l_href :: string
  l_method :: string
  l_templated :: bool

record answer =
  w_status :: nat
  w_text :: "string option"
  w_bytes :: "string + bytes"
  w_resource :: "string + api_resource"
  w_link :: "string + transfer_link"

type_synonym ('w, 'a) ym = "('w, yandex_error, 'a) action"

record 'w net =
  api :: "request \<Rightarrow> ('w, string, answer) action"
  transfers :: "request \<Rightarrow> ('w, string, answer) action"
  provider_token :: "('w, auth_error, string) action"
  provider_refresh :: "('w, auth_error, string) action"
  parse_rfc3339 :: "string \<Rightarrow> system_time option"

definition API_BASE :: string where
  "API_BASE = ''https://cloud-api.yandex.net/v1/disk''"

text \<open>\<open>?\<close> on an error of the HTTP library, and on one of the token provider.\<close>

definition http :: "('w, string, 'a) action \<Rightarrow> ('w, 'a) ym" where
  "http m = (\<lambda>w. case m w of (Inl err, w') \<Rightarrow> (Inl (Http err), w') | (Inr x, w') \<Rightarrow> (Inr x, w'))"

definition or_auth :: "('w, auth_error, 'a) action \<Rightarrow> ('w, 'a) ym" where
  "or_auth m = (\<lambda>w. case m w of (Inl err, w') \<Rightarrow> (Inl (Auth err), w') | (Inr x, w') \<Rightarrow> (Inr x, w'))"

definition decoded :: "string + 'a \<Rightarrow> yandex_error + 'a" where
  "decoded r = (case r of Inl err \<Rightarrow> Inl (Http err) | Inr x \<Rightarrow> Inr x)"

definition simple_request :: "http_method \<Rightarrow> string \<Rightarrow> (string \<times> string) list \<Rightarrow> request" where
  "simple_request meth url query =
     \<lparr>q_method = meth, q_url = url, q_query = query, q_token = None, q_range = None, q_body = None\<rparr>"

definition error_from_response :: "answer \<Rightarrow> yandex_error" where
  "error_from_response a =
     (let body = (case w_text a of None \<Rightarrow> ''<unable to read body>'' | Some b \<Rightarrow> b) in
      if w_status a = 404 then yandex_error.NotFound
      else if w_status a = 401 then Unauthorized
      else if w_status a = 403 then Forbidden
      else if w_status a = 409 then yandex_error.Conflict body
      else Status (w_status a) body)"

text \<open>The token is sent; on 401 it is refreshed and the request sent once more.\<close>

definition send_authorized_request :: "'w net \<Rightarrow> request \<Rightarrow> ('w, answer) ym" where
  "send_authorized_request n build =
     and_then (or_auth (provider_token n)) (\<lambda>token.
     and_then (http (api n (build\<lparr>q_token := Some token\<rparr>))) (\<lambda>response.
     if w_status response \<noteq> 401 then ret response
     else
     and_then (or_auth (provider_refresh n)) (\<lambda>token'.
     http (api n (build\<lparr>q_token := Some token'\<rparr>)))))"

definition send_json :: "'w net \<Rightarrow> (answer \<Rightarrow> string + 'a) \<Rightarrow> request \<Rightarrow> ('w, 'a) ym" where
  "send_json n field build =
     and_then (send_authorized_request n build) (\<lambda>response.
     if \<not> is_success (w_status response) then throw (error_from_response response)
     else of_result (decoded (field response)))"

definition expect_success_or_operation :: "answer \<Rightarrow> yandex_error + transfer_link" where
  "expect_success_or_operation response =
     (if is_success (w_status response)
      then if w_status response = 204
           then Inr \<lparr>l_href = [], l_method = [], l_templated = False\<rparr>
           else decoded (w_link response)
      else Inl (error_from_response response))"

section \<open>Resources\<close>

definition parse_time :: "'w net \<Rightarrow> string option \<Rightarrow> system_time option" where
  "parse_time n value = Option.bind value (parse_rfc3339 n)"

definition remote_version_of :: "api_resource \<Rightarrow> string option" where
  "remote_version_of a =
     opt_or (opt_or (opt_or (opt_or (map_option (\<lambda>r. show_nat (unat r)) (a_revision a))
       (a_sha256 a)) (a_md5 a)) (a_modified a)) (a_resource_id a)"

definition try_into_resource :: "'w net \<Rightarrow> api_resource \<Rightarrow> yandex_error + resource_entry" where
  "try_into_resource n a =
     (let entry = (\<lambda>kind. \<lparr>r_path = a_path a, r_name = a_name a, r_kind = kind,
            r_size = (case a_size a of None \<Rightarrow> 0 | Some s \<Rightarrow> s),
            r_created = parse_time n (a_created a), r_modified = parse_time n (a_modified a),
            r_remote_version = remote_version_of a\<rparr>) in
      if a_type a = ''dir'' then Inr (entry resource_kind.Directory)
      else if a_type a = ''file'' then Inr (entry resource_kind.File)
      else Inl (InvalidResponse
        (''unsupported resource type '' @ a_type a @ '' for '' @ a_path a)))"

fun convert_items :: "'w net \<Rightarrow> api_resource list \<Rightarrow> yandex_error + resource_entry list" where
  "convert_items n [] = Inr []"
| "convert_items n (a # as) =
     (case try_into_resource n a of
        Inl err \<Rightarrow> Inl err
      | Inr r \<Rightarrow> (case convert_items n as of Inl err \<Rightarrow> Inl err | Inr rs \<Rightarrow> Inr (r # rs)))"

definition is_whitespace :: "char \<Rightarrow> bool" where
  "is_whitespace c \<longleftrightarrow> (of_char c :: nat) \<in> {9, 10, 11, 12, 13, 32}"

definition expect_non_empty_href :: "string \<Rightarrow> string \<Rightarrow> yandex_error + string" where
  "expect_non_empty_href href operation =
     (if list_all is_whitespace href then Inl (InvalidResponse (operation @ '' URL is empty''))
      else Inr href)"

section \<open>The operations\<close>

definition yd_fetch_resource_metadata :: "'w net \<Rightarrow> string \<Rightarrow> ('w, resource_entry) ym" where
  "yd_fetch_resource_metadata n path =
     and_then (send_json n w_resource (simple_request GET (API_BASE @ ''/resources'') [(''path'', path)])) (\<lambda>a.
     of_result (try_into_resource n a))"

definition page_request :: "string \<Rightarrow> nat \<Rightarrow> request" where
  "page_request path offset = simple_request GET (API_BASE @ ''/resources'')
     [(''path'', path), (''limit'', show_nat 1000), (''offset'', show_nat offset)]"

text \<open>
  What one page says: its entries, how many it held, and whether the listing goes on at the
  new offset.
\<close>

definition page_step ::
    "'w net \<Rightarrow> string \<Rightarrow> nat \<Rightarrow> api_resource \<Rightarrow> yandex_error + resource_entry list \<times> nat \<times> bool" where
  "page_step n path offset response =
     (case a_embedded response of
        None \<Rightarrow> Inl (InvalidResponse (''directory '' @ path @ '' is missing _embedded''))
      | Some (batch, reported) \<Rightarrow>
          (let batch_size = length batch;
               reported' = (case reported of None \<Rightarrow> batch_size | Some t \<Rightarrow> unat t);
               offset' = offset + batch_size in
           case convert_items n batch of
             Inl err \<Rightarrow> Inl err
           | Inr rs \<Rightarrow> Inr (rs, offset', batch_size \<noteq> 0 \<and> offset' < reported')))"

text \<open>
  The loop ends because each further round starts at a larger offset below a total that is a
  \<open>usize\<close>, or below the size of the page just read when the server gives none.
\<close>

lemma page_step_grows:
  assumes "page_step n path offset response = Inr (rs, offset', True)"
  shows "offset < offset' \<and> offset' < 2 ^ 64"
proof -
  obtain batch reported where emb: "a_embedded response = Some (batch, reported)"
    using assms by (auto simp: page_step_def split: option.splits)
  have bound: "unat t < 2 ^ 64" for t :: "64 word"
    using unsigned_less [of t, where ?'a = nat] by simp
  show ?thesis
  proof (cases reported)
    case None
    with assms emb show ?thesis by (auto simp: page_step_def Let_def split: sum.splits)
  next
    case (Some t)
    with assms emb bound [of t] show ?thesis
      by (auto simp: page_step_def Let_def split: sum.splits)
  qed
qed

function list_pages :: "'w net \<Rightarrow> string \<Rightarrow> nat \<Rightarrow> resource_entry list \<Rightarrow> ('w, resource_entry list) ym" where
  "list_pages n path offset items w =
     (case send_json n w_resource (page_request path offset) w of
        (Inl err, w') \<Rightarrow> (Inl err, w')
      | (Inr response, w') \<Rightarrow>
          (case page_step n path offset response of
             Inl err \<Rightarrow> (Inl err, w')
           | Inr (rs, offset', again) \<Rightarrow>
               if again then list_pages n path offset' (items @ rs) w'
               else (Inr (items @ rs), w')))"
  by pat_completeness auto
termination
  by (relation "measure (\<lambda>(n, path, offset, items, w). 2 ^ 64 - offset)")
     (auto dest: page_step_grows)

declare list_pages.simps [simp del]

definition yd_list_directory :: "'w net \<Rightarrow> string \<Rightarrow> ('w, resource_entry list) ym" where
  "yd_list_directory n path = list_pages n path 0 []"

definition yd_create_directory :: "'w net \<Rightarrow> string \<Rightarrow> ('w, unit) ym" where
  "yd_create_directory n path =
     and_then (send_authorized_request n (simple_request PUT (API_BASE @ ''/resources'') [(''path'', path)])) (\<lambda>response.
     and_then (of_result (expect_success_or_operation response)) (\<lambda>_. ret ()))"

definition show_bool :: "bool \<Rightarrow> string" where
  "show_bool b = (if b then ''true'' else ''false'')"

definition yd_delete_resource :: "'w net \<Rightarrow> string \<Rightarrow> bool \<Rightarrow> ('w, unit) ym" where
  "yd_delete_resource n path permanently =
     and_then (send_authorized_request n (simple_request DELETE (API_BASE @ ''/resources'')
       [(''path'', path), (''permanently'', show_bool permanently)])) (\<lambda>response.
     if w_status response = 204 then ret ()
     else and_then (of_result (expect_success_or_operation response)) (\<lambda>_. ret ()))"

definition yd_move_resource :: "'w net \<Rightarrow> string \<Rightarrow> string \<Rightarrow> bool \<Rightarrow> ('w, unit) ym" where
  "yd_move_resource n source target overwrite =
     and_then (send_authorized_request n (simple_request POST (API_BASE @ ''/resources/move'')
       [(''from'', source), (''path'', target), (''overwrite'', show_bool overwrite)])) (\<lambda>response.
     and_then (of_result (expect_success_or_operation response)) (\<lambda>_. ret ()))"

definition yd_resolve_download_url :: "'w net \<Rightarrow> string \<Rightarrow> ('w, string) ym" where
  "yd_resolve_download_url n path =
     and_then (send_json n w_link (simple_request GET (API_BASE @ ''/resources/download'') [(''path'', path)])) (\<lambda>link.
     of_result (expect_non_empty_href (l_href link) ''download''))"

definition yd_resolve_upload_url :: "'w net \<Rightarrow> string \<Rightarrow> bool \<Rightarrow> ('w, string) ym" where
  "yd_resolve_upload_url n path overwrite =
     and_then (send_json n w_link (simple_request GET (API_BASE @ ''/resources/upload'')
       [(''path'', path), (''overwrite'', show_bool overwrite)])) (\<lambda>link.
     of_result (expect_non_empty_href (l_href link) ''upload''))"

text \<open>The local file is opened before anything is sent; its content is the body.\<close>

definition yd_upload_file :: "'w net \<Rightarrow> string \<Rightarrow> io_error + bytes \<Rightarrow> ('w, unit) ym" where
  "yd_upload_file n href file =
     (case file of
        Inl err \<Rightarrow> throw (yandex_error.Io err)
      | Inr body \<Rightarrow>
          and_then (http (transfers n ((simple_request PUT href [])\<lparr>q_body := Some body\<rparr>))) (\<lambda>response.
          if is_success (w_status response) then ret ()
          else throw (error_from_response response)))"

definition yd_download_file :: "'w net \<Rightarrow> string \<Rightarrow> ('w, bytes) ym" where
  "yd_download_file n href =
     and_then (http (transfers n (simple_request GET href []))) (\<lambda>response.
     if \<not> is_success (w_status response) then throw (error_from_response response)
     else of_result (decoded (w_bytes response)))"

definition saturating_add :: "64 word \<Rightarrow> 64 word \<Rightarrow> 64 word" where
  "saturating_add a b = (if a + b < a then - 1 else a + b)"

definition saturating_sub :: "64 word \<Rightarrow> 64 word \<Rightarrow> 64 word" where
  "saturating_sub a b = (if b \<le> a then a - b else 0)"

definition slice :: "nat \<Rightarrow> nat \<Rightarrow> bytes \<Rightarrow> bytes" where
  "slice start count body =
     (if start \<ge> length body then []
      else take (min (start + count) (length body) - start) (drop start body))"

definition yd_read_file_range :: "'w net \<Rightarrow> string \<Rightarrow> 64 word \<Rightarrow> 32 word \<Rightarrow> ('w, bytes) ym" where
  "yd_read_file_range n href offset count =
     (if count = 0 then ret []
      else
      (let stop_at = saturating_sub (saturating_add offset (ucast count)) 1 in
       and_then (http (transfers n ((simple_request GET href [])\<lparr>q_range := Some (offset, stop_at)\<rparr>))) (\<lambda>response.
       if w_status response = 206 then of_result (decoded (w_bytes response))
       else if w_status response = 416 then ret []
       else if \<not> is_success (w_status response) then throw (error_from_response response)
       else and_then (of_result (decoded (w_bytes response))) (\<lambda>body.
            ret (slice (unat offset) (unat count) body)))))"

section \<open>The remote side of the sync service\<close>

definition yandex_client :: "'w net \<Rightarrow> 'w client" where
  "yandex_client n =
     \<lparr>fetch_resource_metadata = yd_fetch_resource_metadata n,
      list_directory = yd_list_directory n,
      create_directory = yd_create_directory n,
      delete_resource = yd_delete_resource n,
      move_resource = yd_move_resource n,
      resolve_download_url = yd_resolve_download_url n,
      resolve_upload_url = yd_resolve_upload_url n,
      upload_file = yd_upload_file n,
      download_file = yd_download_file n\<rparr>"

end
