(* ===== verification/Login.thy ===== *)
theory Login
  imports Auth
begin

text \<open>
  The login of src/src/auth.rs: what the token endpoint is asked, how a login ends on every
  branch, which token is handed out, and how a login begun during an exchange is lost.
\<close>

lemma run_outside_call [run_simps]:
  "outside_call m s = (fst (m (outside s)), s\<lparr>outside := snd (m (outside s))\<rparr>)"
  by (simp add: outside_call_def run_simps)

section \<open>The operations on every branch\<close>

lemma begin_login_Inr:
  assumes "begin_login cr ae s = (Inr reply, t)"
  shows "\<not> login_pending ae s"
    "code_challenge reply = derive_code_challenge cr (generate_code_verifier cr ae)"
    "build_authorize_url cr (code_challenge reply) = Inr (authorize_url reply)"
    "t = s\<lparr>pending := Some \<lparr>p_code_verifier = generate_code_verifier cr ae,
       p_code_challenge = code_challenge reply, p_created_at = auth_instant ae\<rparr>\<rparr>"
  using assms by (auto simp: begin_login_def run_simps Let_def split: if_splits sum.splits)

lemma begin_login_Inl: "begin_login cr ae s = (Inl err, t) \<Longrightarrow> t = s"
  by (auto simp: begin_login_def run_simps Let_def split: if_splits sum.splits)

text \<open>
  Without a pending login nothing happens.  When the exchange fails the pending login is put
  back and can be tried again.  When the exchange succeeds but the credentials cannot be
  saved, both are gone: the login is no longer pending and the tokens just received are not
  kept.  The age of the pending login is not looked at.
\<close>

lemma complete_login_cases:
  "complete_login oauth store code s =
    (case pending s of
       None \<Rightarrow> (Inl NoPendingLogin, s)
     | Some p \<Rightarrow>
         (case exchange_authorization_code oauth code (p_code_verifier p) (outside s) of
            (Inl err, w) \<Rightarrow> (Inl err, s\<lparr>outside := w\<rparr>)
          | (Inr c, w) \<Rightarrow>
              (case save_credentials store c w of
                 (Inl err, w') \<Rightarrow> (Inl err, s\<lparr>pending := None, outside := w'\<rparr>)
               | (Inr _, w') \<Rightarrow> (Inr (), s\<lparr>pending := None, outside := w', credentials := Some c\<rparr>))))"
  by (cases s; cases "pending s")
    (auto simp: complete_login_def take_pending_def finish_exchange_def run_simps split: sum.splits prod.splits)

lemma renew_cases:
  "renew oauth store c s =
    (case refresh_with oauth (refresh_token c) (outside s) of
       (Inl err, w) \<Rightarrow> (Inl err, s\<lparr>outside := w\<rparr>)
     | (Inr d, w) \<Rightarrow>
         (case save_credentials store d w of
            (Inl err, w') \<Rightarrow> (Inl err, s\<lparr>outside := w'\<rparr>)
          | (Inr _, w') \<Rightarrow> (Inr (access_token d), s\<lparr>outside := w', credentials := Some d\<rparr>)))"
  by (auto simp: renew_def run_simps split: sum.splits prod.splits)

section \<open>A login\<close>

text \<open>
  C31: The PKCE binding.  A login that was begun and is then completed asks the token endpoint
  with a verifier whose hash is the challenge the browser was sent with, the one that stands in
  the authorize URL; and the credentials held afterwards are the ones the endpoint gave for it.
\<close>

theorem pkce_binding:
  assumes begun: "begin_login cr ae s = (Inr reply, t)"
    and ended: "complete_login oauth store code t = (Inr (), u)"
  shows "\<exists>verifier c w. code_challenge reply = encode cr (sha256 cr (as_bytes verifier)) \<and>
    build_authorize_url cr (code_challenge reply) = Inr (authorize_url reply) \<and>
    exchange_authorization_code oauth code verifier (outside s) = (Inr c, w) \<and>
    fst (save_credentials store c w) = Inr () \<and>
    pending u = None \<and> credentials u = Some c"
proof -
  note facts = begin_login_Inr [OF begun]
  have "pending t = Some \<lparr>p_code_verifier = generate_code_verifier cr ae,
      p_code_challenge = code_challenge reply, p_created_at = auth_instant ae\<rparr>" "outside t = outside s"
    using facts(4) by simp_all
  with ended facts(2,3) show ?thesis
    by (auto simp: complete_login_cases derive_code_challenge_def split: sum.splits prod.splits)
qed

text \<open>
  Concrete crates and peers for the witnesses: base64 writes each byte as a character, the
  hash reverses and doubles, the token endpoint accepts one code, and the store keeps what it
  is given unless it is full.
\<close>

definition toy_crates :: crates where
  "toy_crates = \<lparr>encode = map (\<lambda>b. char_of (unat b)), sha256 = (\<lambda>bs. map (\<lambda>b. b + b) (rev bs)),
     parse_url = (\<lambda>url params. Inr (url @ ''?'' @ concat (map (\<lambda>(k, v). k @ ''='' @ v @ ''&'') params)))\<rparr>"

definition toy_credentials :: "int option \<Rightarrow> stored_credentials" where
  "toy_credentials t = \<lparr>access_token = ''access'', refresh_token = ''refresh'', expires_at = t\<rparr>"

definition toy_oauth :: "bool oauth_client" where
  "toy_oauth = \<lparr>exchange_authorization_code = (\<lambda>code verifier w.
       (if code = ''good'' then Inr (toy_credentials None) else Inl (TokenEndpoint 400 ''bad code''), w)),
     refresh_with = (\<lambda>token w. (Inr (toy_credentials (Some 99)), w))\<rparr>"

definition toy_store :: "bool credential_store" where
  "toy_store = \<lparr>load_credentials = (\<lambda>w. (Inr None, w)),
     save_credentials = (\<lambda>c full. (if full then Inl (SecretStorage ''locked'') else Inr (), full))\<rparr>"

definition toy_env :: "byte_string \<Rightarrow> auth_env" where
  "toy_env random = \<lparr>utc_now = 50, auth_instant = 7, random_bytes = random\<rparr>"

definition logged_out :: "bool auth" where
  "logged_out = \<lparr>credentials = None, pending = None, outside = False\<rparr>"

lemmas toy_defs = toy_crates_def toy_oauth_def toy_store_def toy_env_def logged_out_def toy_credentials_def

definition begun_login :: "bool auth" where
  "begun_login = snd (begin_login toy_crates (toy_env [65, 66]) logged_out)"

lemma toy_begin:
  "\<exists>reply. begin_login toy_crates (toy_env [65, 66]) logged_out = (Inr reply, begun_login) \<and>
     outside begun_login = False"
  by (simp add: begun_login_def begin_login_def run_simps login_pending_def toy_defs Let_def build_authorize_url_def)

theorem pkce_binding_witness:
  "\<exists>verifier c w (reply :: begin_login_response). code_challenge reply = encode toy_crates (sha256 toy_crates (as_bytes verifier)) \<and>
     exchange_authorization_code toy_oauth ''good'' verifier False = (Inr c, w)"
proof -
  obtain reply where begun: "begin_login toy_crates (toy_env [65, 66]) logged_out = (Inr reply, begun_login)"
    using toy_begin by (elim exE conjE)
  have ended: "complete_login toy_oauth toy_store ''good'' begun_login =
      (Inr (), snd (complete_login toy_oauth toy_store ''good'' begun_login))"
    by code_simp
  from pkce_binding [OF begun ended] show ?thesis
    by (elim exE conjE) (intro exI conjI, assumption, simp add: logged_out_def)
qed

section \<open>A login that is lost\<close>

text \<open>
  C32: A login begun while another is being exchanged is lost when that exchange fails.  The
  lock is free between the two sections of \<open>complete_login\<close>, so \<open>begin_login\<close> can succeed
  there; the failed exchange then overwrites the new pending login with the old one.  The
  callback of the new login is exchanged with the old verifier, and when that is refused the
  daemon still holds the old one: the new login can no longer be completed with its verifier.
\<close>

theorem begun_login_lost:
  assumes taken: "take_pending s = (Inr p, s1)"
    and begun: "begin_login cr ae s1 = (Inr reply, s2)"
    and failed: "finish_exchange store p (Inl err) s2 = (r, s3)"
  shows "pending s2 = Some \<lparr>p_code_verifier = generate_code_verifier cr ae,
      p_code_challenge = code_challenge reply, p_created_at = auth_instant ae\<rparr> \<and>
    pending s3 = pending s \<and> pending s = Some p \<and>
    (case exchange_authorization_code oauth code (p_code_verifier p) (outside s3) of
       (Inl err', w) \<Rightarrow> complete_login oauth store' code s3 = (Inl err', s3\<lparr>outside := w\<rparr>)
     | (Inr c, w) \<Rightarrow> pending (snd (complete_login oauth store' code s3)) = None)"
proof -
  have "pending s = Some p"
    using taken by (cases "pending s") (auto simp: take_pending_def run_simps)
  moreover have "pending s3 = Some p" using failed by (auto simp: finish_exchange_def run_simps)
  ultimately show ?thesis
    using begin_login_Inr(4) [OF begun] by (auto simp: complete_login_cases split: sum.splits prod.splits)
qed

definition retaken :: "bool auth" where
  "retaken = snd (take_pending begun_login)"

definition restarted :: "bool auth" where
  "restarted = snd (begin_login toy_crates (toy_env [67, 68]) retaken)"

definition put_back :: "bool auth" where
  "put_back = snd (finish_exchange toy_store \<lparr>p_code_verifier = ''AB'', p_code_challenge =
     encode toy_crates [132, 130], p_created_at = 7\<rparr> (Inl (TokenEndpoint 400 [])) restarted)"

theorem begun_login_lost_witness:
  "pending put_back = pending begun_login \<and>
   map_option p_code_verifier (pending restarted) = Some ''CD'' \<and>
   map_option p_code_verifier (pending put_back) = Some ''AB''"
proof -
  have taken: "take_pending begun_login = (Inr \<lparr>p_code_verifier = ''AB'', p_code_challenge =
      encode toy_crates [132, 130], p_created_at = 7\<rparr>, retaken)" by code_simp
  have "fst (begin_login toy_crates (toy_env [67, 68]) retaken) =
      Inr (projr (fst (begin_login toy_crates (toy_env [67, 68]) retaken)))" by code_simp
  then have begun: "begin_login toy_crates (toy_env [67, 68]) retaken =
      (Inr (projr (fst (begin_login toy_crates (toy_env [67, 68]) retaken))), restarted)"
    unfolding restarted_def by (metis prod.collapse)
  have failed: "finish_exchange toy_store \<lparr>p_code_verifier = ''AB'', p_code_challenge =
      encode toy_crates [132, 130], p_created_at = 7\<rparr> (Inl (TokenEndpoint 400 [])) restarted =
      (Inl (TokenEndpoint 400 []), put_back)" by code_simp
  note lost = begun_login_lost [OF taken begun failed, where oauth = toy_oauth and store' = toy_store]
  have "generate_code_verifier toy_crates (toy_env [67, 68]) = ''CD''" by code_simp
  with lost [THEN conjunct1] lost [THEN conjunct2, THEN conjunct1]
    lost [THEN conjunct2, THEN conjunct2, THEN conjunct1]
  show ?thesis by simp
qed

section \<open>The token handed out\<close>

text \<open>
  \<open>access_token\<close> and \<open>refresh_access_token\<close>.  A token that is handed out is always the
  access token of the credentials held afterwards, and those are either the ones held before,
  which then have more than the skew left, or credentials the endpoint gave for the refresh
  token and that the store has saved.  An error leaves the held credentials as they were, and
  neither operation touches a pending login.
\<close>

theorem token_fresh:
  "(case get_access_token ae oauth store s of (r, t) \<Rightarrow>
      pending t = pending s \<and>
      (case credentials s of
         None \<Rightarrow> r = Inl AuthenticationRequired \<and> t = s
       | Some c \<Rightarrow>
           (case r of
              Inl err \<Rightarrow> is_expired ae c \<and> credentials t = Some c
            | Inr token \<Rightarrow> \<exists>d. credentials t = Some d \<and> token = access_token d \<and>
                (if is_expired ae c
                 then \<exists>w. refresh_with oauth (refresh_token c) (outside s) = (Inr d, w) \<and>
                        save_credentials store d w = (Inr (), outside t)
                 else t = s)))) \<and>
   (case refresh_access_token oauth store s of (r, t) \<Rightarrow>
      pending t = pending s \<and>
      (case credentials s of
         None \<Rightarrow> r = Inl AuthenticationRequired \<and> t = s
       | Some c \<Rightarrow>
           (case r of
              Inl err \<Rightarrow> credentials t = Some c
            | Inr token \<Rightarrow> \<exists>d w. credentials t = Some d \<and> token = access_token d \<and>
                refresh_with oauth (refresh_token c) (outside s) = (Inr d, w) \<and>
                save_credentials store d w = (Inr (), outside t))))"
  by (cases "credentials s")
    (auto simp: get_access_token_def refresh_access_token_def run_simps renew_cases split: sum.splits prod.splits)

end
