(* ===== verification/Requests.thy ===== *)
theory Requests
  imports Yandex Login
begin

text \<open>
  The HTTP client of src/src/yadisk.rs against a server that keeps its promises: a listing
  read page by page is the whole listing, a byte range is the range of the file whether the
  server understands ranges or not, and a request is refused for its token only after the
  token has been renewed.
\<close>

section \<open>Listing a directory page by page\<close>

text \<open>
  A server that serves the items of a directory: to every request for a page it answers with
  at most a thousand items from the offset, and with the number of all items.
\<close>

definition serves_directory :: "'w net \<Rightarrow> 'w \<Rightarrow> string \<Rightarrow> api_resource list \<Rightarrow> bool" where
  "serves_directory n w path items \<longleftrightarrow> length items < 2 ^ 64 \<and>
     (\<exists>token. provider_token n w = (Inr token, w) \<and>
       (\<forall>offset. \<exists>a r. api n ((page_request path offset)\<lparr>q_token := Some token\<rparr>) w = (Inr a, w) \<and>
          w_status a = 200 \<and> w_resource a = Inr r \<and>
          a_embedded r = Some (take 1000 (drop offset items), Some (word_of_nat (length items)))))"

lemma served_page:
  assumes "serves_directory n w path items"
  obtains r where "send_json n w_resource (page_request path offset) w = (Inr r, w)"
    "a_embedded r = Some (take 1000 (drop offset items), Some (word_of_nat (length items)))"
proof -
  from assms obtain token a r where "provider_token n w = (Inr token, w)"
    "api n ((page_request path offset)\<lparr>q_token := Some token\<rparr>) w = (Inr a, w)"
    "w_status a = 200" "w_resource a = Inr r"
    "a_embedded r = Some (take 1000 (drop offset items), Some (word_of_nat (length items)))"
    unfolding serves_directory_def by metis
  then show thesis
    by (intro that [of r]) (simp_all add: send_json_def send_authorized_request_def run_simps or_auth_def
        http_def is_success_def decoded_def)
qed

lemma convert_items_append:
  "convert_items n (as @ bs) =
     (case convert_items n as of Inl err \<Rightarrow> Inl err
      | Inr rs \<Rightarrow> (case convert_items n bs of Inl err \<Rightarrow> Inl err | Inr ss \<Rightarrow> Inr (rs @ ss)))"
  by (induction as) (simp_all split: sum.split)

lemma list_pages_rest:
  assumes served: "serves_directory n w path items" and "offset \<le> length items"
    and "convert_items n (take offset items) = Inr got"
  shows "list_pages n path offset got w = (convert_items n items, w)"
  using assms(2,3)
proof (induction "length items - offset" arbitrary: offset got rule: less_induct)
  case less
  obtain r where sent: "send_json n w_resource (page_request path offset) w = (Inr r, w)"
    and emb: "a_embedded r = Some (take 1000 (drop offset items), Some (word_of_nat (length items)))"
    using served by (rule served_page)
  have len: "unat (word_of_nat (length items) :: 64 word) = length items"
    using served by (simp add: serves_directory_def unsigned_of_nat take_bit_nat_eq_self)
  define batch where "batch = take 1000 (drop offset items)"
  have parts: "take (offset + length batch) items = take offset items @ batch"
    using less.prems(1) by (simp add: batch_def take_add min_def)
  show ?case
  proof (cases "convert_items n batch")
    case (Inl err)
    moreover have "items = (take offset items @ batch) @ drop (offset + length batch) items"
      by (simp flip: parts)
    then have "convert_items n items = convert_items n ((take offset items @ batch) @ drop (offset + length batch) items)"
      by simp
    ultimately have "convert_items n items = Inl err"
      using less.prems(2) by (simp add: convert_items_append)
    with Inl sent emb show ?thesis
      by (subst list_pages.simps) (simp add: page_step_def Let_def batch_def)
  next
    case (Inr rs)
    have got: "convert_items n (take (offset + length batch) items) = Inr (got @ rs)"
      unfolding parts using Inr less.prems(2) by (simp add: convert_items_append)
    have bound: "offset + length batch \<le> length items"
      using less.prems(1) by (simp add: batch_def)
    show ?thesis
    proof (cases "length batch \<noteq> 0 \<and> offset + length batch < length items")
      case True
      then have "list_pages n path (offset + length batch) (got @ rs) w = (convert_items n items, w)"
        by (intro less.hyps [OF _ bound got]) linarith
      with True Inr sent emb len show ?thesis
        by (subst list_pages.simps) (simp add: page_step_def Let_def batch_def)
    next
      case False
      then have "offset + length batch = length items"
        using bound by (auto simp: batch_def)
      with got have "convert_items n items = Inr (got @ rs)" by simp
      with False Inr sent emb len show ?thesis
        by (subst list_pages.simps) (auto simp: page_step_def Let_def batch_def)
    qed
  qed
qed

text \<open>
  C28: Paging is invisible: from a server that serves a directory, \<open>list_directory\<close> returns
  what converting the whole listing at once gives, every item in order and none twice, or the
  error of the first resource whose type is unknown.
\<close>

theorem list_directory_whole:
  assumes "serves_directory n w path items"
  shows "yd_list_directory n path w = (convert_items n items, w)"
  using list_pages_rest [OF assms, of 0 "[]"] by (simp add: yd_list_directory_def)

definition folder :: "nat \<Rightarrow> api_resource" where
  "folder i = ApiResource (''disk:/d/'' @ show_nat i) (show_nat i) ''dir'' None None None None None None None None"

definition folder_net :: "api_resource list \<Rightarrow> unit net" where
  "folder_net items = \<lparr>api = (\<lambda>q w. (Inr \<lparr>w_status = 200, w_text = None, w_bytes = Inr [],
        w_resource = Inr (ApiResource [] [] ''dir'' None None None None None None None
          (Some (take 1000 (drop (digits_value (snd (q_query q ! 2))) items), Some (word_of_nat (length items))))),
        w_link = Inl []\<rparr>, w)),
     transfers = (\<lambda>q w. (Inl [], w)), provider_token = (\<lambda>w. (Inr ''t'', w)),
     provider_refresh = (\<lambda>w. (Inr ''t'', w)), parse_rfc3339 = (\<lambda>_. None)\<rparr>"

lemma convert_folders: "\<exists>rs. convert_items n (map folder is) = Inr rs \<and> length rs = length is"
  by (induction "is") (auto simp: folder_def try_into_resource_def Let_def)

theorem list_directory_whole_witness:
  "\<exists>rs. yd_list_directory (folder_net (map folder [0..<2500])) ''disk:/d'' () = (Inr rs, ()) \<and> length rs = 2500"
proof -
  have "serves_directory (folder_net (map folder [0..<2500])) () ''disk:/d'' (map folder [0..<2500])"
    by (simp add: serves_directory_def folder_net_def page_request_def simple_request_def)
  from list_directory_whole [OF this] convert_folders [of "folder_net (map folder [0..<2500])" "[0..<2500]"]
  show ?thesis by (elim exE conjE) simp
qed

section \<open>Reading a range\<close>

text \<open>
  A server that holds a file: to a request for an inclusive range it answers with that part,
  with the whole file when it does not understand ranges, or, past the end, that the range
  cannot be served.
\<close>

definition serves_file :: "'w net \<Rightarrow> 'w \<Rightarrow> string \<Rightarrow> bytes \<Rightarrow> bool" where
  "serves_file n w href body \<longleftrightarrow> length body < 2 ^ 64 - 1 \<and>
     (\<forall>lo hi. \<exists>a. transfers n ((simple_request GET href [])\<lparr>q_range := Some (lo, hi)\<rparr>) w = (Inr a, w) \<and>
        (w_status a = 206 \<and> unat lo < length body \<and>
           w_bytes a = Inr (take (unat hi + 1 - unat lo) (drop (unat lo) body)) \<or>
         w_status a = 416 \<and> length body \<le> unat lo \<or>
         w_status a = 200 \<and> w_bytes a = Inr body))"

lemma unat_saturating_add: "unat (saturating_add a b) = min (unat a + unat b) (2 ^ 64 - 1)"
proof -
  have bound: "unat a < 2 ^ 64" "unat b < 2 ^ 64"
    using unsigned_less [of a, where ?'a = nat] unsigned_less [of b, where ?'a = nat] by simp_all
  have wrapped: "unat (a + b) = (unat a + unat b) mod 2 ^ 64"
    by (simp add: unat_word_ariths)
  show ?thesis
  proof (cases "unat a + unat b < 2 ^ 64")
    case True
    then have "unat (a + b) = unat a + unat b" using wrapped by simp
    with True show ?thesis by (simp add: saturating_add_def word_less_nat_alt)
  next
    case False
    then have "unat (a + b) = unat a + unat b - 2 ^ 64" using wrapped bound by (simp add: mod_if)
    with False bound show ?thesis
      by (simp add: saturating_add_def word_less_nat_alt unsigned_minus_1_eq_mask mask_eq_exp_minus_1)
  qed
qed

lemma unat_stop_at:
  assumes "0 < unat a + unat b"
  shows "unat (saturating_sub (saturating_add a b) 1) = min (unat a + unat b) (2 ^ 64 - 1) - 1"
proof -
  have "(1 :: 64 word) \<le> saturating_add a b"
    using assms by (simp add: word_le_nat_alt unat_saturating_add min_def) linarith
  then show ?thesis by (simp add: saturating_sub_def unat_sub unat_saturating_add)
qed

text \<open>
  C29: A range is read the same from every server: \<open>read_file_range\<close> returns the bytes of the
  file from the offset on, at most as many as asked for, whether the server answers with the
  part, with the whole file, or that the range lies past the end; also where the offset plus
  the count leaves 64 bits.
\<close>

theorem remote_range_is_slice:
  assumes served: "serves_file n w href body"
  shows "yd_read_file_range n href offset count w =
    (Inr (take (unat count) (drop (unat offset) body)), w)"
proof (cases "count = 0")
  case False
  define hi where "hi = saturating_sub (saturating_add offset (ucast count)) 1"
  have count: "unat (ucast count :: 64 word) = unat count" "0 < unat count"
    using False unsigned_less [of count, where ?'a = nat]
    by (simp_all add: unsigned_ucast_eq take_bit_nat_eq_self_iff unat_gt_0)
  have stop: "unat hi = min (unat offset + unat count) (2 ^ 64 - 1) - 1"
    using count unat_stop_at [of offset "ucast count"] by (simp add: hi_def)
  have size: "length body < 2 ^ 64 - 1" using served by (simp add: serves_file_def)
  obtain a where sent: "transfers n ((simple_request GET href [])\<lparr>q_range := Some (offset, hi)\<rparr>) w = (Inr a, w)"
    and a: "w_status a = 206 \<and> unat offset < length body \<and>
        w_bytes a = Inr (take (unat hi + 1 - unat offset) (drop (unat offset) body)) \<or>
      w_status a = 416 \<and> length body \<le> unat offset \<or> w_status a = 200 \<and> w_bytes a = Inr body"
    using served unfolding serves_file_def by blast
  from a show ?thesis
  proof (elim disjE conjE)
    assume "w_status a = 206" "unat offset < length body"
      "w_bytes a = Inr (take (unat hi + 1 - unat offset) (drop (unat offset) body))"
    moreover from this have "take (unat hi + 1 - unat offset) (drop (unat offset) body) =
        take (unat count) (drop (unat offset) body)"
      using stop size count(2) by (auto simp: min_def take_all_iff)
    ultimately show ?thesis
      using False sent by (simp add: yd_read_file_range_def Let_def run_simps http_def decoded_def flip: hi_def)
  next
    assume "w_status a = 416" "length body \<le> unat offset"
    then show ?thesis
      using False sent by (simp add: yd_read_file_range_def Let_def run_simps http_def flip: hi_def)
  next
    assume "w_status a = 200" "w_bytes a = Inr body"
    then show ?thesis
      using False sent by (auto simp add: yd_read_file_range_def Let_def run_simps http_def decoded_def
          is_success_def slice_def min_def simp flip: hi_def)
  qed
qed (simp add: yd_read_file_range_def run_simps)

definition file_net :: "bytes \<Rightarrow> unit net" where
  "file_net body = \<lparr>api = (\<lambda>q w. (Inl [], w)),
     transfers = (\<lambda>q w. (Inr \<lparr>w_status = 200, w_text = None, w_bytes = Inr body,
       w_resource = Inl [], w_link = Inl []\<rparr>, w)),
     provider_token = (\<lambda>w. (Inr ''t'', w)), provider_refresh = (\<lambda>w. (Inr ''t'', w)), parse_rfc3339 = (\<lambda>_. None)\<rparr>"

theorem remote_range_is_slice_witness:
  "yd_read_file_range (file_net [1, 2, 3, 4]) ''href'' 1 2 () = (Inr [2, 3], ())"
proof -
  have "serves_file (file_net [1, 2, 3, 4]) () ''href'' [1, 2, 3, 4]"
    by (simp add: serves_file_def file_net_def)
  from remote_range_is_slice [OF this, of 1 2] show ?thesis by simp
qed

section \<open>The token of a request\<close>

text \<open>
  \<open>AuthManager\<close> as the token provider of the client: the client's world is then the login
  state, whose outside the requests change.
\<close>

definition auth_net ::
    "auth_env \<Rightarrow> 'w oauth_client \<Rightarrow> 'w credential_store \<Rightarrow> (request \<Rightarrow> ('w, string, answer) action)
     \<Rightarrow> (request \<Rightarrow> ('w, string, answer) action) \<Rightarrow> (string \<Rightarrow> system_time option) \<Rightarrow> 'w auth net" where
  "auth_net ae oauth store send transfer parse =
     \<lparr>api = (\<lambda>q. on_part outside (\<lambda>w s. s\<lparr>outside := w\<rparr>) (send q)),
      transfers = (\<lambda>q. on_part outside (\<lambda>w s. s\<lparr>outside := w\<rparr>) (transfer q)),
      provider_token = get_access_token ae oauth store,
      provider_refresh = refresh_access_token oauth store,
      parse_rfc3339 = parse\<rparr>"

lemma refresh_access_token_Inr:
  assumes "refresh_access_token oauth store s = (Inr token, t)"
  obtains c d w where "credentials s = Some c" "refresh_with oauth (refresh_token c) (outside s) = (Inr d, w)"
    "save_credentials store d w = (Inr (), outside t)" "credentials t = Some d"
    "token = access_token d"
  using assms by (cases "credentials s")
    (auto simp: refresh_access_token_def run_simps renew_cases split: sum.splits prod.splits)

lemma error_is_unauthorized: "error_from_response a = Unauthorized \<longleftrightarrow> w_status a = 401"
  by (simp add: error_from_response_def Let_def)

lemma wrapped_errors:
  "http m w = (Inl err, w') \<Longrightarrow> err \<noteq> Unauthorized"
  "or_auth m' w = (Inl err, w') \<Longrightarrow> err \<noteq> Unauthorized"
  "decoded r = Inl err \<Longrightarrow> err \<noteq> Unauthorized"
  by (auto simp: http_def or_auth_def decoded_def split: prod.splits sum.splits)

lemma wrapped_Inr:
  "http m w = (Inr x, w') \<longleftrightarrow> m w = (Inr x, w')"
  "or_auth m' w = (Inr y, w') \<longleftrightarrow> m' w = (Inr y, w')"
  by (auto simp: http_def or_auth_def split: prod.splits sum.splits)

lemma on_part_Inr: "on_part sel upd m s = (Inr x, t) \<longleftrightarrow> (\<exists>p. m (sel s) = (Inr x, p) \<and> t = upd p s)"
  by (auto simp: on_part_def split: prod.splits)

lemma and_then_Inl:
  "and_then m f s = (Inl err, t) \<longleftrightarrow>
     m s = (Inl err, t) \<or> (\<exists>x u. m s = (Inr x, u) \<and> f x u = (Inl err, t))"
  by (cases "m s") (auto simp: and_then_def split: sum.splits)

text \<open>Sending never reports the refusal itself; it returns the refused answer.\<close>

lemma send_authorized_cases:
  assumes "send_authorized_request n build s = (r, t)"
  shows "r \<noteq> Inl Unauthorized"
    "r = Inr b \<Longrightarrow> w_status b = 401 \<Longrightarrow> \<exists>token s1 a s2 token' s3.
       provider_token n s = (Inr token, s1) \<and> api n (build\<lparr>q_token := Some token\<rparr>) s1 = (Inr a, s2) \<and>
       w_status a = 401 \<and> provider_refresh n s2 = (Inr token', s3) \<and>
       api n (build\<lparr>q_token := Some token'\<rparr>) s3 = (Inr b, t)"
  using assms
  by (auto simp: send_authorized_request_def and_then_Inl and_then_Inr wrapped_Inr ret_def
      dest!: wrapped_errors split: if_splits)

text \<open>
  C30: A request is refused for its token only in the end: when the client reports
  \<open>Unauthorized\<close>, the request was first refused with the token \<open>access_token\<close> gave, the
  credentials held then were renewed at the endpoint and saved, and the request was refused
  again with the renewed token, which is the one the daemon holds from then on.
\<close>

theorem unauthorized_after_renewal:
  assumes "send_json (auth_net ae oauth store send transfer parse) field build s = (Inl Unauthorized, t)"
  shows "\<exists>token a s1 c w1 d w2 w3 b. get_access_token ae oauth store s = (Inr token, s1) \<and> credentials s1 = Some c \<and>
    send (build\<lparr>q_token := Some token\<rparr>) (outside s1) = (Inr a, w1) \<and> w_status a = 401 \<and>
    refresh_with oauth (refresh_token c) w1 = (Inr d, w2) \<and> save_credentials store d w2 = (Inr (), w3) \<and>
    credentials t = Some d \<and>
    send (build\<lparr>q_token := Some (access_token d)\<rparr>) w3 = (Inr b, outside t) \<and> w_status b = 401"
proof -
  obtain b where sent: "send_authorized_request (auth_net ae oauth store send transfer parse) build s = (Inr b, t)"
    and refused: "w_status b = 401"
    using assms by (auto simp: send_json_def and_then_Inl throw_def of_result_def error_is_unauthorized
        dest: send_authorized_cases(1) wrapped_errors(3) split: if_splits)
  from send_authorized_cases(2) [OF sent refl refused]
  obtain token s1 a v token' s3 where first: "get_access_token ae oauth store s = (Inr token, s1)"
    "send (build\<lparr>q_token := Some token\<rparr>) (outside s1) = (Inr a, v)"
    "w_status a = 401" and renewed: "refresh_access_token oauth store (s1\<lparr>outside := v\<rparr>) = (Inr token', s3)"
    and second: "send (build\<lparr>q_token := Some token'\<rparr>) (outside s3) = (Inr b, outside t)"
      "credentials t = credentials s3"
    by (auto simp: auth_net_def on_part_Inr)
  from renewed obtain c d w where "credentials s1 = Some c"
    "refresh_with oauth (refresh_token c) v = (Inr d, w)"
    "save_credentials store d w = (Inr (), outside s3)" "credentials s3 = Some d" "token' = access_token d"
    by (rule refresh_access_token_Inr) simp
  with first second refused show ?thesis
    by (intro exI [of _ token] exI [of _ a] exI [of _ s1] exI [of _ c] exI [of _ v]
        exI [of _ d] exI [of _ w] exI [of _ "outside s3"] exI [of _ b]) simp
qed

text \<open>An endpoint that gives out the credentials of the witness, and a server that refuses every token.\<close>

definition refusing :: "request \<Rightarrow> (bool, string, answer) action" where
  "refusing = (\<lambda>q w. (Inr \<lparr>w_status = 401, w_text = None, w_bytes = Inr [], w_resource = Inl [], w_link = Inl []\<rparr>, w))"

definition held :: "bool auth" where
  "held = \<lparr>credentials = Some (toy_credentials None), pending = None, outside = False\<rparr>"

theorem unauthorized_after_renewal_witness:
  "credentials (snd (send_json (auth_net (toy_env []) toy_oauth toy_store refusing refusing (\<lambda>_. None))
     w_resource (simple_request GET ''url'' []) held)) \<noteq> None"
proof -
  have "fst (send_json (auth_net (toy_env []) toy_oauth toy_store refusing refusing (\<lambda>_. None))
     w_resource (simple_request GET ''url'' []) held) = Inl Unauthorized" by code_simp
  then have "send_json (auth_net (toy_env []) toy_oauth toy_store refusing refusing (\<lambda>_. None))
     w_resource (simple_request GET ''url'' []) held = (Inl Unauthorized,
     snd (send_json (auth_net (toy_env []) toy_oauth toy_store refusing refusing (\<lambda>_. None))
     w_resource (simple_request GET ''url'' []) held))" by (metis prod.collapse)
  from unauthorized_after_renewal [OF this] show ?thesis by (elim exE conjE) simp
qed

end
