(* ===== verification/Host.thy ===== *)
theory Host
  imports Auth Fs
begin

text \<open>
  The process around the service: the secret store (src/src/secrets.rs), the OAuth callback
  (src/src/callback.rs), the mount (src/src/mount.rs) and the main loop (src/src/main.rs).

  The asynchronous runtime and the libraries are parameters: what \<open>fuser\<close>, the D-Bus
  connection and the signal handlers answer.  The main loop is a function from the events it
  receives to the effects it has, in order.
\<close>

section \<open>The secret store\<close>

text \<open>
  \<open>'i\<close> are the items of the secret service.  \<open>ser\<close> and \<open>de\<close> are \<open>serde_json\<close> on
  the credentials; every error of the library becomes a \<open>SecretStorage\<close> error.
\<close>

record ('w, 'i) secret_service =
  connect :: "('w, string, unit) action"
  search_items :: "('w, string, 'i list \<times> 'i list) action"
  is_locked :: "'i \<Rightarrow> ('w, string, bool) action"
  unlock_item :: "'i \<Rightarrow> ('w, string, unit) action"
  get_secret :: "'i \<Rightarrow> ('w, string, byte_string) action"
  get_any_collection :: "('w, string, unit) action"
  create_item :: "string \<Rightarrow> byte_string \<Rightarrow> bool \<Rightarrow> string \<Rightarrow> ('w, string, unit) action"

definition secret :: "('w, string, 'a) action \<Rightarrow> ('w, auth_error, 'a) action" where
  "secret m = (\<lambda>w. case m w of
       (Inl err, w') \<Rightarrow> (Inl (SecretStorage err), w') | (Inr x, w') \<Rightarrow> (Inr x, w'))"

definition first_item :: "'i list \<Rightarrow> 'i option" where
  "first_item items = (case items of [] \<Rightarrow> None | i # _ \<Rightarrow> Some i)"

definition first_some :: "'a option \<Rightarrow> 'a option \<Rightarrow> 'a option" where
  "first_some x y = (case x of None \<Rightarrow> y | Some _ \<Rightarrow> x)"

definition ss_load_credentials ::
    "('w, 'i) secret_service \<Rightarrow> (byte_string \<Rightarrow> string + stored_credentials)
     \<Rightarrow> ('w, auth_error, stored_credentials option) action" where
  "ss_load_credentials ss de =
     and_then (secret (connect ss)) (\<lambda>_.
     and_then (secret (search_items ss)) (\<lambda>(unlocked, locked).
     case first_some (first_item unlocked) (first_item locked) of
       None \<Rightarrow> ret None
     | Some item \<Rightarrow>
         and_then (secret (is_locked ss item)) (\<lambda>is_closed.
         and_then (if is_closed then secret (unlock_item ss item) else ret ()) (\<lambda>_.
         and_then (secret (get_secret ss item)) (\<lambda>bs.
         and_then (secret (of_result (de bs))) (\<lambda>c. ret (Some c)))))))"

definition ss_save_credentials ::
    "('w, 'i) secret_service \<Rightarrow> (stored_credentials \<Rightarrow> string + byte_string)
     \<Rightarrow> stored_credentials \<Rightarrow> ('w, auth_error, unit) action" where
  "ss_save_credentials ss ser c =
     and_then (secret (connect ss)) (\<lambda>_.
     and_then (secret (get_any_collection ss)) (\<lambda>_.
     and_then (secret (of_result (ser c))) (\<lambda>bs.
     secret (create_item ss ''discohack-daemon Yandex Disk OAuth'' bs True ''application/json''))))"

definition secret_store ::
    "('w, 'i) secret_service \<Rightarrow> (byte_string \<Rightarrow> string + stored_credentials)
     \<Rightarrow> (stored_credentials \<Rightarrow> string + byte_string) \<Rightarrow> 'w credential_store" where
  "secret_store ss de ser =
     \<lparr>load_credentials = ss_load_credentials ss de, save_credentials = ss_save_credentials ss ser\<rparr>"

section \<open>The OAuth callback\<close>

record callback_query =
  cb_code :: "string option"
  cb_error :: "string option"
  cb_error_description :: "string option"

datatype callback_event = LoginCompleted

record html_response =
  html_status :: nat
  html_body :: string

text \<open>
  \<open>send_event\<close> is the channel to the main loop: whether the receiver still exists.  The
  result is the reply and the event that was sent.  A panic of the blocking task is
  not modelled.
\<close>

definition handle_oauth_callback ::
    "'w oauth_client \<Rightarrow> 'w credential_store \<Rightarrow> (auth_error \<Rightarrow> string) \<Rightarrow> bool \<Rightarrow> callback_query
     \<Rightarrow> 'w auth \<Rightarrow> (html_response \<times> callback_event list) \<times> 'w auth" where
  "handle_oauth_callback oauth store display receiver_alive query s =
     (case cb_error query of
        Some err \<Rightarrow>
          ((\<lparr>html_status = 400, html_body = ''OAuth failed: '' @ err @ ''. '' @
              (case cb_error_description query of None \<Rightarrow> [] | Some d \<Rightarrow> d)\<rparr>, []), s)
      | None \<Rightarrow>
     (case cb_code query of
        None \<Rightarrow> ((\<lparr>html_status = 400, html_body = ''Missing authorization code''\<rparr>, []), s)
      | Some code \<Rightarrow>
     (case complete_login oauth store code s of
        (Inr _, t) \<Rightarrow>
          if \<not> receiver_alive
          then ((\<lparr>html_status = 500,
                  html_body = ''Login completed, but backend event dispatch failed''\<rparr>, []), t)
          else ((\<lparr>html_status = 200, html_body =
                  ''Yandex Disk login completed successfully. You can close this window.''\<rparr>,
                 [LoginCompleted]), t)
      | (Inl err, t) \<Rightarrow>
          ((\<lparr>html_status = 500, html_body = ''OAuth callback handling failed: '' @ display err\<rparr>, []), t))))"

section \<open>The mount\<close>

text \<open>
  A background session is finished or running; joining and unmounting are calls of the
  \<open>fuser\<close> library, whose results are arguments.
\<close>

datatype mount_error = Filesystem sync_error | Mount io_error | Shutdown io_error

record session =
  finished :: bool

record mount_manager =
  mm_mountpoint :: string
  mm_uid :: "32 word"
  mm_gid :: "32 word"
  mm_session :: "session option"

definition mount_manager_new :: "string \<Rightarrow> 32 word \<Rightarrow> 32 word \<Rightarrow> mount_manager" where
  "mount_manager_new mountpoint uid gid =
     \<lparr>mm_mountpoint = mountpoint, mm_uid = uid, mm_gid = gid, mm_session = None\<rparr>"

definition is_mounted :: "mount_manager \<Rightarrow> bool" where
  "is_mounted m \<longleftrightarrow> mm_session m \<noteq> None"

definition MIN_FUSE_WORKER_THREADS :: nat where
  "MIN_FUSE_WORKER_THREADS = 2"

definition MAX_FUSE_WORKER_THREADS :: nat where
  "MAX_FUSE_WORKER_THREADS = 8"

text \<open>\<open>configure_fuse_session\<close> on Linux: the number of threads, and \<open>clone_fd\<close>.\<close>

definition configure_fuse_session :: "nat option \<Rightarrow> nat \<times> bool" where
  "configure_fuse_session parallelism =
     (let worker_threads =
        (case parallelism of
           None \<Rightarrow> MIN_FUSE_WORKER_THREADS
         | Some p \<Rightarrow> max MIN_FUSE_WORKER_THREADS (min p MAX_FUSE_WORKER_THREADS)) in
      (worker_threads, worker_threads > 1))"

text \<open>
  \<open>ensure_mounted\<close>: \<open>open_fs\<close> is the result of \<open>YandexDiskFs::new\<close>, \<open>spawn\<close> that
  of \<open>spawn_mount2\<close>.  A finished session is joined, whatever the join says.
\<close>

definition ensure_mounted ::
    "sync_error + unit \<Rightarrow> io_error + session \<Rightarrow> mount_manager \<Rightarrow> (mount_error + unit) \<times> mount_manager" where
  "ensure_mounted open_fs spawn m =
     (case mm_session m of
        Some existing \<Rightarrow>
          if \<not> finished existing then (Inr (), m)
          else (case open_fs of
                  Inl err \<Rightarrow> (Inl (Filesystem err), m\<lparr>mm_session := None\<rparr>)
                | Inr _ \<Rightarrow> (case spawn of
                    Inl err \<Rightarrow> (Inl (Mount err), m\<lparr>mm_session := None\<rparr>)
                  | Inr s \<Rightarrow> (Inr (), m\<lparr>mm_session := Some s\<rparr>)))
      | None \<Rightarrow>
          (case open_fs of
             Inl err \<Rightarrow> (Inl (Filesystem err), m)
           | Inr _ \<Rightarrow> (case spawn of
               Inl err \<Rightarrow> (Inl (Mount err), m)
             | Inr s \<Rightarrow> (Inr (), m\<lparr>mm_session := Some s\<rparr>))))"

definition mount_shutdown :: "io_error + unit \<Rightarrow> mount_manager \<Rightarrow> (mount_error + unit) \<times> mount_manager" where
  "mount_shutdown umount_and_join m =
     (case mm_session m of
        None \<Rightarrow> (Inr (), m)
      | Some _ \<Rightarrow>
          (case umount_and_join of
             Inr _ \<Rightarrow> (Inr (), m\<lparr>mm_session := None\<rparr>)
           | Inl err \<Rightarrow> (Inl (Shutdown err), m\<lparr>mm_session := None\<rparr>)))"

section \<open>The main loop\<close>

datatype main_event = Sigint | Sigterm | Callback callback_event | ChannelClosed

datatype effect =
    StartBackground
  | EnsureMounted
  | EmitLoginCompleted
  | AbortCallback
  | ShutdownMount
  | ShutdownSync

text \<open>\<open>shutdown_mount\<close>: the service is stopped after the mount, whether it came down or not.\<close>

definition shutdown_mount :: "bool \<Rightarrow> int \<times> effect list" where
  "shutdown_mount unmounted = (if unmounted then 0 else 1, [ShutdownMount, ShutdownSync])"

text \<open>
  The \<open>select!\<close> loop on the events in the order it takes them; \<open>None\<close> is the exit code
  of a loop that still waits.  Failures to mount and to emit the signal are logged only.
\<close>

fun main_loop :: "bool \<Rightarrow> main_event list \<Rightarrow> int option \<times> effect list" where
  "main_loop unmounted [] = (None, [])"
| "main_loop unmounted (Callback LoginCompleted # events) =
     (case main_loop unmounted events of (code, effects) \<Rightarrow>
        (code, [StartBackground, EnsureMounted, EmitLoginCompleted] @ effects))"
| "main_loop unmounted (event # events) =
     (case shutdown_mount unmounted of (code, effects) \<Rightarrow> (Some code, AbortCallback # effects))"

text \<open>What the steps of the start answer; a failing step also stands for its panicking task.\<close>

record startup =
  su_mountpoint :: "string option"
  su_auth :: "auth_error + bool"
  su_client :: "yandex_error + unit"
  su_sync :: "sync_error + unit"
  su_callback :: "string + unit"
  su_dbus :: "string + unit"
  su_sigint :: "string + unit"
  su_sigterm :: "string + unit"

definition run :: "startup \<Rightarrow> bool \<Rightarrow> main_event list \<Rightarrow> int option \<times> effect list" where
  "run su unmounted events =
     (case su_mountpoint su of None \<Rightarrow> (Some 2, []) | Some _ \<Rightarrow>
     (case su_auth su of Inl _ \<Rightarrow> (Some 1, []) | Inr authenticated \<Rightarrow>
     (case su_client su of Inl _ \<Rightarrow> (Some 1, []) | Inr _ \<Rightarrow>
     (case su_sync su of Inl _ \<Rightarrow> (Some 1, []) | Inr _ \<Rightarrow>
     (case su_callback su of Inl _ \<Rightarrow> (Some 1, []) | Inr _ \<Rightarrow>
     (case su_dbus su of Inl _ \<Rightarrow> (Some 1, [AbortCallback]) | Inr _ \<Rightarrow>
     (let started = (if authenticated then [StartBackground, EnsureMounted] else []);
          (code, effects) =
            (if \<not> isl (su_sigint su) \<and> \<not> isl (su_sigterm su) then main_loop unmounted events
             else (case shutdown_mount unmounted of (c, es) \<Rightarrow> (Some c, AbortCallback # es)))
      in (code, started @ effects))))))))"

end
