(* ===== verification/Process.thy ===== *)
theory Process
  imports Login Host Worker
begin

text \<open>
  The process around the service: the reply and the event of the OAuth callback
  (src/src/callback.rs), a login that survives a restart through the secret store
  (src/src/secrets.rs), and what the main loop of src/src/main.rs leaves behind, performed on
  the service and the mount manager.
\<close>

section \<open>The callback\<close>

text \<open>
  The callback reports a success, and wakes the main loop, exactly when the login was
  completed and the main loop is still there.  A callback without a code, or with an error,
  leaves the login as it was; a completed login is kept even when the main loop is gone.
\<close>

lemma callback_reply:
  "(case handle_oauth_callback oauth store display receiver_alive query s of ((html, events), t) \<Rightarrow>
      (html_status html = 200 \<longleftrightarrow> events = [LoginCompleted]) \<and>
      (events = [] \<or> events = [LoginCompleted]) \<and>
      (if cb_error query = None \<and> cb_code query \<noteq> None
       then (case complete_login oauth store (the (cb_code query)) s of (r, u) \<Rightarrow>
               t = u \<and> (events = [LoginCompleted] \<longleftrightarrow> r = Inr () \<and> receiver_alive))
       else t = s \<and> html_status html = 400))"
  by (cases "cb_error query"; cases "cb_code query")
     (auto simp: handle_oauth_callback_def split: sum.splits prod.splits)

section \<open>The secret store\<close>





text \<open>
  A secret service with one locked slot, and a coding of the credentials that accepts only
  those without an expiry.
\<close>

definition slot_service :: "(byte_string option, unit) secret_service" where
  "slot_service = \<lparr>connect = (\<lambda>w. (Inr (), w)),
     search_items = (\<lambda>w. (Inr ([], if w = None then [] else [()]), w)),
     is_locked = (\<lambda>_ w. (Inr True, w)), unlock_item = (\<lambda>_ w. (Inr (), w)),
     get_secret = (\<lambda>_ w. (case w of None \<Rightarrow> Inl ''no item'' | Some bs \<Rightarrow> Inr bs, w)),
     get_any_collection = (\<lambda>w. (Inr (), w)),
     create_item = (\<lambda>_ bs _ _ w. (Inr (), Some bs))\<rparr>"

definition slot_ser :: "stored_credentials \<Rightarrow> string + byte_string" where
  "slot_ser c = (if c = toy_credentials None then Inr [1, 2, 3] else Inl ''unsupported'')"

definition slot_de :: "byte_string \<Rightarrow> string + stored_credentials" where
  "slot_de bs = (if bs = [1, 2, 3] then Inr (toy_credentials None) else Inl ''not JSON'')"

definition slot_oauth :: "byte_string option oauth_client" where
  "slot_oauth = \<lparr>exchange_authorization_code = (\<lambda>_ _ w. (Inr (toy_credentials None), w)),
     refresh_with = (\<lambda>_ w. (Inl AuthenticationRequired, w))\<rparr>"

definition slot_auth :: "byte_string option auth" where
  "slot_auth = \<lparr>credentials = None,
     pending = Some \<lparr>p_code_verifier = ''v'', p_code_challenge = ''c'', p_created_at = 0\<rparr>, outside = None\<rparr>"


section \<open>The main loop\<close>

text \<open>
  The effects of the main loop, performed: \<open>ensure_mount_started\<close> and \<open>shutdown_mount\<close>
  of main.rs on the mount manager and the service.  What the file system and \<open>fuser\<close>
  answer may differ from call to call.
\<close>

record 'r process =
  pr_service :: "'r service"
  pr_mount :: mount_manager

record mount_answers =
  an_open :: "sync_error + unit"
  an_spawn :: "io_error + session"
  an_umount :: "io_error + unit"

fun perform :: "mount_answers \<Rightarrow> effect \<Rightarrow> 'r process \<Rightarrow> 'r process" where
  "perform an StartBackground p = p\<lparr>pr_service := snd (start_background (pr_service p))\<rparr>"
| "perform an EnsureMounted p = p\<lparr>pr_mount := snd (ensure_mounted (an_open an) (an_spawn an) (pr_mount p))\<rparr>"
| "perform an EmitLoginCompleted p = p"
| "perform an AbortCallback p = p"
| "perform an ShutdownMount p = p\<lparr>pr_mount := snd (mount_shutdown (an_umount an) (pr_mount p))\<rparr>"
| "perform an ShutdownSync p = p\<lparr>pr_service := snd (shutdown (pr_service p))\<rparr>"

fun perform_all :: "(nat \<Rightarrow> mount_answers) \<Rightarrow> effect list \<Rightarrow> 'r process \<Rightarrow> 'r process" where
  "perform_all ans [] p = p"
| "perform_all ans (e # es) p = perform_all (\<lambda>n. ans (Suc n)) es (perform (ans 0) e p)"





text \<open>
  C33: A successful callback starts the daemon.  When the browser is answered with status 200,
  the code was exchanged and the credentials are held, and the main loop, on the event that
  was sent, starts the threads of the service and mounts the file system, unless opening
  the file system or the mount itself fails; it goes on waiting for events.
\<close>

theorem callback_starts_daemon:
  assumes answered: "handle_oauth_callback oauth store display alive query s = ((html, events), t)"
      "html_status html = 200"
    and mounts: "\<forall>n. an_open (ans n) = Inr ()" "\<forall>n. an_spawn (ans n) = Inr session"
  shows "(\<exists>code. cb_code query = Some code \<and> complete_login oauth store code s = (Inr (), t)) \<and>
    is_authenticated t \<and>
    (\<exists>effects. main_loop unmounted (map Callback events) = (None, effects) \<and>
      (let q = perform_all ans effects p in
         worker_handles (pr_service q) \<noteq> 0 \<and> mm_session (pr_mount q) \<noteq> None))"
proof -
  obtain code where code: "cb_code query = Some code" "complete_login oauth store code s = (Inr (), t)"
    and events: "events = [LoginCompleted]"
    using answered by (auto simp: handle_oauth_callback_def split: option.splits sum.splits prod.splits if_splits)
  have "is_authenticated t"
    using code(2) by (auto simp: is_authenticated_def complete_login_cases split: option.splits sum.splits prod.splits)
  moreover have "mm_session (pr_mount (perform (ans 1) EnsureMounted q)) \<noteq> None" for q :: "'c process"
    using mounts by (simp add: ensure_mounted_def split: option.split)
  ultimately show ?thesis
    using code events by (auto simp: Let_def start_background_def run_simps)
qed

definition slot_answers :: mount_answers where
  "slot_answers = \<lparr>an_open = Inr (), an_spawn = Inr \<lparr>finished = False\<rparr>, an_umount = Inr ()\<rparr>"

definition slot_query :: callback_query where
  "slot_query = \<lparr>cb_code = Some ''code'', cb_error = None, cb_error_description = None\<rparr>"

theorem callback_starts_daemon_witness:
  "is_authenticated (snd (handle_oauth_callback slot_oauth (secret_store slot_service slot_de slot_ser)
     (\<lambda>_. []) True slot_query slot_auth))"
proof -
  let ?run = "handle_oauth_callback slot_oauth (secret_store slot_service slot_de slot_ser) (\<lambda>_. []) True slot_query slot_auth"
  have run: "?run = ((fst (fst ?run), snd (fst ?run)), snd ?run)" by simp
  have answered: "html_status (fst (fst ?run)) = 200" by code_simp
  have mounts: "\<forall>n :: nat. an_open slot_answers = Inr ()" "\<forall>n :: nat. an_spawn slot_answers = Inr \<lparr>finished = False\<rparr>"
    by (simp_all add: slot_answers_def)
  show ?thesis
    by (rule callback_starts_daemon [OF run answered, of "\<lambda>_. slot_answers", OF mounts, THEN conjunct2, THEN conjunct1])
qed




end
