(* ===== verification/Bus.thy ===== *)
theory Bus
  imports Status Auth
begin

text \<open>
  The whole \<open>DaemonInterface\<close> of src/src/dbus_service.rs: the login and the service behind
  one object.  Its sync methods are the ones of \<open>Status\<close>, run on the service; the login
  methods run on the authentication state.  Emitting signals and the bus itself are not
  modelled.
\<close>

record ('w, 'r) daemon_interface =
  di_auth :: "'w auth"
  di_sync :: "'r service"
  di_mountpoint :: string

definition daemon_interface_new :: "'w auth \<Rightarrow> 'r service \<Rightarrow> string \<Rightarrow> ('w, 'r) daemon_interface" where
  "daemon_interface_new auth sync mountpoint =
     \<lparr>di_auth = auth, di_sync = sync, di_mountpoint = mountpoint\<rparr>"

definition on_auth :: "('w auth, fdo_error, 'a) action \<Rightarrow> (('w, 'r) daemon_interface, fdo_error, 'a) action" where
  "on_auth m = on_part di_auth (\<lambda>x d. d\<lparr>di_auth := x\<rparr>) m"

definition on_service :: "('r service, fdo_error, 'a) action \<Rightarrow> (('w, 'r) daemon_interface, fdo_error, 'a) action" where
  "on_service m = on_part di_sync (\<lambda>x d. d\<lparr>di_sync := x\<rparr>) m"

definition dbus_is_auth :: "('w, 'r) daemon_interface \<Rightarrow> bool" where
  "dbus_is_auth d = is_authenticated (di_auth d)"

definition dbus_mount_point :: "('w, 'r) daemon_interface \<Rightarrow> string" where
  "dbus_mount_point d = di_mountpoint d"

definition dbus_begin_login ::
    "(auth_error \<Rightarrow> string) \<Rightarrow> crates \<Rightarrow> auth_env
     \<Rightarrow> (('w, 'r) daemon_interface, fdo_error, begin_login_response) action" where
  "dbus_begin_login display cr ae = on_auth (map_err (\<lambda>err. Failed (display err)) (begin_login cr ae))"

text \<open>A call of a client: the login, the status queries and the refresh.\<close>

datatype bus_call = BeginLogin | GetSyncStatus string | ListDirectoryStatuses string | RequestRefresh string
  | GetSyncSummary | GetSyncItems

datatype bus_answer = LoginAnswer begin_login_response | DictAnswer dict | DictsAnswer "dict list" | Nothing

definition answer_with :: "('a \<Rightarrow> bus_answer) \<Rightarrow> ('s, fdo_error, 'a) action \<Rightarrow> ('s, fdo_error, bus_answer) action" where
  "answer_with f m = and_then m (\<lambda>x. ret (f x))"

definition bus_dispatch ::
    "(auth_error \<Rightarrow> string) \<Rightarrow> (sync_error \<Rightarrow> string) \<Rightarrow> crates \<Rightarrow> auth_env \<Rightarrow> env \<Rightarrow> bus_call
     \<Rightarrow> (('w, 'r) daemon_interface, fdo_error, bus_answer) action" where
  "bus_dispatch display_auth display cr ae ev c =
     (case c of
        BeginLogin \<Rightarrow> answer_with LoginAnswer (dbus_begin_login display_auth cr ae)
      | GetSyncStatus path \<Rightarrow> answer_with DictAnswer (on_service (dbus_get_sync_status display path))
      | ListDirectoryStatuses path \<Rightarrow>
          answer_with DictsAnswer (on_service (dbus_list_directory_statuses display path))
      | RequestRefresh path \<Rightarrow> answer_with (\<lambda>_. Nothing) (on_service (dbus_request_refresh display ev path))
      | GetSyncSummary \<Rightarrow> answer_with DictAnswer (on_service (dbus_sync_summary display ev))
      | GetSyncItems \<Rightarrow> answer_with DictsAnswer (on_service (dbus_sync_items display)))"

text \<open>
  What a client of the bus can change: the pending login by \<open>begin_login\<close>, and the queue by
  \<open>request_refresh\<close>; the credentials, the local files and the rows of the files never.
\<close>

lemma run_answer_with: "snd (answer_with f m d) = snd (m d)"
  by (simp add: answer_with_def run_simps split: sum.split)

lemma snd_map_err [simp]: "snd (map_err f m s) = snd (m s)"
  by (simp add: map_err_def split: prod.split sum.split)

lemma begin_login_keeps: "credentials (snd (begin_login cr ae s)) = credentials s"
  by (simp add: begin_login_def run_simps Let_def split: sum.split)

lemma bus_login_only:
  "credentials (di_auth (snd (bus_dispatch display_auth display cr ae ev c d))) = credentials (di_auth d)"
  by (cases c) (simp_all add: bus_dispatch_def run_answer_with dbus_begin_login_def on_auth_def
      on_service_def run_simps begin_login_keeps)

end
