(* ===== verification/Rename.thy ===== *)
theory Rename
  imports Integrity Fake
begin

text \<open>
  \<open>rename_subtree\<close> of src/src/sync.rs against its specification, a relabelling of paths:
  when the \<open>LIKE\<close> pattern selects only the subtree and nothing lies at the target, the row
  by row updates never collide and amount to replacing the prefix in one go.  The pattern
  selects more than the subtree for names with wildcards or that differ in case only.
\<close>

section \<open>The specification\<close>

definition below :: "string \<Rightarrow> string \<Rightarrow> bool" where
  "below base p \<longleftrightarrow> p = base \<or> prefix (base @ ''/'') p"

definition relabel :: "string \<Rightarrow> string \<Rightarrow> string \<Rightarrow> string" where
  "relabel source target p = (if below source p then target @ drop (length source) p else p)"

definition relabel_row ::
    "string \<Rightarrow> string \<Rightarrow> string \<Rightarrow> string \<Rightarrow> int \<Rightarrow> stored_entry \<Rightarrow> stored_entry" where
  "relabel_row source target new_parent new_name t e =
     (if \<not> below source (e_path e) then e
      else if e_path e = source
      then e\<lparr>e_path := target, e_parent_path := Some new_parent, e_name := new_name, e_mtime := Some t\<rparr>
      else e\<lparr>e_path := relabel source target (e_path e),
             e_parent_path := parent_path_of (relabel source target (e_path e)),
             e_name := name_of (relabel source target (e_path e)), e_mtime := Some t\<rparr>)"

lemma below_split: "below base p \<longleftrightarrow> (\<exists>tail. p = base @ tail \<and> (tail = [] \<or> hd tail = CHR ''/'' ))"
proof
  assume "below base p"
  then show "\<exists>tail. p = base @ tail \<and> (tail = [] \<or> hd tail = CHR ''/'')"
    by (auto simp: below_def prefix_def)
next
  assume "\<exists>tail. p = base @ tail \<and> (tail = [] \<or> hd tail = CHR ''/'')"
  then obtain tail where "p = base @ tail" "tail = [] \<or> hd tail = CHR ''/''" by blast
  then show "below base p" by (cases tail) (auto simp: below_def prefix_def)
qed

lemma below_append: "tail = [] \<or> hd tail = CHR ''/'' \<Longrightarrow> below base (base @ tail)"
  by (auto simp: below_split)

lemma relabel_append: "tail = [] \<or> hd tail = CHR ''/'' \<Longrightarrow> relabel source target (source @ tail) = target @ tail"
  by (simp add: relabel_def below_append)

lemma below_selected: "below source p \<Longrightarrow> rename_selects source p"
  by (auto simp: below_def rename_selects_def prefix_def sql_like_descendant)

lemma rename_target_below:
  assumes "below source p"
  shows "rename_target source target new_parent new_name p =
    (relabel source target p,
     if p = source then Some new_parent else parent_path_of (relabel source target p),
     if p = source then new_name else name_of (relabel source target p))"
proof -
  from assms obtain tail where p: "p = source @ tail" "tail = [] \<or> hd tail = CHR ''/''"
    by (auto simp: below_split)
  have "str_strip_prefix source p = Some tail" by (simp add: p str_strip_prefix_Some)
  then show ?thesis using relabel_append [OF p(2), of source target]
    by (simp add: rename_target_def p Let_def)
qed

section \<open>Updating the paths one by one\<close>

definition set_path :: "string \<times> string option \<times> string \<Rightarrow> int \<Rightarrow> stored_entry \<Rightarrow> stored_entry" where
  "set_path row t e =
     e\<lparr>e_path := fst row, e_parent_path := fst (snd row), e_name := snd (snd row), e_mtime := Some t\<rparr>"

lemma set_path_simps [simp]:
  "e_file_id (set_path row t e) = e_file_id e" "e_path (set_path row t e) = fst row"
  by (simp_all add: set_path_def)

text \<open>
  The loop succeeds when no new path is the path of another row, old or new; then each row
  in the list has its new path.
\<close>

lemma update_paths:
  assumes "distinct (map fst xs)"
    and "\<And>i p e. (i, p) \<in> set xs \<Longrightarrow> e \<in> set (files d) \<Longrightarrow> e_file_id e \<noteq> i \<Longrightarrow> e_path e \<noteq> fst (new p)"
    and "\<And>i p j r. (i, p) \<in> set xs \<Longrightarrow> (j, r) \<in> set xs \<Longrightarrow> i \<noteq> j \<Longrightarrow> fst (new p) \<noteq> fst (new r)"
  shows "foreach xs (\<lambda>(i, p). case new p of (path, parent, name) \<Rightarrow> update_file_path i path parent name t) d =
    (Inr (), d\<lparr>files := map (\<lambda>e. case map_of xs (e_file_id e) of None \<Rightarrow> e | Some p \<Rightarrow> set_path (new p) t e) (files d)\<rparr>)"
  using assms
proof (induction xs arbitrary: d)
  case Nil
  then show ?case by (simp add: run_simps)
next
  case (Cons x xs)
  obtain i p where x: "x = (i, p)" by force
  obtain path parent name where new: "new p = (path, parent, name)" using prod_cases3 by blast
  let ?d = "d\<lparr>files := map (\<lambda>e. if e_file_id e = i then set_path (new p) t e else e) (files d)\<rparr>"
  have step: "update_file_path i path parent name t d = (Inr (), ?d)"
    using Cons.prems(2) [of i p] x new
    by (force simp: update_file_path_def update_where_def set_path_def)
  have rest: "foreach xs (\<lambda>(i, p). case new p of (path, parent, name) \<Rightarrow> update_file_path i path parent name t) ?d =
      (Inr (), ?d\<lparr>files := map (\<lambda>e. case map_of xs (e_file_id e) of None \<Rightarrow> e | Some p \<Rightarrow> set_path (new p) t e)
        (files ?d)\<rparr>)"
  proof (rule Cons.IH)
    show "distinct (map fst xs)" using Cons.prems(1) by simp
    show "fst (new q) \<noteq> fst (new r)" if "(k, q) \<in> set xs" "(j, r) \<in> set xs" "k \<noteq> j" for k q j r
      using Cons.prems(3) that by auto
    show "e_path e \<noteq> fst (new q)" if "(k, q) \<in> set xs" "e \<in> set (files ?d)" "e_file_id e \<noteq> k" for k q e
    proof -
      from that(2) obtain f where f: "f \<in> set (files d)"
        "e = (if e_file_id f = i then set_path (new p) t f else f)" by auto
      have "k \<noteq> i" using Cons.prems(1) that(1) x by force
      then have "fst (new p) \<noteq> fst (new q)" using Cons.prems(3) [of i p k q] that(1) x by simp
      moreover have "e_path f \<noteq> fst (new q)" if "e_file_id f \<noteq> k"
        using Cons.prems(2) [of k q f] that \<open>(k, q) \<in> set xs\<close> f(1) by simp
      ultimately show ?thesis using f that(3) by (auto split: if_splits)
    qed
  qed
  have fresh: "map_of xs i = None"
    using Cons.prems(1) x by (simp add: map_of_eq_None_iff)
  have rows: "map (\<lambda>e. case map_of xs (e_file_id e) of None \<Rightarrow> e | Some p \<Rightarrow> set_path (new p) t e) (files ?d) =
      map (\<lambda>e. case map_of (x # xs) (e_file_id e) of None \<Rightarrow> e | Some p \<Rightarrow> set_path (new p) t e) (files d)"
    using fresh x by (auto split: option.splits)
  have "foreach (x # xs) (\<lambda>(i, p). case new p of (path, parent, name) \<Rightarrow> update_file_path i path parent name t) d =
      foreach xs (\<lambda>(i, p). case new p of (path, parent, name) \<Rightarrow> update_file_path i path parent name t) ?d"
    using step x new by (simp add: and_then_ok)
  with rest rows show ?case by simp
qed

section \<open>Refinement\<close>

lemma rename_rows_mem:
  assumes "\<And>e. e \<in> set (files d) \<Longrightarrow> rename_selects source (e_path e) \<Longrightarrow> below source (e_path e)"
  shows "(i, p) \<in> set (rename_rows source d) \<longleftrightarrow>
    (\<exists>e \<in> set (files d). e_file_id e = i \<and> e_path e = p \<and> below source p)"
  using assms below_selected unfolding rename_rows_def by auto

lemma rename_rows_distinct: "keys_ok d \<Longrightarrow> distinct (map fst (rename_rows source d))"
  by (simp add: rename_rows_def comp_def keys_ok_def distinct_map inj_on_def)

lemma rename_target_split:
  assumes "below source p"
  shows "\<exists>tail. p = source @ tail \<and> fst (rename_target source target parent name p) = target @ tail \<and>
    below target (fst (rename_target source target parent name p))"
  using assms rename_target_below [OF assms, of target parent name] relabel_append below_append
  by (metis below_split fst_conv)

lemma run_rename_rows:
  "rename_subtree source target parent name t d =
    foreach (rename_rows source d) (\<lambda>(i, p). case rename_target source target parent name p of
      (path, parent, name) \<Rightarrow> update_file_path i path parent name t) d"
  by (simp add: rename_subtree_def run_simps)

text \<open>Two rows of the subtree get different paths, and a row gets the path its label says.\<close>

lemma rename_targets_differ:
  assumes keys: "keys_ok d"
    and mem: "\<And>i p. (i, p) \<in> set xs \<Longrightarrow> \<exists>e \<in> set (files d). e_file_id e = i \<and> e_path e = p \<and> below source p"
    and ij: "(i, p) \<in> set xs" "(j, r) \<in> set xs" "i \<noteq> j"
  shows "fst (rename_target source target parent name p) \<noteq> fst (rename_target source target parent name r)"
proof
  note target_path = rename_target_split [of source _ target parent name]
  assume eq: "fst (rename_target source target parent name p) = fst (rename_target source target parent name r)"
  obtain e where e: "e \<in> set (files d)" "e_file_id e = i" "e_path e = p" "below source p"
    using mem [OF ij(1)] by auto
  obtain f where f: "f \<in> set (files d)" "e_file_id f = j" "e_path f = r" "below source r"
    using mem [OF ij(2)] by auto
  have "p = r" using target_path [OF e(4)] target_path [OF f(4)] eq by auto
  then have "e = f"
    using distinct_key_eq [of e_path "files d" e f] keys e(1,3) f(1,3) by (simp add: keys_ok_def)
  with e(2) f(2) ij(3) show False by simp
qed

lemma relabel_by_lookup:
  assumes keys: "keys_ok d" and dist: "distinct (map fst xs)"
    and mem: "\<And>i p. (i, p) \<in> set xs \<longleftrightarrow> (\<exists>e \<in> set (files d). e_file_id e = i \<and> e_path e = p \<and> below source p)"
    and e: "e \<in> set (files d)"
  shows "(case map_of xs (e_file_id e) of None \<Rightarrow> e | Some p \<Rightarrow> set_path (rename_target source target parent name p) t e) =
    relabel_row source target parent name t e"
proof (cases "below source (e_path e)")
  case True
  then have "(e_file_id e, e_path e) \<in> set xs" using mem e by blast
  then have "map_of xs (e_file_id e) = Some (e_path e)" using dist by simp
  then show ?thesis
    using True relabel_append [of "[]" source target]
    by (simp add: rename_target_below relabel_row_def set_path_def)
next
  case False
  have "map_of xs (e_file_id e) = None"
  proof (rule ccontr)
    assume "map_of xs (e_file_id e) \<noteq> None"
    then obtain p where "(e_file_id e, p) \<in> set xs" by (auto dest: map_of_SomeD)
    then obtain f where "f \<in> set (files d)" "e_file_id f = e_file_id e" "below source (e_path f)"
      unfolding mem by blast
    moreover have "distinct (map e_file_id (files d))" using keys by (simp add: keys_ok_def)
    ultimately have "f = e" using e distinct_key_eq by metis
    with \<open>below source (e_path f)\<close> False show False by simp
  qed
  with False show ?thesis by (simp add: relabel_row_def)
qed

lemma rename_relabels:
  assumes keys: "keys_ok d"
    and plain: "\<And>e. e \<in> set (files d) \<Longrightarrow> rename_selects source (e_path e) \<Longrightarrow> below source (e_path e)"
    and free: "\<And>e. e \<in> set (files d) \<Longrightarrow> \<not> below target (e_path e)"
  shows "rename_subtree source target new_parent new_name t d =
    (Inr (), d\<lparr>files := map (relabel_row source target new_parent new_name t) (files d)\<rparr>)"
proof -
  let ?xs = "rename_rows source d"
  let ?new = "rename_target source target new_parent new_name"
  have mem: "(i, p) \<in> set ?xs \<longleftrightarrow> (\<exists>e \<in> set (files d). e_file_id e = i \<and> e_path e = p \<and> below source p)" for i p
    by (rule rename_rows_mem) (rule plain)
  note dist = rename_rows_distinct [OF keys, of source]
  have old: "e_path e \<noteq> fst (?new p)" if "(i, p) \<in> set ?xs" "e \<in> set (files d)" for i p e
  proof -
    have "below source p" using that(1) unfolding mem by auto
    then have "below target (fst (?new p))"
      using rename_target_split [of source _ target new_parent new_name] by blast
    then show ?thesis using free [OF that(2)] by auto
  qed
  have diff: "fst (?new p) \<noteq> fst (?new r)" if "(i, p) \<in> set ?xs" "(j, r) \<in> set ?xs" "i \<noteq> j" for i p j r
    by (rule rename_targets_differ [OF keys mem [THEN iffD1] that])
  have run: "rename_subtree source target new_parent new_name t d = (Inr (), d\<lparr>files :=
      map (\<lambda>e. case map_of ?xs (e_file_id e) of None \<Rightarrow> e | Some p \<Rightarrow> set_path (?new p) t e) (files d)\<rparr>)"
    by (rule trans [OF run_rename_rows]) (rule update_paths [OF dist old diff])
  have "map (\<lambda>e. case map_of ?xs (e_file_id e) of None \<Rightarrow> e | Some p \<Rightarrow> set_path (?new p) t e) (files d) =
      map (relabel_row source target new_parent new_name t) (files d)"
    by (rule map_cong [OF refl]) (rule relabel_by_lookup [OF keys dist mem])
  then show ?thesis by (rule subst) (rule run)
qed


text \<open>
  C16: Renaming a subtree is a relabelling.  When the pattern selects nothing but the source
  and what lies below it, nothing lies at or below the target, and the source is not below
  the target, the loop succeeds and replaces the prefix in every row of the subtree: paths,
  parents and names; it touches no other row.
\<close>

theorem rename_subtree_relabels:
  assumes keys: "keys_ok d"
    and plain: "\<And>e. e \<in> set (files d) \<Longrightarrow> rename_selects source (e_path e) \<Longrightarrow> below source (e_path e)"
    and free: "\<And>e. e \<in> set (files d) \<Longrightarrow> \<not> below target (e_path e)"
  shows "rename_subtree source target new_parent new_name t d =
    (Inr (), d\<lparr>files := map (relabel_row source target new_parent new_name t) (files d)\<rparr>)"
  using assms by (rule rename_relabels)

text \<open>
  A database for the witnesses: the root, two files in a directory and a file elsewhere; in
  the second one a directory lies beside whose name differs by case only.
\<close>

definition row_at :: "string \<Rightarrow> string \<Rightarrow> node_kind \<Rightarrow> stored_entry" where
  "row_at fid path k =
     \<lparr>e_file_id = fid, e_path = path, e_parent_path = parent_path_of path, e_name = name_of path,
      e_kind = k, e_sync_state = Synced, e_content_state = content_state.Placeholder,
      e_remote_version = Some ''v'', e_local_version = 0, e_mtime = None, e_size = 0,
      e_cache_path = None, e_last_remote_check_at = None, e_remote_deleted = False,
      e_last_error = None\<rparr>"

definition tree_db :: db where
  "tree_db = empty_db\<lparr>files :=
     [row_at ''0'' ''disk:/'' Directory, row_at ''1'' ''disk:/docs'' Directory,
      row_at ''2'' ''disk:/docs/a'' File, row_at ''3'' ''disk:/docs.txt'' File]\<rparr>"

definition case_db :: db where
  "case_db = empty_db\<lparr>files :=
     [row_at ''0'' ''disk:/'' Directory, row_at ''1'' ''disk:/docs'' Directory,
      row_at ''2'' ''disk:/Docs'' Directory, row_at ''3'' ''disk:/Docs/a'' File]\<rparr>"

lemma db_files [simp]:
  "files tree_db =
     [row_at ''0'' ''disk:/'' Directory, row_at ''1'' ''disk:/docs'' Directory,
      row_at ''2'' ''disk:/docs/a'' File, row_at ''3'' ''disk:/docs.txt'' File]"
  "files case_db =
     [row_at ''0'' ''disk:/'' Directory, row_at ''1'' ''disk:/docs'' Directory,
      row_at ''2'' ''disk:/Docs'' Directory, row_at ''3'' ''disk:/Docs/a'' File]"
  by (simp_all add: tree_db_def case_db_def)

lemma row_at_simps [simp]: "e_path (row_at i p k) = p" "e_file_id (row_at i p k) = i"
  by (simp_all add: row_at_def)

theorem rename_subtree_relabels_witness:
  "rename_subtree ''disk:/docs'' ''disk:/old'' ''disk:/'' ''old'' 7 tree_db =
    (Inr (), tree_db\<lparr>files :=
       map (relabel_row ''disk:/docs'' ''disk:/old'' ''disk:/'' ''old'' 7) (files tree_db)\<rparr>) \<and>
   map (e_path \<circ> relabel_row ''disk:/docs'' ''disk:/old'' ''disk:/'' ''old'' 7) (files tree_db) =
     [''disk:/'', ''disk:/old'', ''disk:/old/a'', ''disk:/docs.txt'']"
proof
  show "rename_subtree ''disk:/docs'' ''disk:/old'' ''disk:/'' ''old'' 7 tree_db =
    (Inr (), tree_db\<lparr>files :=
       map (relabel_row ''disk:/docs'' ''disk:/old'' ''disk:/'' ''old'' 7) (files tree_db)\<rparr>)"
    by (rule rename_subtree_relabels)
      (auto simp: keys_ok_def rename_selects_def fold_ascii_case_def below_def)
  show "map (e_path \<circ> relabel_row ''disk:/docs'' ''disk:/old'' ''disk:/'' ''old'' 7) (files tree_db) =
     [''disk:/'', ''disk:/old'', ''disk:/old/a'', ''disk:/docs.txt'']"
    by (simp add: relabel_row_def relabel_def below_def)
qed

section \<open>Names the pattern confuses\<close>

lemma paths_updated:
  assumes "foreach xs (\<lambda>(i, p). case new p of (path, parent, name) \<Rightarrow> update_file_path i path parent name t) d
      = (Inr (), d')"
    and "distinct (map fst xs)"
  shows "(\<forall>e \<in> set (files d). e_file_id e \<notin> fst ` set xs \<longrightarrow> e \<in> set (files d')) \<and>
    (\<forall>(i, p) \<in> set xs. i \<in> e_file_id ` set (files d) \<longrightarrow>
       (\<exists>e \<in> set (files d'). e_file_id e = i \<and> e_path e = fst (new p)))"
  using assms
proof (induction xs arbitrary: d)
  case Nil
  then show ?case by (simp add: run_simps)
next
  case (Cons x xs)
  obtain i p where x: "x = (i, p)" by force
  obtain path parent name where new: "new p = (path, parent, name)" using prod_cases3 by blast
  let ?u = "\<lambda>e. e\<lparr>e_path := path, e_parent_path := parent, e_name := name, e_mtime := Some t\<rparr>"
  let ?d = "d\<lparr>files := update_where (\<lambda>e. e_file_id e = i) ?u (files d)\<rparr>"
  have rest: "foreach xs (\<lambda>(i, p). case new p of (path, parent, name) \<Rightarrow> update_file_path i path parent name t) ?d
      = (Inr (), d')"
  proof -
    obtain u where u: "update_file_path i path parent name t d = (Inr (), u)"
      "foreach xs (\<lambda>(i, p). case new p of (path, parent, name) \<Rightarrow> update_file_path i path parent name t) u = (Inr (), d')"
      using Cons.prems(1) x new by (auto simp: and_then_Inr)
    then have "u = ?d" by (auto simp: update_file_path_def split: if_splits)
    with u(2) show ?thesis by simp
  qed
  have "distinct (map fst xs)" using Cons.prems(2) by simp
  note IH = Cons.IH [OF rest this]
  have i: "i \<notin> fst ` set xs" using Cons.prems(2) x by auto
  have moved: "?u e \<in> set (files d')" if "e \<in> set (files d)" "e_file_id e = i" for e
  proof -
    have "?u e \<in> set (files ?d)" using that by (force simp: set_update_where)
    with IH i that show ?thesis by simp
  qed
  have other: "e \<in> set (files ?d)" if "e \<in> set (files d)" "e_file_id e \<noteq> i" for e
    using that by (auto simp: in_update_where)
  have ids: "e_file_id ` set (files ?d) = e_file_id ` set (files d)"
  proof -
    have "map e_file_id (files ?d) = map e_file_id (files d)" by (simp add: map_update_where)
    then show ?thesis by (metis set_map)
  qed
  show ?case
  proof (intro conjI ballI impI)
    show "e \<in> set (files d')" if "e \<in> set (files d)" "e_file_id e \<notin> fst ` set (x # xs)" for e
      using IH Cons.prems(2) other that x by auto
    show "case y of (j, q) \<Rightarrow> j \<in> e_file_id ` set (files d) \<longrightarrow>
        (\<exists>e \<in> set (files d'). e_file_id e = j \<and> e_path e = fst (new q))" if "y \<in> set (x # xs)" for y
      using IH Cons.prems(2) moved that x new ids by fastforce
  qed
qed

lemma keys_keep_rename: "keeps keys_ok (rename_subtree from to parent name t)"
  unfolding rename_subtree_def by (intro keeps_rules keys_keep_path)

text \<open>
  C17: A rename fails when the pattern selects a row that does not even start with the source:
  a name with an underscore selects every character there, and letters match in either case.
  Such a row is sent to the target itself, where the source already is.
\<close>

theorem rename_overmatch_fails:
  assumes keys: "keys_ok d"
    and e: "e \<in> set (files d)" "e_path e = source"
    and f: "f \<in> set (files d)" "rename_selects source (e_path f)" "str_strip_prefix source (e_path f) = None"
  shows "\<exists>err d'. rename_subtree source target new_parent new_name t d = (Inl err, d')"
proof (rule ccontr)
  let ?xs = "rename_rows source d"
  let ?new = "rename_target source target new_parent new_name"
  assume "\<nexists>err d'. rename_subtree source target new_parent new_name t d = (Inl err, d')"
  then obtain d' where run: "rename_subtree source target new_parent new_name t d = (Inr (), d')"
    by (cases "rename_subtree source target new_parent new_name t d"; cases "fst (rename_subtree source target new_parent new_name t d)") auto
  then have loop: "foreach ?xs (\<lambda>(i, p). case ?new p of (path, parent, name) \<Rightarrow>
      update_file_path i path parent name t) d = (Inr (), d')"
    by (simp add: run_rename_rows)
  note dist = rename_rows_distinct [OF keys, of source]
  have at: "fst (?new (e_path e)) = target" "fst (?new (e_path f)) = target"
    using e(2) f(3) by (simp_all add: rename_target_def Let_def str_strip_prefix_def)
  have mem: "(e_file_id e, e_path e) \<in> set ?xs" "(e_file_id f, e_path f) \<in> set ?xs"
    using e f by (auto simp: rename_rows_def rename_selects_def)
  have moved: "\<exists>g \<in> set (files d'). e_file_id g = e_file_id x \<and> e_path g = fst (?new (e_path x))"
    if "x \<in> set (files d)" "(e_file_id x, e_path x) \<in> set ?xs" for x
    using paths_updated [OF loop dist] that by auto
  obtain g where g: "g \<in> set (files d')" "e_file_id g = e_file_id e" "e_path g = target"
    using moved [OF e(1) mem(1)] at(1) by auto
  obtain h where h: "h \<in> set (files d')" "e_file_id h = e_file_id f" "e_path h = target"
    using moved [OF f(1) mem(2)] at(2) by auto
  have "e \<noteq> f" using e f(3) by (auto simp: str_strip_prefix_def)
  then have "e_file_id e \<noteq> e_file_id f"
    using distinct_key_eq [of e_file_id "files d" e f] keys e(1) f(1) by (auto simp: keys_ok_def)
  moreover have "keys_ok d'"
    using keepsD [OF keys_keep_rename keys] run by (metis snd_conv)
  ultimately show False
    using distinct_key_eq [of e_path "files d'" g h] g h by (auto simp: keys_ok_def)
qed

lemma case_selected: "rename_selects ''disk:/docs'' ''disk:/Docs/a''"
  by code_simp

theorem rename_overmatch_fails_witness:
  "\<exists>err d'. rename_subtree ''disk:/docs'' ''disk:/old'' ''disk:/'' ''old'' 7 case_db = (Inl err, d')"
  by (rule rename_overmatch_fails [of case_db "row_at ''1'' ''disk:/docs'' Directory" "''disk:/docs''"
      "row_at ''3'' ''disk:/Docs/a'' File"])
    (simp_all add: keys_ok_def case_selected str_strip_prefix_def)

end
