(* ===== verification/Local_View.thy ===== *)
theory Local_View
  imports Offline Rename Daemon
begin

text \<open>
  What the local operations of \<open>SyncService\<close> promise, as a refinement.  The specification
  is a directory tree: a map from paths to nodes, beside the staging files.  Each operation
  either fails and leaves the tree as it was, or has one effect on it: creating, storing,
  removing, relabelling.  The implementation represents a node by a row of \<open>files\<close> and a
  cache file named after the row's id, hides the rows that wait for their deletion, and
  queues the remote work; \<open>abstract\<close> reads the tree off that state.
\<close>

section \<open>The specification\<close>

datatype node = Folder | Data bytes | Unfetched

record store =
  nodes :: "string \<Rightarrow> node option"
  staged :: "string \<Rightarrow> bytes option"

datatype local_op =
    Create_File string string
  | Make_Dir string string
  | Save string string
  | Remove string bool
  | Move string string
  | Stage string bytes

definition moved_nodes :: "string \<Rightarrow> string \<Rightarrow> (string \<Rightarrow> node option) \<Rightarrow> string \<Rightarrow> node option" where
  "moved_nodes source target T p =
     (if below target p then T (source @ drop (length target) p)
      else if below source p then None else T p)"

fun effect :: "local_op \<Rightarrow> store \<Rightarrow> store" where
  "effect (Create_File parent name) T = T\<lparr>nodes := (nodes T)(join_remote_path parent name \<mapsto> Data [])\<rparr>"
| "effect (Make_Dir parent name) T = T\<lparr>nodes := (nodes T)(join_remote_path parent name \<mapsto> Folder)\<rparr>"
| "effect (Save path staging) T =
     T\<lparr>nodes := (nodes T)(path := map_option Data (staged T staging))\<rparr>"
| "effect (Remove path _) T = T\<lparr>nodes := (nodes T)(path := None)\<rparr>"
| "effect (Move source target) T = T\<lparr>nodes := moved_nodes source target (nodes T)\<rparr>"
| "effect (Stage path bs) T = T\<lparr>staged := (staged T)(path \<mapsto> bs)\<rparr>"

section \<open>The implementation and its abstraction\<close>

definition visible :: "stored_entry \<Rightarrow> bool" where
  "visible e \<longleftrightarrow> e_sync_state e \<noteq> QueuedDelete \<and> \<not> e_remote_deleted e"

definition node_of :: "(string \<Rightarrow> bytes option) \<Rightarrow> stored_entry \<Rightarrow> node" where
  "node_of cached e =
     (if e_kind e = Directory then Folder
      else (case Option.bind (e_cache_path e) cached of None \<Rightarrow> Unfetched | Some bs \<Rightarrow> Data bs))"

definition view :: "'r service \<Rightarrow> string \<Rightarrow> node option" where
  "view s path =
     (case find_path path (sdb s) of
        None \<Rightarrow> None
      | Some e \<Rightarrow> if visible e then Some (node_of (contents (disk s)) e) else None)"

definition in_cache :: "string \<Rightarrow> string \<Rightarrow> bool" where
  "in_cache dir p \<longleftrightarrow> prefix (dir @ ''/'') p \<and> suffix ''.bin'' p"

definition abstract :: "string \<Rightarrow> 'r service \<Rightarrow> store" where
  "abstract dir s =
     \<lparr>nodes = view s, staged = (\<lambda>p. if in_cache dir p then None else contents (disk s) p)\<rparr>"

definition forget :: "('r, 'a) sync \<Rightarrow> ('r, unit) sync" where
  "forget m = and_then m (\<lambda>_. ret ())"

fun run_local :: "env \<Rightarrow> local_op \<Rightarrow> ('r, unit) sync" where
  "run_local ev (Create_File parent name) = forget (create_file ev parent name)"
| "run_local ev (Make_Dir parent name) = forget (mkdir ev parent name)"
| "run_local ev (Save path staging) = forget (apply_local_file_from_staging ev path staging)"
| "run_local ev (Remove path expect_dir) = unlink ev path expect_dir"
| "run_local ev (Move source target) = rename ev source target"
| "run_local ev (Stage path bs) =
     modify (\<lambda>s. s\<lparr>disk := (disk s)\<lparr>contents := (contents (disk s))(path \<mapsto> bs)\<rparr>\<rparr>)"

text \<open>
  What a call relies on: names as the kernel passes them, an id that is not in use yet, a
  staging file outside the cache directory, and for a rename the conditions of
  \<open>rename_relabels\<close>.
\<close>

definition fresh_id :: "env \<Rightarrow> string \<Rightarrow> db \<Rightarrow> bool" where
  "fresh_id ev pre d \<longleftrightarrow> pre @ ''-'' @ show_hex16 (rnd ev (rng_pos d)) \<notin> e_file_id ` set (files d)"

fun allowed :: "string \<Rightarrow> env \<Rightarrow> local_op \<Rightarrow> db \<Rightarrow> bool" where
  "allowed dir ev (Create_File parent name) d \<longleftrightarrow> valid_name name \<and> fresh_id ev ''file'' d"
| "allowed dir ev (Make_Dir parent name) d \<longleftrightarrow> valid_name name \<and> fresh_id ev ''dir'' d"
| "allowed dir ev (Save path staging) d \<longleftrightarrow> \<not> in_cache dir staging"
| "allowed dir ev (Remove path expect_dir) d \<longleftrightarrow> True"
| "allowed dir ev (Move source target) d \<longleftrightarrow>
     (\<forall>e \<in> set (files d). rename_selects source (e_path e) \<longrightarrow> below source (e_path e)) \<and>
     (find_path target d = None \<longrightarrow> (\<forall>e \<in> set (files d). \<not> below target (e_path e)))"
| "allowed dir ev (Stage path bs) d \<longleftrightarrow> \<not> in_cache dir path"

section \<open>Cache files belong to one row\<close>

lemma cache_path_inj: "cache_path_for dir i = cache_path_for dir j \<longleftrightarrow> i = j"
  by (simp add: cache_path_for_def)

lemma cache_path_in_cache: "in_cache dir (cache_path_for dir i)"
  by (simp add: in_cache_def cache_path_for_def suffix_def)

lemma cache_of_row:
  "core_ok dir d \<Longrightarrow> find_path p d = Some e \<Longrightarrow> e_cache_path e = Some c \<Longrightarrow> c = cache_path_for dir (e_file_id e)"
  using find_path_member [of p d e] by (auto simp: core_defs canonical_cache_def)

lemma node_of_elsewhere:
  "core_ok dir d \<Longrightarrow> find_path p d = Some e \<Longrightarrow> e_file_id e \<noteq> i \<Longrightarrow>
   node_of (c(cache_path_for dir i := x)) e = node_of c e"
  by (cases "e_cache_path e") (auto simp: node_of_def cache_path_inj dest: cache_of_row)

lemma node_of_outside:
  "core_ok dir d \<Longrightarrow> find_path p d = Some e \<Longrightarrow> \<not> in_cache dir q \<Longrightarrow> node_of (c(q := x)) e = node_of c e"
  using cache_path_in_cache [of dir "e_file_id e"]
  by (cases "e_cache_path e") (auto simp: node_of_def dest: cache_of_row)

lemma staged_unchanged:
  "(\<lambda>p. if in_cache dir p then None else (c(cache_path_for dir i := x)) p) =
   (\<lambda>p. if in_cache dir p then None else c p)"
  using cache_path_in_cache [of dir i] by (auto simp: fun_eq_iff)

text \<open>An operation that touches neither the rows nor the files is invisible.\<close>

lemma abstract_cong:
  "files (sdb t) = files (sdb s) \<Longrightarrow> contents (disk t) = contents (disk s) \<Longrightarrow> abstract dir t = abstract dir s"
  by (simp add: abstract_def view_def [abs_def] find_path_def cong: option.case_cong if_cong)

text \<open>
  An operation that changes the row at one path, and at most the cache file of an id no row
  elsewhere has, changes one node.
\<close>

lemma abstract_one:
  assumes core: "core_ok dir (sdb s)"
    and rows: "\<And>p. p \<noteq> path \<Longrightarrow> find_path p (sdb t) = find_path p (sdb s)"
    and own: "\<And>p e. p \<noteq> path \<Longrightarrow> find_path p (sdb s) = Some e \<Longrightarrow> e_file_id e \<noteq> i"
    and cached: "contents (disk t) = (contents (disk s))(cache_path_for dir i := x)"
  shows "abstract dir t = (abstract dir s)\<lparr>nodes := (nodes (abstract dir s))(path := view t path)\<rparr>"
proof -
  have "view t p = view s p" if "p \<noteq> path" for p
    using rows [OF that] own [OF that] node_of_elsewhere [OF core, of p]
    by (simp add: view_def cached split: option.split)
  then have "view t = (view s)(path := view t path)" by (auto simp: fun_eq_iff)
  then show ?thesis unfolding abstract_def cached staged_unchanged by simp
qed

lemma abstract_row:
  assumes core: "core_ok dir (sdb s)" and e: "find_path path (sdb s) = Some e"
    and rows: "\<And>p. p \<noteq> path \<Longrightarrow> find_path p (sdb t) = find_path p (sdb s)"
    and cached: "contents (disk t) = contents (disk s) \<or>
      (\<exists>x. contents (disk t) = (contents (disk s))(cache_path_for dir (e_file_id e) := x))"
  shows "abstract dir t = (abstract dir s)\<lparr>nodes := (nodes (abstract dir s))(path := view t path)\<rparr>"
proof -
  have keys: "keys_ok (sdb s)" using core by (simp add: core_ok_def)
  have own: "e_file_id r \<noteq> e_file_id e" if "p \<noteq> path" "find_path p (sdb s) = Some r" for p r
  proof
    assume "e_file_id r = e_file_id e"
    with same_row [OF keys e] find_path_member [OF that(2)] have "r = e" by simp
    with that find_path_member [OF that(2)] find_path_member [OF e] show False by simp
  qed
  obtain x where "contents (disk t) = (contents (disk s))(cache_path_for dir (e_file_id e) := x)"
    using cached fun_upd_triv by metis
  from abstract_one [OF core _ _ this, of path] show ?thesis using rows own by blast
qed

section \<open>Simulation, operation by operation\<close>

definition simulated :: "string \<Rightarrow> local_op \<Rightarrow> 'r service \<Rightarrow> (sync_error + unit) \<times> 'r service \<Rightarrow> bool" where
  "simulated dir op s out \<longleftrightarrow>
     abstract dir (snd out) =
       (case fst out of Inl _ \<Rightarrow> abstract dir s | Inr _ \<Rightarrow> effect op (abstract dir s))"

lemma simulated_failure: "files (sdb t) = files (sdb s) \<Longrightarrow> contents (disk t) = contents (disk s) \<Longrightarrow>
    simulated dir op s (Inl err, t)"
  unfolding simulated_def using abstract_cong by force

lemma run_forget: "forget m s = (map_sum id (\<lambda>_. ()) (fst (m s)), snd (m s))"
  by (simp add: forget_def run_simps split: sum.split)

lemma create_parent_dir_keeps: "snd (create_parent_dir p k) = k"
  by (simp add: create_parent_dir_def fs_create_dir_all_def run_simps split: option.split prod.split)

text \<open>Enqueueing for a row of the tables cannot fail, and changes no row.\<close>

lemma run_enqueue:
  assumes "core_ok dir d" and "fid \<in> e_file_id ` set (files d)"
  shows "\<exists>d'. upsert_operation ev fid op payload False False d = (Inr (), d') \<and> files d' = files d"
  using upsert_coalesced [of d fid] assms by (metis core_ok_def)

text \<open>The second half of \<open>create_file\<close> and \<open>mkdir\<close>.\<close>

lemma run_new_row:
  assumes core: "core_ok dir d" and row: "good_row dir e"
    and free: "find_path (e_path e) d = None" and fresh: "e_file_id e \<notin> e_file_id ` set (files d)"
  shows "\<exists>d'. insert_file e d = (Inr (), d\<lparr>files := files d @ [e]\<rparr>) \<and>
    upsert_operation ev (e_file_id e) op payload False False (d\<lparr>files := files d @ [e]\<rparr>) = (Inr (), d') \<and>
    files d' = files d @ [e]"
proof -
  have run: "insert_file e d = (Inr (), d\<lparr>files := files d @ [e]\<rparr>)"
    using free fresh by (simp add: insert_file_def find_path_unused)
  then have "core_ok dir (d\<lparr>files := files d @ [e]\<rparr>)"
    using keepsD [OF core.keep_insert [OF row] core] by simp
  from run_enqueue [OF this, of "e_file_id e" ev op payload] run show ?thesis by auto
qed

lemma core_counted: "core_ok dir (d\<lparr>rng_pos := n\<rparr>) = core_ok dir d"
  by (simp add: core_defs)

lemma find_path_counted [simp]: "find_path p (d\<lparr>rng_pos := n\<rparr>) = find_path p d"
  by (simp add: find_path_def)

definition drawn_id :: "env \<Rightarrow> string \<Rightarrow> db \<Rightarrow> string" where
  "drawn_id ev pre d = pre @ ''-'' @ show_hex16 (rnd ev (rng_pos d))"

lemma run_new_id: "new_id ev pre d = (Inr (drawn_id ev pre d), d\<lparr>rng_pos := Suc (rng_pos d)\<rparr>)"
  by (simp add: new_id_def drawn_id_def)

lemma fresh_drawn: "fresh_id ev pre d \<longleftrightarrow> drawn_id ev pre d \<notin> e_file_id ` set (files d)"
  by (simp add: fresh_id_def drawn_id_def)

text \<open>The rows \<open>create_file\<close> and \<open>mkdir\<close> insert, and the state they leave.\<close>

definition created_row :: "env \<Rightarrow> string \<Rightarrow> string \<Rightarrow> db \<Rightarrow> stored_entry" where
  "created_row ev parent name d =
     (let fid = drawn_id ev ''file'' d in
      new_local_row ev fid (join_remote_path parent name) parent name File Hydrated
        (Some (cache_path_for (cache_dir ev) fid)))"

definition made_row :: "env \<Rightarrow> string \<Rightarrow> string \<Rightarrow> db \<Rightarrow> stored_entry" where
  "made_row ev parent name d =
     new_local_row ev (drawn_id ev ''dir'' d) (join_remote_path parent name) parent name Directory
       content_state.Placeholder None"

lemma new_row_simps [simp]:
  "e_path (created_row ev parent name d) = join_remote_path parent name"
  "e_path (made_row ev parent name d) = join_remote_path parent name"
  "e_file_id (created_row ev parent name d) = drawn_id ev ''file'' d"
  "e_file_id (made_row ev parent name d) = drawn_id ev ''dir'' d"
  "e_kind (created_row ev parent name d) = File"
  "e_kind (made_row ev parent name d) = Directory"
  "e_cache_path (created_row ev parent name d) = Some (cache_path_for (cache_dir ev) (drawn_id ev ''file'' d))"
  "visible (created_row ev parent name d)" "visible (made_row ev parent name d)"
  by (simp_all add: created_row_def made_row_def new_local_row_def visible_def Let_def)

lemma good_new_rows:
  assumes "core_ok dir d" and "find_path parent d = Some q" and "valid_name name" and "cache_dir ev = dir"
  shows "good_row dir (created_row ev parent name d)" and "good_row dir (made_row ev parent name d)"
proof -
  have "CHR ''/'' \<in> set parent"
    using find_path_member [OF assms(2)] assms(1) by (auto simp: core_defs)
  with assms show "good_row dir (created_row ev parent name d)" "good_row dir (made_row ev parent name d)"
    by (simp_all add: created_row_def made_row_def Let_def core.good_new_local_row canonical_cache_def)
qed

lemma run_create_file:
  assumes core: "core_ok dir (sdb s)" and q: "find_path parent (sdb s) = Some q" "e_kind q = Directory"
    and free: "find_path (join_remote_path parent name) (sdb s) = None"
    and ok: "valid_name name" "cache_dir ev = dir" "fresh_id ev ''file'' (sdb s)"
    and disk: "create_parent_dir c (disk s) = (Inr (), disk s)" "write_fault (disk s) c = None"
      "c = cache_path_for dir (drawn_id ev ''file'' (sdb s))"
  shows "\<exists>d. create_file ev parent name s = (Inr (created_row ev parent name (sdb s)), s\<lparr>sdb := d,
      disk := (disk s)\<lparr>contents := (contents (disk s))(c \<mapsto> [])\<rparr>, status_version := status_version s + 1\<rparr>) \<and>
    files d = files (sdb s) @ [created_row ev parent name (sdb s)]"
proof -
  let ?row = "created_row ev parent name (sdb s)"
  let ?d = "(sdb s)\<lparr>rng_pos := Suc (rng_pos (sdb s))\<rparr>"
  let ?path = "join_remote_path parent name"
  have "core_ok dir ?d" using core by (simp add: core_counted)
  moreover have "good_row dir ?row" using good_new_rows(1) [OF core q(1) ok(1,2)] .
  ultimately obtain d where ins: "insert_file ?row ?d = (Inr (), ?d\<lparr>files := files (sdb s) @ [?row]\<rparr>)"
    and enq: "upsert_operation ev (drawn_id ev ''file'' (sdb s)) Upload [(''path'', ?path)] False False
      (?d\<lparr>files := files (sdb s) @ [?row]\<rparr>) = (Inr (), d)" and rows: "files d = files (sdb s) @ [?row]"
    using run_new_row [of dir ?d ?row ev Upload "[(''path'', ?path)]"] free ok(3)
    by (auto simp: fresh_drawn)
  have found: "find_path ?path d = Some ?row"
    using find_path_appended [OF rows] free by (simp add: find_path_unused)
  have row: "new_local_row ev (drawn_id ev ''file'' (sdb s)) ?path parent name File Hydrated (Some c) = ?row"
    by (simp add: created_row_def disk(3) ok(2) Let_def)
  have put: "fs_write c [] (disk s) = (Inr (), (disk s)\<lparr>contents := (contents (disk s))(c \<mapsto> [])\<rparr>)"
    using disk(2) by (simp add: fs_write_def)
  have "create_file ev parent name s = (Inr ?row, s\<lparr>sdb := d,
      disk := (disk s)\<lparr>contents := (contents (disk s))(c \<mapsto> [])\<rparr>, status_version := status_version s + 1\<rparr>)"
    unfolding create_file_def Let_def
    by (simp add: run_simps q free run_new_id ok(2) disk(3) [symmetric] disk(1) put row ins enq found
        del: new_row_simps(1))
  with rows show ?thesis by blast
qed

lemma run_mkdir:
  assumes core: "core_ok dir (sdb s)" and q: "find_path parent (sdb s) = Some q" "e_kind q = Directory"
    and free: "find_path (join_remote_path parent name) (sdb s) = None"
    and ok: "valid_name name" "cache_dir ev = dir" "fresh_id ev ''dir'' (sdb s)"
  shows "\<exists>d. mkdir ev parent name s =
      (Inr (made_row ev parent name (sdb s)), s\<lparr>sdb := d, status_version := status_version s + 1\<rparr>) \<and>
    files d = files (sdb s) @ [made_row ev parent name (sdb s)]"
proof -
  let ?row = "made_row ev parent name (sdb s)"
  let ?d = "(sdb s)\<lparr>rng_pos := Suc (rng_pos (sdb s))\<rparr>"
  let ?path = "join_remote_path parent name"
  have "core_ok dir ?d" using core by (simp add: core_counted)
  moreover have "good_row dir ?row" using good_new_rows(2) [OF core q(1) ok(1,2)] .
  ultimately obtain d where ins: "insert_file ?row ?d = (Inr (), ?d\<lparr>files := files (sdb s) @ [?row]\<rparr>)"
    and enq: "upsert_operation ev (drawn_id ev ''dir'' (sdb s)) Mkdir [(''path'', ?path)] False False
      (?d\<lparr>files := files (sdb s) @ [?row]\<rparr>) = (Inr (), d)" and rows: "files d = files (sdb s) @ [?row]"
    using run_new_row [of dir ?d ?row ev Mkdir "[(''path'', ?path)]"] free ok(3)
    by (auto simp: fresh_drawn)
  have found: "find_path ?path d = Some ?row"
    using find_path_appended [OF rows] free by (simp add: find_path_unused)
  have "mkdir ev parent name s = (Inr ?row, s\<lparr>sdb := d, status_version := status_version s + 1\<rparr>)"
    unfolding mkdir_def Let_def
    by (simp add: run_simps q free run_new_id made_row_def [symmetric] ins enq found del: new_row_simps(2))
  with rows show ?thesis by blast
qed

text \<open>A new row at a free path with a new id is a new node.\<close>

lemma abstract_new:
  assumes core: "core_ok dir (sdb s)" and free: "find_path (e_path e) (sdb s) = None"
    and fresh: "e_file_id e \<notin> e_file_id ` set (files (sdb s))"
    and rows: "files (sdb t) = files (sdb s) @ [e]" and vis: "visible e"
    and cached: "contents (disk t) = (contents (disk s))(cache_path_for dir (e_file_id e) := x)"
  shows "abstract dir t = (abstract dir s)\<lparr>nodes :=
    (nodes (abstract dir s))(e_path e \<mapsto> node_of (contents (disk t)) e)\<rparr>"
proof -
  have new: "find_path p (sdb t) = (if p = e_path e then Some e else find_path p (sdb s))" for p
    using find_path_appended [OF rows] free by (simp add: find_path_unused)
  have other: "e_file_id r \<noteq> e_file_id e" if "find_path p (sdb s) = Some r" for p r
    using fresh find_path_member [OF that] by (metis image_eqI)
  have "view t (e_path e) = Some (node_of (contents (disk t)) e)"
    using vis by (simp add: view_def new)
  with abstract_one [OF core _ _ cached, of "e_path e"] new other show ?thesis by simp
qed

lemma create_file_simulated:
  assumes core: "core_ok dir (sdb s)" and ev: "cache_dir ev = dir"
    and ok: "valid_name name" "fresh_id ev ''file'' (sdb s)"
  shows "simulated dir (Create_File parent name) s (run_local ev (Create_File parent name) s)"
proof -
  let ?row = "created_row ev parent name (sdb s)"
  let ?c = "cache_path_for dir (drawn_id ev ''file'' (sdb s))"
  let ?path = "join_remote_path parent name"
  consider (early) "find_path parent (sdb s) = None" |
    (plain) q where "find_path parent (sdb s) = Some q" "e_kind q \<noteq> Directory" |
    (taken) q e where "find_path parent (sdb s) = Some q" "e_kind q = Directory" "find_path ?path (sdb s) = Some e" |
    (vacant) q where "find_path parent (sdb s) = Some q" "e_kind q = Directory" "find_path ?path (sdb s) = None"
    by (metis option.exhaust)
  then show ?thesis
  proof cases
    case vacant
    consider (dir) err where "create_parent_dir ?c (disk s) = (Inl err, disk s)" |
      (fault) err where "create_parent_dir ?c (disk s) = (Inr (), disk s)" "write_fault (disk s) ?c = Some err" |
      (fine) "create_parent_dir ?c (disk s) = (Inr (), disk s)" "write_fault (disk s) ?c = None"
      using create_parent_dir_keeps [of ?c "disk s"]
      by (cases "create_parent_dir ?c (disk s)"; cases "fst (create_parent_dir ?c (disk s))";
          cases "write_fault (disk s) ?c") auto
    then show ?thesis
    proof cases
      case fine
      obtain d where run: "create_file ev parent name s = (Inr ?row, s\<lparr>sdb := d,
          disk := (disk s)\<lparr>contents := (contents (disk s))(?c \<mapsto> [])\<rparr>, status_version := status_version s + 1\<rparr>)"
        and rows: "files d = files (sdb s) @ [?row]"
        using run_create_file [OF core vacant ok(1) ev ok(2) fine refl] by blast
      let ?t = "snd (create_file ev parent name s)"
      have "abstract dir ?t = (abstract dir s)\<lparr>nodes :=
          (nodes (abstract dir s))(e_path ?row \<mapsto> node_of (contents (disk ?t)) ?row)\<rparr>"
        by (rule abstract_new [OF core]) (use vacant(3) ok(2) rows run in \<open>simp_all add: fresh_drawn\<close>)
      then show ?thesis by (simp add: simulated_def run_forget run node_of_def ev)
    qed (simp_all add: run_forget create_file_def Let_def run_simps vacant run_new_id ev fs_write_def
        simulated_failure)
  qed (simp_all add: run_forget create_file_def Let_def run_simps simulated_failure)
qed

lemma mkdir_simulated:
  assumes core: "core_ok dir (sdb s)" and ev: "cache_dir ev = dir"
    and ok: "valid_name name" "fresh_id ev ''dir'' (sdb s)"
  shows "simulated dir (Make_Dir parent name) s (run_local ev (Make_Dir parent name) s)"
proof -
  let ?row = "made_row ev parent name (sdb s)"
  let ?path = "join_remote_path parent name"
  consider (early) "find_path parent (sdb s) = None" |
    (plain) q where "find_path parent (sdb s) = Some q" "e_kind q \<noteq> Directory" |
    (taken) q e where "find_path parent (sdb s) = Some q" "e_kind q = Directory" "find_path ?path (sdb s) = Some e" |
    (vacant) q where "find_path parent (sdb s) = Some q" "e_kind q = Directory" "find_path ?path (sdb s) = None"
    by (metis option.exhaust)
  then show ?thesis
  proof cases
    case vacant
    obtain d where run: "mkdir ev parent name s = (Inr ?row, s\<lparr>sdb := d, status_version := status_version s + 1\<rparr>)"
      and rows: "files d = files (sdb s) @ [?row]"
      using run_mkdir [OF core vacant ok(1) ev ok(2)] by blast
    let ?t = "snd (mkdir ev parent name s)"
    have "abstract dir ?t = (abstract dir s)\<lparr>nodes :=
        (nodes (abstract dir s))(e_path ?row \<mapsto> node_of (contents (disk ?t)) ?row)\<rparr>"
      by (rule abstract_new [OF core, where x = "contents (disk s) (cache_path_for dir (e_file_id ?row))"])
         (use vacant(3) ok(2) rows run in \<open>simp_all add: fresh_drawn\<close>)
    then show ?thesis by (simp add: simulated_def run_forget run node_of_def)
  qed (simp_all add: run_forget mkdir_def Let_def run_simps simulated_failure)
qed

lemma cache_path_of_row:
  "core_ok dir (sdb s) \<Longrightarrow> cache_dir ev = dir \<Longrightarrow> find_path path (sdb s) = Some e \<Longrightarrow>
   cache_path_of ev e = cache_path_for dir (e_file_id e)"
  using cache_of_row [of dir "sdb s" path e] by (auto simp: cache_path_of_def split: option.split)

lemma save_simulated:
  assumes core: "core_ok dir (sdb s)" and ev: "cache_dir ev = dir" and staging: "\<not> in_cache dir staging"
  shows "simulated dir (Save path staging) s (run_local ev (Save path staging) s)"
proof -
  have ok: "keys_ok (sdb s)" "queue_ok (sdb s)" using core by (simp_all add: core_ok_def)
  consider (early) "find_path path (sdb s) = None" |
    (folder) e where "find_path path (sdb s) = Some e" "e_kind e \<noteq> File" |
    (plain) e where "find_path path (sdb s) = Some e" "e_kind e = File"
    by (metis option.exhaust)
  then show ?thesis
  proof cases
    case plain
    let ?c = "cache_path_of ev e"
    consider (dir) err where "create_parent_dir ?c (disk s) = (Inl err, disk s)" |
      (missing) "create_parent_dir ?c (disk s) = (Inr (), disk s)" "contents (disk s) staging = None" |
      (fault) bs err where "create_parent_dir ?c (disk s) = (Inr (), disk s)"
        "contents (disk s) staging = Some bs" "write_fault (disk s) ?c = Some err" |
      (fine) bs where "create_parent_dir ?c (disk s) = (Inr (), disk s)"
        "contents (disk s) staging = Some bs" "write_fault (disk s) ?c = None"
      using create_parent_dir_keeps [of ?c "disk s"]
      by (cases "create_parent_dir ?c (disk s)"; cases "fst (create_parent_dir ?c (disk s))";
          cases "contents (disk s) staging"; cases "write_fault (disk s) ?c") auto
    then show ?thesis
    proof cases
      case fine
      let ?t = "snd (apply_local_file_from_staging ev path staging s)"
      obtain d where run: "apply_local_file_from_staging ev path staging s = (Inr (saved_row ev bs e), s\<lparr>sdb := d,
          disk := (disk s)\<lparr>contents := (contents (disk s))(?c \<mapsto> bs)\<rparr>, status_version := status_version s + 1\<rparr>)"
        and rows: "\<forall>p. find_path p d = (if p = path then Some (saved_row ev bs e) else find_path p (sdb s))"
        using run_apply_local_at [OF ok plain fine(2,1,3)] by metis
      have "abstract dir ?t = (abstract dir s)\<lparr>nodes := (nodes (abstract dir s))(path := view ?t path)\<rparr>"
        using rows cache_path_of_row [OF core ev plain(1)]
        by (intro abstract_row [OF core plain(1)]) (auto simp: run)
      moreover have "view ?t path = Some (Data bs)"
        using rows plain(2) by (simp add: run view_def visible_def node_of_def saved_row_def)
      ultimately show ?thesis
        using fine(2) staging by (simp add: simulated_def run_forget run abstract_def)
    qed (simp_all add: run_forget apply_local_file_from_staging_def cache_path_of_def [symmetric] Let_def
        run_simps plain fs_copy_def fs_read_def fs_open_def io_result_def fs_write_def simulated_failure)
  qed (simp_all add: run_forget apply_local_file_from_staging_def run_simps simulated_failure)
qed

text \<open>Removing a file: its row goes, or stays behind as a hidden one until the remote side knows.\<close>

lemma run_enqueue_delete:
  assumes "core_ok dir d" and "fid \<in> e_file_id ` set (files d)"
  shows "\<exists>d'. upsert_operation ev fid op payload True True d = (Inr (), d') \<and> files d' = files d"
proof -
  let ?Q = "\<lambda>q. q_file_id q = fid \<and> q_op_status q \<in> {Pending, RetryableError, Leased}"
  let ?d = "snd (delete_ops ?Q d)"
  have "upsert_operation ev fid op payload True True d = upsert_operation ev fid op payload False False ?d"
    by (simp add: upsert_operation_def run_simps delete_ops_def)
  moreover have "core_ok dir ?d" using keepsD [OF core_keep_queue(2) assms(1)] .
  moreover have "files ?d = files d" by (simp add: delete_ops_def run_simps)
  ultimately show ?thesis using run_enqueue [of dir ?d fid ev op payload] assms(2) by simp
qed

lemma run_remove_cached:
  "\<exists>k. remove_cached c s = (Inr (), s\<lparr>disk := k\<rparr>) \<and>
    (contents k = contents (disk s) \<or> (\<exists>p. c = Some p \<and> contents k = (contents (disk s))(p := None)))"
proof (cases c)
  case None
  then show ?thesis by (intro exI [of _ "disk s"]) (simp add: remove_cached_def run_simps)
next
  case (Some p)
  then show ?thesis
    by (intro exI [of _ "snd (fs_remove p (disk s))"])
       (simp add: remove_cached_def fs_remove_def run_simps split: option.split)
qed

definition unlink_tail :: "env \<Rightarrow> string \<Rightarrow> stored_entry \<Rightarrow> ('r, unit) sync" where
  "unlink_tail ev path entry =
     (if e_remote_version entry = None
      then
        and_then (on_db (delete_ops (\<lambda>q. q_file_id q = e_file_id entry \<and> q_op_status q \<noteq> Done))) (\<lambda>_.
        and_then (on_db (delete_file (e_file_id entry))) (\<lambda>_.
        remove_cached (e_cache_path entry)))
      else
        and_then (on_db (update_file (e_file_id entry)
          (\<lambda>e. e\<lparr>e_sync_state := QueuedDelete, e_last_error := None\<rparr>))) (\<lambda>_.
        and_then (on_db (upsert_operation ev (e_file_id entry) Delete [(''path'', path)] True True)) (\<lambda>_.
        remove_cached (e_cache_path entry))))"

lemma run_unlink_tail:
  assumes core: "core_ok dir (sdb s)" and e: "find_path path (sdb s) = Some e"
  shows "\<exists>d k. unlink_tail ev path e s = (Inr (), s\<lparr>sdb := d, disk := k\<rparr>) \<and>
    (\<forall>p. p \<noteq> path \<longrightarrow> find_path p d = find_path p (sdb s)) \<and>
    find_path path d = (if e_remote_version e = None then None
      else Some (e\<lparr>e_sync_state := QueuedDelete, e_last_error := None\<rparr>)) \<and>
    (contents k = contents (disk s) \<or>
     (\<exists>x. contents k = (contents (disk s))(cache_path_for dir (e_file_id e) := x)))"
proof (cases "e_remote_version e = None")
  case True
  have keys: "keys_ok (sdb s)" using core by (simp add: core_ok_def)
  let ?d = "snd (delete_file (e_file_id e)
    (snd (delete_ops (\<lambda>q. q_file_id q = e_file_id e \<and> q_op_status q \<noteq> Done) (sdb s))))"
  have "files ?d = delete_where (\<lambda>x. e_file_id x = e_file_id e) (files (sdb s))"
    by (simp add: delete_file_def delete_ops_def run_simps)
  note rows = find_path_deleted [OF keys e this]
  obtain k where k: "remove_cached (e_cache_path e) (s\<lparr>sdb := ?d\<rparr>) = (Inr (), s\<lparr>sdb := ?d, disk := k\<rparr>)"
    "contents k = contents (disk s) \<or> (\<exists>p. e_cache_path e = Some p \<and> contents k = (contents (disk s))(p := None))"
    using run_remove_cached [of "e_cache_path e" "s\<lparr>sdb := ?d\<rparr>"] by auto
  have "unlink_tail ev path e s = (Inr (), s\<lparr>sdb := ?d, disk := k\<rparr>)"
    using True k(1) by (simp add: unlink_tail_def run_simps delete_file_def delete_ops_def)
  then show ?thesis using rows True k(2) cache_of_row [OF core e] by (intro exI conjI) auto
next
  case False
  have keys: "keys_ok (sdb s)" using core by (simp add: core_ok_def)
  let ?f = "\<lambda>e. e\<lparr>e_sync_state := QueuedDelete, e_last_error := None\<rparr>"
  let ?d1 = "(sdb s)\<lparr>files := update_where (\<lambda>x. e_file_id x = e_file_id e) ?f (files (sdb s))\<rparr>"
  have upd: "update_file (e_file_id e) ?f (sdb s) = (Inr (), ?d1)" by (simp add: update_file_def run_simps)
  have "quiet_update dir (e_file_id e) ?f" by (simp add: quiet_update_def)
  from keepsD [OF core.keep_update [OF this] core] have "core_ok dir ?d1" by (simp add: upd)
  moreover have "e_file_id e \<in> e_file_id ` set (files ?d1)"
  proof -
    have "map e_file_id (files ?d1) = map e_file_id (files (sdb s))" by (simp add: map_update_where)
    then show ?thesis using ids_of_rows find_path_member [OF e] by (metis image_eqI)
  qed
  ultimately obtain d where enq: "upsert_operation ev (e_file_id e) Delete [(''path'', path)] True True ?d1 = (Inr (), d)"
    and same: "files d = files ?d1" using run_enqueue_delete by blast
  have "find_path p d = (if p = path then Some (?f e) else find_path p (sdb s))" for p
    by (rule find_path_updated [OF keys e]) (simp_all add: same)
  note rows = this
  obtain k where k: "remove_cached (e_cache_path e) (s\<lparr>sdb := d\<rparr>) = (Inr (), s\<lparr>sdb := d, disk := k\<rparr>)"
    "contents k = contents (disk s) \<or> (\<exists>p. e_cache_path e = Some p \<and> contents k = (contents (disk s))(p := None))"
    using run_remove_cached [of "e_cache_path e" "s\<lparr>sdb := d\<rparr>"] by auto
  have "unlink_tail ev path e s = (Inr (), s\<lparr>sdb := d, disk := k\<rparr>)"
    unfolding unlink_tail_def if_not_P [OF False] by (simp add: run_simps upd enq k(1))
  then show ?thesis using rows False k(2) cache_of_row [OF core e] by (intro exI conjI) auto
qed

lemma run_unlink:
  "find_path path (sdb s) = Some e \<Longrightarrow> unlink ev path expect_dir s =
    (if expect_dir \<and> e_kind e = File then (Inl NotDir, s)
     else if \<not> expect_dir \<and> e_kind e = Directory then (Inl IsDir, s)
     else if e_kind e = Directory \<and> children_of path (sdb s) \<noteq> [] then (Inl DirectoryNotEmpty, s)
     else and_then (unlink_tail ev path e) (\<lambda>_. bump_status_version) s)"
  by (cases "e_kind e"; cases expect_dir) (simp_all add: unlink_def unlink_tail_def run_simps)

lemma unlink_simulated:
  assumes core: "core_ok dir (sdb s)"
  shows "simulated dir (Remove path expect_dir) s (run_local ev (Remove path expect_dir) s)"
proof (cases "find_path path (sdb s)")
  case None
  then show ?thesis by (simp add: unlink_def run_simps simulated_failure)
next
  case (Some e)
  let ?fails = "expect_dir \<and> e_kind e = File \<or> \<not> expect_dir \<and> e_kind e = Directory \<or>
    e_kind e = Directory \<and> children_of path (sdb s) \<noteq> []"
  show ?thesis
  proof (cases ?fails)
    case True
    then show ?thesis by (auto simp: run_unlink [OF Some] simulated_failure)
  next
    case False
    obtain d k where tail: "unlink_tail ev path e s = (Inr (), s\<lparr>sdb := d, disk := k\<rparr>)"
      and rows: "\<forall>p. p \<noteq> path \<longrightarrow> find_path p d = find_path p (sdb s)"
      and row: "find_path path d = (if e_remote_version e = None then None
        else Some (e\<lparr>e_sync_state := QueuedDelete, e_last_error := None\<rparr>))"
      and k: "contents k = contents (disk s) \<or>
        (\<exists>x. contents k = (contents (disk s))(cache_path_for dir (e_file_id e) := x))"
      using run_unlink_tail [OF core Some, of ev] by metis
    let ?t = "s\<lparr>sdb := d, disk := k, status_version := status_version s + 1\<rparr>"
    have run: "unlink ev path expect_dir s = (Inr (), ?t)"
      using False by (simp only: run_unlink [OF Some] if_False) (simp add: run_simps tail)
    have "abstract dir ?t = (abstract dir s)\<lparr>nodes := (nodes (abstract dir s))(path := view ?t path)\<rparr>"
      using rows k by (intro abstract_row [OF core Some]) simp_all
    moreover have "view ?t path = None" by (simp add: view_def row visible_def)
    ultimately show ?thesis by (simp add: simulated_def run)
  qed
qed

text \<open>Renaming: the rows of the subtree get new paths and keep their ids and cache files.\<close>

lemma relabel_row_simps [simp]:
  "e_path (relabel_row source target q n t e) = relabel source target (e_path e)"
  "visible (relabel_row source target q n t e) = visible e"
  "node_of c (relabel_row source target q n t e) = node_of c e"
  using relabel_append [of "[]" source target] below_append [of "[]" source]
  by (auto simp: relabel_row_def visible_def node_of_def relabel_def)

lemma relabel_origin:
  assumes "\<not> below target r"
  shows "relabel source target r = p \<longleftrightarrow>
    (if below target p then r = source @ drop (length target) p else \<not> below source p \<and> r = p)"
proof (cases "below target p")
  case True
  then obtain tail where p: "p = target @ tail" "tail = [] \<or> hd tail = CHR ''/''" by (auto simp: below_split)
  have "relabel source target r = p \<longleftrightarrow> r = source @ tail"
  proof
    assume eq: "relabel source target r = p"
    show "r = source @ tail"
    proof (cases "below source r")
      case below: True
      then obtain tail' where "r = source @ tail'" "tail' = [] \<or> hd tail' = CHR ''/''" by (auto simp: below_split)
      with eq p(1) show ?thesis by (simp add: relabel_append)
    qed (use eq assms True in \<open>simp add: relabel_def\<close>)
  qed (simp add: p relabel_append)
  with True show ?thesis by (simp add: p(1))
next
  case False
  have "below target (relabel source target r)" if "below source r"
    using that relabel_append [of _ source target] below_append [of _ target] by (metis below_split)
  with False show ?thesis by (auto simp: relabel_def)
qed

lemma find_path_relabelled:
  assumes free: "\<And>e. e \<in> set (files d) \<Longrightarrow> \<not> below target (e_path e)"
    and rows: "files d' = map (relabel_row source target q n t) (files d)"
  shows "find_path p d' = map_option (relabel_row source target q n t)
    (if below target p then find_path (source @ drop (length target) p) d
     else if below source p then None else find_path p d)"
proof -
  let ?origin = "\<lambda>e. if below target p then e_path e = source @ drop (length target) p
    else \<not> below source p \<and> e_path e = p"
  have mapped: "find (\<lambda>e. e_path e = p) (map f xs) = map_option f (find (\<lambda>e. e_path (f e) = p) xs)" for f xs
    by (induction xs) auto
  then have "find_path p d' = map_option (relabel_row source target q n t)
      (find (\<lambda>e. relabel source target (e_path e) = p) (files d))"
    by (simp only: find_path_def rows mapped relabel_row_simps)
  also have "find (\<lambda>e. relabel source target (e_path e) = p) (files d) = find ?origin (files d)"
    by (rule find_cong [OF refl]) (rule relabel_origin [OF free])
  also have "\<dots> = (if below target p then find_path (source @ drop (length target) p) d
      else if below source p then None else find_path p d)"
    by (simp add: find_path_def find_None)
  finally show ?thesis .
qed

lemma run_rename:
  assumes core: "core_ok dir (sdb s)" and ok: "allowed dir ev (Move source target) (sdb s)"
    and e: "find_path source (sdb s) = Some e" and free: "find_path target (sdb s) = None"
    and parent: "parent_path_of target = Some q" "find_path q (sdb s) = Some r" "e_kind r = Directory"
  shows "\<exists>d n. rename ev source target s = (Inr (), s\<lparr>sdb := d, status_version := status_version s + 1\<rparr>) \<and>
    files d = map (relabel_row source target q n (now ev)) (files (sdb s))"
proof -
  let ?rows = "map (relabel_row source target q (name_of target) (now ev)) (files (sdb s))"
  let ?d = "(sdb s)\<lparr>files := ?rows\<rparr>"
  have moved: "rename_subtree source target q (name_of target) (now ev) (sdb s) = (Inr (), ?d)"
    by (rule rename_relabels) (use core ok free in \<open>simp_all add: core_ok_def\<close>)
  have "core_ok dir ?d"
    using keepsD [OF core.keep_rename_subtree [OF parent(1)] core] moved by (metis snd_conv)
  moreover have "e_file_id e \<in> e_file_id ` set (files ?d)"
  proof -
    have "map e_file_id ?rows = map e_file_id (files (sdb s))" by (simp add: relabel_row_def)
    then have ids: "e_file_id ` set ?rows = e_file_id ` set (files (sdb s))" by (rule ids_of_rows)
    have "e_file_id e \<in> e_file_id ` set ?rows" unfolding ids using find_path_member [OF e] by simp
    then show ?thesis by simp
  qed
  ultimately obtain d where enq: "upsert_operation ev (e_file_id e) Rename
      [(''old_path'', source), (''new_path'', target)] False False ?d = (Inr (), d)" "files d = ?rows"
    using run_enqueue [of dir ?d "e_file_id e" ev Rename] by auto
  let ?d' = "if e_remote_version e \<noteq> None then d else ?d"
  have "rename ev source target s = (Inr (), s\<lparr>sdb := ?d', status_version := status_version s + 1\<rparr>)"
    by (simp add: rename_def run_simps e free parent moved enq(1) del: not_None_eq)
  moreover have "files ?d' = ?rows" using enq(2) by simp
  ultimately show ?thesis by blast
qed

lemma rename_simulated:
  assumes core: "core_ok dir (sdb s)" and ok: "allowed dir ev (Move source target) (sdb s)"
  shows "simulated dir (Move source target) s (run_local ev (Move source target) s)"
proof -
  consider (missing) "find_path source (sdb s) = None" |
    (taken) e f where "find_path source (sdb s) = Some e" "find_path target (sdb s) = Some f" |
    (top) e where "find_path source (sdb s) = Some e" "find_path target (sdb s) = None" "parent_path_of target = None" |
    (orphan) e q where "find_path source (sdb s) = Some e" "find_path target (sdb s) = None"
      "parent_path_of target = Some q" "find_path q (sdb s) = None" |
    (plain) e q r where "find_path source (sdb s) = Some e" "find_path target (sdb s) = None"
      "parent_path_of target = Some q" "find_path q (sdb s) = Some r" "e_kind r \<noteq> Directory" |
    (fine) e q r where "find_path source (sdb s) = Some e" "find_path target (sdb s) = None"
      "parent_path_of target = Some q" "find_path q (sdb s) = Some r" "e_kind r = Directory"
    by (metis option.exhaust)
  then show ?thesis
  proof cases
    case fine
    obtain d n where run: "rename ev source target s = (Inr (), s\<lparr>sdb := d, status_version := status_version s + 1\<rparr>)"
      and rows: "files d = map (relabel_row source target q n (now ev)) (files (sdb s))"
      using run_rename [OF core ok fine] by blast
    have free: "\<not> below target (e_path e)" if "e \<in> set (files (sdb s))" for e using ok fine(2) that by simp
    let ?t = "snd (rename ev source target s)"
    have "view ?t p = moved_nodes source target (view s) p" for p
      using find_path_relabelled [OF free rows, of p]
      by (simp add: run view_def moved_nodes_def option.case_eq_if option.map_sel)
    then show ?thesis by (simp add: simulated_def run abstract_def fun_eq_iff)
  qed (simp_all add: rename_def run_simps simulated_failure)
qed

lemma stage_simulated:
  assumes core: "core_ok dir (sdb s)" and out: "\<not> in_cache dir path"
  shows "simulated dir (Stage path bs) s (run_local ev (Stage path bs) s)"
proof -
  let ?t = "s\<lparr>disk := (disk s)\<lparr>contents := (contents (disk s))(path \<mapsto> bs)\<rparr>\<rparr>"
  have "view ?t p = view s p" for p
    using node_of_outside [OF core _ out] by (simp add: view_def split: option.split)
  then have "view ?t = view s" by (simp add: fun_eq_iff)
  then show ?thesis using out by (auto simp: simulated_def run_modify abstract_def fun_eq_iff)
qed

lemma run_local_simulated:
  assumes core: "core_ok dir (sdb s)" and ev: "cache_dir ev = dir" and ok: "allowed dir ev op (sdb s)"
  shows "simulated dir op s (run_local ev op s)"
proof (cases op)
  case (Create_File parent name)
  then show ?thesis using create_file_simulated [OF core ev] ok by simp
next
  case (Make_Dir parent name)
  then show ?thesis using mkdir_simulated [OF core ev] ok by simp
next
  case (Save path staging)
  then show ?thesis using save_simulated [OF core ev] ok by simp
next
  case (Remove path expect_dir)
  then show ?thesis using unlink_simulated [OF core] by simp
next
  case (Move source target)
  then show ?thesis using rename_simulated [OF core] ok by simp
next
  case (Stage path bs)
  then show ?thesis using stage_simulated [OF core] ok by simp
qed

lemma keep_local:
  assumes core: "core_ok dir (sdb s)" and ev: "cache_dir ev = dir" and ok: "allowed dir ev op (sdb s)"
  shows "core_ok dir (sdb (snd (run_local ev op s)))"
proof -
  note keep = core.keep_create_file core.keep_mkdir core.keep_apply_local core.keep_unlink core.keep_rename
  have "keeps (on_tables (core_ok dir)) (run_local ev op)"
    using ev ok by (cases op) (auto simp: forget_def intro!: keeps_rules keep keeps_tables_modify)
  from keepsD [OF this] core show ?thesis by (simp add: on_tables_def)
qed

end
