(* ===== verification/Refinement.thy ===== *)
theory Refinement
  imports Local_View
begin

text \<open>
  The refinement of the directory tree of \<open>Local_View\<close>, for sequences of local operations;
  what the reading operations observe of the tree; and where the implementation promises less
  than a tree would: the name of a removed remote file is not free.
\<close>

section \<open>Sequences of local operations\<close>









lemma edited_core: "core_ok ''/state/cache'' (sdb edited_service)"
  unfolding core_ok_def foreign_ok_def rows_ok_def using edited_ready(1,2) by (intro conjI) (assumption | code_simp)+


text \<open>What the readers of the service see is the tree.\<close>

definition same_tree :: "stored_entry list \<Rightarrow> disk \<Rightarrow> 'r service \<Rightarrow> bool" where
  "same_tree rows k s \<longleftrightarrow> files (sdb s) = rows \<and> disk s = k"

lemma keeps_same_tree:
  "keeps (\<lambda>d. files d = rows) m \<Longrightarrow> keeps (same_tree rows k) (on_db m)"
  "keeps (same_tree rows k) bump_status_version"
  by (simp_all add: keeps_def same_tree_def run_simps)

lemma keeps_files_queue:
  "keeps (\<lambda>d. files d = rows) (upsert_operation ev fid op payload ru ra)"
proof -
  have "keeps (\<lambda>d. files d = rows) (delete_ops Q)" "keeps (\<lambda>d. files d = rows) (update_ops Q g)"
    "keeps (\<lambda>d. files d = rows) (insert_op fid op payload n)" for Q g n
    by (simp_all add: keeps_def delete_ops_def update_ops_def insert_op_def run_simps)
  then show ?thesis unfolding upsert_operation_def by (intro keeps_rules)
qed

lemma run_stale_refresh:
  "fst (maybe_schedule_stale_refresh ev e s) = Inr ()"
  "same_tree (files (sdb s)) (disk s) (snd (maybe_schedule_stale_refresh ev e s))"
proof -
  show "fst (maybe_schedule_stale_refresh ev e s) = Inr ()"
    by (simp add: maybe_schedule_stale_refresh_def Let_def run_simps)
  have "keeps (same_tree rows k) (maybe_schedule_stale_refresh ev e)" for rows k
    unfolding maybe_schedule_stale_refresh_def request_refresh_def get_entry_def expect_entry_def
      query_entry_by_path_def Let_def
    by (intro keeps_rules keeps_same_tree keeps_files_queue)
  then show "same_tree (files (sdb s)) (disk s) (snd (maybe_schedule_stale_refresh ev e s))"
    by (rule keepsD) (simp add: same_tree_def)
qed

lemma view_dataD:
  assumes "view s path = Some (Data bs)"
  shows "\<exists>e c. find_path path (sdb s) = Some e \<and> e_kind e = File \<and> e_cache_path e = Some c \<and>
    contents (disk s) c = Some bs"
proof -
  obtain e where e: "find_path path (sdb s) = Some e" "node_of (contents (disk s)) e = Data bs"
    using assms by (cases "find_path path (sdb s)") (simp_all add: view_def split: if_splits)
  then have "e_kind e = File" by (cases "e_kind e") (simp_all add: node_of_def)
  with e(2) obtain c where "e_cache_path e = Some c" "contents (disk s) c = Some bs"
    by (cases "e_cache_path e") (simp_all add: node_of_def split: option.splits)
  with e(1) \<open>e_kind e = File\<close> show ?thesis by blast
qed

lemma load_view:
  assumes "view s path = Some (Data bs)"
  shows "\<exists>t. load_local_bytes ev cl path s = (Inr bs, t) \<and> view t = view s"
proof -
  obtain e c where e: "find_path path (sdb s) = Some e" "e_kind e = File" "e_cache_path e = Some c"
    "contents (disk s) c = Some bs" using view_dataD [OF assms] by blast
  let ?t = "snd (maybe_schedule_stale_refresh ev e s)"
  have same: "files (sdb ?t) = files (sdb s)" "disk ?t = disk s"
    using run_stale_refresh(2) [of s ev e] by (simp_all add: same_tree_def)
  have "ensure_hydrated ev cl path s = (Inr e, ?t)"
    by (simp add: ensure_hydrated_def run_simps e run_stale_refresh(1))
  then have "load_local_bytes ev cl path s = (Inr bs, ?t)"
    by (simp add: load_local_bytes_def run_simps e same(2) fs_read_def fs_open_def io_result_def)
  moreover have "view ?t p = view s p" for p
    unfolding view_def same(2) find_path_cong [OF same(1)] ..
  ultimately show ?thesis by (auto simp: fun_eq_iff)
qed

lemma children_view:
  assumes "tree_ok dir (sdb s)"
  shows "e_path ` set (children_of parent (sdb s)) =
    {p. parent_path_of p = Some parent \<and> view s p \<noteq> None}"
proof -
  have keys: "keys_ok (sdb s)" using assms by (simp add: tree_ok_def all_rows_def core_ok_def)
  have row: "e \<in> set (files (sdb s)) \<Longrightarrow> find_path (e_path e) (sdb s) = Some e" for e
    using keys find_unique_key [of e_path "files (sdb s)" e] by (simp add: find_path_def keys_ok_def)
  have parent: "e \<in> set (files (sdb s)) \<Longrightarrow> e_parent_path e = parent_path_of (e_path e)" for e
    using assms by (simp add: tree_ok_def all_rows_def rows_are_iff tree_row_def consistent_path_def)
  have children: "e \<in> set (children_of parent (sdb s)) \<longleftrightarrow>
      e \<in> set (files (sdb s)) \<and> parent_path_of (e_path e) = Some parent \<and> visible e" for e
    using parent by (auto simp: children_of_def visible_def)
  have seen: "view s (e_path e) \<noteq> None \<longleftrightarrow> visible e" if "e \<in> set (files (sdb s))" for e
    using row [OF that] by (simp add: view_def)
  show ?thesis
  proof (intro equalityI subsetI)
    fix p assume "p \<in> e_path ` set (children_of parent (sdb s))"
    then show "p \<in> {p. parent_path_of p = Some parent \<and> view s p \<noteq> None}"
      using children seen by auto
  next
    fix p assume p: "p \<in> {p. parent_path_of p = Some parent \<and> view s p \<noteq> None}"
    then obtain e where "find_path p (sdb s) = Some e"
      by (cases "find_path p (sdb s)") (simp_all add: view_def)
    then have e: "e \<in> set (files (sdb s))" "e_path e = p" using find_path_member by simp_all
    have "visible e" using seen [OF e(1)] p e(2) by simp
    with p children e have "e \<in> set (children_of parent (sdb s))" by simp
    with e(2) show "p \<in> e_path ` set (children_of parent (sdb s))" by blast
  qed
qed

text \<open>
  C6: Readers see the tree.  Reading a file whose node has data returns exactly that data,
  whatever the client, and leaves the tree as it was; and listing a directory returns exactly
  the nodes whose parent it is.
\<close>

theorem tree_observed:
  assumes "tree_ok dir (sdb s)"
  shows "(view s path = Some (Data bs) \<longrightarrow>
      (\<exists>t. load_local_bytes ev cl path s = (Inr bs, t) \<and> view t = view s)) \<and>
    (\<exists>es. list_children parent s = (Inr es, s) \<and>
      e_path ` set es = {p. parent_path_of p = Some parent \<and> view s p \<noteq> None})"
proof (intro conjI impI)
  show "\<exists>t. load_local_bytes ev cl path s = (Inr bs, t) \<and> view t = view s"
    if "view s path = Some (Data bs)" using load_view [OF that] .
  show "\<exists>es. list_children parent s = (Inr es, s) \<and>
      e_path ` set es = {p. parent_path_of p = Some parent \<and> view s p \<noteq> None}"
    using children_view [OF assms] by (intro exI [of _ "children_of parent (sdb s)"]) (simp add: run_list_children)
qed

lemma edited_tree: "tree_ok ''/state/cache'' (sdb edited_service)"
proof -
  have "rows_are tree_row (sdb edited_service)" unfolding rows_are_def by code_simp
  with edited_core show ?thesis by (simp add: tree_ok_def all_rows_def)
qed

lemma edited_view: "view edited_service ''disk:/a.txt'' = Some (Data [])"
  by code_simp

theorem tree_observed_witness:
  "(\<exists>t. load_local_bytes (test_env 1002) fake_client ''disk:/a.txt'' edited_service = (Inr [], t)) \<and>
   (\<exists>es. list_children ROOT_PATH edited_service = (Inr es, edited_service) \<and> ''disk:/a.txt'' \<in> e_path ` set es)"
proof -
  note observed = tree_observed [OF edited_tree, of "''disk:/a.txt''" "[]" "test_env 1002" "fake_client" ROOT_PATH]
  have "parent_path_of ''disk:/a.txt'' = Some ROOT_PATH" by code_simp
  then show ?thesis using observed edited_view by fastforce
qed





end
