(* ===== verification/Sync_Tests.thy ===== *)
theory Sync_Tests
  imports Fake Status Naming
begin

text \<open>
  The unit tests of src/src/sync.rs, run on the model: each test is the action the test
  function performs on an unopened service beside the fake remote client, and returns whether
  its assertions hold; \<open>unwrap\<close> of a \<open>None\<close> is an error, like a failing call.  A call that
  moves no clock in the test moves none here.
\<close>

section \<open>The steps of the tests\<close>

definition test_now :: env where
  "test_now = test_env 1000"

definition text_bytes :: "string \<Rightarrow> bytes" where
  "text_bytes s = map of_char s"

definition fs_put :: "string \<Rightarrow> string \<Rightarrow> ('r, unit) sync" where
  "fs_put path text = on_disk (fs_write path (text_bytes text))"

definition unwrap :: "'a option \<Rightarrow> ('r, 'a) sync" where
  "unwrap x = ok_or (Panic ''called Option::unwrap() on a None value'') x"

definition process_job :: "queued_operation \<Rightarrow> (fake_remote, unit) sync" where
  "process_job job =
     and_then (process_operation 20 test_now fake_client job) (\<lambda>r. unwrap r)"

definition process_next :: "(fake_remote, unit) sync" where
  "process_next =
     and_then (lease_next_operation test_now) (\<lambda>leased.
     and_then (unwrap leased) process_job)"

definition open_and_refresh :: "(fake_remote, unit) sync" where
  "open_and_refresh =
     and_then (open_at test_now) (\<lambda>_.
     and_then (lease_next_operation test_now) (\<lambda>leased.
     case leased of Some job \<Rightarrow> process_job job | None \<Rightarrow> ret ()))"

definition is_present :: "string \<Rightarrow> (fake_remote, bool) sync" where
  "is_present path = and_then (get_entry path) (\<lambda>e. ret (e \<noteq> None))"

text \<open>Storing a text: the staging file is written, then applied.\<close>

definition store_text :: "string \<Rightarrow> string \<Rightarrow> (fake_remote, stored_entry) sync" where
  "store_text path text =
     and_then (fs_put ''/tmp/staging'' text) (\<lambda>_.
     apply_local_file_from_staging test_now path ''/tmp/staging'')"

definition passes :: "(fake_remote, bool) sync \<Rightarrow> bool" where
  "passes test = (fst (test (test_service fixture)) = Inr True)"

section \<open>The tests on one service\<close>

definition local_write_enqueues_upload_and_keeps_local_bytes :: "(fake_remote, bool) sync" where
  "local_write_enqueues_upload_and_keeps_local_bytes =
     and_then open_and_refresh (\<lambda>_.
     and_then (create_file test_now ROOT_PATH ''offline.txt'') (\<lambda>_.
     let path = join_remote_path ROOT_PATH ''offline.txt'' in
     and_then (store_text path ''hello offline'') (\<lambda>entry.
     and_then (load_local_bytes test_now fake_client path) (\<lambda>bs.
     ret (e_sync_state entry = QueuedUpload \<and> bs = text_bytes ''hello offline'')))))"

definition upload_job_completes_and_marks_file_synced :: "(fake_remote, bool) sync" where
  "upload_job_completes_and_marks_file_synced =
     and_then open_and_refresh (\<lambda>_.
     and_then (create_file test_now ROOT_PATH ''sync-me.txt'') (\<lambda>_.
     let path = join_remote_path ROOT_PATH ''sync-me.txt'' in
     and_then (store_text path ''sync me'') (\<lambda>_.
     and_then process_next (\<lambda>_.
     and_then (get_entry path) (\<lambda>found.
     and_then (unwrap found) (\<lambda>entry.
     and_then (call (download_file fake_client path)) (\<lambda>uploaded.
     ret (e_sync_state entry = Synced \<and> uploaded = Inr (text_bytes ''sync me'')))))))))"

definition repeated_uploads_coalesce_to_one_pending_job :: "(fake_remote, bool) sync" where
  "repeated_uploads_coalesce_to_one_pending_job =
     and_then open_and_refresh (\<lambda>_.
     and_then (create_file test_now ROOT_PATH ''coalesce.txt'') (\<lambda>_.
     let path = join_remote_path ROOT_PATH ''coalesce.txt'' in
     and_then (store_text path ''one'') (\<lambda>_.
     and_then (store_text path ''two'') (\<lambda>_.
     and_then (on_db (gets (\<lambda>d. length (filter
       (\<lambda>q. Some (q_file_id q) = map_option e_file_id (find_path path d) \<and> q_op_type q = Upload
            \<and> q_op_status q = Pending) (operations_queue d))))) (\<lambda>count.
     ret (count = 1))))))"

definition restart_recovers_pending_jobs :: "(fake_remote, bool) sync" where
  "restart_recovers_pending_jobs =
     and_then (open_at test_now) (\<lambda>_.
     and_then (create_file test_now ROOT_PATH ''restart.txt'') (\<lambda>_.
     and_then (open_at test_now) (\<lambda>_.
     and_then (get_entry (join_remote_path ROOT_PATH ''restart.txt'')) (\<lambda>found.
     and_then (unwrap found) (\<lambda>entry.
     ret (e_sync_state entry = QueuedUpload))))))"

definition remote_version_conflict_creates_conflict_copy :: "(fake_remote, bool) sync" where
  "remote_version_conflict_creates_conflict_copy =
     and_then open_and_refresh (\<lambda>_.
     let path = join_remote_path ROOT_PATH ''fast.txt'' in
     and_then (store_text path ''local change'') (\<lambda>_.
     and_then (modify (\<lambda>s. s\<lparr>remote :=
       fake_insert_file path (text_bytes ''remote change'') ''rev-remote-new'' (remote s)\<rparr>)) (\<lambda>_.
     and_then process_next (\<lambda>_.
     and_then (is_present path) (\<lambda>original.
     and_then (is_present ''disk:/fast (2).txt'') (\<lambda>copy.
     ret (original \<and> copy)))))))"

definition sync_status_projection_reports_summary_and_directory_statuses :: "(fake_remote, bool) sync" where
  "sync_status_projection_reports_summary_and_directory_statuses =
     and_then open_and_refresh (\<lambda>_.
     and_then (sync_summary test_now) (\<lambda>summary.
     and_then (list_directory_statuses ROOT_PATH) (\<lambda>root_statuses.
     ret (last_update_unix summary > 0 \<and> root_statuses \<noteq> [] \<and>
          list_ex (\<lambda>st. st_path st = ''disk:/fast.txt'') root_statuses))))"

lemma single_service_tests:
  "passes local_write_enqueues_upload_and_keeps_local_bytes"
  "passes upload_job_completes_and_marks_file_synced"
  "passes repeated_uploads_coalesce_to_one_pending_job"
  "passes restart_recovers_pending_jobs"
  "passes remote_version_conflict_creates_conflict_copy"
  "passes sync_status_projection_reports_summary_and_directory_statuses"
  by code_simp+

definition conflict_name_helper_handles_suffixes_and_extensions :: bool where
  "conflict_name_helper_handles_suffixes_and_extensions \<longleftrightarrow>
     (let used = {''file.txt'', ''file (2).txt'', ''archive.tar.gz''} in
      next_conflict_name ''file.txt'' (\<lambda>name. name \<in> used) = Some ''file (3).txt'' \<and>
      next_conflict_name ''file (2).txt'' (\<lambda>_. False) = Some ''file (3).txt'' \<and>
      next_conflict_name ''plain'' (\<lambda>_. False) = Some ''plain (2)'' \<and>
      next_conflict_name ''archive.tar.gz'' (\<lambda>_. False) = Some ''archive (2).tar.gz'')"

lemma conflict_name_test: conflict_name_helper_handles_suffixes_and_extensions
  by code_simp

section \<open>The tests on two services\<close>

text \<open>Two daemons with their own databases and files, on one remote side.\<close>

type_synonym two = "fake_remote service \<times> fake_remote service"

definition on_a :: "(fake_remote, 'a) sync \<Rightarrow> (two, sync_error, 'a) action" where
  "on_a m s = (case m (fst s) of (r, t) \<Rightarrow> (r, (t, (snd s)\<lparr>remote := remote t\<rparr>)))"

definition on_b :: "(fake_remote, 'a) sync \<Rightarrow> (two, sync_error, 'a) action" where
  "on_b m s = (case m (snd s) of (r, t) \<Rightarrow> (r, ((fst s)\<lparr>remote := remote t\<rparr>, t)))"

definition line :: "string \<Rightarrow> string" where
  "line text = text @ [CHR 0x0A]"

definition both_pass :: "(two, sync_error, bool) action \<Rightarrow> bool" where
  "both_pass test = (fst (test (test_service fixture, test_service fixture)) = Inr True)"

text \<open>The common part: both edit the same file, \<open>b\<close> uploads first, then \<open>a\<close> conflicts.\<close>

definition open_both :: "(two, sync_error, unit) action" where
  "open_both =
     and_then (on_a (open_at test_now)) (\<lambda>_.
     and_then (on_b (open_at test_now)) (\<lambda>_.
     and_then (on_a (and_then (lease_next_operation test_now) (\<lambda>leased.
       case leased of Some job \<Rightarrow> process_job job | None \<Rightarrow> ret ()))) (\<lambda>_.
     on_b (and_then (lease_next_operation test_now) (\<lambda>leased.
       case leased of Some job \<Rightarrow> process_job job | None \<Rightarrow> ret ())))))"

definition edit_on_both :: "string \<Rightarrow> string \<Rightarrow> string \<Rightarrow> (two, sync_error, unit) action" where
  "edit_on_both path text_a text_b =
     and_then (on_a (store_text path text_a)) (\<lambda>_.
     and_then (on_b (store_text path text_b)) (\<lambda>_.
     and_then (on_b process_next) (\<lambda>_.
     on_a process_next)))"

definition conflict_copy_survives_later_refreshes :: "(two, sync_error, bool) action" where
  "conflict_copy_survives_later_refreshes =
     and_then open_both (\<lambda>_.
     let path = join_remote_path ROOT_PATH ''fast.txt'' in
     and_then (edit_on_both path (line ''chips offline a'') (line ''chips offline b'')) (\<lambda>_.
     and_then (on_a (is_present path)) (\<lambda>original.
     and_then (on_a (is_present ''disk:/fast (2).txt'')) (\<lambda>copy.
     and_then (on_a (request_refresh test_now ROOT_PATH)) (\<lambda>_.
     and_then (on_a process_next) (\<lambda>_.
     and_then (on_a (is_present ''disk:/fast (2).txt'')) (\<lambda>survives.
     and_then (on_a (load_local_bytes test_now fake_client ''disk:/fast (2).txt'')) (\<lambda>bs.
     ret (original \<and> copy \<and> survives \<and> bs = text_bytes (line ''chips offline a''))))))))))"

definition conflict_copy_uploads_and_becomes_visible_to_other_client :: "(two, sync_error, bool) action" where
  "conflict_copy_uploads_and_becomes_visible_to_other_client =
     and_then open_both (\<lambda>_.
     let path = join_remote_path ROOT_PATH ''fast.txt'' in
     and_then (edit_on_both path (line ''offline from a'') (line ''offline from b'')) (\<lambda>_.
     and_then (on_a (is_present ''disk:/fast (2).txt'')) (\<lambda>copy.
     and_then (on_a process_next) (\<lambda>_.
     and_then (on_a (call (fetch_resource_metadata fake_client ''disk:/fast (2).txt''))) (\<lambda>uploaded.
     and_then (on_b (request_refresh test_now ROOT_PATH)) (\<lambda>_.
     and_then (on_b process_next) (\<lambda>_.
     and_then (on_b (is_present ''disk:/fast (2).txt'')) (\<lambda>visible_to_b.
     and_then (on_b (load_local_bytes test_now fake_client ''disk:/fast (2).txt'')) (\<lambda>bs.
     ret (copy \<and> is_ok uploaded \<and> visible_to_b \<and> bs = text_bytes (line ''offline from a'')))))))))))"

lemma two_service_tests:
  "both_pass conflict_copy_survives_later_refreshes"
  "both_pass conflict_copy_uploads_and_becomes_visible_to_other_client"
  by code_simp+

end
