(* ===== verification/Client_Tests.thy ===== *)
theory Client_Tests
  imports Login Yandex
begin

text \<open>
  The unit tests of src/src/auth.rs and src/src/yadisk.rs on the model, for any crates
  with which the authorize URL can be built.  Two tests are about the crates alone (the RFC
  vector of the challenge, the alphabet of the verifier) and are left out.
\<close>

section \<open>The fakes of auth.rs\<close>

record test_world =
  saved :: "stored_credentials option"
  initial :: "stored_credentials option"
  exchange_calls :: "(string \<times> string) list"
  refresh_calls :: "string list"

definition test_world_of :: "stored_credentials option \<Rightarrow> test_world" where
  "test_world_of c = \<lparr>saved = None, initial = c, exchange_calls = [], refresh_calls = []\<rparr>"

definition fake_store :: "test_world credential_store" where
  "fake_store =
     \<lparr>load_credentials = gets initial,
      save_credentials = (\<lambda>c. modify (\<lambda>w. w\<lparr>saved := Some c\<rparr>))\<rparr>"

definition fake_oauth :: "stored_credentials \<Rightarrow> stored_credentials \<Rightarrow> test_world oauth_client" where
  "fake_oauth exchanged refreshed =
     \<lparr>exchange_authorization_code = (\<lambda>code verifier.
        and_then (modify (\<lambda>w. w\<lparr>exchange_calls := exchange_calls w @ [(code, verifier)]\<rparr>)) (\<lambda>_.
        ret exchanged)),
      refresh_with = (\<lambda>token.
        and_then (modify (\<lambda>w. w\<lparr>refresh_calls := refresh_calls w @ [token]\<rparr>)) (\<lambda>_.
        ret refreshed))\<rparr>"

definition failing_oauth :: "test_world oauth_client" where
  "failing_oauth =
     \<lparr>exchange_authorization_code = (\<lambda>code verifier. throw (InvalidTokenResponse ''boom'')),
      refresh_with = (\<lambda>token. throw (InvalidTokenResponse ''unreachable''))\<rparr>"

definition creds :: "string \<Rightarrow> string \<Rightarrow> int option \<Rightarrow> stored_credentials" where
  "creds access refresh t = \<lparr>access_token = access, refresh_token = refresh, expires_at = t\<rparr>"

definition plain_oauth :: "test_world oauth_client" where
  "plain_oauth = fake_oauth (creds ''access'' ''refresh'' None) (creds ''access2'' ''refresh2'' None)"

text \<open>A test runs on a manager made from what the store holds.\<close>

definition auth_passes :: "stored_credentials option \<Rightarrow> (test_world, bool) authm \<Rightarrow> bool" where
  "auth_passes c test =
     (case auth_new fake_store (test_world_of c) of
        (Inr auth, _) \<Rightarrow> fst (test auth) = Inr True
      | (Inl _, _) \<Rightarrow> False)"

section \<open>The tests of auth.rs\<close>

definition begin_login_rejects_concurrent_attempts :: "crates \<Rightarrow> auth_env \<Rightarrow> bool" where
  "begin_login_rejects_concurrent_attempts cr ae =
     auth_passes None (
       and_then (begin_login cr ae) (\<lambda>first.
       and_then (attempt (begin_login cr ae)) (\<lambda>second.
       ret (redirect_uri first = YANDEX_REDIRECT_URI \<and> second = Inl LoginAlreadyPending))))"

definition callback_success_persists_credentials_and_sets_auth_state :: "crates \<Rightarrow> auth_env \<Rightarrow> bool" where
  "callback_success_persists_credentials_and_sets_auth_state cr ae =
     (let exchanged = creds ''access'' ''refresh'' (Some (utc_now ae + 3600));
          refreshed = creds ''access2'' ''refresh2'' (Some (utc_now ae + 7200)) in
      auth_passes None (
        and_then (begin_login cr ae) (\<lambda>login.
        and_then (complete_login (fake_oauth exchanged refreshed) fake_store ''callback-code'') (\<lambda>_.
        and_then (gets is_authenticated) (\<lambda>authenticated.
        and_then (gets outside) (\<lambda>w.
        ret (authenticated \<and> saved w = Some exchanged \<and> length (exchange_calls w) = 1 \<and>
             fst (exchange_calls w ! 0) = ''callback-code'' \<and>
             derive_code_challenge cr (snd (exchange_calls w ! 0)) = code_challenge login)))))))"

definition callback_failure_keeps_pending_login_for_retry :: "crates \<Rightarrow> auth_env \<Rightarrow> bool" where
  "callback_failure_keeps_pending_login_for_retry cr ae =
     auth_passes None (
       and_then (begin_login cr ae) (\<lambda>_.
       and_then (attempt (complete_login failing_oauth fake_store ''callback-code'')) (\<lambda>completed.
       and_then (attempt (begin_login cr ae)) (\<lambda>again.
       ret ((case completed of Inl (InvalidTokenResponse _) \<Rightarrow> True | _ \<Rightarrow> False) \<and>
            again = Inl LoginAlreadyPending)))))"

definition callback_without_pending_session_fails :: bool where
  "callback_without_pending_session_fails =
     auth_passes None (
       and_then (attempt (complete_login plain_oauth fake_store ''callback-code'')) (\<lambda>completed.
       ret (completed = Inl NoPendingLogin)))"

definition expired_access_token_is_refreshed_and_saved :: "auth_env \<Rightarrow> bool" where
  "expired_access_token_is_refreshed_and_saved ae =
     (let refreshed = creds ''fresh'' ''refresh-2'' (Some (utc_now ae + 3600));
          oauth = fake_oauth (creds ''unused'' ''unused'' None) refreshed in
      auth_passes (Some (creds ''expired'' ''refresh'' (Some (utc_now ae - 1)))) (
        and_then (get_access_token ae oauth fake_store) (\<lambda>token.
        and_then (gets outside) (\<lambda>w.
        ret (token = ''fresh'' \<and> saved w = Some refreshed \<and> refresh_calls w = [''refresh''])))))"

definition unauthenticated_access_returns_clear_error :: "auth_env \<Rightarrow> bool" where
  "unauthenticated_access_returns_clear_error ae =
     auth_passes None (
       and_then (attempt (get_access_token ae plain_oauth fake_store)) (\<lambda>token.
       ret (token = Inl AuthenticationRequired)))"

lemmas auth_test_defs = auth_passes_def auth_new_def test_world_of_def fake_store_def fake_oauth_def
  failing_oauth_def plain_oauth_def creds_def

lemma auth_tests_without_login:
  "callback_without_pending_session_fails"
  "expired_access_token_is_refreshed_and_saved ae"
  "unauthenticated_access_returns_clear_error ae"
  by (simp_all add: callback_without_pending_session_fails_def expired_access_token_is_refreshed_and_saved_def
      unauthenticated_access_returns_clear_error_def auth_test_defs run_simps complete_login_cases
      get_access_token_def renew_cases is_expired_def TOKEN_REFRESH_SKEW_def)

lemma auth_tests_with_login:
  assumes url: "\<And>params. \<exists>url. parse_url cr YANDEX_AUTHORIZE_URL params = Inr url"
  shows "begin_login_rejects_concurrent_attempts cr ae"
    and "callback_success_persists_credentials_and_sets_auth_state cr ae"
    and "callback_failure_keeps_pending_login_for_retry cr ae"
proof -
  obtain url where "build_authorize_url cr (derive_code_challenge cr (generate_code_verifier cr ae)) = Inr url"
    using url by (metis build_authorize_url_def sum.simps(6))
  then have begun: "begin_login cr ae s =
      (if login_pending ae s then (Inl LoginAlreadyPending, s)
       else (Inr \<lparr>authorize_url = url, code_challenge = derive_code_challenge cr (generate_code_verifier cr ae),
           redirect_uri = YANDEX_REDIRECT_URI\<rparr>,
         s\<lparr>pending := Some \<lparr>p_code_verifier = generate_code_verifier cr ae,
           p_code_challenge = derive_code_challenge cr (generate_code_verifier cr ae),
           p_created_at = auth_instant ae\<rparr>\<rparr>))" for s :: "test_world auth"
    by (simp add: begin_login_def run_simps Let_def)
  note tests = begun login_pending_def PENDING_LOGIN_TTL_def auth_test_defs run_simps complete_login_cases
    is_authenticated_def
  show "begin_login_rejects_concurrent_attempts cr ae"
    by (simp add: begin_login_rejects_concurrent_attempts_def tests)
  show "callback_success_persists_credentials_and_sets_auth_state cr ae"
    by (simp add: callback_success_persists_credentials_and_sets_auth_state_def tests)
  show "callback_failure_keeps_pending_login_for_retry cr ae"
    by (simp add: callback_failure_keeps_pending_login_for_retry_def tests)
qed

section \<open>The tests of yadisk.rs\<close>

definition is_invalid_response :: "yandex_error + 'a \<Rightarrow> bool" where
  "is_invalid_response r = (case r of Inl (InvalidResponse _) \<Rightarrow> True | _ \<Rightarrow> False)"

definition reject_blank_transfer_href :: bool where
  "reject_blank_transfer_href = is_invalid_response (expect_non_empty_href ''   '' ''upload'')"

definition reject_unsupported_resource_type :: "'w net \<Rightarrow> bool" where
  "reject_unsupported_resource_type n =
     is_invalid_response (try_into_resource n
       (ApiResource ''disk:/weird'' ''weird'' ''weird'' None None None None None None None None))"

lemma yadisk_tests: "reject_blank_transfer_href" "reject_unsupported_resource_type n"
  by (simp_all add: reject_blank_transfer_href_def reject_unsupported_resource_type_def
      is_invalid_response_def expect_non_empty_href_def is_whitespace_def try_into_resource_def Let_def)

end
