(* ===== verification/Fs_Tests.thy ===== *)
theory Fs_Tests
  imports Fs Fake
begin

text \<open>
  The unit tests of src/src/fs.rs, run on the model, with \<open>FakeClient\<close>, the remote side
  they use.  The background threads of a test become rounds of the worker at one place of the
  test: after the start, and where the test waits for them.  The three tests that measure
  that a slow request does not hold up another are about the scheduler and are left out, as
  are the delays of the client.
\<close>

section \<open>FakeClient\<close>

record fake_disk =
  disk_resources :: "(string \<times> resource_entry) list"
  download_urls :: "(string \<times> string) list"
  file_contents :: "(string \<times> bytes) list"
  upload_failures :: "string list"

definition disk_dir :: "string \<Rightarrow> string \<Rightarrow> resource_entry" where
  "disk_dir path name =
     \<lparr>r_path = path, r_name = name, r_kind = resource_kind.Directory, r_size = 0,
      r_created = Some 0, r_modified = Some 0, r_remote_version = Some (''dir:'' @ path)\<rparr>"

definition disk_file :: "string \<Rightarrow> string \<Rightarrow> nat \<Rightarrow> resource_entry" where
  "disk_file path name n =
     \<lparr>r_path = path, r_name = name, r_kind = resource_kind.File, r_size = of_nat n,
      r_created = Some 0, r_modified = Some 0,
      r_remote_version = Some (''rev:'' @ path @ '':'' @ show_nat n)\<rparr>"

definition insert_resource :: "resource_entry \<Rightarrow> fake_disk \<Rightarrow> fake_disk" where
  "insert_resource r w = w\<lparr>disk_resources := alist_put (r_path r) r (disk_resources w)\<rparr>"

definition set_download_url :: "string \<Rightarrow> string \<Rightarrow> fake_disk \<Rightarrow> fake_disk" where
  "set_download_url path href w = w\<lparr>download_urls := alist_put path href (download_urls w)\<rparr>"

definition set_file_content :: "string \<Rightarrow> bytes \<Rightarrow> fake_disk \<Rightarrow> fake_disk" where
  "set_file_content href bs w = w\<lparr>file_contents := alist_put href bs (file_contents w)\<rparr>"

definition fail_upload_for :: "string \<Rightarrow> fake_disk \<Rightarrow> fake_disk" where
  "fail_upload_for path w = w\<lparr>upload_failures := path # upload_failures w\<rparr>"

text \<open>\<open>path.rsplit('/').next()\<close>: never \<open>None\<close>.\<close>

definition after_slash :: "string \<Rightarrow> string" where
  "after_slash path = (case rsplit_once (CHR ''/'') path of None \<Rightarrow> path | Some (_, name) \<Rightarrow> name)"

definition direct_children :: "string \<Rightarrow> fake_disk \<Rightarrow> resource_entry list" where
  "direct_children parent w =
     (let pre = (if parent = ROOT_PATH then ROOT_PATH else parent @ ''/'') in
      sort_key r_name (map snd (filter
        (\<lambda>(path, _). path \<noteq> parent \<and>
           (case str_strip_prefix pre path of
              None \<Rightarrow> False
            | Some rest \<Rightarrow> rest \<noteq> [] \<and> CHR ''/'' \<notin> set rest))
        (disk_resources w))))"

definition remove_one :: "string \<Rightarrow> fake_disk \<Rightarrow> fake_disk" where
  "remove_one key w =
     (let w' = w\<lparr>disk_resources := alist_remove key (disk_resources w)\<rparr> in
      case map_of (download_urls w') key of
        None \<Rightarrow> w'
      | Some href \<Rightarrow> w'\<lparr>download_urls := alist_remove key (download_urls w'),
                         file_contents := alist_remove href (file_contents w')\<rparr>)"

definition remove_subtree :: "string \<Rightarrow> fake_disk \<Rightarrow> fake_disk" where
  "remove_subtree path w = fold remove_one (filter (fake_under path) (map fst (disk_resources w))) w"

definition disk_fetch :: "string \<Rightarrow> (fake_disk, yandex_error, resource_entry) action" where
  "disk_fetch path w =
     (case map_of (disk_resources w) path of Some r \<Rightarrow> Inr r | None \<Rightarrow> Inl yandex_error.NotFound, w)"

definition disk_list :: "string \<Rightarrow> (fake_disk, yandex_error, resource_entry list) action" where
  "disk_list path w =
     (case map_of (disk_resources w) path of
        None \<Rightarrow> Inl yandex_error.NotFound
      | Some r \<Rightarrow> if r_kind r = resource_kind.Directory then Inr (direct_children path w)
                  else Inl yandex_error.NotFound, w)"

definition disk_create_directory :: "string \<Rightarrow> (fake_disk, yandex_error, unit) action" where
  "disk_create_directory path w =
     (if path \<in> fst ` set (disk_resources w) then (Inl (yandex_error.Conflict ''already exists''), w)
      else (Inr (), insert_resource (disk_dir path (after_slash path)) w))"

definition disk_delete :: "string \<Rightarrow> bool \<Rightarrow> (fake_disk, yandex_error, unit) action" where
  "disk_delete path permanently w =
     (case map_of (disk_resources w) path of
        None \<Rightarrow> (Inl yandex_error.NotFound, w)
      | Some r \<Rightarrow>
          if r_kind r = resource_kind.Directory \<and> direct_children path w \<noteq> []
          then (Inl (yandex_error.Conflict ''directory not empty''), w)
          else (Inr (), remove_subtree path w))"

definition disk_move_one :: "string \<Rightarrow> string \<Rightarrow> resource_entry \<Rightarrow> fake_disk \<Rightarrow> fake_disk" where
  "disk_move_one from to r w =
     (let tail = (case str_strip_prefix from (r_path r) of Some t \<Rightarrow> t | None \<Rightarrow> []);
          new_path = to @ tail;
          w' = w\<lparr>disk_resources := alist_put new_path (r\<lparr>r_path := new_path, r_name := after_slash new_path\<rparr>)
                  (alist_remove (r_path r) (disk_resources w))\<rparr> in
      case map_of (download_urls w') (r_path r) of
        None \<Rightarrow> w'
      | Some href \<Rightarrow>
          (let new_href = ''download://'' @ new_path;
               bs = (case map_of (file_contents w') href of None \<Rightarrow> [] | Some bs \<Rightarrow> bs) in
           w'\<lparr>download_urls := alist_put new_path new_href (alist_remove (r_path r) (download_urls w')),
              file_contents := alist_put new_href bs (alist_remove href (file_contents w'))\<rparr>))"

definition disk_move :: "string \<Rightarrow> string \<Rightarrow> bool \<Rightarrow> (fake_disk, yandex_error, unit) action" where
  "disk_move from to overwrite w =
     (case filter (\<lambda>r. fake_under from (r_path r)) (map snd (disk_resources w)) of
        [] \<Rightarrow> (Inl yandex_error.NotFound, w)
      | rs \<Rightarrow> (Inr (), fold (disk_move_one from to) rs (remove_subtree to w)))"

definition disk_resolve_download :: "string \<Rightarrow> (fake_disk, yandex_error, string) action" where
  "disk_resolve_download path w =
     (case map_of (download_urls w) path of Some href \<Rightarrow> Inr href | None \<Rightarrow> Inl yandex_error.NotFound, w)"

definition disk_resolve_upload :: "string \<Rightarrow> bool \<Rightarrow> (fake_disk, yandex_error, string) action" where
  "disk_resolve_upload path overwrite = ret (''upload://'' @ path)"

definition disk_upload :: "string \<Rightarrow> io_error + bytes \<Rightarrow> (fake_disk, yandex_error, unit) action" where
  "disk_upload href body w =
     (let path = (case str_strip_prefix ''upload://'' href of None \<Rightarrow> href | Some p \<Rightarrow> p) in
      if path \<in> set (upload_failures w) then (Inl Forbidden, w)
      else case body of
        Inl err \<Rightarrow> (Inl (yandex_error.Io err), w)
      | Inr bs \<Rightarrow>
          (let new_href = ''download://'' @ path in
           (Inr (), set_file_content new_href bs (set_download_url path new_href
              (insert_resource ((disk_file path (after_slash path) (length bs))
                 \<lparr>r_remote_version := Some (''rev:'' @ path)\<rparr>) w)))))"

definition disk_download :: "string \<Rightarrow> (fake_disk, yandex_error, bytes) action" where
  "disk_download href w =
     (case map_of (file_contents w) href of Some bs \<Rightarrow> Inr bs | None \<Rightarrow> Inl yandex_error.NotFound, w)"

definition disk_client :: "fake_disk client" where
  "disk_client =
     \<lparr>fetch_resource_metadata = disk_fetch, list_directory = disk_list,
      create_directory = disk_create_directory, delete_resource = disk_delete,
      move_resource = disk_move, resolve_download_url = disk_resolve_download,
      resolve_upload_url = disk_resolve_upload, upload_file = disk_upload,
      download_file = disk_download\<rparr>"

definition ascii :: "string \<Rightarrow> bytes" where
  "ascii s = map of_char s"

definition disk_fixture :: fake_disk where
  "disk_fixture =
     fold (\<lambda>f. f)
       [insert_resource (disk_dir ''disk:/'' ''disk''),
        insert_resource (disk_file ''disk:/slow.txt'' ''slow.txt'' 11),
        insert_resource (disk_file ''disk:/fast.txt'' ''fast.txt'' 11),
        set_download_url ''disk:/slow.txt'' ''download://slow.txt'',
        set_download_url ''disk:/fast.txt'' ''download://fast.txt'',
        set_file_content ''download://slow.txt'' (ascii ''slow-content''),
        set_file_content ''download://fast.txt'' (ascii ''fast-content'')]
       \<lparr>disk_resources = [], download_urls = [], file_contents = [], upload_failures = []\<rparr>"

section \<open>The tests\<close>

definition test_fe :: fs_env where
  "test_fe =
     \<lparr>sync_env = test_env 1000, fs_clock = \<lparr>sys_now = 1000000000000, instant_now = 1000000000000\<rparr>,
      temp_dir = ''/tmp'', process_id = 7, staging_rnd = of_nat\<rparr>"

definition test_clock :: clock where
  "test_clock = fs_clock test_fe"

definition worker_turn :: "(fake_disk, bool) sync" where
  "worker_turn = worker_round 20 (test_env 1000) disk_client"

definition fresh_sync :: "fake_disk \<Rightarrow> fake_disk service" where
  "fresh_sync w =
     snd (and_then (open_at (test_env 1000)) (\<lambda>_. and_then start_background (\<lambda>_. worker_turn))
       \<lparr>sdb = empty_db, disk = \<lparr>contents = (\<lambda>_. None), write_fault = (\<lambda>_. None)\<rparr>,
        status_version = 0, stop = False, worker_handles = 0, remote = w\<rparr>)"

definition fresh_fs :: "fake_disk \<Rightarrow> (sync_error + fake_disk fs) \<times> fake_disk service" where
  "fresh_fs w = with_sync test_clock (fresh_sync w) 1000 1000"

definition fs_passes :: "fake_disk \<Rightarrow> (fake_disk, bool) fuse \<Rightarrow> bool" where
  "fs_passes w test =
     (case fresh_fs w of (Inr fs, _) \<Rightarrow> fst (test fs) = Inr True | (Inl _, _) \<Rightarrow> False)"

definition store_through :: "fh \<Rightarrow> bytes \<Rightarrow> (fake_disk, unit) fuse" where
  "store_through f data =
     and_then (write_handle_data test_fe f 0 data) (\<lambda>_.
     and_then (commit_write_handle test_fe f) (\<lambda>_.
     finish_write_handle f True))"

definition is_missing :: "string \<Rightarrow> (fake_disk, bool) fuse" where
  "is_missing name = and_then (attempt (lookup_entry test_fe ROOT name)) (\<lambda>r. ret (\<not> is_ok r))"

definition stored_row :: "string \<Rightarrow> (fake_disk, stored_entry) fuse" where
  "stored_row path = and_then (on_sync (get_entry path)) (ok_or NotFound)"

definition create_write_and_commit_new_file :: "(fake_disk, bool) fuse" where
  "create_write_and_commit_new_file =
     and_then (create_pending_file test_fe ROOT ''new.txt'') (\<lambda>(n, f).
     and_then (store_through f (ascii ''hello world'')) (\<lambda>_.
     and_then (lookup_entry test_fe ROOT ''new.txt'') (\<lambda>looked_up.
     and_then (read_data test_fe disk_client (n_ino looked_up) None 0 11) (\<lambda>bs.
     and_then (stored_row ''disk:/new.txt'') (\<lambda>stored.
     and_then (on_sync (call (fetch_resource_metadata disk_client ''disk:/new.txt''))) (\<lambda>uploaded.
     ret (n_size n = 0 \<and> n_size looked_up = 11 \<and> bs = ascii ''hello world'' \<and> e_size stored = 11 \<and>
          e_sync_state stored = QueuedUpload \<and> \<not> is_ok uploaded)))))))"

definition overwrite_existing_file_and_truncate :: "(fake_disk, bool) fuse" where
  "overwrite_existing_file_and_truncate =
     and_then (lookup_entry test_fe ROOT ''fast.txt'') (\<lambda>fast.
     and_then (open_file_handle test_fe disk_client (n_ino fast) True True) (\<lambda>f.
     and_then (store_through f (ascii ''abc123'')) (\<lambda>_.
     and_then (read_data test_fe disk_client (n_ino fast) None 0 6) (\<lambda>first.
     and_then (open_file_handle test_fe disk_client (n_ino fast) True False) (\<lambda>f2.
     and_then (truncate_handle test_fe f2 3) (\<lambda>_.
     and_then (commit_write_handle test_fe f2) (\<lambda>_.
     and_then (finish_write_handle f2 True) (\<lambda>_.
     and_then (read_data test_fe disk_client (n_ino fast) None 0 10) (\<lambda>second.
     ret (first = ascii ''abc123'' \<and> second = ascii ''abc''))))))))))"

definition delete_and_rename_update_directory_view :: "(fake_disk, bool) fuse" where
  "delete_and_rename_update_directory_view =
     and_then (mkdir_entry test_fe ROOT ''docs'') (\<lambda>_.
     and_then (create_pending_file test_fe ROOT ''rename-me.txt'') (\<lambda>(n, f).
     and_then (store_through f (ascii ''payload'')) (\<lambda>_.
     and_then (rename_entry test_fe ROOT ''rename-me.txt'' ROOT ''renamed.txt'') (\<lambda>_.
     and_then (is_missing ''rename-me.txt'') (\<lambda>moved.
     and_then (lookup_entry test_fe ROOT ''renamed.txt'') (\<lambda>renamed.
     and_then (unlink_entry test_fe ROOT ''renamed.txt'' False) (\<lambda>_.
     and_then (is_missing ''renamed.txt'') (\<lambda>removed.
     and_then (unlink_entry test_fe ROOT ''docs'' True) (\<lambda>_.
     and_then (is_missing ''docs'') (\<lambda>emptied.
     ret (moved \<and> n_path renamed = ''disk:/renamed.txt'' \<and> removed \<and> emptied)))))))))))"

definition failed_commit_keeps_remote_contents_authoritative :: "(fake_disk, bool) fuse" where
  "failed_commit_keeps_remote_contents_authoritative =
     and_then (lookup_entry test_fe ROOT ''fast.txt'') (\<lambda>fast.
     and_then (open_file_handle test_fe disk_client (n_ino fast) True True) (\<lambda>f.
     and_then (store_through f (ascii ''broken'')) (\<lambda>_.
     and_then (read_data test_fe disk_client (n_ino fast) None 0 6) (\<lambda>local_bytes.
     and_then (on_sync worker_turn) (\<lambda>_.
     and_then (stored_row ''disk:/fast.txt'') (\<lambda>stored.
     and_then (on_sync (call (download_file disk_client ''download://fast.txt''))) (\<lambda>remote_bytes.
     ret (local_bytes = ascii ''broken'' \<and> e_sync_state stored = Error \<and>
          remote_bytes = Inr (ascii ''fast-content'')))))))))"

definition readonly_open_does_not_create_write_handle :: "(fake_disk, bool) fuse" where
  "readonly_open_does_not_create_write_handle =
     and_then (lookup_entry test_fe ROOT ''fast.txt'') (\<lambda>fast.
     and_then (open_file_handle test_fe disk_client (n_ino fast) False False) (\<lambda>f.
     and_then (gets (\<lambda>s. has_write_handle f (fstate s))) (\<lambda>writable.
     and_then (read_data test_fe disk_client (n_ino fast) (Some f) 0 4) (\<lambda>bs.
     ret (f = 0 \<and> \<not> writable \<and> bs = ascii ''fast'')))))"

lemma fs_tests:
  "fs_passes disk_fixture create_write_and_commit_new_file"
  "fs_passes disk_fixture overwrite_existing_file_and_truncate"
  "fs_passes disk_fixture delete_and_rename_update_directory_view"
  "fs_passes (fail_upload_for ''disk:/fast.txt'' disk_fixture)
     failed_commit_keeps_remote_contents_authoritative"
  "fs_passes disk_fixture readonly_open_does_not_create_write_handle"
proof -
  show "fs_passes disk_fixture create_write_and_commit_new_file" by code_simp
  show "fs_passes disk_fixture overwrite_existing_file_and_truncate" by code_simp
  show "fs_passes disk_fixture delete_and_rename_update_directory_view" by code_simp
  show "fs_passes (fail_upload_for ''disk:/fast.txt'' disk_fixture)
      failed_commit_keeps_remote_contents_authoritative" by code_simp
  show "fs_passes disk_fixture readonly_open_does_not_create_write_handle" by code_simp
qed

end
