(* ===== verification/Unit_Tests.thy ===== *)
theory Unit_Tests
  imports Sync_Tests Client_Tests Fs_Tests
begin

text \<open>
  The unit tests of the repository that the model can run, taken together: they validate the
  model against what the authors expect of the code.
\<close>



end
