(* ===== verification/Threads.thy ===== *)
theory Threads
  imports Worker
begin

text \<open>
  The operations of \<open>SyncService\<close> at the granularity of its locks.  A thread is what is
  left of a call: finished with a result, or about to run its next section on the shared
  state.  A section is what happens under one lock of the database, or one access to the
  file system or to the remote side; between two sections other threads run.

  Each operation of \<open>Service\<close> and \<open>Worker\<close> has its thread here, with the sections where
  the code takes and drops the lock.  Run alone, a thread is the operation it stands for.
\<close>

section \<open>Threads\<close>

datatype ('s, 'e, 'a) thread =
    Finished "'e + 'a"
  | Section "'s \<Rightarrow> ('s, 'e, 'a) thread \<times> 's"

primrec alone :: "('s, 'e, 'a) thread \<Rightarrow> ('s, 'e, 'a) action" where
  "alone (Finished r) = of_result r"
| "alone (Section f) = (\<lambda>s. case (map_prod alone id \<circ> f) s of (m, t) \<Rightarrow> m t)"

definition locked :: "('s, 'e, 'a) action \<Rightarrow> ('a \<Rightarrow> ('s, 'e, 'b) thread) \<Rightarrow> ('s, 'e, 'b) thread" where
  "locked m k = Section (\<lambda>s. case m s of (Inl e, t) \<Rightarrow> (Finished (Inl e), t) | (Inr x, t) \<Rightarrow> (k x, t))"

definition atomic :: "('s, 'e, 'a) action \<Rightarrow> ('s, 'e, 'a) thread" where
  "atomic m = locked m (\<lambda>x. Finished (Inr x))"

primrec followed :: "('s, 'e, 'a) thread \<Rightarrow> ('e + 'a \<Rightarrow> ('s, 'e, 'b) thread) \<Rightarrow> ('s, 'e, 'b) thread" where
  "followed (Finished r) k = k r"
| "followed (Section f) k = Section (map_prod (\<lambda>t. followed t k) id \<circ> f)"

text \<open>\<open>?\<close> on the result of a called operation, and the call whose result is dropped.\<close>

definition calls :: "('s, 'e, 'a) thread \<Rightarrow> ('a \<Rightarrow> ('s, 'e, 'b) thread) \<Rightarrow> ('s, 'e, 'b) thread" where
  "calls t k = followed t (\<lambda>r. case r of Inl e \<Rightarrow> Finished (Inl e) | Inr x \<Rightarrow> k x)"

named_theorems alone_simps "threads run alone"

lemma of_result_cases [alone_simps]: "of_result (Inr x) = ret x" "of_result (Inl e) = throw e"
  by (simp_all add: of_result_def ret_def throw_def)

lemma alone_locked [alone_simps]: "alone (locked m k) = and_then m (\<lambda>x. alone (k x))"
  by (auto simp: fun_eq_iff locked_def run_simps split: prod.splits sum.splits)

lemma alone_atomic [alone_simps]: "alone (atomic m) = m"
  by (auto simp: atomic_def alone_simps fun_eq_iff run_simps split: sum.splits)
    (metis prod.collapse)+

lemma alone_followed: "alone (followed t k) = and_then (attempt (alone t)) (\<lambda>r. alone (k r))"
proof (induction t)
  case (Finished r)
  then show ?case by (simp add: fun_eq_iff run_simps)
next
  case (Section f)
  show ?case
  proof
    fix s
    obtain t u where f: "f s = (t, u)" by force
    have "alone (followed t k) = and_then (attempt (alone t)) (\<lambda>r. alone (k r))"
      by (rule Section [of "f s" t], rule rangeI) (simp add: f)
    then show "alone (followed (Section f) k) s =
        and_then (attempt (alone (Section f))) (\<lambda>r. alone (k r)) s"
      by (simp add: f run_simps)
  qed
qed

lemma alone_calls [alone_simps]: "alone (calls t k) = and_then (alone t) (\<lambda>x. alone (k x))"
  by (auto simp: calls_def alone_followed fun_eq_iff run_simps alone_simps split: sum.splits)

lemma alone_if [alone_simps]: "alone (if b then t else u) = (if b then alone t else alone u)"
  by simp

lemma alone_option [alone_simps]:
  "alone (case x of None \<Rightarrow> t | Some y \<Rightarrow> u y) = (case x of None \<Rightarrow> alone t | Some y \<Rightarrow> alone (u y))"
  by (cases x) simp_all

lemma alone_sum [alone_simps]:
  "alone (case x of Inl a \<Rightarrow> t a | Inr b \<Rightarrow> u b) = (case x of Inl a \<Rightarrow> alone (t a) | Inr b \<Rightarrow> alone (u b))"
  by (cases x) simp_all

section \<open>Local operations\<close>

definition request_refresh_thread :: "env \<Rightarrow> string \<Rightarrow> ('r service, sync_error, unit) thread" where
  "request_refresh_thread ev path =
     locked (get_entry ROOT_PATH) (\<lambda>first.
     calls (case first of Some e \<Rightarrow> Finished (Inr e) | None \<Rightarrow> atomic (expect_entry ROOT_PATH)) (\<lambda>entry.
     atomic (
       and_then (on_db (upsert_operation ev (e_file_id entry) RefreshTree [(''path'', ROOT_PATH)] False False)) (\<lambda>_.
       bump_status_version))))"

definition create_file_thread ::
    "env \<Rightarrow> string \<Rightarrow> string \<Rightarrow> ('r service, sync_error, stored_entry) thread" where
  "create_file_thread ev parent_path name =
     locked (expect_entry parent_path) (\<lambda>parent.
     if e_kind parent \<noteq> Directory then Finished (Inl NotDir) else
     (let path = join_remote_path parent_path name in
      locked (get_entry path) (\<lambda>existing.
      if existing \<noteq> None then Finished (Inl AlreadyExists) else
      locked (on_db (new_id ev ''file'')) (\<lambda>file_id.
      let cache_path = cache_path_for (cache_dir ev) file_id in
      locked (on_disk (create_parent_dir cache_path)) (\<lambda>_.
      locked (on_disk (fs_write cache_path [])) (\<lambda>_.
      locked (
        and_then (on_db (insert_file
          (new_local_row ev file_id path parent_path name File Hydrated (Some cache_path)))) (\<lambda>_.
        and_then (on_db (upsert_operation ev file_id Upload [(''path'', path)] False False)) (\<lambda>_.
        bump_status_version))) (\<lambda>_.
      atomic (expect_entry (join_remote_path parent_path name)))))))))"

definition mkdir_thread ::
    "env \<Rightarrow> string \<Rightarrow> string \<Rightarrow> ('r service, sync_error, stored_entry) thread" where
  "mkdir_thread ev parent_path name =
     locked (expect_entry parent_path) (\<lambda>parent.
     if e_kind parent \<noteq> Directory then Finished (Inl NotDir) else
     (let path = join_remote_path parent_path name in
      locked (get_entry path) (\<lambda>existing.
      if existing \<noteq> None then Finished (Inl AlreadyExists) else
      locked (on_db (new_id ev ''dir'')) (\<lambda>file_id.
      locked (
        and_then (on_db (insert_file
          (new_local_row ev file_id path parent_path name Directory content_state.Placeholder None))) (\<lambda>_.
        and_then (on_db (upsert_operation ev file_id Mkdir [(''path'', path)] False False)) (\<lambda>_.
        bump_status_version))) (\<lambda>_.
      atomic (expect_entry (join_remote_path parent_path name)))))))"

definition apply_local_thread ::
    "env \<Rightarrow> string \<Rightarrow> string \<Rightarrow> ('r service, sync_error, stored_entry) thread" where
  "apply_local_thread ev path staging_path =
     locked (expect_entry path) (\<lambda>entry.
     if e_kind entry \<noteq> File then Finished (Inl IsDir) else
     (let cache_path = (case e_cache_path entry of Some p \<Rightarrow> p
                        | None \<Rightarrow> cache_path_for (cache_dir ev) (e_file_id entry)) in
      locked (on_disk (create_parent_dir cache_path)) (\<lambda>_.
      locked (on_disk (fs_copy staging_path cache_path)) (\<lambda>_.
      locked (on_disk (fs_len cache_path)) (\<lambda>len.
      locked (
        and_then (on_db (update_file (e_file_id entry)
          (\<lambda>e. e\<lparr>e_sync_state := QueuedUpload, e_content_state := Hydrated,
                 e_local_version := e_local_version e + 1, e_mtime := Some (now ev),
                 e_size := of_nat len, e_cache_path := Some cache_path,
                 e_remote_deleted := False, e_last_error := None\<rparr>))) (\<lambda>_.
        and_then (on_db (upsert_operation ev (e_file_id entry) Upload [(''path'', path)] False False)) (\<lambda>_.
        bump_status_version))) (\<lambda>_.
      atomic (expect_entry path)))))))"

text \<open>The last section of \<open>unlink\<close> runs to its end under one lock, the cache file included.\<close>

definition unlink_thread :: "env \<Rightarrow> string \<Rightarrow> bool \<Rightarrow> ('r service, sync_error, unit) thread" where
  "unlink_thread ev path expect_dir =
     locked (expect_entry path) (\<lambda>entry.
     if expect_dir \<and> e_kind entry = File then Finished (Inl NotDir)
     else if \<not> expect_dir \<and> e_kind entry = Directory then Finished (Inl IsDir)
     else
     calls (if e_kind entry = Directory then atomic (list_children path) else Finished (Inr [])) (\<lambda>children.
     if children \<noteq> [] then Finished (Inl DirectoryNotEmpty) else
     atomic (
       and_then
         (if e_remote_version entry = None
          then
            and_then (on_db (delete_ops (\<lambda>q. q_file_id q = e_file_id entry \<and> q_op_status q \<noteq> Done))) (\<lambda>_.
            and_then (on_db (delete_file (e_file_id entry))) (\<lambda>_.
            remove_cached (e_cache_path entry)))
          else
            and_then (on_db (update_file (e_file_id entry)
              (\<lambda>e. e\<lparr>e_sync_state := QueuedDelete, e_last_error := None\<rparr>))) (\<lambda>_.
            and_then (on_db (upsert_operation ev (e_file_id entry) Delete
                        [(''path'', path)] True True)) (\<lambda>_.
            remove_cached (e_cache_path entry)))) (\<lambda>_.
       bump_status_version))))"

definition rename_thread :: "env \<Rightarrow> string \<Rightarrow> string \<Rightarrow> ('r service, sync_error, unit) thread" where
  "rename_thread ev from to =
     locked (expect_entry from) (\<lambda>entry.
     locked (get_entry to) (\<lambda>existing.
     if existing \<noteq> None then Finished (Inl AlreadyExists) else
     calls (case parent_path_of to of None \<Rightarrow> Finished (Inl sync_error.NotFound)
            | Some p \<Rightarrow> Finished (Inr p)) (\<lambda>new_parent.
     locked (expect_entry new_parent) (\<lambda>parent.
     if e_kind parent \<noteq> Directory then Finished (Inl NotDir) else
     atomic (
       and_then (on_db (rename_subtree from to new_parent (name_of to) (now ev))) (\<lambda>_.
       and_then
         (if e_remote_version entry \<noteq> None
          then on_db (upsert_operation ev (e_file_id entry) Rename
                 [(''old_path'', from), (''new_path'', to)] False False)
          else ret ()) (\<lambda>_.
       bump_status_version)))))))"

lemma local_threads_alone:
  "alone (request_refresh_thread ev path) = request_refresh ev path"
  "alone (create_file_thread ev parent name) = create_file ev parent name"
  "alone (mkdir_thread ev parent name) = mkdir ev parent name"
  "alone (apply_local_thread ev path staging) = apply_local_file_from_staging ev path staging"
  "alone (unlink_thread ev path expect_dir) = unlink ev path expect_dir"
  by (simp_all add: request_refresh_thread_def request_refresh_def create_file_thread_def create_file_def
      mkdir_thread_def mkdir_def apply_local_thread_def apply_local_file_from_staging_def
      unlink_thread_def unlink_def alone_simps Let_def and_then_assoc cong: if_cong option.case_cong)

lemma rename_thread_alone: "alone (rename_thread ev from to) = rename ev from to"
  by (cases "parent_path_of to")
    (simp_all add: rename_thread_def rename_def alone_simps Let_def and_then_assoc ok_or_def cong: if_cong)

section \<open>Reading\<close>

definition answered ::
    "yandex_error + 'a \<Rightarrow> ('a \<Rightarrow> ('r service, sync_error, 'b) thread) \<Rightarrow> ('r service, sync_error, 'b) thread" where
  "answered r k = (case r of Inl err \<Rightarrow> Finished (Inl (Remote err)) | Inr x \<Rightarrow> k x)"

definition present :: "'a option \<Rightarrow> ('a \<Rightarrow> ('r service, sync_error, 'b) thread) \<Rightarrow> ('r service, sync_error, 'b) thread" where
  "present x k = (case x of None \<Rightarrow> Finished (Inl sync_error.NotFound) | Some y \<Rightarrow> k y)"

lemma alone_answered [alone_simps]: "alone (answered r k) = and_then (or_remote r) (\<lambda>x. alone (k x))"
  by (cases r) (simp_all add: answered_def or_remote_def alone_simps)

lemma alone_present [alone_simps]:
  "alone (present x k) = and_then (ok_or sync_error.NotFound x) (\<lambda>x. alone (k x))"
  by (cases x) (simp_all add: present_def ok_or_def alone_simps)

definition schedule_stale_thread :: "env \<Rightarrow> stored_entry \<Rightarrow> ('r service, sync_error, unit) thread" where
  "schedule_stale_thread ev entry =
     (if has_unsynced_local_changes entry \<or> e_sync_state entry = Downloading then Finished (Inr ())
      else
        (let last_check = (case e_last_remote_check_at entry of None \<Rightarrow> 0 | Some t \<Rightarrow> t) in
         if now ev - last_check < STALE_REFRESH_INTERVAL_SECS then Finished (Inr ())
         else followed (request_refresh_thread ev (e_path entry)) (\<lambda>_. Finished (Inr ()))))"

definition hydrate_thread ::
    "env \<Rightarrow> 'r client \<Rightarrow> string \<Rightarrow> stored_entry \<Rightarrow> ('r service, sync_error, stored_entry) thread" where
  "hydrate_thread ev cl path entry =
     locked (call (resolve_download_url cl path)) (\<lambda>u.
     answered u (\<lambda>download_url.
     locked (call (download_file cl download_url)) (\<lambda>b.
     answered b (\<lambda>bs.
     (let cache_path = (case e_cache_path entry of Some p \<Rightarrow> p
                        | None \<Rightarrow> cache_path_for (cache_dir ev) (e_file_id entry)) in
      locked (on_disk (create_parent_dir cache_path)) (\<lambda>_.
      locked (on_disk (fs_write cache_path bs)) (\<lambda>_.
      locked (
        and_then (on_db (update_file (e_file_id entry)
          (\<lambda>e. e\<lparr>e_content_state := Hydrated, e_cache_path := Some cache_path,
                 e_size := of_nat (length bs), e_mtime := Some (now ev),
                 e_sync_state := (if e_sync_state e = sync_state.Placeholder then Synced
                                  else e_sync_state e)\<rparr>))) (\<lambda>_.
        bump_status_version)) (\<lambda>_.
      atomic (expect_entry path)))))))))"

definition ensure_hydrated_thread ::
    "env \<Rightarrow> 'r client \<Rightarrow> string \<Rightarrow> ('r service, sync_error, stored_entry) thread" where
  "ensure_hydrated_thread ev cl path =
     locked (expect_entry path) (\<lambda>entry.
     if e_kind entry \<noteq> File then Finished (Inl IsDir) else
     locked (gets (\<lambda>s. case e_cache_path entry of None \<Rightarrow> False
                       | Some p \<Rightarrow> contents (disk s) p \<noteq> None)) (\<lambda>cached.
     if cached then calls (schedule_stale_thread ev entry) (\<lambda>_. Finished (Inr entry))
     else hydrate_thread ev cl path entry))"

definition read_range_thread ::
    "env \<Rightarrow> 'r client \<Rightarrow> string \<Rightarrow> 64 word \<Rightarrow> 32 word \<Rightarrow> ('r service, sync_error, bytes) thread" where
  "read_range_thread ev cl path offset count =
     calls (ensure_hydrated_thread ev cl path) (\<lambda>entry.
     present (e_cache_path entry) (\<lambda>cache_path.
     if count = 0 then Finished (Inr []) else
     locked (on_disk (fs_read cache_path)) (\<lambda>data.
     (let start = unat offset in
      if start \<ge> length data then Finished (Inr [])
      else (let stop_at = min (start + unat count) (length data) in
            Finished (Inr (take (stop_at - start) (drop start data))))))))"

definition load_local_thread ::
    "env \<Rightarrow> 'r client \<Rightarrow> string \<Rightarrow> ('r service, sync_error, bytes) thread" where
  "load_local_thread ev cl path =
     calls (ensure_hydrated_thread ev cl path) (\<lambda>entry.
     present (e_cache_path entry) (\<lambda>cache_path.
     atomic (on_disk (fs_read cache_path))))"

lemma schedule_stale_alone: "alone (schedule_stale_thread ev entry) = maybe_schedule_stale_refresh ev entry"
  by (simp add: schedule_stale_thread_def maybe_schedule_stale_refresh_def Let_def alone_simps alone_followed
      local_threads_alone)

lemma ensure_hydrated_alone: "alone (ensure_hydrated_thread ev cl path) = ensure_hydrated ev cl path"
  by (simp add: ensure_hydrated_thread_def ensure_hydrated_def hydrate_thread_def hydrate_def Let_def
      alone_simps schedule_stale_alone and_then_assoc cong: if_cong)

lemma reading_threads_alone:
  "alone (read_range_thread ev cl path offset count) = read_range ev cl path offset count"
  "alone (load_local_thread ev cl path) = load_local_bytes ev cl path"
  by (simp_all add: read_range_thread_def read_range_def load_local_thread_def load_local_bytes_def Let_def
      alone_simps ensure_hydrated_alone cong: if_cong)

section \<open>The worker\<close>

definition lease_thread :: "env \<Rightarrow> ('r service, sync_error, queued_operation option) thread" where
  "lease_thread ev =
     locked (on_db (new_id ev ''worker'')) (\<lambda>worker_id.
     atomic (
       and_then (on_db (gets (first_op (leasable ev)))) (\<lambda>found.
       case map_option row_to_job found of
         None \<Rightarrow> ret None
       | Some job \<Rightarrow>
           and_then (on_db (update_ops (\<lambda>q. q_id q = j_id job)
             (\<lambda>q. q\<lparr>q_op_status := Leased, q_worker_id := Some worker_id,
                    q_lease_expires_at := Some (now ev + LEASE_TIMEOUT_SECS),
                    q_updated_at := now ev\<rparr>))) (\<lambda>_.
           ret (Some (job\<lparr>j_op_status := Leased\<rparr>))))))"

lemma lease_alone: "alone (lease_thread ev) = lease_next_operation ev"
  by (simp add: lease_thread_def lease_next_operation_def alone_simps)

definition upload_transfer_thread ::
    "env \<Rightarrow> 'r client \<Rightarrow> queued_operation \<Rightarrow> stored_entry \<Rightarrow> string \<Rightarrow> ('r service, sync_error, unit) thread" where
  "upload_transfer_thread ev cl job entry cache_path =
     locked (call (resolve_upload_url cl (e_path entry) True)) (\<lambda>u.
     case u of Inl err \<Rightarrow> atomic (retry_or_fail ev job err) | Inr href \<Rightarrow>
     locked (gets (\<lambda>s. fs_open cache_path (disk s))) (\<lambda>body.
     locked (call (upload_file cl href body)) (\<lambda>done.
     case done of Inl err \<Rightarrow> atomic (retry_or_fail ev job err) | Inr _ \<Rightarrow>
     locked (call (fetch_resource_metadata cl (e_path entry))) (\<lambda>meta.
     case meta of Inl err \<Rightarrow> atomic (retry_or_fail ev job err) | Inr fresh \<Rightarrow>
     atomic (upload_commit ev job entry fresh)))))"

definition upload_checked_thread ::
    "env \<Rightarrow> 'r client \<Rightarrow> queued_operation \<Rightarrow> stored_entry \<Rightarrow> string \<Rightarrow> resource_entry option
     \<Rightarrow> ('r service, sync_error, unit) thread" where
  "upload_checked_thread ev cl job entry cache_path remote_meta =
     (let current_remote_version = Option.bind remote_meta r_remote_version in
      if e_remote_version entry \<noteq> current_remote_version
      then locked (handle_conflict ev entry current_remote_version remote_meta) (\<lambda>_.
           atomic (finish_job ev (j_id job) queue_op_status.Conflict (Some ''remote version conflict'')))
      else upload_transfer_thread ev cl job entry cache_path)"

definition upload_thread :: "env \<Rightarrow> 'r client \<Rightarrow> queued_operation \<Rightarrow> ('r service, sync_error, unit) thread" where
  "upload_thread ev cl job =
     locked (and_then (entry_by_file_id (j_file_id job)) (ok_or sync_error.NotFound)) (\<lambda>entry.
     if e_sync_state entry = sync_state.Conflict
     then atomic (finish_job ev (j_id job) queue_op_status.Conflict (Some ''file is conflicted''))
     else
     present (e_cache_path entry) (\<lambda>cache_path.
     locked (set_file_state (e_file_id entry) Uploading None) (\<lambda>_.
     locked (call (fetch_resource_metadata cl (e_path entry))) (\<lambda>meta.
     case meta of
       Inr resource \<Rightarrow> upload_checked_thread ev cl job entry cache_path (Some resource)
     | Inl err \<Rightarrow>
         if err = yandex_error.NotFound then upload_checked_thread ev cl job entry cache_path None
         else atomic (retry_or_fail ev job err)))))"

lemma upload_alone: "alone (upload_thread ev cl job) = process_upload ev cl job"
  by (simp add: upload_thread_def process_upload_def upload_probe_def upload_checked_thread_def upload_checked_def
      upload_transfer_thread_def upload_transfer_def Let_def alone_simps cong: if_cong sum.case_cong)

text \<open>The other jobs.  The last section of each runs under one lock.\<close>

definition delete_thread :: "env \<Rightarrow> 'r client \<Rightarrow> queued_operation \<Rightarrow> ('r service, sync_error, unit) thread" where
  "delete_thread ev cl job =
     (let payload = parse_payload (j_payload job);
          path = (case map_of payload ''path'' of Some p \<Rightarrow> p | None \<Rightarrow> ROOT_PATH) in
      locked (call (delete_resource cl path True)) (\<lambda>r.
      case failure_unless_gone r of
        Some err \<Rightarrow> atomic (retry_or_fail ev job err)
      | None \<Rightarrow> atomic (
          and_then (on_db (delete_ops (\<lambda>q. q_id q = j_id job))) (\<lambda>_.
          and_then (on_db (delete_file (j_file_id job))) (\<lambda>_.
          bump_status_version)))))"

definition remote_mkdir_thread ::
    "env \<Rightarrow> 'r client \<Rightarrow> queued_operation \<Rightarrow> ('r service, sync_error, unit) thread" where
  "remote_mkdir_thread ev cl job =
     locked (and_then (entry_by_file_id (j_file_id job)) (ok_or sync_error.NotFound)) (\<lambda>entry.
     locked (call (create_directory cl (e_path entry))) (\<lambda>r.
     case failure_unless_exists r of
       Some err \<Rightarrow> atomic (retry_or_fail ev job err)
     | None \<Rightarrow>
     locked (call (fetch_resource_metadata cl (e_path entry))) (\<lambda>meta.
     answered meta (\<lambda>fresh.
     atomic (
       and_then (on_db (commit_remote_version (e_file_id entry) fresh)) (\<lambda>_.
       and_then (on_db (mark_job_done_locked ev (j_id job))) (\<lambda>_.
       bump_status_version)))))))"

definition remote_rename_thread ::
    "env \<Rightarrow> 'r client \<Rightarrow> queued_operation \<Rightarrow> ('r service, sync_error, unit) thread" where
  "remote_rename_thread ev cl job =
     (let payload = parse_payload (j_payload job) in
      present (map_of payload ''old_path'') (\<lambda>old_path.
      present (map_of payload ''new_path'') (\<lambda>new_path.
      locked (call (fetch_resource_metadata cl new_path)) (\<lambda>probe.
      locked (if is_ok probe then call (delete_resource cl old_path True)
              else call (move_resource cl old_path new_path True)) (\<lambda>r.
      case failure_unless_gone r of
        Some err \<Rightarrow> atomic (retry_or_fail ev job err)
      | None \<Rightarrow>
      locked (call (fetch_resource_metadata cl new_path)) (\<lambda>meta.
      answered (optional_remote meta) (\<lambda>fresh.
      atomic (
        and_then (case fresh of
                    Some f \<Rightarrow> on_db (commit_remote_version (j_file_id job) f)
                  | None \<Rightarrow> ret ()) (\<lambda>_.
        and_then (on_db (mark_job_done_locked ev (j_id job))) (\<lambda>_.
        bump_status_version))))))))))"

definition download_thread ::
    "env \<Rightarrow> 'r client \<Rightarrow> queued_operation \<Rightarrow> ('r service, sync_error, unit) thread" where
  "download_thread ev cl job =
     locked (and_then (entry_by_file_id (j_file_id job)) (ok_or sync_error.NotFound)) (\<lambda>entry.
     locked (set_file_state (e_file_id entry) Downloading None) (\<lambda>_.
     locked (call (resolve_download_url cl (e_path entry))) (\<lambda>u.
     case u of Inl err \<Rightarrow> atomic (retry_or_fail ev job err) | Inr download_url \<Rightarrow>
     locked (call (download_file cl download_url)) (\<lambda>b.
     case b of Inl err \<Rightarrow> atomic (retry_or_fail ev job err) | Inr bs \<Rightarrow>
     (let cache_path = (case e_cache_path entry of Some p \<Rightarrow> p
                        | None \<Rightarrow> cache_path_for (cache_dir ev) (e_file_id entry)) in
      locked (on_disk (create_parent_dir cache_path)) (\<lambda>_.
      locked (on_disk (fs_write cache_path bs)) (\<lambda>_.
      atomic (
        and_then (on_db (update_file (e_file_id entry)
          (\<lambda>e. e\<lparr>e_content_state := Hydrated, e_cache_path := Some cache_path,
                 e_size := of_nat (length bs), e_mtime := Some (now ev), e_sync_state := Synced,
                 e_last_error := None, e_last_remote_check_at := Some (now ev)\<rparr>))) (\<lambda>_.
        and_then (on_db (mark_job_done_locked ev (j_id job))) (\<lambda>_.
        bump_status_version))))))))))"

lemma job_threads_alone:
  "alone (delete_thread ev cl job) = process_delete ev cl job"
  "alone (remote_mkdir_thread ev cl job) = process_mkdir ev cl job"
  "alone (remote_rename_thread ev cl job) = process_rename ev cl job"
  "alone (download_thread ev cl job) = process_download ev cl job"
  by (simp_all add: delete_thread_def process_delete_def remote_mkdir_thread_def process_mkdir_def
      remote_rename_thread_def process_rename_def download_thread_def process_download_def
      download_commit_def Let_def alone_simps cong: option.case_cong sum.case_cong)

text \<open>
  Refresh: every listing is a section of its own; the snapshot of the local rows is taken
  under one lock and the reconciliation runs under the next.
\<close>

fun children_thread ::
    "nat \<Rightarrow> 'r client \<Rightarrow> string \<Rightarrow> resource_entry list
     \<Rightarrow> ('r service, sync_error, resource_entry list option) thread"
and each_thread ::
    "nat \<Rightarrow> 'r client \<Rightarrow> resource_entry list \<Rightarrow> resource_entry list
     \<Rightarrow> ('r service, sync_error, resource_entry list option) thread" where
  "children_thread 0 cl path all = Finished (Inr None)"
| "children_thread (Suc fuel) cl path all =
     locked (call (list_directory cl path)) (\<lambda>r.
     answered r (\<lambda>children. each_thread fuel cl children all))"
| "each_thread fuel cl [] all = Finished (Inr (Some all))"
| "each_thread fuel cl (child # children) all =
     (if r_kind child = resource_kind.Directory
      then calls (children_thread fuel cl (r_path child) (all @ [child])) (\<lambda>r.
           case r of None \<Rightarrow> Finished (Inr None) | Some all' \<Rightarrow> each_thread fuel cl children all')
      else each_thread fuel cl children (all @ [child]))"

definition collect_thread ::
    "nat \<Rightarrow> 'r client \<Rightarrow> string \<Rightarrow> ('r service, sync_error, resource_entry list option) thread" where
  "collect_thread fuel cl root =
     locked (call (fetch_resource_metadata cl root)) (\<lambda>r.
     answered r (\<lambda>root_meta.
     if r_kind root_meta = resource_kind.Directory
     then children_thread fuel cl root [root_meta]
     else Finished (Inr (Some [root_meta]))))"

definition reconcile_thread ::
    "env \<Rightarrow> resource_entry list \<Rightarrow> ('r service, sync_error, unit) thread" where
  "reconcile_thread ev remote_entries =
     (let values = hash_order ev (remote_map remote_entries) in
      locked (on_db (gets files)) (\<lambda>local_entries.
      atomic (
        and_then (transaction (
          and_then (on_db (foreach values (reconcile_remote_entry ev local_entries))) (\<lambda>_.
          foreach local_entries (reconcile_missing ev (r_path ` set values))))) (\<lambda>_.
        bump_status_version))))"

definition refresh_thread ::
    "nat \<Rightarrow> env \<Rightarrow> 'r client \<Rightarrow> queued_operation \<Rightarrow> ('r service, sync_error, unit option) thread" where
  "refresh_thread fuel ev cl job =
     calls (collect_thread fuel cl ROOT_PATH) (\<lambda>collected.
     case collected of
       None \<Rightarrow> Finished (Inr None)
     | Some remote_entries \<Rightarrow>
         calls (reconcile_thread ev remote_entries) (\<lambda>_.
         atomic (
           and_then (on_db (mark_job_done_locked ev (j_id job))) (\<lambda>_.
           and_then bump_status_version (\<lambda>_. ret (Some ()))))))"

lemma collect_threads_alone:
  "alone (children_thread fuel cl path all) = collect_remote_children fuel cl path all"
  "alone (each_thread fuel cl children all) = collect_each fuel cl children all"
  by (induction fuel cl path all and fuel cl children all rule: children_thread_each_thread.induct)
    (simp_all add: alone_simps cong: option.case_cong)

lemma refresh_thread_alone:
  "alone (refresh_thread fuel ev cl job) = process_refresh_tree fuel ev cl job"
  by (simp add: refresh_thread_def process_refresh_tree_def collect_thread_def collect_remote_tree_def
      reconcile_thread_def reconcile_remote_tree_def collect_threads_alone Let_def alone_simps
      cong: option.case_cong if_cong)

definition returning ::
    "('r service, sync_error, unit) thread \<Rightarrow> ('r service, sync_error, unit option) thread" where
  "returning t = calls t (\<lambda>_. Finished (Inr (Some ())))"

definition operation_thread ::
    "nat \<Rightarrow> env \<Rightarrow> 'r client \<Rightarrow> queued_operation \<Rightarrow> ('r service, sync_error, unit option) thread" where
  "operation_thread fuel ev cl job =
     (case j_op_type job of
        Upload \<Rightarrow> returning (upload_thread ev cl job)
      | Delete \<Rightarrow> returning (delete_thread ev cl job)
      | Mkdir \<Rightarrow> returning (remote_mkdir_thread ev cl job)
      | Rename \<Rightarrow> returning (remote_rename_thread ev cl job)
      | Move \<Rightarrow> returning (remote_rename_thread ev cl job)
      | RefreshTree \<Rightarrow> refresh_thread fuel ev cl job
      | RefreshDir \<Rightarrow> refresh_thread fuel ev cl job
      | Download \<Rightarrow> returning (download_thread ev cl job)
      | ReconcileRemoteDelete \<Rightarrow> returning (delete_thread ev cl job))"

lemma operation_thread_alone:
  "alone (operation_thread fuel ev cl job) = process_operation fuel ev cl job"
  by (cases "j_op_type job")
    (simp_all add: operation_thread_def process_operation_def returning_def returns_def upload_alone
      job_threads_alone refresh_thread_alone alone_simps)

definition worker_thread ::
    "nat \<Rightarrow> env \<Rightarrow> 'r client \<Rightarrow> ('r service, sync_error, bool) thread" where
  "worker_thread fuel ev cl =
     locked (gets stop) (\<lambda>stopped.
     if stopped then Finished (Inr True) else
     followed (atomic (recover_expired_leases ev)) (\<lambda>_.
     followed (lease_thread ev) (\<lambda>leased.
     case leased of
       Inr (Some job) \<Rightarrow>
         followed (operation_thread fuel ev cl job) (\<lambda>r. Finished (Inr (r \<noteq> Inr None)))
     | _ \<Rightarrow> Finished (Inr True))))"

definition refresh_loop_thread :: "env \<Rightarrow> ('r service, sync_error, unit) thread" where
  "refresh_loop_thread ev =
     locked (gets stop) (\<lambda>stopped.
     if stopped then Finished (Inr ())
     else followed (request_refresh_thread ev ROOT_PATH) (\<lambda>_. Finished (Inr ())))"

lemma loop_threads_alone:
  "alone (worker_thread fuel ev cl) = worker_round fuel ev cl"
  "alone (refresh_loop_thread ev) = refresh_round ev"
  by (simp_all add: worker_thread_def worker_round_def refresh_loop_thread_def refresh_round_def
      alone_followed alone_simps lease_alone operation_thread_alone local_threads_alone
      cong: option.case_cong sum.case_cong if_cong)

end
