(* ===== verification/Interleaving.thy ===== *)
theory Interleaving
  imports Threads Daemon "HOL-Library.Multiset"
begin

text \<open>
  The service with its threads: any number of calls in progress over one shared state, one
  section of one of them at a time.  A call starts at any moment, the process may be
  restarted between any two sections (what was in progress is lost), and the remote side
  and the local files change between any two sections.

  \<open>interleaved\<close> are the states this system reaches.  They include the states of
  \<open>Daemon\<close>, where calls do not overlap, and the integrity of the tables and the shape of
  the tree hold in all of them.
\<close>

section \<open>Threads whose sections keep a predicate\<close>

inductive safe :: "('s \<Rightarrow> bool) \<Rightarrow> ('s, 'e, 'a) thread \<Rightarrow> bool" for P where
  safe_finished: "safe P (Finished r)"
| safe_section: "(\<And>s. P s \<Longrightarrow> P (snd (f s))) \<Longrightarrow> (\<And>s. P s \<Longrightarrow> safe P (fst (f s))) \<Longrightarrow> safe P (Section f)"

inductive_cases safe_sectionE: "safe P (Section f)"

text \<open>What a thread returns, in any run.\<close>

inductive gives :: "('a \<Rightarrow> bool) \<Rightarrow> ('s, 'e, 'a) thread \<Rightarrow> bool" for Q where
  gives_finished: "(\<And>x. r = Inr x \<Longrightarrow> Q x) \<Longrightarrow> gives Q (Finished r)"
| gives_section: "(\<And>s. gives Q (fst (f s))) \<Longrightarrow> gives Q (Section f)"

named_theorems safe_rules "rules for threads whose sections keep a predicate"
named_theorems gives_rules "rules for what a thread returns"

lemma safe_locked_from:
  assumes "keeps P m" and "\<And>s x t. P s \<Longrightarrow> m s = (Inr x, t) \<Longrightarrow> safe P (k x)"
  shows "safe P (locked m k)"
  unfolding locked_def
proof (rule safe_section)
  fix s assume s: "P s"
  obtain r t where m: "m s = (r, t)" by force
  have t: "P t" using keeps_result [OF assms(1) s m] .
  show "P (snd (case m s of (Inl e, t) \<Rightarrow> (Finished (Inl e), t) | (Inr x, t) \<Rightarrow> (k x, t)))"
    using t by (cases r) (simp_all add: m)
  show "safe P (fst (case m s of (Inl e, t) \<Rightarrow> (Finished (Inl e), t) | (Inr x, t) \<Rightarrow> (k x, t)))"
    using assms(2) [OF s] by (cases r) (simp_all add: m safe_finished)
qed

lemma safe_locked [safe_rules]: "keeps P m \<Longrightarrow> (\<And>x. safe P (k x)) \<Longrightarrow> safe P (locked m k)"
  by (rule safe_locked_from)

lemma safe_done [safe_rules]: "safe P (Finished r)"
  by (rule safe_finished)

lemma safe_atomic [safe_rules]: "keeps P m \<Longrightarrow> safe P (atomic m)"
  unfolding atomic_def by (intro safe_rules)

lemma safe_followed [safe_rules]: "safe P t \<Longrightarrow> (\<And>r. safe P (k r)) \<Longrightarrow> safe P (followed t k)"
  by (induction rule: safe.induct) (auto intro: safe_section)

lemma safe_followed_gives:
  "safe P t \<Longrightarrow> gives Q t \<Longrightarrow> (\<And>e. safe P (k (Inl e))) \<Longrightarrow> (\<And>x. Q x \<Longrightarrow> safe P (k (Inr x))) \<Longrightarrow>
   safe P (followed t k)"
proof (induction rule: safe.induct)
  case (safe_finished r)
  then show ?case by (cases r) (auto elim: gives.cases)
next
  case (safe_section f)
  from safe_section.prems(1) have "gives Q (fst (f s))" for s by (rule gives.cases) simp_all
  with safe_section show ?case by (auto intro!: safe.safe_section)
qed

lemma safe_calls [safe_rules]: "safe P t \<Longrightarrow> (\<And>x. safe P (k x)) \<Longrightarrow> safe P (calls t k)"
  unfolding calls_def by (rule safe_followed) (auto intro: safe_finished split: sum.split)

lemma safe_calls_gives:
  "safe P t \<Longrightarrow> gives Q t \<Longrightarrow> (\<And>x. Q x \<Longrightarrow> safe P (k x)) \<Longrightarrow> safe P (calls t k)"
  unfolding calls_def by (rule safe_followed_gives [where Q = Q]) (simp_all add: safe_finished)

lemma safe_branches [safe_rules]:
  "(b \<Longrightarrow> safe P t) \<Longrightarrow> (\<not> b \<Longrightarrow> safe P u) \<Longrightarrow> safe P (if b then t else u)"
  "(x = None \<Longrightarrow> safe P v) \<Longrightarrow> (\<And>y. x = Some y \<Longrightarrow> safe P (w y)) \<Longrightarrow>
   safe P (case x of None \<Rightarrow> v | Some y \<Rightarrow> w y)"
  "(\<And>a. z = Inl a \<Longrightarrow> safe P (f a)) \<Longrightarrow> (\<And>c. z = Inr c \<Longrightarrow> safe P (g c)) \<Longrightarrow>
   safe P (case z of Inl a \<Rightarrow> f a | Inr c \<Rightarrow> g c)"
  by (simp_all split: option.split sum.split)

lemma safe_answered [safe_rules]: "(\<And>x. r = Inr x \<Longrightarrow> safe P (k x)) \<Longrightarrow> safe P (answered r k)"
  by (cases r) (simp_all add: answered_def safe_finished)

lemma safe_present [safe_rules]: "(\<And>y. x = Some y \<Longrightarrow> safe P (k y)) \<Longrightarrow> safe P (present x k)"
  by (cases x) (simp_all add: present_def safe_finished)

lemma gives_locked: "(\<And>s x t. m s = (Inr x, t) \<Longrightarrow> gives Q (k x)) \<Longrightarrow> gives Q (locked m k)"
  unfolding locked_def by (rule gives_section) (auto intro: gives_finished split: prod.split sum.split)

lemma gives_followed:
  "gives R t \<Longrightarrow> (\<And>e. gives Q (k (Inl e))) \<Longrightarrow> (\<And>x. R x \<Longrightarrow> gives Q (k (Inr x))) \<Longrightarrow> gives Q (followed t k)"
proof (induction rule: gives.induct)
  case (gives_finished r)
  then show ?case by (cases r) simp_all
qed (auto intro: gives_section)

lemma gives_calls: "gives R t \<Longrightarrow> (\<And>x. R x \<Longrightarrow> gives Q (k x)) \<Longrightarrow> gives Q (calls t k)"
  unfolding calls_def by (rule gives_followed [where R = R]) (auto intro!: gives_finished)

section \<open>The threads of the service\<close>

text \<open>What a listing collects comes from the answers of the remote side.\<close>

abbreviation all_good :: "(resource_entry \<Rightarrow> bool) \<Rightarrow> resource_entry list option \<Rightarrow> bool" where
  "all_good good found \<equiv> \<forall>rs. found = Some rs \<longrightarrow> list_all good rs"

lemma gives_answered:
  "(\<And>x. r = Inr x \<Longrightarrow> gives Q (k x)) \<Longrightarrow> gives Q (answered r k)"
  by (cases r) (auto simp: answered_def intro: gives_finished)

lemma call_answer: "call m s = (Inr r, t) \<Longrightarrow> r = fst (m (remote s))"
  by (simp add: call_def)

lemma gives_children:
  fixes cl :: "'r client"
  shows "answers_good good cl \<Longrightarrow> list_all good all \<Longrightarrow>
      gives (all_good good) (children_thread fuel cl path all)"
    and "answers_good good cl \<Longrightarrow> list_all good all \<Longrightarrow> list_all good children \<Longrightarrow>
      gives (all_good good) (each_thread fuel cl children all)"
proof (induction fuel cl path all and fuel cl children all rule: children_thread_each_thread.induct)
  case (2 fuel cl path all)
  have "gives (all_good good) (each_thread fuel cl children all)"
    if "call (list_directory cl path) s = (Inr (Inr children), t)" for s t children
  proof -
    have "list_all good children"
      using answers_goodD(2) [OF 2(2)] call_answer [OF that] by (metis list_all_iff)
    with 2 show ?thesis by blast
  qed
  then show ?case by (auto intro!: gives_locked gives_answered)
next
  case (4 fuel cl child children all)
  show ?case
  proof (cases "r_kind child = resource_kind.Directory")
    case True
    have "gives (all_good good) (case r of None \<Rightarrow> Finished (Inr None)
        | Some all' \<Rightarrow> each_thread fuel cl children all')" if "all_good good r" for r
      using that 4 True by (cases r) (auto intro: gives_finished)
    with 4 True show ?thesis by (auto intro!: gives_calls)
  next
    case False
    with 4 show ?thesis by simp
  qed
qed (auto intro: gives_finished)

lemma gives_collect:
  assumes cl: "answers_good good cl"
  shows "gives (all_good good) (collect_thread fuel cl root)"
proof -
  have "gives (all_good good) (if r_kind m = resource_kind.Directory
      then children_thread fuel cl root [m] else Finished (Inr (Some [m])))"
    if "call (fetch_resource_metadata cl root) s = (Inr (Inr m), t)" for s t m
  proof -
    have "good m" using answers_goodD(1) [OF cl] call_answer [OF that] by metis
    then show ?thesis by (auto intro: gives_children [OF cl] gives_finished)
  qed
  then show ?thesis unfolding collect_thread_def by (auto intro!: gives_locked gives_answered)
qed

context tolerant_invariant
begin

lemma safe_with_entry:
  assumes "\<And>e. CHR ''/'' \<in> set p \<Longrightarrow> e_path e = p \<Longrightarrow>
    canonical_cache dir (e_file_id e) (e_cache_path e) \<Longrightarrow> safe P (k e)"
  shows "safe P (locked (expect_entry p) k)"
proof (rule safe_locked_from)
  fix s :: "'a service" and e t
  assume "P s" and "expect_entry p s = (Inr e, t)"
  then have "e \<in> set (files (sdb s))" "e_path e = p" "I (sdb s)"
    by (auto simp: on_tables_def dest!: expect_entry_Inr)
  then show "safe P (k e)" using assms cache slash by blast
qed (rule keeps_rules)

lemma safe_with_file_id:
  assumes "\<And>e. e_file_id e = i \<Longrightarrow> canonical_cache dir i (e_cache_path e) \<Longrightarrow> safe P (k e)"
  shows "safe P (locked (and_then (entry_by_file_id i) (ok_or err)) k)"
proof (rule safe_locked_from)
  fix s :: "'a service" and e t
  assume "P s" and "and_then (entry_by_file_id i) (ok_or err) s = (Inr e, t)"
  then have "e \<in> set (files (sdb s))" "e_file_id e = i" "I (sdb s)"
    by (auto simp: on_tables_def dest!: expect_file_id_Inr)
  then show "safe P (k e)" using assms cache by blast
qed (intro keeps_rules)

lemma safe_request_refresh: "safe P (request_refresh_thread ev path)"
  unfolding request_refresh_thread_def
  by (intro safe_rules keeps_rules keep_upsert_operation)

lemma safe_create_file:
  assumes "cache_dir ev = dir" and "valid_name name"
  shows "safe P (create_file_thread ev parent name)"
  unfolding create_file_thread_def Let_def
  by (rule safe_with_entry)
     (intro safe_rules keeps_rules keep_insert keep_upsert_operation keep_new_id good_new_local_row;
      simp add: assms canonical_cache_def)

lemma safe_mkdir:
  assumes "valid_name name"
  shows "safe P (mkdir_thread ev parent name)"
  unfolding mkdir_thread_def Let_def
  by (rule safe_with_entry)
     (intro safe_rules keeps_rules keep_insert keep_upsert_operation keep_new_id good_new_local_row;
      simp add: assms canonical_cache_def)

lemma safe_apply_local:
  assumes "cache_dir ev = dir"
  shows "safe P (apply_local_thread ev path staging)"
  unfolding apply_local_thread_def Let_def assms
  by (rule safe_with_entry)
     (intro safe_rules keeps_rules keep_update keep_upsert_operation;
      simp add: assms canonical_or_own quiet_update_def)

lemma safe_unlink: "safe P (unlink_thread ev path expect_dir)"
  unfolding unlink_thread_def
  by (rule safe_with_entry)
     (intro safe_rules keeps_rules keep_update keep_upsert_operation keep_delete_ops keep_delete_file;
      simp add: quiet_update_def)

lemma safe_rename: "safe P (rename_thread ev from to)"
proof (cases "parent_path_of to")
  case None
  then show ?thesis
    unfolding rename_thread_def by (simp add: calls_def cong: if_cong) (intro safe_rules keeps_rules)
next
  case (Some p)
  then show ?thesis
    unfolding rename_thread_def
    by (simp add: calls_def cong: if_cong)
      (intro safe_rules keeps_rules keep_rename_subtree keep_upsert_operation)
qed

lemma safe_schedule_stale: "safe P (schedule_stale_thread ev entry)"
  unfolding schedule_stale_thread_def Let_def by (intro safe_rules safe_request_refresh)

lemma safe_hydrate:
  assumes "cache_dir ev = dir" and "canonical_cache dir (e_file_id entry) (e_cache_path entry)"
  shows "safe P (hydrate_thread ev cl path entry)"
  unfolding hydrate_thread_def Let_def assms(1)
  by (intro safe_rules keeps_rules keep_update)
    (simp add: canonical_or_own [OF assms(2)] quiet_update_def)

lemma safe_ensure_hydrated:
  assumes "cache_dir ev = dir"
  shows "safe P (ensure_hydrated_thread ev cl path)"
  unfolding ensure_hydrated_thread_def
  by (rule safe_with_entry)
    (intro safe_rules keeps_rules safe_schedule_stale safe_hydrate assms; assumption)

lemma safe_reads:
  assumes "cache_dir ev = dir"
  shows "safe P (read_range_thread ev cl path offset n)" and "safe P (load_local_thread ev cl path)"
  unfolding read_range_thread_def load_local_thread_def Let_def
  by (intro safe_rules keeps_rules safe_ensure_hydrated assms)+

text \<open>The jobs of the worker.\<close>

lemma safe_lease: "safe P (lease_thread ev)"
  unfolding lease_thread_def
  by (intro safe_rules keeps_rules keep_update_ops keep_new_id) (simp add: op_update_def)

lemma safe_upload_checked:
  assumes "cache_dir ev = dir" and "\<And>r. meta = Some r \<Longrightarrow> good_res r"
  shows "safe P (upload_checked_thread ev cl job entry cache_path meta)"
  unfolding upload_checked_thread_def upload_transfer_thread_def handle_conflict_def finish_job_def
    upload_commit_def Let_def
  by (intro safe_rules keeps_rules keep_retry_or_fail keep_update keep_mark_done keep_finish
      keep_transaction keep_apply_conflict assms)
     (simp_all add: quiet_update_def)

lemma good_answer:
  "answers_good good_res cl \<Longrightarrow> call (fetch_resource_metadata cl p) s = (Inr (Inr r), t) \<Longrightarrow> good_res r"
  using answers_goodD(1) call_answer by metis

lemma safe_upload:
  fixes cl :: "'r client"
  assumes dir: "cache_dir ev = dir" and cl: "answers_good good_res cl"
  shows "safe P (upload_thread ev cl job)"
proof -
  have answered: "safe P (case meta of
       Inr resource \<Rightarrow> upload_checked_thread ev cl job entry c (Some resource)
     | Inl err \<Rightarrow>
         if err = yandex_error.NotFound then upload_checked_thread ev cl job entry c None
         else atomic (retry_or_fail ev job err))"
    if "call (fetch_resource_metadata cl (e_path entry)) s = (Inr meta, t)" for entry c meta s t
    using that good_answer [OF cl]
    by (intro safe_rules safe_upload_checked dir keep_retry_or_fail) auto
  show ?thesis
    unfolding upload_thread_def finish_job_def
    by (rule safe_locked, (intro keeps_rules)[1], rule safe_branches(1),
        (intro safe_rules keeps_rules keep_finish)[1], rule safe_present, rule safe_locked,
        rule keep_set_file_state, simp, rule safe_locked_from, rule keeps_tables_call, rule answered)
qed

lemma safe_jobs:
  "safe P (delete_thread ev cl job)"
  "safe P (remote_mkdir_thread ev cl job)"
  "safe P (remote_rename_thread ev cl job)"
  unfolding delete_thread_def remote_mkdir_thread_def remote_rename_thread_def Let_def
  by (intro safe_rules keeps_rules keep_retry_or_fail keep_commit_version keep_mark_done
      keep_delete_ops keep_delete_file)+

lemma safe_download:
  assumes "cache_dir ev = dir"
  shows "safe P (download_thread ev cl job)"
  unfolding download_thread_def Let_def assms
  by (rule safe_with_file_id)
     (intro safe_rules keeps_rules keep_retry_or_fail keep_update keep_mark_done keep_set_file_state;
      simp add: assms canonical_or_own quiet_update_def)

lemma safe_collect:
  shows "safe P (children_thread fuel cl path all)"
    and "safe P (each_thread fuel cl children all)"
proof (induction fuel cl path all and fuel cl children all rule: children_thread_each_thread.induct)
  case (4 fuel cl child children all)
  then show ?case by (auto intro!: safe_rules split: option.splits)
qed (auto intro!: safe_rules keeps_rules)

lemma safe_reconcile:
  assumes ev: "good_env dir ev" and res: "list_all good_res entries"
  shows "safe P (reconcile_thread ev entries)"
  unfolding reconcile_thread_def Let_def
  using ev answered_values [OF ev, of entries] res
  by (intro safe_rules keeps_rules keep_reconcile_locked) (simp_all add: good_env_def list_all_iff)

lemma safe_refresh:
  assumes ev: "good_env dir ev" and cl: "answers_good good_res cl"
  shows "safe P (refresh_thread fuel ev cl job)"
  unfolding refresh_thread_def
proof (rule safe_calls_gives [OF _ gives_collect [OF cl]])
  show "safe P (collect_thread fuel cl ROOT_PATH)"
    unfolding collect_thread_def by (intro safe_rules keeps_rules safe_collect)
  show "safe P (case collected of None \<Rightarrow> Finished (Inr None)
      | Some remote_entries \<Rightarrow>
          calls (reconcile_thread ev remote_entries) (\<lambda>_.
          atomic (
            and_then (on_db (mark_job_done_locked ev (j_id job))) (\<lambda>_.
            and_then bump_status_version (\<lambda>_. ret (Some ()))))))"
    if "all_good good_res collected" for collected
    using that by (intro safe_rules keeps_rules safe_reconcile ev keep_mark_done) blast
qed

lemma safe_operation:
  assumes ev: "good_env dir ev" and cl: "answers_good good_res cl"
  shows "safe P (operation_thread fuel ev cl job)"
proof -
  have "cache_dir ev = dir" using ev by (simp add: good_env_def)
  then show ?thesis
    unfolding operation_thread_def returning_def
    by (cases "j_op_type job")
      (simp_all add: safe_rules safe_upload [OF _ cl] safe_jobs safe_download safe_refresh [OF ev cl])
qed

lemma safe_loops:
  "good_env dir ev \<Longrightarrow> answers_good good_res cl \<Longrightarrow> safe P (worker_thread fuel ev cl)"
  "safe P (refresh_loop_thread ev)"
  unfolding worker_thread_def refresh_loop_thread_def
  by (intro safe_rules keeps_rules keep_recover safe_lease safe_operation safe_request_refresh; assumption)+

end

section \<open>Threads over one state\<close>

type_synonym 'r pool = "'r service \<times> ('r service, sync_error, unit) thread multiset"

text \<open>A call in progress, whatever it returns.\<close>

definition silent :: "('s, 'e, 'a) thread \<Rightarrow> ('s, 'e, unit) thread" where
  "silent t = followed t (\<lambda>_. Finished (Inr ()))"

inductive call_thread ::
    "string \<Rightarrow> (resource_entry \<Rightarrow> bool) \<Rightarrow> ('r service, sync_error, unit) thread \<Rightarrow> bool"
  for dir good where
  refresh: "good_env dir ev \<Longrightarrow> call_thread dir good (silent (request_refresh_thread ev path))"
| created: "good_env dir ev \<Longrightarrow> valid_name name \<Longrightarrow>
    call_thread dir good (silent (create_file_thread ev parent name))"
| made_dir: "good_env dir ev \<Longrightarrow> valid_name name \<Longrightarrow>
    call_thread dir good (silent (mkdir_thread ev parent name))"
| committed: "good_env dir ev \<Longrightarrow>
    call_thread dir good (silent (apply_local_thread ev path staging))"
| unlinked: "good_env dir ev \<Longrightarrow> call_thread dir good (silent (unlink_thread ev path expect_dir))"
| renamed: "good_env dir ev \<Longrightarrow> call_thread dir good (silent (rename_thread ev source target))"
| read: "good_env dir ev \<Longrightarrow> answers_good good cl \<Longrightarrow>
    call_thread dir good (silent (read_range_thread ev cl path offset n))"
| loaded: "good_env dir ev \<Longrightarrow> answers_good good cl \<Longrightarrow>
    call_thread dir good (silent (load_local_thread ev cl path))"
| worked: "good_env dir ev \<Longrightarrow> answers_good good cl \<Longrightarrow>
    call_thread dir good (silent (worker_thread fuel ev cl))"
| polled: "good_env dir ev \<Longrightarrow> call_thread dir good (silent (refresh_loop_thread ev))"

inductive pool_step ::
    "string \<Rightarrow> (resource_entry \<Rightarrow> bool) \<Rightarrow> 'r pool \<Rightarrow> 'r pool \<Rightarrow> bool"
  for dir good where
  called: "call_thread dir good t \<Longrightarrow> pool_step dir good (s, ts) (s, add_mset t ts)"
| ran: "f s = (t, s') \<Longrightarrow> pool_step dir good (s, add_mset (Section f) ts) (s', add_mset t ts)"
| returned: "pool_step dir good (s, add_mset (Finished r) ts) (s, ts)"
| background: "pool_step dir good (s, ts) (snd (start_background s), ts)"
| stopped: "pool_step dir good (s, ts) (snd (shutdown s), ts)"
| restart: "good_env dir ev \<Longrightarrow> pool_step dir good (s, ts) (snd (open_at ev s), {#})"
| outside: "pool_step dir good (s, ts) (s\<lparr>remote := w, disk := k\<rparr>, ts)"

inductive interleaved :: "string \<Rightarrow> (resource_entry \<Rightarrow> bool) \<Rightarrow> 'r pool \<Rightarrow> bool"
  for dir good where
  opened: "sdb s = empty_db \<Longrightarrow> good_env dir ev \<Longrightarrow> interleaved dir good (snd (open_at ev s), {#})"
| stepped: "interleaved dir good p \<Longrightarrow> pool_step dir good p q \<Longrightarrow> interleaved dir good q"

context tolerant_invariant
begin

lemma safe_call: "call_thread dir good_res t \<Longrightarrow> safe P t"
  by (induction rule: call_thread.induct)
    (auto simp: silent_def good_env_def intro!: safe_followed safe_finished
      intro: safe_request_refresh safe_create_file safe_mkdir safe_apply_local safe_unlink safe_rename
        safe_reads safe_loops)

definition pool_ok :: "'r pool \<Rightarrow> bool" where
  "pool_ok p \<longleftrightarrow> P (fst p) \<and> (\<forall>t \<in># snd p. safe P t)"

lemma pool_ok_step: "pool_step dir good_res p q \<Longrightarrow> pool_ok p \<Longrightarrow> pool_ok q"
proof (induction rule: pool_step.induct)
  case (ran f s t s' ts)
  then have "P s" and "safe P (Section f)" by (simp_all add: pool_ok_def)
  then have "P s'" and "safe P t" using ran(1) by (metis fst_conv safe_sectionE snd_conv)+
  with ran show ?case by (simp add: pool_ok_def)
next
  case (called t s ts)
  then show ?case by (auto simp: pool_ok_def intro: safe_call)
next
  case (outside s ts w k)
  then show ?case by (simp add: pool_ok_def on_tables_def)
qed (auto simp: pool_ok_def intro: keepsD keep_background keep_open_at)

lemma interleaved_ok: "interleaved dir good_res p \<Longrightarrow> I empty_db \<Longrightarrow> pool_ok p"
proof (induction rule: interleaved.induct)
  case (opened s ev)
  then have "P s" by (simp add: on_tables_def)
  then show ?case by (simp add: pool_ok_def keepsD [OF keep_open_at])
next
  case (stepped p q)
  then show ?case using pool_ok_step by blast
qed

lemma interleaved_keeps: "interleaved dir good_res (s, ts) \<Longrightarrow> I empty_db \<Longrightarrow> I (sdb s)"
  using interleaved_ok [of "(s, ts)"] by (simp add: pool_ok_def on_tables_def)

end

end
