(* ===== verification/Conflict.thy ===== *)
theory Conflict
  imports Rename Queue
begin

text \<open>
  A conflict: the local file changed and the remote one has another version.
  \<open>apply_conflict_locked\<close> of src/src/sync.rs moves the local file aside under a free name,
  queues its upload there and records the conflict; the remote file takes its place.
\<close>

definition conflict_path_of :: "string \<Rightarrow> string \<Rightarrow> string" where
  "conflict_path_of path n = join_remote_path (conflict_parent path) n"

text \<open>The local row after the conflict: the content, and all that is not listed, is kept.\<close>

definition moved_aside :: "env \<Rightarrow> string \<Rightarrow> stored_entry \<Rightarrow> stored_entry" where
  "moved_aside ev path e =
     e\<lparr>e_path := path, e_parent_path := Some (case parent_path_of path of None \<Rightarrow> ROOT_PATH | Some p \<Rightarrow> p),
       e_name := name_of path, e_mtime := Some (now ev), e_sync_state := QueuedUpload,
       e_remote_version := None, e_remote_deleted := False, e_last_error := Some ''conflict''\<rparr>"

definition fresh_conflict_id :: "env \<Rightarrow> db \<Rightarrow> string" where
  "fresh_conflict_id ev d = ''conflict-'' @ show_hex16 (rnd ev (rng_pos d))"

definition fresh_remote_id :: "env \<Rightarrow> db \<Rightarrow> string" where
  "fresh_remote_id ev d = ''remote-'' @ show_hex16 (rnd ev (rng_pos d + 1))"

definition conflict_entry ::
    "env \<Rightarrow> db \<Rightarrow> stored_entry \<Rightarrow> string \<Rightarrow> string option \<Rightarrow> string option \<Rightarrow> conflict_row" where
  "conflict_entry ev d e path base current =
     \<lparr>c_conflict_id = fresh_conflict_id ev d, c_file_id = e_file_id e, c_original_path = e_path e,
      c_conflict_path = path, c_created_at = now ev, c_base_remote_version = base,
      c_current_remote_version = current, c_origin_device = None\<rparr>"

definition upload_row :: "env \<Rightarrow> db \<Rightarrow> string \<Rightarrow> string \<Rightarrow> queue_row" where
  "upload_row ev d fid path =
     \<lparr>q_id = last_op_id d + 1, q_file_id = fid, q_op_type = Upload, q_op_status = Pending,
      q_payload = Some [(''path'', path)], q_retry_count = 0, q_next_retry_at = None,
      q_worker_id = None, q_lease_expires_at = None, q_created_at = now ev, q_updated_at = now ev\<rparr>"

lemma alone_relabel:
  assumes "\<And>x. x \<in> set (files d) \<Longrightarrow> rename_selects (e_path e) (e_path x) \<Longrightarrow> x = e"
  shows "map (relabel_row (e_path e) path parent name t) (files d) =
    map (\<lambda>x. if x = e then e\<lparr>e_path := path, e_parent_path := Some parent, e_name := name, e_mtime := Some t\<rparr> else x)
      (files d)"
proof (rule map_cong [OF refl])
  fix x assume x: "x \<in> set (files d)"
  then have "below (e_path e) (e_path x) \<Longrightarrow> x = e" using assms below_selected by blast
  then show "relabel_row (e_path e) path parent name t x =
      (if x = e then e\<lparr>e_path := path, e_parent_path := Some parent, e_name := name, e_mtime := Some t\<rparr> else x)"
    by (auto simp: relabel_row_def below_def)
qed

text \<open>The tables after the conflict, before the remote row.\<close>

definition set_aside ::
    "env \<Rightarrow> stored_entry \<Rightarrow> string \<Rightarrow> string option \<Rightarrow> string option \<Rightarrow> db \<Rightarrow> db" where
  "set_aside ev e path base current d =
     d\<lparr>files := map (\<lambda>x. if x = e then moved_aside ev path e else x) (files d),
       operations_queue := delete_where (\<lambda>q. q_file_id q = e_file_id e \<and> q_op_status q \<noteq> Done) (operations_queue d)
         @ [upload_row ev d (e_file_id e) path],
       last_op_id := last_op_id d + 1, rng_pos := rng_pos d + 1,
       conflicts := conflicts d @ [conflict_entry ev d e path base current]\<rparr>"

lemma set_aside_fields:
  "files (set_aside ev e path base current d) = map (\<lambda>x. if x = e then moved_aside ev path e else x) (files d)"
  "conflicts (set_aside ev e path base current d) = conflicts d @ [conflict_entry ev d e path base current]"
  "rng_pos (set_aside ev e path base current d) = rng_pos d + 1"
  "filter (\<lambda>q. q_file_id q = e_file_id e \<and> q_op_status q \<noteq> Done) (operations_queue (set_aside ev e path base current d)) =
     [upload_row ev d (e_file_id e) path]"
  "filter (\<lambda>q. q_file_id q \<noteq> e_file_id e) (operations_queue (set_aside ev e path base current d)) =
     filter (\<lambda>q. q_file_id q \<noteq> e_file_id e) (operations_queue d)"
  by (simp_all add: set_aside_def delete_where_def upload_row_def filter_empty_conv)
    (auto intro: filter_cong)

text \<open>The two steps of the transaction that need an argument: the rename and the new upload.\<close>

lemma run_move_aside:
  assumes keys: "keys_ok d" and e: "e \<in> set (files d)"
    and alone: "\<And>x. x \<in> set (files d) \<Longrightarrow> rename_selects (e_path e) (e_path x) \<Longrightarrow> x = e"
    and free: "\<And>x. x \<in> set (files d) \<Longrightarrow> \<not> below path (e_path x)"
  shows "rename_subtree (e_path e) path parent name t d = (Inr (), d\<lparr>files := map (\<lambda>x. if x = e
    then e\<lparr>e_path := path, e_parent_path := Some parent, e_name := name, e_mtime := Some t\<rparr> else x) (files d)\<rparr>)"
proof -
  have "rename_subtree (e_path e) path parent name t d =
      (Inr (), d\<lparr>files := map (relabel_row (e_path e) path parent name t) (files d)\<rparr>)"
    using alone by (intro rename_relabels keys free) (auto simp: below_def)
  also have "map (relabel_row (e_path e) path parent name t) (files d) = map (\<lambda>x. if x = e
      then e\<lparr>e_path := path, e_parent_path := Some parent, e_name := name, e_mtime := Some t\<rparr> else x) (files d)"
    by (rule alone_relabel) (rule alone)
  finally show ?thesis .
qed

lemma run_only_upload:
  assumes "fid \<in> e_file_id ` set (files d)"
    and "operations_queue d = delete_where (\<lambda>q. q_file_id q = fid \<and> q_op_status q \<noteq> Done) ops"
  shows "upsert_operation ev fid Upload [(''path'', path)] False False d =
    (Inr (), d\<lparr>operations_queue := operations_queue d @ [upload_row ev d fid path], last_op_id := last_op_id d + 1\<rparr>)"
proof -
  have "first_op (open_op fid Upload) d = None"
    using assms(2) by (auto simp: first_op_None open_op_def set_delete_where)
  then show ?thesis using assms(1) by (simp add: run_upsert_plain insert_op_def upload_row_def)
qed

text \<open>The part of the transaction before the remote row.\<close>

lemma run_conflict:
  assumes keys: "keys_ok d" and e: "e \<in> set (files d)"
    and name: "conflict_name (e_path e) d = Some n" and path: "path = conflict_path_of (e_path e) n"
    and alone: "\<And>x. x \<in> set (files d) \<Longrightarrow> rename_selects (e_path e) (e_path x) \<Longrightarrow> x = e"
    and free: "\<And>x. x \<in> set (files d) \<Longrightarrow> \<not> below path (e_path x)"
    and fresh: "fresh_conflict_id ev d \<notin> c_conflict_id ` set (conflicts d)"
  shows "apply_conflict_locked ev e base current res d =
    (case res of Some r \<Rightarrow> ensure_remote_row ev r Synced | None \<Rightarrow> ret ())
      (set_aside ev e path base current d)"
proof -
  let ?parent = "case parent_path_of path of None \<Rightarrow> ROOT_PATH | Some p \<Rightarrow> p"
  let ?e1 = "e\<lparr>e_path := path, e_parent_path := Some ?parent, e_name := name_of path, e_mtime := Some (now ev)\<rparr>"
  let ?d1 = "d\<lparr>files := map (\<lambda>x. if x = e then ?e1 else x) (files d)\<rparr>"
  let ?rows = "map (\<lambda>x. if x = e then moved_aside ev path e else x) (files d)"
  let ?open = "\<lambda>q. q_file_id q = e_file_id e \<and> q_op_status q \<noteq> Done"
  let ?queue = "delete_where ?open (operations_queue d)"
  have "map e_file_id ?rows = map e_file_id (files d)" by (simp add: moved_aside_def)
  then have ids: "e_file_id ` set ?rows = e_file_id ` set (files d)" by (metis set_map)
  have "next_conflict_path (e_path e) d = (Inr path, d)"
    by (simp add: run_next_conflict_path name path conflict_path_of_def)
  moreover have "rename_subtree (e_path e) path ?parent (name_of path) (now ev) d = (Inr (), ?d1)"
    by (rule run_move_aside [OF keys e alone free])
  moreover have "update_file (e_file_id e) (\<lambda>e. e\<lparr>e_sync_state := QueuedUpload, e_remote_version := None,
      e_remote_deleted := False, e_last_error := Some ''conflict''\<rparr>) ?d1 = (Inr (), d\<lparr>files := ?rows\<rparr>)"
  proof -
    have "x = e" if "x \<in> set (files d)" "e_file_id x = e_file_id e" for x
      using distinct_key_eq [of e_file_id "files d" x e] keys e that by (simp add: keys_ok_def)
    then show ?thesis
      by (auto simp: update_file_def run_simps update_where_def moved_aside_def)
  qed
  moreover have "delete_ops ?open (d\<lparr>files := ?rows\<rparr>) =
      (Inr (), d\<lparr>files := ?rows, operations_queue := ?queue\<rparr>)"
    by (simp add: delete_ops_def run_simps)
  moreover have "upsert_operation ev (e_file_id e) Upload [(''path'', path)] False False
      (d\<lparr>files := ?rows, operations_queue := ?queue\<rparr>) =
      (Inr (), d\<lparr>files := ?rows, operations_queue := ?queue @ [upload_row ev d (e_file_id e) path],
        last_op_id := last_op_id d + 1\<rparr>)"
  proof -
    have "e_file_id e \<in> e_file_id ` set (files (d\<lparr>files := ?rows, operations_queue := ?queue\<rparr>))"
      using ids e by simp
    from run_only_upload [OF this, of "operations_queue d" ev path] show ?thesis by (simp add: upload_row_def)
  qed
  moreover have "insert_conflict (conflict_entry ev d e path base current)
      (d\<lparr>files := ?rows, operations_queue := ?queue @ [upload_row ev d (e_file_id e) path],
        last_op_id := last_op_id d + 1, rng_pos := rng_pos d + 1\<rparr>) =
      (Inr (), d\<lparr>files := ?rows, operations_queue := ?queue @ [upload_row ev d (e_file_id e) path],
        last_op_id := last_op_id d + 1, rng_pos := rng_pos d + 1,
        conflicts := conflicts d @ [conflict_entry ev d e path base current]\<rparr>)"
    using fresh ids e by (simp add: insert_conflict_def conflict_entry_def)
  ultimately show ?thesis
    by (simp add: apply_conflict_locked_def run_simps new_id_def fresh_conflict_id_def conflict_entry_def
        set_aside_def)
qed

text \<open>
  C21: A conflict loses neither side.  The local row moves to the conflict path with its
  content, its cache file and every other column that names its content unchanged; a new row
  for the remote resource stands at the old path; every other row is as it was.  Exactly one
  operation of the file is left unfinished, an upload to the conflict path, the operations of
  other files are untouched, and the conflict is recorded with both paths and versions.
\<close>

theorem conflict_keeps_both:
  assumes keys: "keys_ok d" and e: "e \<in> set (files d)"
    and name: "conflict_name (e_path e) d = Some n" and path: "path = conflict_path_of (e_path e) n"
    and alone: "\<forall>x \<in> set (files d). rename_selects (e_path e) (e_path x) \<longrightarrow> x = e"
    and free: "\<forall>x \<in> set (files d). \<not> below path (e_path x)"
    and ids: "fresh_conflict_id ev d \<notin> c_conflict_id ` set (conflicts d)"
      "fresh_remote_id ev d \<notin> e_file_id ` set (files d)"
    and res: "r_path r = e_path e"
  shows "\<exists>d'. apply_conflict_locked ev e base current (Some r) d = (Inr (), d') \<and>
    files d' = map (\<lambda>x. if x = e then moved_aside ev path e else x) (files d) @
      [remote_row ev r Synced None (fresh_remote_id ev d)] \<and>
    e_cache_path (moved_aside ev path e) = e_cache_path e \<and>
    e_local_version (moved_aside ev path e) = e_local_version e \<and>
    filter (\<lambda>q. q_file_id q = e_file_id e \<and> q_op_status q \<noteq> Done) (operations_queue d') =
      [upload_row ev d (e_file_id e) path] \<and>
    filter (\<lambda>q. q_file_id q \<noteq> e_file_id e) (operations_queue d') =
      filter (\<lambda>q. q_file_id q \<noteq> e_file_id e) (operations_queue d) \<and>
    conflicts d' = conflicts d @ [conflict_entry ev d e path base current]"
proof -
  let ?rows = "map (\<lambda>x. if x = e then moved_aside ev path e else x) (files d)"
  let ?d = "set_aside ev e path base current d"
  have run: "apply_conflict_locked ev e base current (Some r) d = ensure_remote_row ev r Synced ?d"
    using run_conflict [OF keys e name path _ _ ids(1), of base current "Some r"] alone free by simp
  have paths: "e_path x \<noteq> e_path e" if "x \<in> set ?rows" for x
  proof -
    from that obtain y where y: "y \<in> set (files d)" "x = (if y = e then moved_aside ev path e else y)" by auto
    have "path \<noteq> e_path e" using free e by (auto simp: below_def)
    moreover have "y = e" if "e_path y = e_path e"
      using distinct_key_eq [of e_path "files d" y e] keys y(1) e that by (simp add: keys_ok_def)
    ultimately show ?thesis using y(2) by (auto simp: moved_aside_def)
  qed
  then have gone: "find_path (r_path r) ?d = None"
    by (simp add: find_path_def find_None res set_aside_fields)
  have "map e_file_id ?rows = map e_file_id (files d)" by (simp add: moved_aside_def)
  then have "e_file_id ` set ?rows = e_file_id ` set (files d)" by (metis set_map)
  then have "ensure_remote_row ev r Synced ?d =
      (Inr (), ?d\<lparr>rng_pos := rng_pos d + 2, files := ?rows @ [remote_row ev r Synced None (fresh_remote_id ev d)]\<rparr>)"
  proof -
    have "e_path e \<notin> e_path ` set ?rows"
    proof
      assume "e_path e \<in> e_path ` set ?rows"
      then obtain x where "e_path e = e_path x" "x \<in> set ?rows" by (rule imageE)
      then show False using paths [of x] by simp
    qed
    with \<open>e_file_id ` set ?rows = e_file_id ` set (files d)\<close> show ?thesis
      using ids(2) gone
      by (simp add: run_ensure_remote_row insert_file_def fresh_remote_id_def remote_row_def Let_def res set_aside_fields del: set_map)
  qed
  with run show ?thesis
    by (intro exI [of _ "?d\<lparr>rng_pos := rng_pos d + 2,
      files := ?rows @ [remote_row ev r Synced None (fresh_remote_id ev d)]\<rparr>"])
      (simp add: set_aside_fields, simp add: moved_aside_def)
qed

text \<open>An edited file whose remote copy has changed.\<close>

definition clash_row :: stored_entry where
  "clash_row = (row_at ''1'' ''disk:/a.txt'' File)\<lparr>e_sync_state := QueuedUpload,
     e_content_state := Hydrated, e_local_version := 3, e_cache_path := Some ''/state/cache/1.bin''\<rparr>"

definition clash_db :: db where
  "clash_db = empty_db\<lparr>files := [row_at ''0'' ''disk:/'' Directory, clash_row]\<rparr>"

lemma clash_simps [simp]:
  "files clash_db = [row_at ''0'' ''disk:/'' Directory, clash_row]" "conflicts clash_db = []"
  "e_path clash_row = ''disk:/a.txt''" "e_file_id clash_row = ''1''"
  by (simp_all add: clash_db_def clash_row_def empty_db_def)

theorem conflict_keeps_both_witness:
  "\<exists>d'. apply_conflict_locked (test_env 5) clash_row (Some ''v'') (Some ''w'')
      (Some (fake_file_entry ''disk:/a.txt'' [1, 2] ''w'')) clash_db = (Inr (), d') \<and>
    map e_path (files d') = [''disk:/'', ''disk:/a (2).txt'', ''disk:/a.txt'']"
proof -
  have name: "conflict_name (e_path clash_row) clash_db = Some ''a (2).txt''"
    by code_simp
  have path: "''disk:/a (2).txt'' = conflict_path_of (e_path clash_row) ''a (2).txt''"
    by code_simp
  have "\<not> rename_selects ''disk:/a.txt'' ''disk:/''" by code_simp
  then have alone: "\<forall>x \<in> set (files clash_db). rename_selects (e_path clash_row) (e_path x) \<longrightarrow> x = clash_row"
    by simp
  have free: "\<forall>x \<in> set (files clash_db). \<not> below ''disk:/a (2).txt'' (e_path x)"
    by (simp add: below_def)
  have ids: "fresh_conflict_id (test_env 5) clash_db \<notin> c_conflict_id ` set (conflicts clash_db)"
    "fresh_remote_id (test_env 5) clash_db \<notin> e_file_id ` set (files clash_db)"
    by (auto simp: fresh_remote_id_def)
  have keys: "keys_ok clash_db" by (simp add: keys_ok_def)
  have e: "clash_row \<in> set (files clash_db)" by simp
  have root: "row_at ''0'' ''disk:/'' Directory \<noteq> clash_row"
    by (rule notI, drule arg_cong [of _ _ e_file_id]) simp
  have res: "r_path (fake_file_entry ''disk:/a.txt'' [1, 2] ''w'') = e_path clash_row"
    by (simp add: fake_file_entry_def)
  let ?row = "remote_row (test_env 5) (fake_file_entry ''disk:/a.txt'' [1, 2] ''w'') Synced None
    (fresh_remote_id (test_env 5) clash_db)"
  obtain d' where run: "apply_conflict_locked (test_env 5) clash_row (Some ''v'') (Some ''w'')
      (Some (fake_file_entry ''disk:/a.txt'' [1, 2] ''w'')) clash_db = (Inr (), d')"
    and rows: "files d' = map (\<lambda>x. if x = clash_row then moved_aside (test_env 5) ''disk:/a (2).txt'' clash_row else x)
      (files clash_db) @ [?row]"
    using conflict_keeps_both [OF keys e name path alone free ids res, of "Some ''v''" "Some ''w''"]
    by (elim exE conjE) (rule that)
  have new: "e_path ?row = ''disk:/a.txt''" by (simp add: remote_row_def fake_file_entry_def Let_def)
  have aside: "e_path (moved_aside (test_env 5) ''disk:/a (2).txt'' clash_row) = ''disk:/a (2).txt''"
    by (simp add: moved_aside_def)
  have "map e_path (files d') = [''disk:/'', ''disk:/a (2).txt'', ''disk:/a.txt'']"
    by (simp only: rows clash_simps list.map append.simps if_not_P [OF root] if_P [OF refl] row_at_simps new aside)
  with run show ?thesis by (intro exI conjI)
qed

end
