(* ===== verification/Jobs.thy ===== *)
theory Jobs
  imports Offline
begin

text \<open>
  The transfer jobs of the worker: an upload sends the bytes of the cache file and leaves the
  row synchronised, as one round of the worker; an edit stored during the upload is marked
  as synchronised with it; a download writes the cache file whatever happened to the row since
  it was queued, so it discards a local edit.
\<close>

lemma find_file_id_update:
  assumes "find_file_id i d = Some e" and "\<And>x. e_file_id (f x) = e_file_id x"
    and "files d' = update_where (\<lambda>x. e_file_id x = i) f (files d)"
  shows "find_file_id i d' = Some (f e)"
proof -
  have same: "e_file_id (if e_file_id x = i then f x else x) = e_file_id x" for x using assms(2) by simp
  have "find_file_id i d' = map_option (\<lambda>x. if e_file_id x = i then f x else x) (find_file_id i d)"
    by (simp add: find_file_id_def assms(3) update_where_def find_map_same same)
  moreover have "e_file_id e = i" using find_file_id_member [OF assms(1)] by simp
  ultimately show ?thesis using assms(1) by simp
qed

text \<open>What a finished job leaves: its queue row is done and free.\<close>

lemma job_marked:
  "q \<in> set (operations_queue (snd (mark_job_done_locked ev i d))) \<Longrightarrow> q_id q = i \<Longrightarrow> q_op_status q = Done"
proof -
  let ?f = "\<lambda>q. q\<lparr>q_op_status := Done, q_worker_id := None, q_lease_expires_at := None, q_updated_at := now ev\<rparr>"
  assume mem: "q \<in> set (operations_queue (snd (mark_job_done_locked ev i d)))" and id: "q_id q = i"
  have mem': "q \<in> set (update_where (\<lambda>q. q_id q = i) ?f (operations_queue d))"
    using mem by (simp add: mark_job_done_locked_def set_op_status_def update_ops_def run_modify)
  have "\<exists>x \<in> set (operations_queue d). q_id x = i \<and> q = ?f x"
    by (rule update_where_hit [OF mem']) (rule id, simp)
  then show "q_op_status q = Done" by (elim bexE conjE) simp
qed

lemma run_mark_done:
  "fst (mark_job_done_locked ev i d) = Inr ()"
  "files (snd (mark_job_done_locked ev i d)) = files d"
  by (simp_all add: mark_job_done_locked_def set_op_status_def update_ops_def run_simps)

lemma run_update_file:
  "update_file i f d = (Inr (), d\<lparr>files := update_where (\<lambda>x. e_file_id x = i) f (files d)\<rparr>)"
  by (simp add: update_file_def run_simps)

definition uploaded_row :: "resource_entry \<Rightarrow> stored_entry \<Rightarrow> stored_entry" where
  "uploaded_row fresh e =
     e\<lparr>e_sync_state := Synced, e_remote_version := r_remote_version fresh, e_size := r_size fresh,
       e_mtime := system_time_to_unix (r_modified fresh), e_remote_deleted := False, e_last_error := None,
       e_last_remote_check_at := system_time_to_unix (r_modified fresh)\<rparr>"

lemma upload_commit_row:
  "upload_commit ev job e fresh =
     and_then (on_db (update_file (e_file_id e) (uploaded_row fresh))) (\<lambda>_.
     and_then (on_db (mark_job_done_locked ev (j_id job))) (\<lambda>_. bump_status_version))"
  by (simp add: upload_commit_def uploaded_row_def [abs_def])

text \<open>
  An upload ends well when the remote file has the version the row was based on, or is
  missing and the row has none: the bytes handed to the remote side are exactly those of the
  cache file, the row becomes synchronised with the version the remote side then reports,
  the operation is done, and the local files are as before.
\<close>

theorem upload_completes:
  assumes e: "find_file_id (j_file_id job) (sdb s) = Some e" "e_sync_state e \<noteq> sync_state.Conflict"
    and cache: "e_cache_path e = Some c" "contents (disk s) c = Some bs"
    and probe: "fetch_resource_metadata cl (e_path e) (remote s) = (r, w1)"
    and same: "r = Inl yandex_error.NotFound \<and> e_remote_version e = None \<or>
      (\<exists>res. r = Inr res \<and> r_remote_version res = e_remote_version e)"
    and url: "resolve_upload_url cl (e_path e) True w1 = (Inr href, w2)"
    and sent: "upload_file cl href (Inr bs) w2 = (Inr (), w3)"
    and meta: "fetch_resource_metadata cl (e_path e) w3 = (Inr fresh, w4)"
  shows "\<exists>t. process_upload ev cl job s = (Inr (), t) \<and> remote t = w4 \<and> disk t = disk s \<and>
    (\<exists>e'. find_file_id (j_file_id job) (sdb t) = Some e' \<and> e_sync_state e' = Synced \<and>
       e_remote_version e' = r_remote_version fresh \<and> e_cache_path e' = Some c \<and>
       e_local_version e' = e_local_version e) \<and>
    (\<forall>q \<in> set (operations_queue (sdb t)). q_id q = j_id job \<longrightarrow> q_op_status q = Done)"
proof -
  let ?i = "j_file_id job"
  have id: "e_file_id e = ?i" using find_file_id_member [OF e(1)] by simp
  let ?up = "\<lambda>x. x\<lparr>e_sync_state := Uploading, e_last_error := None\<rparr>"
  let ?d1 = "(sdb s)\<lparr>files := update_where (\<lambda>x. e_file_id x = ?i) ?up (files (sdb s))\<rparr>"
  let ?d2 = "?d1\<lparr>files := update_where (\<lambda>x. e_file_id x = ?i) (uploaded_row fresh) (files ?d1)\<rparr>"
  let ?d3 = "snd (mark_job_done_locked ev (j_id job) ?d2)"
  let ?s1 = "s\<lparr>sdb := ?d1, status_version := status_version s + 1\<rparr>"
  let ?t = "s\<lparr>sdb := ?d3, status_version := status_version s + 1 + 1, remote := w4\<rparr>"
  have row1: "find_file_id ?i ?d1 = Some (?up e)" by (rule find_file_id_update [OF e(1)]) simp_all
  have row2: "find_file_id ?i ?d2 = Some (uploaded_row fresh (?up e))"
    by (rule find_file_id_update [OF row1]) (simp add: uploaded_row_def, simp)
  have "find_file_id ?i ?d3 = find_file_id ?i ?d2" by (simp add: find_file_id_def run_mark_done)
  with row2 have row: "find_file_id ?i ?d3 = Some (uploaded_row fresh (?up e))" by simp
  have "process_upload ev cl job s = upload_probe ev cl job e c ?s1"
    using e cache(1) id
    by (simp add: process_upload_def set_file_state_def run_simps run_update_file)
  also have "\<dots> = upload_transfer ev cl job e c (?s1\<lparr>remote := w1\<rparr>)"
    using same by (auto simp: upload_probe_def call_def run_simps probe upload_checked_def)
  also have "\<dots> = upload_commit ev job e fresh (?s1\<lparr>remote := w4\<rparr>)"
    by (simp add: upload_transfer_def call_def run_simps url fs_open_def cache(2) sent meta)
  also have "\<dots> = (Inr (), ?t)"
    by (simp add: upload_commit_row run_simps run_update_file run_mark_done id)
  finally have run: "process_upload ev cl job s = (Inr (), ?t)" .
  show ?thesis
    using run row cache(1) job_marked [of _ ev "j_id job" ?d2]
    by (intro exI [of _ ?t]) (auto simp: uploaded_row_def)
qed

text \<open>The job of the file of \<open>edited_service\<close>, and the fake remote side after the upload.\<close>

definition edited_job :: "queue_op_type \<Rightarrow> queued_operation" where
  "edited_job op = \<lparr>j_id = 2, j_file_id = ''file-0000000000000000'', j_op_type = op,
     j_op_status = Leased, j_payload = None, j_retry_count = 0\<rparr>"

lemma edited_facts:
  "find_file_id ''file-0000000000000000'' (sdb edited_service) =
     Some \<lparr>e_file_id = ''file-0000000000000000'', e_path = ''disk:/a.txt'', e_parent_path = Some ''disk:/'',
       e_name = ''a.txt'', e_kind = File, e_sync_state = QueuedUpload, e_content_state = Hydrated,
       e_remote_version = None, e_local_version = 1, e_mtime = Some 1001, e_size = 0,
       e_cache_path = Some ''/state/cache/file-0000000000000000.bin'', e_last_remote_check_at = None,
       e_remote_deleted = False, e_last_error = None\<rparr>"
  "contents (disk edited_service) ''/state/cache/file-0000000000000000.bin'' = Some []"
  "remote edited_service = fixture"
  by code_simp+

lemma fake_sent:
  "fake_fetch ''disk:/a.txt'' fixture = (Inl yandex_error.NotFound, fixture)"
  "fake_upload ''disk:/a.txt'' (Inr []) fixture = (Inr (), fake_insert_file ''disk:/a.txt'' [] ''rev:disk:/a.txt:0'' fixture)"
  "fake_fetch ''disk:/a.txt'' (fake_insert_file ''disk:/a.txt'' [] ''rev:disk:/a.txt:0'' fixture) =
     (Inr (fake_file_entry ''disk:/a.txt'' [] ''rev:disk:/a.txt:0''),
      fake_insert_file ''disk:/a.txt'' [] ''rev:disk:/a.txt:0'' fixture)"
  by code_simp+

theorem upload_completes_witness:
  "\<exists>t. process_upload (test_env 1003) fake_client (edited_job Upload) edited_service = (Inr (), t) \<and>
    remote t = fake_insert_file ''disk:/a.txt'' [] ''rev:disk:/a.txt:0'' fixture"
  using upload_completes [of "edited_job Upload" edited_service, OF _ _ _ edited_facts(2), where cl = fake_client
      and r = "Inl yandex_error.NotFound" and href = "''disk:/a.txt''" and ?w1.0 = fixture and ?w2.0 = fixture
      and ?w3.0 = "fake_insert_file ''disk:/a.txt'' [] ''rev:disk:/a.txt:0'' fixture"
      and ?w4.0 = "fake_insert_file ''disk:/a.txt'' [] ''rev:disk:/a.txt:0'' fixture"
      and fresh = "fake_file_entry ''disk:/a.txt'' [] ''rev:disk:/a.txt:0''" and ev = "test_env 1003"]
  by (simp add: edited_facts edited_job_def fake_client_def fake_sent run_ret) (elim exE conjE, intro exI conjI)

text \<open>The lease the round takes, and the bookkeeping before the job runs.\<close>

lemma lease_due:
  assumes "first_op (leasable ev) (sdb s) = Some q"
  shows "\<exists>d. lease_next_operation ev s = (Inr (Some ((row_to_job q)\<lparr>j_op_status := Leased\<rparr>)), s\<lparr>sdb := d\<rparr>) \<and>
    files d = files (sdb s)"
  using assms by (intro exI [of _ "sdb (snd (lease_next_operation ev s))"]) (simp add: run_lease new_id_def)

lemma round_leases:
  assumes "\<not> stop s" and "first_op (leasable ev) (sdb (snd (recover_expired_leases ev s))) = Some q"
  shows "\<exists>d. files d = files (sdb s) \<and> worker_round fuel ev cl s =
    and_then (attempt (process_operation fuel ev cl ((row_to_job q)\<lparr>j_op_status := Leased\<rparr>)))
      (\<lambda>r. ret (r \<noteq> Inr None)) (s\<lparr>sdb := d\<rparr>)"
proof -
  let ?s = "snd (recover_expired_leases ev s)"
  have rec: "recover_expired_leases ev s = (Inr (), ?s)" "files (sdb ?s) = files (sdb s)" "?s\<lparr>sdb := d\<rparr> = s\<lparr>sdb := d\<rparr>" for d
    by (simp_all add: run_recover)
  obtain d where "lease_next_operation ev ?s = (Inr (Some ((row_to_job q)\<lparr>j_op_status := Leased\<rparr>)), ?s\<lparr>sdb := d\<rparr>)"
    and d: "files d = files (sdb ?s)"
    using lease_due [OF assms(2)] by blast
  then have "worker_round fuel ev cl s =
      and_then (attempt (process_operation fuel ev cl ((row_to_job q)\<lparr>j_op_status := Leased\<rparr>)))
        (\<lambda>r. ret (r \<noteq> Inr None)) (s\<lparr>sdb := d\<rparr>)"
    using assms(1) rec by (simp add: worker_round_def run_simps)
  with d rec(2) show ?thesis by auto
qed

text \<open>
  C22: A round of the worker carries an edit to the remote side.  When the operation due first
  is an upload, the file has a cached content, and the remote file has the version the row was
  based on (or is missing and the row has none), then one round hands exactly the bytes of
  the cache file to the remote side, marks the row as synchronised with the version reported
  afterwards, and finishes the operation; the local files are as before.
\<close>

theorem round_uploads:
  assumes due: "\<not> stop s" "first_op (leasable ev) (sdb (snd (recover_expired_leases ev s))) = Some q"
      "q_op_type q = Upload"
    and e: "find_file_id (q_file_id q) (sdb s) = Some e" "e_sync_state e \<noteq> sync_state.Conflict"
    and cache: "e_cache_path e = Some c" "contents (disk s) c = Some bs"
    and probe: "fetch_resource_metadata cl (e_path e) (remote s) = (r, w1)"
    and same: "r = Inl yandex_error.NotFound \<and> e_remote_version e = None \<or>
      (\<exists>res. r = Inr res \<and> r_remote_version res = e_remote_version e)"
    and url: "resolve_upload_url cl (e_path e) True w1 = (Inr href, w2)"
    and sent: "upload_file cl href (Inr bs) w2 = (Inr (), w3)"
    and meta: "fetch_resource_metadata cl (e_path e) w3 = (Inr fresh, w4)"
  shows "\<exists>t. worker_round fuel ev cl s = (Inr True, t) \<and> remote t = w4 \<and> disk t = disk s \<and>
    (\<exists>e'. find_file_id (q_file_id q) (sdb t) = Some e' \<and> e_sync_state e' = Synced \<and>
       e_remote_version e' = r_remote_version fresh \<and> e_cache_path e' = Some c \<and>
       e_local_version e' = e_local_version e) \<and>
    (\<forall>q' \<in> set (operations_queue (sdb t)). q_id q' = q_id q \<longrightarrow> q_op_status q' = Done)"
proof -
  let ?job = "(row_to_job q)\<lparr>j_op_status := Leased\<rparr>"
  obtain d where d: "files d = files (sdb s)" and round: "worker_round fuel ev cl s =
      and_then (attempt (process_operation fuel ev cl ?job)) (\<lambda>r. ret (r \<noteq> Inr None)) (s\<lparr>sdb := d\<rparr>)"
    using round_leases [OF due(1,2)] by blast
  let ?s = "s\<lparr>sdb := d\<rparr>"
  have job: "j_op_type ?job = Upload" "j_file_id ?job = q_file_id q" "j_id ?job = q_id q"
    using due(3) by (simp_all add: row_to_job_def)
  have row: "find_file_id (j_file_id ?job) (sdb ?s) = Some e"
    using e(1) d by (simp add: job find_file_id_def)
  from upload_completes [of ?job ?s e c bs cl r w1 href w2 w3 fresh w4 ev] row e(2) cache probe same url sent meta
  obtain t where run: "process_upload ev cl ?job ?s = (Inr (), t)" and t: "remote t = w4 \<and> disk t = disk s \<and>
    (\<exists>e'. find_file_id (q_file_id q) (sdb t) = Some e' \<and> e_sync_state e' = Synced \<and>
       e_remote_version e' = r_remote_version fresh \<and> e_cache_path e' = Some c \<and>
       e_local_version e' = e_local_version e) \<and>
    (\<forall>q' \<in> set (operations_queue (sdb t)). q_id q' = q_id q \<longrightarrow> q_op_status q' = Done)"
    by (auto simp: job(2,3))
  have "worker_round fuel ev cl s = (Inr True, t)"
    unfolding round by (simp add: process_operation_def returns_def run_simps job(1) run)
  with t show ?thesis by blast
qed

text \<open>A service that has processed its first refresh, then a file was created and edited.\<close>

definition staged_service :: "fake_remote service" where
  "staged_service =
     (let s = snd (create_file (test_env 1001) ROOT_PATH ''a.txt'' (fresh_service fixture)) in
      s\<lparr>disk := (disk s)\<lparr>contents := (contents (disk s))(''/tmp/x'' \<mapsto> [1, 2, 3])\<rparr>\<rparr>)"

definition uploading_service :: "fake_remote service" where
  "uploading_service = snd (apply_local_file_from_staging (test_env 1002) ''disk:/a.txt'' ''/tmp/x'' staged_service)"

definition staged_op :: queue_row where
  "staged_op = \<lparr>q_id = 2, q_file_id = ''file-0000000000000002'', q_op_type = Upload, q_op_status = Pending,
     q_payload = Some [(''path'', ''disk:/a.txt'')], q_retry_count = 0, q_next_retry_at = None,
     q_worker_id = None, q_lease_expires_at = None, q_created_at = 1001, q_updated_at = 1002\<rparr>"

definition staged_row :: stored_entry where
  "staged_row = \<lparr>e_file_id = ''file-0000000000000002'', e_path = ''disk:/a.txt'', e_parent_path = Some ''disk:/'',
     e_name = ''a.txt'', e_kind = File, e_sync_state = QueuedUpload, e_content_state = Hydrated,
     e_remote_version = None, e_local_version = 2, e_mtime = Some 1002, e_size = 3,
     e_cache_path = Some ''/state/cache/file-0000000000000002.bin'', e_last_remote_check_at = None,
     e_remote_deleted = False, e_last_error = None\<rparr>"

definition ready_upload :: "fake_remote service \<Rightarrow> bool" where
  "ready_upload s \<longleftrightarrow> \<not> stop s \<and>
     first_op (leasable (test_env 1003)) (sdb (snd (recover_expired_leases (test_env 1003) s))) = Some staged_op \<and>
     find_file_id ''file-0000000000000002'' (sdb s) = Some staged_row \<and>
     contents (disk s) ''/state/cache/file-0000000000000002.bin'' = Some [1, 2, 3] \<and>
     remote s = fixture"

lemma uploading_ready: "ready_upload uploading_service"
  by code_simp

theorem round_uploads_witness:
  "\<exists>t. worker_round 5 (test_env 1003) fake_client uploading_service = (Inr True, t) \<and>
     remote t = fake_insert_file ''disk:/a.txt'' [1, 2, 3] ''rev:disk:/a.txt:3'' fixture"
proof -
  note ready = uploading_ready [unfolded ready_upload_def]
  have due: "\<not> stop uploading_service"
    "first_op (leasable (test_env 1003)) (sdb (snd (recover_expired_leases (test_env 1003) uploading_service))) = Some staged_op"
    "q_op_type staged_op = Upload"
    using ready by (simp_all add: staged_op_def)
  have row: "find_file_id (q_file_id staged_op) (sdb uploading_service) = Some staged_row"
    "e_sync_state staged_row \<noteq> sync_state.Conflict"
    "e_cache_path staged_row = Some ''/state/cache/file-0000000000000002.bin''"
    using ready by (simp_all add: staged_op_def staged_row_def)
  have data: "contents (disk uploading_service) ''/state/cache/file-0000000000000002.bin'' = Some [1, 2, 3]"
    using ready by (elim conjE)
  let ?w = "fake_insert_file ''disk:/a.txt'' [1, 2, 3] ''rev:disk:/a.txt:3'' fixture"
  have calls: "fetch_resource_metadata fake_client (e_path staged_row) fixture = (Inl yandex_error.NotFound, fixture)"
    "resolve_upload_url fake_client (e_path staged_row) True fixture = (Inr ''disk:/a.txt'', fixture)"
    "upload_file fake_client ''disk:/a.txt'' (Inr [1, 2, 3]) fixture = (Inr (), ?w)"
    "fetch_resource_metadata fake_client (e_path staged_row) ?w =
       (Inr (fake_file_entry ''disk:/a.txt'' [1, 2, 3] ''rev:disk:/a.txt:3''), ?w)"
    by code_simp+
  have same: "Inl yandex_error.NotFound = (Inl yandex_error.NotFound :: yandex_error + resource_entry) \<and>
      e_remote_version staged_row = None \<or>
      (\<exists>res. Inl yandex_error.NotFound = Inr res \<and> r_remote_version res = e_remote_version staged_row)"
    by (simp add: staged_row_def)
  have "remote uploading_service = fixture" using ready by (elim conjE)
  with round_uploads [OF due row data _ same calls(2,3,4), of 5] calls(1) show ?thesis by auto
qed

section \<open>An edit during an upload\<close>

lemma uploaded_row_fields:
  "e_sync_state (uploaded_row fresh x) = Synced" "e_size (uploaded_row fresh x) = r_size fresh"
  "e_remote_version (uploaded_row fresh x) = r_remote_version fresh"
  "e_local_version (uploaded_row fresh x) = e_local_version x"
  "e_cache_path (uploaded_row fresh x) = e_cache_path x" "e_path (uploaded_row fresh x) = e_path x"
  by (simp_all add: uploaded_row_def)

lemma run_upload_commit:
  "upload_commit ev job e fresh s = (Inr (), s\<lparr>sdb := snd (mark_job_done_locked ev (j_id job)
     ((sdb s)\<lparr>files := update_where (\<lambda>x. e_file_id x = e_file_id e) (uploaded_row fresh) (files (sdb s))\<rparr>)),
     status_version := status_version s + 1\<rparr>)"
  by (simp add: upload_commit_row run_simps run_update_file run_mark_done)

text \<open>
  C35: An edit made while an upload is under way is marked as synchronised.  The upload holds
  no lock while it sends the file; when a new staging file is stored in between, the commit
  of the old upload still sets the row to synchronised and writes the size of the version that
  was sent, although the cache file and the local version are those of the edit.  Only the
  operation the edit queued is left to repair this.
\<close>

theorem edit_during_upload:
  assumes ok: "keys_ok (sdb s)" "queue_ok (sdb s)"
    and e: "find_path path (sdb s) = Some e" "e_kind e = File"
    and k: "contents (disk s) staging = Some bs" "no_faults (disk s)"
  shows "\<exists>r t u e'. apply_local_file_from_staging ev path staging s = (Inr r, t) \<and>
    upload_commit ev' job e fresh t = (Inr (), u) \<and> find_path path (sdb u) = Some e' \<and>
    e_sync_state e' = Synced \<and> e_size e' = r_size fresh \<and> e_remote_version e' = r_remote_version fresh \<and>
    e_local_version e' = e_local_version e + 1 \<and>
    e_cache_path e' = Some (cache_path_of ev e) \<and> contents (disk u) (cache_path_of ev e) = Some bs \<and>
    (\<exists>q \<in> set (open_ops (e_file_id e) Upload (sdb t)). q_op_status q = Pending \<and> q_next_retry_at q = None)"
proof -
  obtain d where run: "apply_local_file_from_staging ev path staging s =
      (Inr (saved_row ev bs e), s\<lparr>sdb := d,
        disk := (disk s)\<lparr>contents := (contents (disk s))(cache_path_of ev e \<mapsto> bs)\<rparr>,
        status_version := status_version s + 1\<rparr>)"
    and found: "find_path path d = Some (saved_row ev bs e)" and keys: "keys_ok d"
    and queued: "\<exists>q \<in> set (open_ops (e_file_id e) Upload d). q_op_status q = Pending \<and>
       q_payload q = Some [(''path'', path)] \<and> q_next_retry_at q = None"
    using run_apply_local [OF ok e k] by blast
  let ?t = "s\<lparr>sdb := d, disk := (disk s)\<lparr>contents := (contents (disk s))(cache_path_of ev e \<mapsto> bs)\<rparr>,
        status_version := status_version s + 1\<rparr>"
  let ?d = "snd (mark_job_done_locked ev' (j_id job)
     (d\<lparr>files := update_where (\<lambda>x. e_file_id x = e_file_id e) (uploaded_row fresh) (files d)\<rparr>))"
  have "find_path path ?d = Some (uploaded_row fresh (saved_row ev bs e))"
    by (rule find_path_update [OF keys found]) (simp_all add: uploaded_row_fields run_mark_done saved_row_def)
  then show ?thesis
    using run queued run_upload_commit [of ev' job e fresh ?t]
    by (intro exI [of _ "saved_row ev bs e"] exI [of _ ?t] exI
        [of _ "?t\<lparr>sdb := ?d, status_version := status_version ?t + 1\<rparr>"]
        exI [of _ "uploaded_row fresh (saved_row ev bs e)"])
       (auto simp: uploaded_row_fields saved_row_def)
qed

theorem edit_during_upload_witness:
  "\<exists>r t u e'. apply_local_file_from_staging (test_env 1002) ''disk:/a.txt'' ''/tmp/x'' edited_service = (Inr r, t) \<and>
    upload_commit (test_env 1003) (edited_job Upload) (files (sdb edited_service) ! 1)
      (fake_file_entry ''disk:/a.txt'' [] ''rev'') t = (Inr (), u) \<and>
    find_path ''disk:/a.txt'' (sdb u) = Some e' \<and> e_sync_state e' = Synced \<and> e_size e' = 0 \<and>
    contents (disk u) ''/state/cache/file-0000000000000000.bin'' = Some [1, 2, 3, 4]"
proof -
  have c: "cache_path_of (test_env 1002) (files (sdb edited_service) ! 1) = ''/state/cache/file-0000000000000000.bin''"
    unfolding edited_row cache_path_of_def by simp
  have kind: "e_kind (files (sdb edited_service) ! 1) = File" unfolding edited_row by simp
  have empty: "r_size (fake_file_entry ''disk:/a.txt'' [] ''rev'') = 0" by code_simp
  from edit_during_upload [OF edited_ready(1-3) kind edited_ready(4,5), of "test_env 1002" "test_env 1003"
      "edited_job Upload" "fake_file_entry ''disk:/a.txt'' [] ''rev''"]
  show ?thesis unfolding c empty by (elim exE conjE) (intro exI conjI)
qed

section \<open>Downloads\<close>

definition downloaded_row :: "env \<Rightarrow> string \<Rightarrow> bytes \<Rightarrow> stored_entry \<Rightarrow> stored_entry" where
  "downloaded_row ev c bs e =
     e\<lparr>e_content_state := Hydrated, e_cache_path := Some c, e_size := of_nat (length bs),
       e_mtime := Some (now ev), e_sync_state := Synced, e_last_error := None,
       e_last_remote_check_at := Some (now ev)\<rparr>"

lemma download_commit_row:
  "e_cache_path e = Some c \<Longrightarrow> download_commit ev job e bs =
     and_then (on_disk (create_parent_dir c)) (\<lambda>_.
     and_then (on_disk (fs_write c bs)) (\<lambda>_.
     and_then (on_db (update_file (e_file_id e) (downloaded_row ev c bs))) (\<lambda>_.
     and_then (on_db (mark_job_done_locked ev (j_id job))) (\<lambda>_. bump_status_version))))"
  by (simp add: download_commit_def downloaded_row_def [abs_def])

text \<open>
  C40: A download overwrites a later local edit.  Nothing in the job looks at the state of the
  row: when the file was written locally after the download was queued, the bytes of the edit
  in the cache file are replaced by the remote ones and the row, which was waiting for its
  upload, is marked as synchronised, with the local version of the edit.
\<close>

theorem download_discards_edit:
  assumes e: "find_file_id (j_file_id job) (sdb s) = Some e" "e_sync_state e = QueuedUpload"
    and cache: "e_cache_path e = Some c" "contents (disk s) c = Some edit" "no_faults (disk s)"
    and url: "resolve_download_url cl (e_path e) (remote s) = (Inr u, w1)"
    and got: "download_file cl u w1 = (Inr bs, w2)"
  shows "\<exists>t. process_download ev cl job s = (Inr (), t) \<and> contents (disk t) c = Some bs \<and>
    (\<forall>p. p \<noteq> c \<longrightarrow> contents (disk t) p = contents (disk s) p) \<and>
    (\<exists>e'. find_file_id (j_file_id job) (sdb t) = Some e' \<and> e_sync_state e' = Synced \<and>
       e_local_version e' = e_local_version e \<and> e_remote_version e' = e_remote_version e)"
proof -
  let ?i = "j_file_id job"
  have id: "e_file_id e = ?i" using find_file_id_member [OF e(1)] by simp
  let ?down = "\<lambda>x. x\<lparr>e_sync_state := Downloading, e_last_error := None\<rparr>"
  let ?d1 = "(sdb s)\<lparr>files := update_where (\<lambda>x. e_file_id x = ?i) ?down (files (sdb s))\<rparr>"
  let ?d2 = "?d1\<lparr>files := update_where (\<lambda>x. e_file_id x = ?i) (downloaded_row ev c bs) (files ?d1)\<rparr>"
  let ?d3 = "snd (mark_job_done_locked ev (j_id job) ?d2)"
  let ?k = "(disk s)\<lparr>contents := (contents (disk s))(c \<mapsto> bs)\<rparr>"
  let ?s1 = "s\<lparr>sdb := ?d1, status_version := status_version s + 1\<rparr>"
  let ?t = "s\<lparr>sdb := ?d3, disk := ?k, status_version := status_version s + 1 + 1, remote := w2\<rparr>"
  have row1: "find_file_id ?i ?d1 = Some (?down e)" by (rule find_file_id_update [OF e(1)]) simp_all
  have row2: "find_file_id ?i ?d2 = Some (downloaded_row ev c bs (?down e))"
    by (rule find_file_id_update [OF row1]) (simp add: downloaded_row_def, simp)
  have "find_file_id ?i ?d3 = find_file_id ?i ?d2" by (simp add: find_file_id_def run_mark_done)
  with row2 have row: "find_file_id ?i ?d3 = Some (downloaded_row ev c bs (?down e))" by simp
  have stored: "fs_write c bs (disk s) = (Inr (), ?k)" using cache(3) by (simp add: fs_write_def no_faults_def)
  have "process_download ev cl job s = download_commit ev job e bs (?s1\<lparr>remote := w2\<rparr>)"
    using e by (simp add: process_download_def set_file_state_def run_simps run_update_file id call_def url got)
  also have "\<dots> = (Inr (), ?t)"
    by (simp add: download_commit_row [OF cache(1)] run_simps run_update_file run_mark_done id stored
        run_create_parent_dir [OF cache(3)])
  finally have run: "process_download ev cl job s = (Inr (), ?t)" .
  show ?thesis
    using run row by (intro exI [of _ ?t]) (auto simp: downloaded_row_def)
qed

text \<open>The file of \<open>edited_service\<close> appears remotely with other content and is downloaded.\<close>

theorem download_discards_edit_witness:
  "\<exists>t. process_download (test_env 1003) fake_client (edited_job Download)
      (edited_service\<lparr>remote := fake_insert_file ''disk:/a.txt'' [9] ''v'' fixture\<rparr>) = (Inr (), t) \<and>
    contents (disk t) ''/state/cache/file-0000000000000000.bin'' = Some [9]"
proof -
  have got: "fake_download ''disk:/a.txt'' (fake_insert_file ''disk:/a.txt'' [9] ''v'' fixture) =
      (Inr [9], fake_insert_file ''disk:/a.txt'' [9] ''v'' fixture)"
    by code_simp
  have "no_faults (disk edited_service)" by (simp add: no_faults_def edited_service_def Let_def)
  with got show ?thesis
    using download_discards_edit [of "edited_job Download" "edited_service\<lparr>remote := fake_insert_file ''disk:/a.txt'' [9] ''v'' fixture\<rparr>"
        _ "''/state/cache/file-0000000000000000.bin''" "[]" fake_client "''disk:/a.txt''"
        "fake_insert_file ''disk:/a.txt'' [9] ''v'' fixture" "[9]" "fake_insert_file ''disk:/a.txt'' [9] ''v'' fixture" "test_env 1003"]
    by (simp add: edited_facts edited_job_def fake_client_def run_ret) (elim exE conjE, intro exI conjI)
qed

end
