(* ===== verification/Refresh.thy ===== *)
theory Refresh
  imports Conflict Jobs
begin

text \<open>
  What a refresh does to a local file the remote listing does not have.  A file that was
  never uploaded is treated like one whose remote copy was deleted: it is set aside under a
  conflict name although nothing conflicts with it.  And what a rename does when the remote
  side meanwhile has a file of its own at the new path.
\<close>

lemma run_is_conflict_copy:
  "is_conflict_copy fid path d =
    (Inr (\<exists>c \<in> set (conflicts d). c_file_id c = fid \<and> c_conflict_path c = path), d)"
  by (simp add: is_conflict_copy_def run_simps)

lemma find_replaced:
  assumes keys: "keys_ok d" and e: "e \<in> set (files d)"
    and rows: "files d' = map (\<lambda>x. if x = e then f e else x) (files d)"
    and new: "e_path (f e) \<notin> e_path ` set (files d)"
  shows "find_path (e_path e) d' = None" and "find_path (e_path (f e)) d' = Some (f e)"
proof -
  have path: "x = e" if "x \<in> set (files d)" "e_path x = e_path e" for x
    using distinct_key_eq [of e_path "files d" x e] keys e that by (simp add: keys_ok_def)
  have "e_path y \<noteq> e_path e" if "y \<in> set (files d')" for y
  proof -
    obtain x where x: "x \<in> set (files d)" "y = (if x = e then f e else x)" using \<open>y \<in> _\<close> rows by auto
    then show ?thesis using path new e by (metis image_eqI)
  qed
  then show "find_path (e_path e) d' = None" by (simp add: find_path_def find_None)
  have only: "e_path (if x = e then f e else x) = e_path (f e) \<longleftrightarrow> x = e" if "x \<in> set (files d)" for x
    using that new by (cases "x = e") (simp, metis image_eqI)
  have "find (\<lambda>y. e_path y = e_path (f e)) (map (\<lambda>x. if x = e then f e else x) xs) = Some (f e)"
    if "set xs \<subseteq> set (files d)" "e \<in> set xs" for xs
    using that only by (induction xs) auto
  then show "find_path (e_path (f e)) d' = Some (f e)" using e by (simp add: find_path_def rows)
qed

text \<open>
  C38: A refresh sets new files aside.  When the remote listing does not have a file that has
  local changes and was never uploaded, because its upload is still waiting for a retry, the
  refresh renames it to a conflict name and records a conflict, with no remote version on
  either side: afterwards nothing is left at the path the user chose.
\<close>

theorem new_file_set_aside:
  assumes keys: "keys_ok (sdb s)" and e: "e \<in> set (files (sdb s))"
    and unsynced: "has_unsynced_local_changes e" "e_remote_version e = None"
    and unlisted: "e_path e \<noteq> ROOT_PATH" "e_path e \<notin> paths"
    and first: "\<forall>c \<in> set (conflicts (sdb s)). c_file_id c \<noteq> e_file_id e"
    and name: "conflict_name (e_path e) (sdb s) = Some n" and path: "path = conflict_path_of (e_path e) n"
    and alone: "\<forall>x \<in> set (files (sdb s)). rename_selects (e_path e) (e_path x) \<longrightarrow> x = e"
    and free: "\<forall>x \<in> set (files (sdb s)). \<not> below path (e_path x)"
    and fresh: "fresh_conflict_id ev (sdb s) \<notin> c_conflict_id ` set (conflicts (sdb s))"
  shows "\<exists>t. reconcile_missing ev paths e s = (Inr (), t) \<and>
    find_path (e_path e) (sdb t) = None \<and>
    find_path path (sdb t) = Some (moved_aside ev path e) \<and>
    conflicts (sdb t) = conflicts (sdb s) @ [conflict_entry ev (sdb s) e path None None]"
proof -
  let ?d = "set_aside ev e path None None (sdb s)"
  have "apply_conflict_locked ev e None None None (sdb s) = (Inr (), ?d)"
    using run_conflict [OF keys e name path _ _ fresh, of None None None] alone free by (simp add: run_ret)
  moreover have "e_sync_state e \<noteq> QueuedDelete" using unsynced(1) by (auto simp: has_unsynced_local_changes_def)
  ultimately have "reconcile_missing ev paths e s = (Inr (), s\<lparr>sdb := ?d\<rparr>)"
    using unsynced unlisted first
    by (simp add: reconcile_missing_def run_on_db run_and_then run_is_conflict_copy)
  moreover have "e_path (moved_aside ev path e) \<notin> e_path ` set (files (sdb s))"
    using free by (auto simp: moved_aside_def below_def)
  moreover have "e_path (moved_aside ev path e) = path" by (simp add: moved_aside_def)
  moreover note find_replaced [OF keys e, of ?d "moved_aside ev path", unfolded set_aside_fields, OF refl]
  ultimately show ?thesis
    by (intro exI [of _ "s\<lparr>sdb := ?d\<rparr>"]) (simp add: set_aside_fields)
qed

text \<open>
  The scenario, with the fake remote side: while uploads fail a file is created and stored; its
  first upload fails and waits a second; the refresh asked for meanwhile comes first.
\<close>

definition unsent_service :: "fake_remote service" where
  "unsent_service =
     snd (and_then (create_file (test_env 1001) ROOT_PATH ''a.txt'') (\<lambda>_.
          and_then (worker_round 20 (test_env 1002) fake_client) (\<lambda>_.
          request_refresh (test_env 1002) ROOT_PATH))
       (fresh_service (fixture\<lparr>fail_uploads := [''disk:/a.txt'']\<rparr>)))"

definition refreshed_service :: "fake_remote service" where
  "refreshed_service = snd (worker_round 20 (test_env 1002) fake_client unsent_service)"

lemma refreshed_paths:
  "map e_path (files (sdb unsent_service)) = [''disk:/'', ''disk:/fast.txt'', ''disk:/a.txt'']"
  "map e_path (files (sdb refreshed_service)) = [''disk:/'', ''disk:/fast.txt'', ''disk:/a (2).txt'']"
  by code_simp+

abbreviation unsent_row :: stored_entry where
  "unsent_row \<equiv> files (sdb unsent_service) ! 2"

lemma unsent_facts:
  "keys_ok (sdb unsent_service)" "unsent_row \<in> set (files (sdb unsent_service))"
  "has_unsynced_local_changes unsent_row" "e_remote_version unsent_row = None"
  "e_path unsent_row \<noteq> ROOT_PATH" "e_path unsent_row \<notin> {ROOT_PATH, ''disk:/fast.txt''}"
  "\<forall>c \<in> set (conflicts (sdb unsent_service)). c_file_id c \<noteq> e_file_id unsent_row"
  "conflict_name (e_path unsent_row) (sdb unsent_service) = Some ''a (2).txt''"
  "''disk:/a (2).txt'' = conflict_path_of (e_path unsent_row) ''a (2).txt''"
  "\<forall>x \<in> set (files (sdb unsent_service)). rename_selects (e_path unsent_row) (e_path x) \<longrightarrow> x = unsent_row"
  "\<forall>x \<in> set (files (sdb unsent_service)). \<not> below ''disk:/a (2).txt'' (e_path x)"
  "fresh_conflict_id (test_env 1002) (sdb unsent_service) \<notin> c_conflict_id ` set (conflicts (sdb unsent_service))"
  unfolding keys_ok_def by code_simp+

theorem new_file_set_aside_witness:
  "\<exists>t. reconcile_missing (test_env 1002) {ROOT_PATH, ''disk:/fast.txt''} unsent_row unsent_service = (Inr (), t) \<and>
     find_path (e_path unsent_row) (sdb t) = None \<and> find_path ''disk:/a (2).txt'' (sdb t) \<noteq> None"
proof -
  obtain t where "reconcile_missing (test_env 1002) {ROOT_PATH, ''disk:/fast.txt''} unsent_row unsent_service = (Inr (), t)"
    "find_path (e_path unsent_row) (sdb t) = None"
    "find_path ''disk:/a (2).txt'' (sdb t) = Some (moved_aside (test_env 1002) ''disk:/a (2).txt'' unsent_row)"
    using new_file_set_aside [OF unsent_facts] by (elim exE conjE) (rule that)
  then show ?thesis by (intro exI [of _ t]) simp
qed

section \<open>A rename onto a file of another device\<close>

text \<open>
  C39: A rename gives up the local content for whatever lies at the new path.  When the remote
  side has a resource at the new path, which the code takes for its own rename done before,
  the job deletes the remote copy of the source and marks the local row as synchronised with
  the version of the resource it found; nothing is uploaded or downloaded, so the cache keeps
  other bytes than the version it is marked with.
\<close>

theorem rename_adopts_other:
  assumes e: "find_file_id (j_file_id job) (sdb s) = Some e"
    and job: "j_payload job = Some [(''old_path'', old), (''new_path'', new)]"
    and found: "fetch_resource_metadata cl new (remote s) = (Inr other, w1)"
    and gone: "delete_resource cl old True w1 = (Inr (), w2)"
    and again: "fetch_resource_metadata cl new w2 = (Inr other, w3)"
  shows "\<exists>t e'. process_rename ev cl job s = (Inr (), t) \<and> remote t = w3 \<and> disk t = disk s \<and>
    find_file_id (j_file_id job) (sdb t) = Some e' \<and> e_sync_state e' = Synced \<and>
    e_remote_version e' = r_remote_version other \<and> e_cache_path e' = e_cache_path e \<and>
    (\<forall>q \<in> set (operations_queue (sdb t)). q_id q = j_id job \<longrightarrow> q_op_status q = Done)"
proof -
  let ?i = "j_file_id job"
  let ?f = "\<lambda>e. e\<lparr>e_sync_state := Synced, e_remote_version := r_remote_version other,
    e_mtime := system_time_to_unix (r_modified other), e_last_error := None\<rparr>"
  let ?d1 = "(sdb s)\<lparr>files := update_where (\<lambda>x. e_file_id x = ?i) ?f (files (sdb s))\<rparr>"
  let ?d2 = "snd (mark_job_done_locked ev (j_id job) ?d1)"
  have row1: "find_file_id ?i ?d1 = Some (?f e)" by (rule find_file_id_update [OF e]) simp_all
  have "find_file_id ?i ?d2 = find_file_id ?i ?d1" by (simp add: find_file_id_def run_mark_done)
  with row1 have row: "find_file_id ?i ?d2 = Some (?f e)" by simp
  have paths: "map_of (parse_payload (j_payload job)) ''old_path'' = Some old"
    "map_of (parse_payload (j_payload job)) ''new_path'' = Some new"
    by (simp_all add: job parse_payload_def)
  have "process_rename ev cl job s =
      (Inr (), s\<lparr>sdb := ?d2, status_version := status_version s + 1, remote := w3\<rparr>)"
    by (simp add: process_rename_def Let_def paths ok_or_def run_simps call_def found is_ok_def gone
        failure_unless_gone_def again optional_remote_def or_remote_def commit_remote_version_def
        run_update_file run_mark_done)
  then show ?thesis
    using row job_marked [of _ ev "j_id job" ?d1]
    by (intro exI [of _ "s\<lparr>sdb := ?d2, status_version := status_version s + 1, remote := w3\<rparr>"] exI [of _ "?f e"]) auto
qed

text \<open>A file that was read is renamed, while another device puts a file at the new path.\<close>

definition other_file :: resource_entry where
  "other_file = fake_file_entry ''disk:/b.txt'' [98] ''rev-b''"

definition renamed_service :: "fake_remote service" where
  "renamed_service =
     (let s = snd (and_then (load_local_bytes (test_env 1001) fake_client ''disk:/fast.txt'') (\<lambda>_.
                rename (test_env 1002) ''disk:/fast.txt'' ''disk:/b.txt'') (fresh_service fixture)) in
      s\<lparr>remote := fake_insert_file ''disk:/b.txt'' [98] ''rev-b'' (remote s)\<rparr>)"

definition renamed_job :: queued_operation where
  "renamed_job = \<lparr>j_id = 2, j_file_id = ''remote-0000000000000001'', j_op_type = Rename, j_op_status = Leased,
     j_payload = Some [(''old_path'', ''disk:/fast.txt''), (''new_path'', ''disk:/b.txt'')], j_retry_count = 0\<rparr>"

lemma renamed_facts:
  "map row_to_job (filter (\<lambda>q. q_op_type q = Rename) (operations_queue (sdb renamed_service))) =
     [renamed_job\<lparr>j_op_status := Pending\<rparr>]"
  "find_file_id ''remote-0000000000000001'' (sdb renamed_service) = Some (files (sdb renamed_service) ! 1)"
  "fst (fake_fetch ''disk:/b.txt'' (remote renamed_service)) = Inr other_file"
  "fst (fake_delete ''disk:/fast.txt'' True (remote renamed_service)) = Inr ()"
  "fst (fake_fetch ''disk:/b.txt'' (snd (fake_delete ''disk:/fast.txt'' True (remote renamed_service)))) = Inr other_file"
  "contents (disk renamed_service) ''/state/cache/remote-0000000000000001.bin'' = Some fast_bytes"
  by code_simp+

theorem rename_adopts_other_witness:
  "\<exists>t e'. process_rename (test_env 1003) fake_client renamed_job renamed_service = (Inr (), t) \<and>
     find_file_id ''remote-0000000000000001'' (sdb t) = Some e' \<and> e_sync_state e' = Synced \<and>
     e_remote_version e' = Some ''rev-b'' \<and> disk t = disk renamed_service"
proof -
  have job: "j_file_id renamed_job = ''remote-0000000000000001''"
    "j_payload renamed_job = Some [(''old_path'', ''disk:/fast.txt''), (''new_path'', ''disk:/b.txt'')]"
    by (simp_all add: renamed_job_def)
  have probe: "fetch_resource_metadata fake_client ''disk:/b.txt'' w = (fst (fake_fetch ''disk:/b.txt'' w), w)" for w
    by (simp add: fake_client_def fake_fetch_def)
  have delete: "delete_resource fake_client ''disk:/fast.txt'' True w =
      (fst (fake_delete ''disk:/fast.txt'' True w), snd (fake_delete ''disk:/fast.txt'' True w))" for w
    by (simp add: fake_client_def)
  let ?w = "snd (fake_delete ''disk:/fast.txt'' True (remote renamed_service))"
  have found: "fetch_resource_metadata fake_client ''disk:/b.txt'' (remote renamed_service) =
      (Inr other_file, remote renamed_service)" by (simp only: probe renamed_facts(3))
  have gone: "delete_resource fake_client ''disk:/fast.txt'' True (remote renamed_service) = (Inr (), ?w)"
    by (simp only: delete renamed_facts(4))
  have again: "fetch_resource_metadata fake_client ''disk:/b.txt'' ?w = (Inr other_file, ?w)"
    by (simp only: probe renamed_facts(5))
  obtain t e' where "process_rename (test_env 1003) fake_client renamed_job renamed_service = (Inr (), t)"
    "find_file_id (j_file_id renamed_job) (sdb t) = Some e'" "e_sync_state e' = Synced"
    "e_remote_version e' = r_remote_version other_file" "disk t = disk renamed_service"
    using rename_adopts_other [OF renamed_facts(2) [folded job(1)] job(2) found gone again, of "test_env 1003"]
    by (elim exE conjE) (rule that)
  then show ?thesis unfolding job(1) by (intro exI conjI) (assumption+, simp_all add: other_file_def fake_file_entry_def)
qed

end
