(* ===== verification/Overlap.thy ===== *)
theory Overlap
  imports Interleaving Refresh Sample
begin

text \<open>
  Calls that overlap.  Whole calls are a special case of the interleaving of their sections;
  the integrity of the tables does not depend on the calls being whole; and one overlap that
  loses an edit: a refresh decides on the rows of a snapshot taken before.
\<close>

section \<open>Whole calls\<close>










section \<open>Integrity, whatever overlaps\<close>

lemma cache_not_shared:
  assumes "core_ok dir d" and "e \<in> set (files d)" "f \<in> set (files d)"
    and "e_cache_path e = Some p" "e_cache_path f = Some p"
  shows "p = cache_path_for dir (e_file_id e) \<and> e = f"
proof -
  have "p = cache_path_for dir (e_file_id e)" "p = cache_path_for dir (e_file_id f)"
    using assms by (auto simp: core_defs canonical_cache_def)
  moreover from this have "e_file_id e = e_file_id f" by (simp add: cache_path_for_def)
  ultimately show ?thesis
    using assms(1-3) distinct_key_eq [of e_file_id "files d" e f] by (simp add: core_defs)
qed

text \<open>
  C1: The tables stay intact however the calls overlap.  After any sections of any calls in
  progress, also calls cut off by a restart, file ids, paths, queue ids and conflict ids are
  unique, every queued operation and every conflict belongs to an existing file, and a cached
  file has the cache path of its own id, so two files never share a cache file.
\<close>

theorem interleaved_integrity:
  assumes "interleaved dir (\<lambda>r. CHR ''/'' \<in> set (r_path r)) (s, ts)"
  shows "distinct (map e_file_id (files (sdb s))) \<and> distinct (map e_path (files (sdb s))) \<and>
    sorted_wrt (<) (map q_id (operations_queue (sdb s))) \<and>
    distinct (map c_conflict_id (conflicts (sdb s))) \<and>
    (\<forall>q \<in> set (operations_queue (sdb s)). q_id q \<le> last_op_id (sdb s) \<and>
       q_file_id q \<in> e_file_id ` set (files (sdb s))) \<and>
    (\<forall>c \<in> set (conflicts (sdb s)). c_file_id c \<in> e_file_id ` set (files (sdb s))) \<and>
    (\<forall>e \<in> set (files (sdb s)). \<forall>f \<in> set (files (sdb s)). \<forall>p.
       e_cache_path e = Some p \<longrightarrow> e_cache_path f = Some p \<longrightarrow> p = cache_path_for dir (e_file_id e) \<and> e = f)"
proof -
  have "core_ok dir (sdb s)" using core.interleaved_keeps [OF assms empty_ok(1)] .
  then show ?thesis using cache_not_shared [of dir "sdb s"] by (simp add: core_defs)
qed

text \<open>
  Two calls create the same file: the first has written its cache file when the second runs
  from its start to its end, then the first goes on and its \<open>INSERT\<close> fails.
\<close>

fun advance :: "nat \<Rightarrow> ('s, 'e, 'a) thread \<Rightarrow> 's \<Rightarrow> ('s, 'e, 'a) thread \<times> 's" where
  "advance (Suc n) (Section f) s = (case f s of (t, s') \<Rightarrow> advance n t s')"
| "advance n t s = (t, s)"

lemma advance_interleaved:
  "interleaved dir good (s, add_mset t ts) \<Longrightarrow>
   interleaved dir good (snd (advance n t s), add_mset (fst (advance n t s)) ts)"
proof (induction n t s rule: advance.induct)
  case (1 n f s)
  obtain t s' where f: "f s = (t, s')" by force
  from 1(2) have "interleaved dir good (s', add_mset t ts)"
    by (rule interleaved.stepped) (rule pool_step.ran, rule f)
  with 1(1) [OF f [symmetric]] show ?case by (simp add: f)
qed simp_all

definition create_call :: "int \<Rightarrow> (fake_remote service, sync_error, unit) thread" where
  "create_call t = silent (create_file_thread (test_env t) ROOT_PATH ''a.txt'')"

definition half_created :: "(fake_remote service, sync_error, unit) thread \<times> fake_remote service" where
  "half_created = advance 5 (create_call 1001) sample_open"

definition twice_created :: "(fake_remote service, sync_error, unit) thread \<times> fake_remote service" where
  "twice_created = advance 9 (create_call 1002) (snd half_created)"

definition raced_created :: "(fake_remote service, sync_error, unit) thread \<times> fake_remote service" where
  "raced_created = advance 9 (fst half_created) (snd twice_created)"

lemma raced_interleaved:
  "interleaved ''/state/cache'' good (snd raced_created, {#fst raced_created, fst twice_created#})"
proof -
  have "call_thread ''/state/cache'' good (create_call t)" for t
    unfolding create_call_def by (intro call_thread.created good_test_env) (simp add: valid_name_def)
  note call = interleaved.stepped [OF _ pool_step.called [OF this]]
  have "interleaved ''/state/cache'' good (sample_open, {#})"
    unfolding sample_open_def by (rule interleaved.opened) (simp_all add: test_service_def good_test_env)
  then have "interleaved ''/state/cache'' good (snd half_created, {#fst half_created#})"
    unfolding half_created_def by (intro advance_interleaved call)
  then have "interleaved ''/state/cache'' good (snd twice_created, {#fst twice_created, fst half_created#})"
    unfolding twice_created_def by (intro advance_interleaved call)
  then have "interleaved ''/state/cache'' good (snd twice_created, {#fst half_created, fst twice_created#})"
    by (simp add: add_mset_commute)
  then show ?thesis unfolding raced_created_def by (intro advance_interleaved)
qed

lemma raced_rows: "map e_path (files (sdb (snd raced_created))) = [''disk:/'', ''disk:/a.txt'']"
  by code_simp

theorem interleaved_integrity_witness:
  "distinct (map e_path (files (sdb (snd raced_created)))) \<and> length (files (sdb (snd raced_created))) = 2"
  using interleaved_integrity [OF raced_interleaved] raced_rows by (metis length_Cons list.size(3) length_map One_nat_def numeral_2_eq_2)

section \<open>A refresh decides on old rows\<close>

definition on_conflicts :: "(conflict_row list \<Rightarrow> bool) \<Rightarrow> 'r service \<Rightarrow> bool" where
  "on_conflicts Q s = Q (conflicts (sdb s))"

lemma keeps_on_conflicts_apply: "keeps (on_conflicts Q) (apply_local_file_from_staging ev path staging)"
proof -
  have db: "keeps (on_conflicts Q) (on_db m)" if "keeps (\<lambda>d. Q (conflicts d)) m" for m :: "'x dbm"
    using that by (simp add: keeps_def on_conflicts_def run_simps)
  have disk: "keeps (on_conflicts Q) (on_disk m)" for m :: "(disk, sync_error, 'x) action"
    by (simp add: keeps_def on_conflicts_def run_simps)
  have bump: "keeps (on_conflicts Q) bump_status_version"
    by (simp add: keeps_def on_conflicts_def run_simps)
  have stmt: "keeps (\<lambda>d. Q (conflicts d)) (update_file fid f)"
    "keeps (\<lambda>d. Q (conflicts d)) (upsert_operation ev fid op payload ru ra)" for fid f op payload ru ra
    by (simp add: keeps_def update_file_def run_simps, unfold upsert_operation_def, intro keeps_rules)
      (simp_all add: keeps_def delete_ops_def update_ops_def insert_op_def run_simps)
  show ?thesis
    unfolding apply_local_file_from_staging_def expect_entry_def get_entry_def query_entry_by_path_def Let_def
    by (intro keeps_rules db disk bump stmt)
qed

lemma run_fs_remove:
  "write_fault k p = None \<Longrightarrow> fs_remove p k = (Inr (), k\<lparr>contents := (contents k)(p := None)\<rparr>)"
  by (simp add: fs_remove_def)

text \<open>
  C37: An edit between the snapshot and the reconciliation is lost.  A refresh reads the local
  rows under one lock and reconciles under the next.  When a file without local changes is
  edited in between, and the remote side no longer lists it, the refresh deletes the row by
  its old state: the edit was accepted and its upload queued, and then the row, the upload
  and the only copy of the bytes are gone.
\<close>

theorem stale_snapshot_discards_edit:
  assumes ok: "keys_ok (sdb s)" "queue_ok (sdb s)"
    and snapshot: "find_path p (sdb s) = Some e" "e_kind e = node_kind.File" "e_cache_path e = Some c"
      "e_sync_state e = Synced" "\<forall>x \<in> set (conflicts (sdb s)). c_file_id x \<noteq> e_file_id e"
    and unlisted: "p \<noteq> ROOT_PATH" "p \<notin> paths"
    and k: "contents (disk s) staging = Some bs" "create_parent_dir c (disk s) = (Inr (), disk s)"
      "write_fault (disk s) c = None"
  shows "\<exists>t u e'. apply_local_file_from_staging ev p staging s = (Inr e', t) \<and>
    e_sync_state e' = QueuedUpload \<and> open_ops (e_file_id e) Upload (sdb t) \<noteq> [] \<and>
    contents (disk t) c = Some bs \<and>
    reconcile_missing ev' paths e t = (Inr (), u) \<and> find_path p (sdb u) = None \<and>
    open_ops (e_file_id e) Upload (sdb u) = [] \<and> contents (disk u) c = None"
proof -
  have c: "cache_path_of ev e = c" by (simp add: cache_path_of_def snapshot)
  obtain d where run: "apply_local_file_from_staging ev p staging s = (Inr (saved_row ev bs e), s\<lparr>sdb := d,
        disk := (disk s)\<lparr>contents := (contents (disk s))(c \<mapsto> bs)\<rparr>, status_version := status_version s + 1\<rparr>)"
      (is "_ = (_, ?t)")
    and all: "\<forall>p'. find_path p' d = (if p' = p then Some (saved_row ev bs e) else find_path p' (sdb s))"
    and keys: "keys_ok d" and upload: "\<exists>q \<in> set (open_ops (e_file_id e) Upload d). q_op_status q = Pending \<and>
       q_payload q = Some [(''path'', p)] \<and> q_next_retry_at q = None"
    using run_apply_local_at [OF ok snapshot(1,2) k(1) k(2) [folded c] k(3) [folded c], unfolded c]
    by (elim exE conjE) (rule that)
  have found: "find_path p d = Some (saved_row ev bs e)" using all by simp
  have queued: "open_ops (e_file_id e) Upload d \<noteq> []" using upload by auto
  have "on_conflicts (\<lambda>cs. \<forall>x \<in> set cs. c_file_id x \<noteq> e_file_id e) ?t"
    using keeps_result [OF keeps_on_conflicts_apply _ run] snapshot(5) by (simp add: on_conflicts_def)
  then have unconflicted: "\<forall>x \<in> set (conflicts d). c_file_id x \<noteq> e_file_id e" by (simp add: on_conflicts_def)
  let ?u = "?t\<lparr>sdb := snd (delete_file (e_file_id e) d),
    disk := (disk ?t)\<lparr>contents := (contents (disk ?t))(c := None)\<rparr>\<rparr>"
  have "e_path e = p" using find_path_member [OF snapshot(1)] by simp
  moreover have "e_sync_state e \<noteq> QueuedDelete" "\<not> has_unsynced_local_changes e"
    using snapshot(4) by (simp_all add: has_unsynced_local_changes_def)
  moreover have "fs_remove c (disk ?t) = (Inr (), disk ?u)" using k(3) by (simp add: run_fs_remove)
  ultimately have rec: "reconcile_missing ev' paths e ?t = (Inr (), ?u)"
    using unlisted snapshot(3,4) unconflicted
    by (simp add: reconcile_missing_def run_on_db run_on_disk run_and_then run_is_conflict_copy remove_cached_def
        delete_file_def run_modify)
  have "find_path p (sdb ?u) = None"
    using find_path_deleted [OF keys found, of "sdb ?u" p] by (simp add: delete_file_def run_modify saved_row_def)
  moreover have "open_ops (e_file_id e) Upload (sdb ?u) = []"
    by (auto simp: open_ops_def open_op_def delete_file_def run_modify delete_where_def filter_empty_conv)
  ultimately show ?thesis
    using run rec queued
    by (intro exI [of _ ?t] exI [of _ ?u] exI [of _ "saved_row ev bs e"]) (simp add: saved_row_def)
qed

text \<open>A file that was read and then edited, while another device deletes it.\<close>

definition snapshot_service :: "fake_remote service" where
  "snapshot_service =
     (let s = snd (load_local_bytes (test_env 1001) fake_client ''disk:/fast.txt'' (fresh_service fixture)) in
      s\<lparr>disk := (disk s)\<lparr>contents := (contents (disk s))(''/tmp/edit'' := Some [1, 2])\<rparr>\<rparr>)"

abbreviation fast_cache :: string where
  "fast_cache \<equiv> ''/state/cache/remote-0000000000000001.bin''"

abbreviation fast_row :: stored_entry where
  "fast_row \<equiv> files (sdb snapshot_service) ! 1"

lemma snapshot_facts:
  "keys_ok (sdb snapshot_service)" "queue_ok (sdb snapshot_service)"
  "find_path ''disk:/fast.txt'' (sdb snapshot_service) = Some fast_row"
  "e_kind fast_row = node_kind.File" "e_cache_path fast_row = Some fast_cache" "e_sync_state fast_row = Synced"
  "\<forall>x \<in> set (conflicts (sdb snapshot_service)). c_file_id x \<noteq> e_file_id fast_row"
  "''disk:/fast.txt'' \<noteq> ROOT_PATH" "''disk:/fast.txt'' \<notin> {ROOT_PATH}"
  "contents (disk snapshot_service) ''/tmp/edit'' = Some [1, 2]"
  "write_fault (disk snapshot_service) fast_cache = None"
  unfolding keys_ok_def queue_ok_def by code_simp+

lemma snapshot_parent: "create_parent_dir fast_cache (disk snapshot_service) = (Inr (), disk snapshot_service)"
proof -
  have "rsplit_once (CHR ''/'') fast_cache = Some (''/state/cache'', ''remote-0000000000000001.bin'')" by code_simp
  moreover have "write_fault (disk snapshot_service) ''/state/cache'' = None" by code_simp
  ultimately show ?thesis by (simp add: create_parent_dir_def fs_create_dir_all_def)
qed

theorem stale_snapshot_discards_edit_witness:
  "\<exists>t u e'. apply_local_file_from_staging (test_env 1002) ''disk:/fast.txt'' ''/tmp/edit'' snapshot_service = (Inr e', t) \<and>
     contents (disk t) fast_cache = Some [1, 2] \<and>
     reconcile_missing (test_env 1003) {ROOT_PATH} fast_row t = (Inr (), u) \<and>
     find_path ''disk:/fast.txt'' (sdb u) = None \<and> contents (disk u) fast_cache = None"
  using stale_snapshot_discards_edit [OF snapshot_facts(1-10) snapshot_parent snapshot_facts(11),
      of "test_env 1002" "test_env 1003"] by (elim exE conjE) (intro exI conjI)

end
