(* ===== verification/Spec2Isabelle.thy ===== *)
theory Spec2Isabelle
  imports Fuse Handles Report Naming Requests Process Bus Refinement Unit_Tests Overlap
begin

text \<open>
  A model of discohack-daemon, a FUSE mount of Yandex Disk that works offline first: the
  file system changes a local tree kept in SQLite and in cache files, and a background worker
  carries the changes to the remote disk.  The theories follow the Rust sources under src/src.

  \<^bold>\<open>Operations.\<close>  A method is an action of \<open>Prelude\<close>: it maps a state to a
  \<open>Result\<close> (a sum, \<open>Inl\<close> the error) and the state afterwards, also on the error branch,
  since Rust does not undo what was done before an early return.  \<open>and_then\<close> is \<open>?\<close>,
  \<open>attempt\<close> a \<open>match\<close> on the result, \<open>foreach\<close> a \<open>for\<close> loop.  A method that takes its
  mutex once is one action; where the code releases the lock in the middle, the locked sections
  are actions of their own (\<open>upload_checked\<close>, \<open>upload_commit\<close>, \<open>download_commit\<close>,
  \<open>take_pending\<close>, \<open>finish_exchange\<close>), so that other operations can be put between them.
  \<open>daemon_step\<close> and \<open>fuse_step\<close> take whole operations as atomic; \<open>Threads\<close> has each
  operation again as the sequence of its sections, and \<open>pool_step\<close> interleaves them.

  \<^bold>\<open>Theories and sources.\<close>
  \<^item> \<open>Enums\<close>: the error types and the integer enums of the schema (sync.rs, yadisk.rs,
    auth.rs), with the conversion of \<open>impl_int_enum\<close>.
  \<^item> \<open>Paths\<close>: the string functions at the end of sync.rs (\<open>join_remote_path\<close>,
    \<open>parent_path_of\<close>, \<open>name_of\<close>, \<open>split_conflict_name\<close>, \<open>next_conflict_name\<close>) and
    the \<open>LIKE\<close> operator the SQL uses.
  \<^item> \<open>Database\<close>: the three tables of \<open>run_migrations\<close>, with their keys and cascades, the
    SQL statements, and the functions on a connection (\<open>upsert_operation\<close>,
    \<open>rename_subtree\<close>, \<open>ensure_remote_row\<close>, \<open>apply_conflict_locked\<close>).
  \<^item> \<open>Service\<close>: \<open>SyncService\<close> and its local operations; \<open>Worker\<close>: leasing, the jobs,
    the reconciliation with the remote tree, one round of each background loop; \<open>Status\<close>:
    what is reported; \<open>Fake\<close>: the in-memory client of the unit tests, used by the witnesses.
  \<^item> \<open>Threads\<close>: the operations of \<open>Service\<close> and \<open>Worker\<close> cut where sync.rs takes and
    drops \<open>self.db.lock()\<close>; run alone, each is the operation it stands for.
  \<^item> \<open>Fs_State\<close> and \<open>Fs\<close>: the tables of the FUSE layer and the file system with every
    handler (fs.rs).
  \<^item> \<open>Auth\<close>: the login and the tokens (auth.rs); \<open>Yandex\<close>: the HTTP client (yadisk.rs);
    \<open>Host\<close>: secret store, callback, mount and main loop (secrets.rs, callback.rs, mount.rs,
    main.rs); \<open>Bus\<close>: the D-Bus object (dbus_service.rs).

  \<^bold>\<open>How the parts interact.\<close>  A FUSE handler (\<open>fuse_write\<close>, \<open>fuse_release\<close>, ...)
  changes its own tables and calls operations of the service on the part \<open>svc\<close> of its state;
  the service changes tables (\<open>sdb\<close>), local files (\<open>disk\<close>) and, through the record
  \<open>client\<close> that stands for the trait \<open>RemoteSyncClient\<close>, the remote side, whose state
  is a type parameter; \<open>yandex_client\<close> is the client the daemon uses, over a record of HTTP
  calls; its tokens come from the login state by \<open>auth_net\<close>.  The callback completes a
  login and wakes \<open>main_loop\<close>, whose effects \<open>perform\<close> applies to the service and mount.

  \<^bold>\<open>What is shown.\<close>
  \<^item> \<open>Invariants\<close>, \<open>Integrity\<close> and \<open>Daemon\<close> carry invariants of the tables through all
    operations: the locales \<open>db_invariant\<close>, \<open>tolerant_invariant\<close> and
    \<open>worker_invariant\<close> say what the single SQL statements owe to an invariant and derive what
    every operation keeps; they are interpreted on the integrity of the keys, the consistency
    of the tree, and the absence of conflict states.  \<open>reachable\<close> are the states of a service
    after any sequence of calls, rounds, restarts and changes outside.  The properties below
    hold in all of them.
  \<^item> \<open>Interleaving\<close>, \<open>Overlap\<close>: the same for the sections of any number of calls in
    progress (\<open>interleaved\<close>); whole calls are a special case.  An overlap that loses an edit.
  \<^item> \<open>Local_View\<close>, \<open>Refinement\<close>: an abstract tree of nodes, which any sequence of local
    operations refines.
  \<^item> \<open>Mounted\<close>, \<open>Fuse\<close>: the same as \<open>Daemon\<close> one level up, for sequences of FUSE requests
    (\<open>fuse_step\<close>, locale \<open>fuse_invariant\<close>).
  \<^item> \<open>Queue\<close>: leases, coalescing, retries.  \<open>Rename\<close>: \<open>rename_subtree\<close> refines a
    relabelling of paths, and where its \<open>LIKE\<close> selects too much.  \<open>Naming\<close>: path
    functions, conflict names, encodings.
  \<^item> \<open>Offline\<close>, \<open>Handles\<close>, \<open>Jobs\<close>, \<open>Conflict\<close>, \<open>Refresh\<close>: the way of a written byte, from the
    handle to the staging file, to the cache, to the remote disk, and what a conflict keeps.
  \<^item> \<open>Login\<close>, \<open>Requests\<close>, \<open>Process\<close>, \<open>Report\<close>: the login, the requests against a
    server that keeps its promises, the end of the process, the summary.
  \<^item> \<open>Sync_Tests\<close>, \<open>Client_Tests\<close>, \<open>Fs_Tests\<close>, \<open>Unit_Tests\<close>: the unit tests of the
    repository as scenarios that evaluate to true.
  \<^item> \<open>Sample\<close> holds the reachable states the witnesses start from.

  \<^bold>\<open>Bounds and fuel.\<close>  Counters of rows are integers, as SQLite holds them; sizes and offsets
  are \<open>64 word\<close>, the index of a conflict copy a \<open>32 word\<close> whose overflow is the error
  \<open>Panic\<close>.  Three recursions take fuel: the walk over the remote tree (\<open>None\<close> when a
  remote side answers with a tree deeper than the fuel; the round then changes nothing but
  the lease), \<open>collect_subtree\<close> (fuel above the number of cached directories, which a descent
  without a cycle cannot exceed), and \<open>hex_digits\<close> (sixteen digits).  All other loops are
  proved to end: pages of a listing by their offsets, conflict names by their index, the
  removal of a cached subtree by the table it empties.

  \<^bold>\<open>Parameters.\<close>  The code of other crates is a parameter: base64, SHA-256, URL building, the
  HTTP library and JSON decoding, the secret service, \<open>fuser\<close>; so are clocks, random
  numbers, the order in which a \<open>HashMap\<close> is iterated, and faults of the local disk.  What a
  property needs of them is a hypothesis with a name (\<open>keeps_secrets\<close>,
  \<open>serves_directory\<close>, \<open>serves_file\<close>, \<open>answers_good\<close>, \<open>no_faults\<close>).

  \<^bold>\<open>Not modelled.\<close>  Logging (\<open>init_tracing\<close>), reading \<open>.env\<close>, the construction of HTTP
  clients, binding the callback socket and serving it (axum), the bus connection and the
  emission of its signals, the FUSE session itself, and signal delivery: they call a library
  and keep no state of the daemon.  A call reads the clock once; threads of the FUSE layer
  and of the login are interleaved call by call only, and a restart falls between sections.
  Of the tests, three of fs.rs that measure time and two of auth.rs about other crates are
  left out.
\<close>

section \<open>What holds in every reachable state\<close>

text \<open>
  In every reachable state the tables are intact, whatever the remote side answers as
  long as its paths contain a slash: file ids, paths, queue ids and conflict ids are unique,
  queue ids increase and never exceed the last id given out, and every queued operation and
  every conflict belongs to an existing file.
\<close>

theorem reachable_integrity:
  assumes "reachable dir (\<lambda>r. CHR ''/'' \<in> set (r_path r)) s"
  shows "distinct (map e_file_id (files (sdb s))) \<and> distinct (map e_path (files (sdb s))) \<and>
    sorted_wrt (<) (map q_id (operations_queue (sdb s))) \<and>
    distinct (map c_conflict_id (conflicts (sdb s))) \<and>
    (\<forall>q \<in> set (operations_queue (sdb s)). q_id q \<le> last_op_id (sdb s) \<and>
       q_file_id q \<in> e_file_id ` set (files (sdb s))) \<and>
    (\<forall>c \<in> set (conflicts (sdb s)). c_file_id c \<in> e_file_id ` set (files (sdb s)))"
  using reachable_core [OF assms] by (simp add: core_defs)

theorem reachable_integrity_witness:
  "distinct (map e_file_id (files (sdb sample_state))) \<and> length (files (sdb sample_state)) = 3"
  using reachable_integrity [OF sample_reachable] sample_rows by blast

text \<open>
  C3: In every reachable state the tree is consistent, provided the remote side names each
  resource by the last segment of its path: the parent column of each row is the parent of its
  path and, for every row but the root, the name column is the last segment.
\<close>

theorem reachable_tree_consistent:
  assumes "reachable dir consistent_resource s"
  shows "\<forall>e \<in> set (files (sdb s)). e_parent_path e = parent_path_of (e_path e) \<and>
    (e_path e = ROOT_PATH \<or> e_name e = name_of (e_path e))"
  using reachable_tree [OF assms]
  by (auto simp: tree_ok_def all_rows_def rows_are_iff tree_row_def consistent_path_def)

theorem reachable_tree_consistent_witness:
  "e_parent_path (files (sdb sample_state) ! 2) = parent_path_of (e_path (files (sdb sample_state) ! 2)) \<and>
   e_path (files (sdb sample_state) ! 2) = ''disk:/docs/a.txt''"
proof
  show "e_parent_path (files (sdb sample_state) ! 2) = parent_path_of (e_path (files (sdb sample_state) ! 2))"
    using reachable_tree_consistent [OF sample_reachable] sample_row by blast
qed code_simp

text \<open>
  In every reachable state a cached file has the cache path that belongs to its id, so
  two files never share a cache file.
\<close>

theorem reachable_cache_private:
  assumes "reachable dir (\<lambda>r. CHR ''/'' \<in> set (r_path r)) s"
    and "e \<in> set (files (sdb s))" and "f \<in> set (files (sdb s))"
    and "e_cache_path e = Some p" and "e_cache_path f = Some p"
  shows "p = cache_path_for dir (e_file_id e) \<and> e = f"
proof -
  from reachable_core [OF assms(1)] have core: "core_ok dir (sdb s)" .
  then have "p = cache_path_for dir (e_file_id e)" "p = cache_path_for dir (e_file_id f)"
    using assms(2-5) by (auto simp: core_defs canonical_cache_def)
  moreover from this have "e_file_id e = e_file_id f" by (simp add: cache_path_for_def)
  ultimately show ?thesis
    using core assms(2,3) distinct_key_eq [of e_file_id "files (sdb s)" e f] by (simp add: core_defs)
qed

theorem reachable_cache_private_witness:
  "cache_path_for ''/state/cache'' (e_file_id (files (sdb sample_state) ! 2)) =
     cache_path_for ''/state/cache'' (e_file_id (files (sdb sample_state) ! 2)) \<and>
   files (sdb sample_state) ! 2 = files (sdb sample_state) ! 2"
  by (rule reachable_cache_private [OF sample_reachable sample_row sample_row sample_cache sample_cache])

text \<open>
  C4: No file is ever in the state \<open>Conflict\<close>: both places that would set it come too late
  or are never reached, since the conflict branch first deletes the operation it would look
  the file up with.  So the conflict counter of the summary is zero in every reachable state.
\<close>

theorem reachable_never_conflicted:
  assumes "reachable dir (\<lambda>r. CHR ''/'' \<in> set (r_path r)) s"
  shows "(\<forall>e \<in> set (files (sdb s)). e_sync_state e \<noteq> sync_state.Conflict) \<and>
    (\<forall>ev summary t. sync_summary ev s = (Inr summary, t) \<longrightarrow> conflict_count summary = 0)"
proof -
  have none: "\<forall>e \<in> set (files (sdb s)). e_sync_state e \<noteq> sync_state.Conflict"
    using reachable_calm [OF assms] by (simp add: calm_ok_def all_rows_def rows_are_iff calm_row_def)
  then have "in_state sync_state.Conflict (sdb s) = 0"
    by (simp add: in_state_def filter_empty_conv)
  with none show ?thesis
    by (auto simp: sync_summary_def Let_def run_simps count_of_group split: sum.splits)
qed

theorem reachable_never_conflicted_witness:
  "e_sync_state (files (sdb sample_state) ! 2) \<noteq> sync_state.Conflict"
  using reachable_never_conflicted [OF sample_reachable] sample_row by blast

end
